(* ===== verification/Prelude.thy ===== *)
theory Prelude
  imports Main "HOL-Library.State_Monad" "HOL-Library.Char_ord" "HOL-Library.List_Lexorder"
    "HOL-Library.Multiset"
begin

text \<open>
  What the components share: the parts of Go's standard library that the operator uses on
  strings, numbers and slices (packages \<^verbatim>\<open>strings\<close>, \<^verbatim>\<open>strconv\<close>,
  \<^verbatim>\<open>path\<close>, \<^verbatim>\<open>sort\<close>, \<^verbatim>\<open>net/url\<close>), the fact
  collections of the development, and general lemmas. A Go string is a sequence of bytes, so it is
  HOL's \<open>string\<close>; case folding and white space are the ASCII ones (the names the operator
  compares are Kubernetes and Harbor names). Go's 64-bit \<^verbatim>\<open>int\<close> is \<open>int\<close>
  with the range check written where a number is read from text; the code never does arithmetic
  on these numbers that could leave the range.
\<close>

named_theorems emits_intros \<open>rules that compute which events a program can add to the trace\<close>
named_theorems triple_intros \<open>rules that propagate a postcondition through a program\<close>

section \<open>Strings\<close>

definition goLowerChar :: "char \<Rightarrow> char" where
  "goLowerChar c =
     (if CHR ''A'' \<le> c \<and> c \<le> CHR ''Z'' then char_of (of_char c + (32::nat)) else c)"

definition goToLower :: "string \<Rightarrow> string" where
  "goToLower s = map goLowerChar s"

definition equalFold :: "string \<Rightarrow> string \<Rightarrow> bool" where
  "equalFold s t = (goToLower s = goToLower t)"

text \<open>Code equations that evaluate in few steps: one character at a time, and on its bits.\<close>

lemma goLowerChar_code [code]:
  "goLowerChar (Char b0 b1 b2 b3 b4 b5 b6 b7) =
     (if \<not> b7 \<and> b6 \<and> \<not> b5 \<and> (b0 \<or> b1 \<or> b2 \<or> b3 \<or> b4) \<and> \<not> (b4 \<and> b3 \<and> (b2 \<or> b1 \<and> b0))
      then Char b0 b1 b2 b3 b4 True b6 b7 else Char b0 b1 b2 b3 b4 b5 b6 b7)"
  by (cases b0; cases b1; cases b2; cases b3; cases b4; cases b5; cases b6; cases b7)
    (simp_all add: goLowerChar_def char_of_eq_iff)

lemma equalFold_code [code]:
  "equalFold [] [] = True" "equalFold [] (c # t) = False" "equalFold (c # s) [] = False"
  "equalFold (c # s) (d # t) = ((c = d \<or> goLowerChar c = goLowerChar d) \<and> equalFold s t)"
  by (auto simp: equalFold_def goToLower_def)

definition goTrimRight :: "string \<Rightarrow> char \<Rightarrow> string" where
  "goTrimRight s c = rev (dropWhile (\<lambda>x. x = c) (rev s))"

definition goIsSpace :: "char \<Rightarrow> bool" where
  "goIsSpace c = (c = CHR '' '' \<or> (CHR 0x09 \<le> c \<and> c \<le> CHR 0x0D))"

definition goTrimSpace :: "string \<Rightarrow> string" where
  "goTrimSpace s = rev (dropWhile goIsSpace (rev (dropWhile goIsSpace s)))"

definition goHasPrefix :: "string \<Rightarrow> string \<Rightarrow> bool" where
  "goHasPrefix s p = (take (length p) s = p)"

definition goHasSuffix :: "string \<Rightarrow> string \<Rightarrow> bool" where
  "goHasSuffix s p = (length p \<le> length s \<and> drop (length s - length p) s = p)"

fun goContains :: "string \<Rightarrow> string \<Rightarrow> bool" where
  "goContains [] p = (p = [])"
| "goContains (c # s) p = (goHasPrefix (c # s) p \<or> goContains s p)"

text \<open>\<^verbatim>\<open>strings.Split(s, "/")\<close> and \<^verbatim>\<open>strings.Join(parts, "/")\<close>.\<close>

fun goSplit :: "char \<Rightarrow> string \<Rightarrow> string list" where
  "goSplit c [] = [[]]"
| "goSplit c (x # xs) =
     (if x = c then [] # goSplit c xs
      else case goSplit c xs of [] \<Rightarrow> [[x]] | p # ps \<Rightarrow> (x # p) # ps)"

fun goJoin :: "string \<Rightarrow> string list \<Rightarrow> string" where
  "goJoin sep [] = []"
| "goJoin sep [p] = p"
| "goJoin sep (p # q # ps) = p @ sep @ goJoin sep (q # ps)"

lemma goSplit_nonempty [simp]: "goSplit c s \<noteq> []"
  by (induction s) (auto split: list.splits)

lemma goJoin_Cons: "ps \<noteq> [] \<Longrightarrow> goJoin sep (p # ps) = p @ sep @ goJoin sep ps"
  by (cases ps) auto

lemma goJoin_goSplit: "goJoin [c] (goSplit c s) = s"
proof (induction s)
  case Nil
  then show ?case by simp
next
  case (Cons x xs)
  then show ?case
    by (cases "goSplit c xs"; cases "tl (goSplit c xs)") (auto simp: goJoin_Cons)
qed

lemma goSplit_no_sep: "\<forall>p \<in> set (goSplit c s). c \<notin> set p"
  by (induction s) (auto split: list.splits)

lemma goSplit_append_sep: "c \<notin> set p \<Longrightarrow> goSplit c (p @ c # s) = p # goSplit c s"
  by (induction p) auto

lemma goSplit_single: "c \<notin> set p \<Longrightarrow> goSplit c p = [p]"
  by (induction p) auto

lemma goSplit_goJoin:
  "ps \<noteq> [] \<Longrightarrow> \<forall>p \<in> set ps. c \<notin> set p \<Longrightarrow> goSplit c (goJoin [c] ps) = ps"
proof (induction ps)
  case Nil
  then show ?case by simp
next
  case (Cons p ps)
  show ?case
  proof (cases ps)
    case Nil
    with Cons.prems show ?thesis by (simp add: goSplit_single)
  next
    case (Cons q qs)
    with Cons.IH Cons.prems show ?thesis by (simp add: goSplit_append_sep goJoin_Cons)
  qed
qed

lemma equalFold_refl [simp]: "equalFold s s"
  by (simp add: equalFold_def)

lemma equalFold_sym: "equalFold s t = equalFold t s"
  by (auto simp: equalFold_def)

lemma equalFold_trans: "equalFold r s \<Longrightarrow> equalFold s t \<Longrightarrow> equalFold r t"
  by (simp add: equalFold_def)

lemma equalFold_length: "equalFold s t \<Longrightarrow> length s = length t"
  by (metis equalFold_def goToLower_def length_map)

lemma goHasSuffix_append: "goHasSuffix (s @ p) p"
  by (simp add: goHasSuffix_def)

lemma goHasSuffixD: "goHasSuffix s p \<Longrightarrow> \<exists>r. s = r @ p"
  by (metis append_take_drop_id goHasSuffix_def)

section \<open>Numbers and quoting\<close>

definition goDigit :: "nat \<Rightarrow> char" where
  "goDigit d = char_of (48 + d)"

fun goDigits :: "nat \<Rightarrow> string" where
  "goDigits n = (if n < 10 then [goDigit n] else goDigits (n div 10) @ [goDigit (n mod 10)])"

declare goDigits.simps [simp del]

text \<open>\<^verbatim>\<open>strconv.Itoa\<close>, also \<^verbatim>\<open>fmt\<close>'s \<^verbatim>\<open>%d\<close>.\<close>

definition goItoa :: "int \<Rightarrow> string" where
  "goItoa n = (if n < 0 then CHR ''-'' # goDigits (nat (- n)) else goDigits (nat n))"

definition goIsDigit :: "char \<Rightarrow> bool" where
  "goIsDigit c = (CHR ''0'' \<le> c \<and> c \<le> CHR ''9'')"

definition goDigitVal :: "char \<Rightarrow> nat" where
  "goDigitVal c = of_char c - 48"

definition goNum :: "string \<Rightarrow> nat" where
  "goNum ds = foldl (\<lambda>n c. 10 * n + goDigitVal c) 0 ds"

definition maxInt64 :: int where
  "maxInt64 = 9223372036854775807"

definition minInt64 :: int where
  "minInt64 = - 9223372036854775808"

text \<open>
  \<^verbatim>\<open>strconv.Atoi\<close>: an optional sign and at least one digit, \<open>None\<close> for a
  syntax error or a number outside the 64-bit range.
\<close>

definition goSignSplit :: "string \<Rightarrow> bool \<times> string" where
  "goSignSplit s =
     (case s of
        c # cs \<Rightarrow> if c = CHR ''-'' then (True, cs) else if c = CHR ''+'' then (False, cs)
                 else (False, s)
      | [] \<Rightarrow> (False, s))"

definition goAtoi :: "string \<Rightarrow> int option" where
  "goAtoi s =
     (let (neg, ds) = goSignSplit s
      in if ds = [] \<or> \<not> list_all goIsDigit ds then None
         else let n = (if neg then - int (goNum ds) else int (goNum ds))
              in if minInt64 \<le> n \<and> n \<le> maxInt64 then Some n else None)"

text \<open>\<^verbatim>\<open>fmt\<close>'s \<^verbatim>\<open>%q\<close> on ASCII text, and \<^verbatim>\<open>%t\<close>.\<close>

definition goQuoteChar :: "char \<Rightarrow> string" where
  "goQuoteChar c =
     (if c = CHR 0x22 then [CHR 0x5C, CHR 0x22]
      else if c = CHR 0x5C then [CHR 0x5C, CHR 0x5C]
      else if c = CHR 0x0A then [CHR 0x5C, CHR ''n'']
      else if c = CHR 0x0D then [CHR 0x5C, CHR ''r'']
      else if c = CHR 0x09 then [CHR 0x5C, CHR ''t'']
      else [c])"

definition goQuote :: "string \<Rightarrow> string" where
  "goQuote s = [CHR 0x22] @ concat (map goQuoteChar s) @ [CHR 0x22]"

definition goBool :: "bool \<Rightarrow> string" where
  "goBool b = (if b then ''true'' else ''false'')"

text \<open>The text of the error of \<^verbatim>\<open>strconv.Atoi\<close>.\<close>

definition goAtoiError :: "string \<Rightarrow> string" where
  "goAtoiError s =
     (let ds = snd (goSignSplit s)
      in ''strconv.Atoi: parsing '' @ goQuote s @
         (if ds = [] \<or> \<not> list_all goIsDigit ds then '': invalid syntax'' else '': value out of range''))"

lemma of_char_goDigit: "d < 10 \<Longrightarrow> (of_char (goDigit d) :: nat) = 48 + d"
  by (simp add: goDigit_def)

lemma goDigitVal_goDigit: "d < 10 \<Longrightarrow> goDigitVal (goDigit d) = d"
  by (simp add: goDigitVal_def of_char_goDigit)

lemma goIsDigit_goDigit: "d < 10 \<Longrightarrow> goIsDigit (goDigit d)"
  by (simp add: goIsDigit_def less_eq_char_def of_char_goDigit)

lemma goDigits_digits: "list_all goIsDigit (goDigits n) \<and> goDigits n \<noteq> []"
proof (induction n rule: goDigits.induct)
  case (1 n)
  then show ?case
    by (cases "n < 10") (auto simp: goDigits.simps [of n] goIsDigit_goDigit)
qed

lemma goNum_snoc: "goNum (ds @ [c]) = 10 * goNum ds + goDigitVal c"
  by (simp add: goNum_def)

lemma goNum_goDigits: "goNum (goDigits n) = n"
proof (induction n rule: goDigits.induct)
  case (1 n)
  show ?case
  proof (cases "n < 10")
    case True
    then show ?thesis
      by (simp add: goDigits.simps [of n]) (simp add: goNum_def goDigitVal_goDigit)
  next
    case False
    with "1.IH" show ?thesis
      by (simp add: goDigits.simps [of n] goNum_snoc goDigitVal_goDigit)
  qed
qed

lemma goIsDigit_sign: "goIsDigit c \<Longrightarrow> c \<noteq> CHR ''-'' \<and> c \<noteq> CHR ''+'' \<and> c \<noteq> CHR ''/''"
  by (auto simp: goIsDigit_def less_eq_char_def)

text \<open>Reading back what \<^verbatim>\<open>Itoa\<close> prints gives the number.\<close>

lemma goAtoi_goItoa: "minInt64 \<le> n \<Longrightarrow> n \<le> maxInt64 \<Longrightarrow> goAtoi (goItoa n) = Some n"
proof (cases "n < 0")
  case True
  assume b: "minInt64 \<le> n" "n \<le> maxInt64"
  have "goItoa n = CHR ''-'' # goDigits (nat (- n))"
    using True by (simp add: goItoa_def)
  then show ?thesis
    using True b goDigits_digits [of "nat (- n)"]
    by (simp add: goAtoi_def goSignSplit_def goNum_goDigits Let_def)
next
  case False
  assume b: "minInt64 \<le> n" "n \<le> maxInt64"
  obtain c cs where d: "goDigits (nat n) = c # cs" and dig: "goIsDigit c"
    using goDigits_digits [of "nat n"] by (cases "goDigits (nat n)") auto
  have "goNum (c # cs) = nat n"
    using goNum_goDigits [of "nat n"] by (simp add: d)
  then show ?thesis
    using False b goDigits_digits [of "nat n"] goIsDigit_sign [OF dig]
    by (simp add: goAtoi_def goSignSplit_def goItoa_def d Let_def)
qed

lemma goItoa_no_slash: "CHR ''/'' \<notin> set (goItoa n)"
  using goDigits_digits [of "nat n"] goDigits_digits [of "nat (- n)"] goIsDigit_sign
  by (auto simp: goItoa_def list_all_iff)

lemma goItoa_nonempty: "goItoa n \<noteq> []"
  using goDigits_digits by (simp add: goItoa_def)

lemma goItoa_inj: "goItoa m = goItoa n \<longleftrightarrow> m = n"
proof
  have digit: "CHR ''-'' # ds \<noteq> goDigits k" for ds k
    using goDigits_digits [of k] by (metis goIsDigit_sign list.set_intros(1) list_all_iff)
  assume "goItoa m = goItoa n"
  then show "m = n"
    using digit digit [symmetric] goNum_goDigits
    by (auto simp: goItoa_def split: if_splits) (metis eq_nat_nat_iff neg_equal_iff_equal neg_le_0_iff_le neg_less_iff_less not_le less_imp_le)+
qed simp

section \<open>Paths\<close>

text \<open>
  \<^verbatim>\<open>path.Base\<close>: \<^verbatim>\<open>"."\<close> for the empty path, trailing slashes
  dropped, the part after the last slash, \<^verbatim>\<open>"/"\<close> if only slashes were there.
\<close>

definition goPathBase :: "string \<Rightarrow> string" where
  "goPathBase s =
     (if s = [] then ''.''
      else let t = goTrimRight s CHR ''/''
           in if t = [] then ''/'' else rev (takeWhile (\<lambda>c. c \<noteq> CHR ''/'') (rev t)))"

lemma goPathBase_last:
  assumes "x \<noteq> []" and "CHR ''/'' \<notin> set x"
  shows "goPathBase (p @ CHR ''/'' # x) = x"
proof -
  have h: "hd (rev x) \<noteq> CHR ''/''"
    using assms by (metis hd_in_set rev_is_Nil_conv set_rev)
  have "dropWhile (\<lambda>c. c = CHR ''/'') (rev x @ CHR ''/'' # rev p) = rev x @ CHR ''/'' # rev p"
    using h assms(1) by (simp add: dropWhile_eq_self_iff hd_append)
  then have "goTrimRight (p @ CHR ''/'' # x) CHR ''/'' = p @ CHR ''/'' # x"
    by (simp add: goTrimRight_def)
  moreover have "takeWhile (\<lambda>c. c \<noteq> CHR ''/'') (rev x @ CHR ''/'' # rev p) = rev x"
    using assms(2) by (subst takeWhile_append2) auto
  ultimately show ?thesis by (simp add: goPathBase_def)
qed

section \<open>Sorting slices\<close>

text \<open>
  \<^verbatim>\<open>sort.Slice\<close>, \<^verbatim>\<open>sort.SliceStable\<close> and
  \<^verbatim>\<open>sort.Strings\<close>: insertion with the caller's \<open>less\<close>, stable. Go promises
  stability for \<^verbatim>\<open>SliceStable\<close> only; the facts about \<^verbatim>\<open>sort.Slice\<close>
  below are stated where the order of equal elements cannot matter.
\<close>

fun insertLess :: "('a \<Rightarrow> 'a \<Rightarrow> bool) \<Rightarrow> 'a \<Rightarrow> 'a list \<Rightarrow> 'a list" where
  "insertLess lt x [] = [x]"
| "insertLess lt x (y # ys) =
     (if lt y x then y # insertLess lt x ys else x # y # ys)"

fun sortSlice :: "('a \<Rightarrow> 'a \<Rightarrow> bool) \<Rightarrow> 'a list \<Rightarrow> 'a list" where
  "sortSlice lt [] = []"
| "sortSlice lt (x # xs) = insertLess lt x (sortSlice lt xs)"

lemma mset_insertLess: "mset (insertLess lt x xs) = add_mset x (mset xs)"
  by (induction xs) auto

lemma mset_sortSlice [simp]: "mset (sortSlice lt xs) = mset xs"
  by (induction xs) (auto simp: mset_insertLess)

lemma set_insertLess [simp]: "set (insertLess lt x xs) = insert x (set xs)"
  by (induction xs) auto

lemma set_sortSlice [simp]: "set (sortSlice lt xs) = set xs"
  by (induction xs) auto

lemma length_sortSlice [simp]: "length (sortSlice lt xs) = length xs"
  using mset_sortSlice mset_eq_length by blast

lemma sortSlice_Nil_iff [simp]: "sortSlice lt xs = [] \<longleftrightarrow> xs = []"
  by (metis length_0_conv length_sortSlice)

text \<open>What \<^verbatim>\<open>sort\<close> asks of a caller: \<open>less\<close> is a strict weak order.\<close>

locale slice_less =
  fixes lt :: "'a \<Rightarrow> 'a \<Rightarrow> bool"
  assumes less_irrefl: "\<not> lt x x"
    and less_trans: "lt x y \<Longrightarrow> lt y z \<Longrightarrow> lt x z"
    and less_weak: "lt x z \<Longrightarrow> lt x y \<or> lt y z"
begin

lemma sorted_insertLess:
  "sorted_wrt (\<lambda>a b. \<not> lt b a) xs \<Longrightarrow> sorted_wrt (\<lambda>a b. \<not> lt b a) (insertLess lt x xs)"
proof (induction xs)
  case Nil
  then show ?case by simp
next
  case (Cons y ys)
  then have ys: "\<And>z. z \<in> set ys \<Longrightarrow> \<not> lt z y" and s: "sorted_wrt (\<lambda>a b. \<not> lt b a) ys"
    by auto
  show ?case
  proof (cases "lt y x")
    case True
    then have "\<not> lt x y" using less_irrefl less_trans by blast
    then show ?thesis using True ys Cons.IH [OF s] by auto
  next
    case False
    then have "\<not> lt z x" if "z \<in> set ys" for z using ys [OF that] less_weak by blast
    then show ?thesis using False Cons.prems by auto
  qed
qed

lemma sorted_sortSlice: "sorted_wrt (\<lambda>a b. \<not> lt b a) (sortSlice lt xs)"
  by (induction xs) (auto simp: sorted_insertLess)

lemma hd_sortSlice_least:
  assumes "x \<in> set xs"
  shows "\<not> lt x (hd (sortSlice lt xs))"
proof -
  have "x \<in> set (sortSlice lt xs)" using assms by simp
  then show ?thesis
    using sorted_sortSlice [of xs] less_irrefl by (cases "sortSlice lt xs") auto
qed

lemma sortSlice_id: "sorted_wrt (\<lambda>a b. \<not> lt b a) xs \<Longrightarrow> sortSlice lt xs = xs"
proof (induction xs)
  case (Cons x xs)
  then show ?case by (cases xs) auto
qed simp

lemma sortSlice_idem: "sortSlice lt (sortSlice lt xs) = sortSlice lt xs"
  by (rule sortSlice_id) (rule sorted_sortSlice)

end

text \<open>
  Where \<open>less\<close> tells any two different elements apart, the sorted slice depends on the
  multiset of elements only.
\<close>

locale total_slice_less = slice_less +
  assumes less_total: "lt x y \<or> x = y \<or> lt y x"
begin

lemma sorted_unique:
  "sorted_wrt (\<lambda>a b. \<not> lt b a) xs \<Longrightarrow> sorted_wrt (\<lambda>a b. \<not> lt b a) ys \<Longrightarrow>
     mset xs = mset ys \<Longrightarrow> xs = ys"
proof (induction xs arbitrary: ys)
  case Nil
  then show ?case by simp
next
  case (Cons x xs)
  then obtain y ys' where ys: "ys = y # ys'" by (cases ys) auto
  have sets: "insert x (set xs) = insert y (set ys')"
    using Cons.prems(3) ys by (metis list.simps(15) mset_eq_setD)
  have "x = y"
  proof (rule ccontr)
    assume "x \<noteq> y"
    then have "x \<in> set ys'" "y \<in> set xs" using sets by auto
    then have "\<not> lt x y" "\<not> lt y x" using Cons.prems(1,2) ys by auto
    with \<open>x \<noteq> y\<close> less_total show False by blast
  qed
  with Cons ys show ?case by auto
qed

lemma sortSlice_perm: "mset xs = mset ys \<Longrightarrow> sortSlice lt xs = sortSlice lt ys"
  by (rule sorted_unique) (simp_all add: sorted_sortSlice)

end

interpretation strings_less: total_slice_less "(<) :: string \<Rightarrow> string \<Rightarrow> bool"
  by unfold_locales auto

interpretation key_less: slice_less "\<lambda>a b. f a < (f b :: string)" for f :: "'a \<Rightarrow> string"
  by unfold_locales (auto dest: less_trans)

end
