(* ===== verification/ApiTypes.thy ===== *)
theory ApiTypes
  imports Prelude
begin

text \<open>
  The public Kubernetes API of the operator (\<^verbatim>\<open>api/v1alpha1\<close>): one record per
  struct, in the order of the Go files, with the common specs and statuses as records that the
  kinds extend. Types the Go code declares as strings (policies, reference kinds, schedule types)
  stay strings, because the code has branches for other values. A pointer is an \<open>option\<close>,
  a map an association list (\<open>None\<close> for the nil map where the code tells it apart), a
  \<^verbatim>\<open>metav1.Time\<close> the seconds since the epoch, a duration its nanoseconds, and raw
  JSON its text. \<^verbatim>\<open>ObjectMeta\<close> keeps the fields the operator reads or writes.
\<close>

section \<open>Shared types (common.go)\<close>

definition harborConnectionReferenceKindNamespaced :: string where
  "harborConnectionReferenceKindNamespaced = ''HarborConnection''"

definition harborConnectionReferenceKindCluster :: string where
  "harborConnectionReferenceKindCluster = ''ClusterHarborConnection''"

record harborConnectionBinding =
  hbKind :: string
  hbName :: string
  hbNamespace :: string
  hbUID :: string

definition deletionPolicyDelete :: string where
  "deletionPolicyDelete = ''Delete''"

definition deletionPolicyOrphan :: string where
  "deletionPolicyOrphan = ''Orphan''"

definition creationPolicyCreate :: string where
  "creationPolicyCreate = ''Create''"

definition creationPolicyAdopt :: string where
  "creationPolicyAdopt = ''Adopt''"

definition creationPolicyCreateOrAdopt :: string where
  "creationPolicyCreateOrAdopt = ''CreateOrAdopt''"

definition AllowsCreation :: "string \<Rightarrow> bool" where
  "AllowsCreation policy =
     (policy = [] \<or> policy = creationPolicyCreate \<or> policy = creationPolicyCreateOrAdopt)"

definition AllowsAdoption :: "string \<Rightarrow> bool" where
  "AllowsAdoption policy =
     (policy = creationPolicyAdopt \<or> policy = creationPolicyCreateOrAdopt)"

lemmas policy_defs = creationPolicyCreate_def creationPolicyAdopt_def
  creationPolicyCreateOrAdopt_def deletionPolicyDelete_def deletionPolicyOrphan_def

record harborConnectionReference =
  hcrName :: string
  hcrKind :: string

definition harborConnectionReferenceIsZero :: "harborConnectionReference \<Rightarrow> bool" where
  "harborConnectionReferenceIsZero r = (hcrName r = [] \<and> hcrKind r = [])"

text \<open>
  \<open>HarborSpecBase\<close> has the three fields of \<open>HarborClaimSpecBase\<close> and the deletion
  policy, so it extends it.
\<close>

record harborClaimSpecBase =
  harborConnectionRef :: "harborConnectionReference option"
  driftDetectionInterval :: "int option"
  reconcileNonce :: string

record harborSpecBase = harborClaimSpecBase +
  deletionPolicy :: string

text \<open>The spec of a kind with a \<open>creationPolicy\<close>; the kinds that adopt extend it.\<close>

record harborCreatableSpec = harborSpecBase +
  creationPolicy :: string

record secretReference =
  srName :: string
  srKey :: string
  srNamespace :: string

text \<open>
  \<open>ProjectReference\<close>, \<open>RegistryReference\<close>, \<open>UserReference\<close> and
  \<open>UserGroupClaimReference\<close> are the same pair of name and namespace.
\<close>

record namedReference =
  nrName :: string
  nrNamespace :: string

type_synonym projectReference = namedReference
type_synonym registryReference = namedReference
type_synonym userReference = namedReference
type_synonym userGroupClaimReference = namedReference

record condition =
  condType :: string
  condStatus :: string
  condReason :: string
  condMessage :: string
  condObservedGeneration :: int
  condLastTransitionTime :: int

record harborStatusBase =
  observedGeneration :: int
  conditions :: "condition list"
  resolvedHarborConnection :: "harborConnectionBinding option"

definition GetDriftDetectionInterval :: "'a harborClaimSpecBase_scheme \<Rightarrow> int option" where
  "GetDriftDetectionInterval base = driftDetectionInterval base"

definition GetDeletionPolicy :: "'a harborSpecBase_scheme \<Rightarrow> string" where
  "GetDeletionPolicy base =
     (if deletionPolicy base = [] then deletionPolicyDelete else deletionPolicy base)"

section \<open>Kubernetes objects\<close>

type_synonym stringMap = "(string \<times> string) list"

record objectMeta =
  metaName :: string
  metaNamespace :: string
  metaUID :: string
  metaGeneration :: int
  metaDeletionTimestamp :: "int option"
  metaCreationTimestamp :: int
  metaFinalizers :: "string list"
  metaLabels :: "stringMap option"
  metaAnnotations :: "stringMap option"

record ('s, 't) resource =
  objMeta :: objectMeta
  objSpec :: 's
  objStatus :: 't

text \<open>A \<^verbatim>\<open>types.NamespacedName\<close>: namespace and name.\<close>

type_synonym nsName = "string \<times> string"

definition objectKey :: "('s, 't) resource \<Rightarrow> nsName" where
  "objectKey obj = (metaNamespace (objMeta obj), metaName (objMeta obj))"

definition nsNameString :: "nsName \<Rightarrow> string" where
  "nsNameString k = fst k @ ''/'' @ snd k"

record secret =
  secretMeta :: objectMeta
  secretType :: string
  secretData :: "stringMap option"

section \<open>Connections (harborconnection\_types.go)\<close>

record credentials =
  credType :: string
  credUsername :: string
  credUsernameSecretRef :: "secretReference option"
  credPasswordSecretRef :: secretReference

record harborConnectionSpec =
  connBaseURL :: string
  connCredentials :: "credentials option"
  connCABundle :: string
  connCABundleSecretRef :: "secretReference option"

record harborConnectionStatus = harborStatusBase +
  connAuthenticated :: bool

type_synonym harborConnection = "(harborConnectionSpec, harborConnectionStatus) resource"
type_synonym clusterHarborConnection = "(harborConnectionSpec, harborConnectionStatus) resource"

section \<open>Projects, registries and users\<close>

record projectMetadata =
  pmPublic :: string
  pmEnableContentTrust :: string
  pmEnableContentTrustCosign :: string
  pmPreventVul :: string
  pmSeverity :: string
  pmAutoScan :: string
  pmAutoSBOMGeneration :: string
  pmReuseSysCVEAllowlist :: string
  pmRetentionID :: string
  pmProxySpeedKB :: string

record cveAllowlist =
  cveID :: int
  cveProjectID :: int
  cveExpiresAt :: int
  cveItems :: "string list"
  cveCreationTime :: int
  cveUpdateTime :: int

record projectSpec = harborCreatableSpec +
  projPublic :: bool
  projOwner :: string
  projMetadata :: "projectMetadata option"
  projCVEAllowlist :: "cveAllowlist option"
  projStorageLimit :: int
  projRegistryRef :: "registryReference option"

record projectStatus = harborStatusBase +
  harborProjectID :: int

type_synonym project = "(projectSpec, projectStatus) resource"

record registryCredentialSpec =
  rcsType :: string
  rcsAccessKeySecretRef :: secretReference
  rcsAccessSecretSecretRef :: secretReference

record registrySpec = harborCreatableSpec +
  regType :: string
  regDescription :: string
  regURL :: string
  regCredential :: "registryCredentialSpec option"
  regCACertificate :: string
  regCACertificateRef :: "secretReference option"
  regInsecure :: bool

record registryStatus = harborStatusBase +
  harborRegistryID :: int
  regCredentialHash :: string

type_synonym registry = "(registrySpec, registryStatus) resource"

record userSpec = harborCreatableSpec +
  userEmail :: string
  userRealname :: string
  userComment :: string
  userPasswordSecretName :: string
  userPasswordSecretKey :: string

record userStatus = harborStatusBase +
  harborUserID :: int

type_synonym user = "(userSpec, userStatus) resource"

record userGroupClaimSpec = harborClaimSpecBase +
  ugGroupName :: string
  ugGroupType :: int
  ugLDAPGroupDN :: string

record userGroupClaimStatus = harborStatusBase +
  harborGroupID :: int

type_synonym userGroupClaim = "(userGroupClaimSpec, userGroupClaimStatus) resource"

section \<open>Members, labels, quotas and robots\<close>

text \<open>\<open>MemberUser\<close> and \<open>MemberGroup\<close> wrap one reference each.\<close>

record memberSpec = harborCreatableSpec +
  memProjectRef :: projectReference
  memRole :: string
  memMemberUser :: "userReference option"
  memMemberGroup :: "userGroupClaimReference option"

record memberStatus = harborStatusBase +
  memHarborProjectID :: int
  memHarborMemberID :: int

type_synonym member = "(memberSpec, memberStatus) resource"

record labelSpec = harborCreatableSpec +
  labDescription :: string
  labColor :: string
  labScope :: string
  labProjectRef :: "projectReference option"

record labelStatus = harborStatusBase +
  harborLabelID :: int

type_synonym label = "(labelSpec, labelStatus) resource"

record quotaSpec = harborSpecBase +
  quoProjectRef :: "projectReference option"
  quoHard :: "(string \<times> int) list option"

record quotaStatus = harborStatusBase +
  harborQuotaID :: int

type_synonym quota = "(quotaSpec, quotaStatus) resource"

record robotAccess =
  raResource :: string
  raAction :: string
  raEffect :: string

record robotPermission =
  rpKind :: string
  rpProjectRef :: "projectReference option"
  rpAccess :: "robotAccess list"

record robotSpec = harborCreatableSpec +
  robDescription :: string
  robLevel :: string
  robPermissions :: "robotPermission list"
  robDisable :: "bool option"
  robDuration :: int
  robSecretRef :: "secretReference option"

record robotStatus = harborStatusBase +
  harborRobotID :: int
  robUsername :: string
  robLastRotatedAt :: "int option"
  robExpiresAt :: "int option"

type_synonym robot = "(robotSpec, robotStatus) resource"

end
