(* ===== verification/ApiPolicyTypes.thy ===== *)
theory ApiPolicyTypes
  imports ApiTypes
begin

text \<open>
  The public API types of the policy kinds and of the singleton kinds (webhook, immutable tag,
  retention and replication policies, scanner registrations, the system configuration and the
  three schedules). \<open>rawJSON\<close> is the text of an \<^verbatim>\<open>apiextensionsv1.JSON\<close>.
\<close>

type_synonym rawJSON = string

section \<open>Webhook and immutable tag policies\<close>

record webhookTargetSpec =
  wtsType :: string
  wtsAddress :: string
  wtsAuthHeader :: string
  wtsAuthHeaderSecretRef :: "secretReference option"
  wtsPayloadFormat :: string
  wtsSkipCertVerify :: bool

record webhookPolicySpec = harborCreatableSpec +
  whpProjectRef :: "projectReference option"
  whpDescription :: string
  whpEnabled :: "bool option"
  whpEventTypes :: "string list"
  whpTargets :: "webhookTargetSpec list"

record webhookPolicyStatus = harborStatusBase +
  harborWebhookPolicyID :: int
  whpTargetsHash :: string

type_synonym webhookPolicy = "(webhookPolicySpec, webhookPolicyStatus) resource"

text \<open>Immutable tag and retention selectors have the same four fields.\<close>

record selectorSpec =
  selKind :: string
  selDecoration :: string
  selPattern :: string
  selExtras :: string

record immutableTagRuleSpec = harborCreatableSpec +
  imrProjectRef :: "projectReference option"
  imrDisabled :: bool
  imrAction :: string
  imrTemplate :: string
  imrParams :: "(string \<times> rawJSON) list option"
  imrTagSelectors :: "selectorSpec list"
  imrScopeSelectors :: "(string \<times> selectorSpec list) list option"
  imrPriority :: int

record immutableTagRuleStatus = harborStatusBase +
  harborImmutableRuleID :: int

type_synonym immutableTagRule = "(immutableTagRuleSpec, immutableTagRuleStatus) resource"

section \<open>Retention and replication policies\<close>

record retentionRuleSpec =
  rrsDisabled :: bool
  rrsAction :: string
  rrsTemplate :: string
  rrsParams :: "(string \<times> rawJSON) list option"
  rrsTagSelectors :: "selectorSpec list"
  rrsScopeSelectors :: "(string \<times> selectorSpec list) list option"

record retentionTriggerSpec =
  rtsKind :: string
  rtsSettings :: "(string \<times> rawJSON) list option"
  rtsReferences :: "(string \<times> rawJSON) list option"

record retentionScopeSpec =
  rssLevel :: string
  rssRef :: int

record retentionPolicySpec = harborSpecBase +
  retProjectRef :: "projectReference option"
  retRules :: "retentionRuleSpec list"
  retTrigger :: "retentionTriggerSpec option"
  retScope :: "retentionScopeSpec option"

record retentionPolicyStatus = harborStatusBase +
  harborRetentionID :: int

type_synonym retentionPolicy = "(retentionPolicySpec, retentionPolicyStatus) resource"

record replicationTriggerSpec =
  rptType :: string
  rptSettingsCron :: "string option"

record replicationFilterSpec =
  rpfType :: string
  rpfValue :: rawJSON
  rpfDecoration :: string

record replicationPolicySpec = harborCreatableSpec +
  repDescription :: string
  repSourceRegistryRef :: "registryReference option"
  repDestinationRegistryRef :: "registryReference option"
  repDestNamespace :: string
  repDestNamespaceReplaceCount :: "int option"
  repTrigger :: "replicationTriggerSpec option"
  repFilters :: "replicationFilterSpec list"
  repReplicateDeletion :: "bool option"
  repOverride :: "bool option"
  repEnabled :: "bool option"
  repSpeed :: "int option"
  repCopyByChunk :: "bool option"
  repSingleActiveReplication :: "bool option"

record replicationPolicyStatus = harborStatusBase +
  harborReplicationPolicyID :: int

type_synonym replicationPolicy = "(replicationPolicySpec, replicationPolicyStatus) resource"

section \<open>Scanner registrations\<close>

record scannerRegistrationSpec = harborCreatableSpec +
  scnDescription :: string
  scnURL :: string
  scnAuth :: string
  scnAccessCredential :: string
  scnAccessCredentialSecretRef :: "secretReference option"
  scnSkipCertVerify :: bool
  scnUseInternalAddr :: bool
  scnDisabled :: bool
  scnDefault :: bool

record scannerRegistrationStatus = harborStatusBase +
  harborScannerID :: string
  scnCredentialHash :: string

type_synonym scannerRegistration =
  "(scannerRegistrationSpec, scannerRegistrationStatus) resource"

section \<open>Singletons: configuration and schedules\<close>

text \<open>
  \<open>Value\<close> is the text of an optional JSON value, \<open>ValueFrom\<close> wraps one Secret
  reference.
\<close>

record configurationValue =
  cfvValue :: "rawJSON option"
  cfvValueFrom :: "secretReference option"

record configurationSpec = harborSpecBase +
  cfgSettings :: "(string \<times> configurationValue) list"

type_synonym configuration = "(configurationSpec, harborStatusBase) resource"

definition scheduleTypeManual :: string where
  "scheduleTypeManual = ''Manual''"

definition scheduleTypeNone :: string where
  "scheduleTypeNone = ''None''"

record scheduleSpec =
  schType :: string
  schCron :: string

record gcScheduleSpec = harborSpecBase +
  gcSchedule :: scheduleSpec
  gcParameters :: "(string \<times> rawJSON) list option"

text \<open>The three schedule kinds have the same status.\<close>

record scheduleStatus = harborStatusBase +
  lastAppliedScheduleHash :: string

type_synonym gcScheduleResource = "(gcScheduleSpec, scheduleStatus) resource"

record purgeAuditParameters =
  papAuditRetentionHour :: int
  papIncludeEventTypes :: string
  papDryRun :: bool

record purgeAuditScheduleSpec = harborSpecBase +
  paSchedule :: scheduleSpec
  paParameters :: purgeAuditParameters

type_synonym purgeAuditSchedule = "(purgeAuditScheduleSpec, scheduleStatus) resource"

record scanAllScheduleSpec = harborSpecBase +
  saSchedule :: scheduleSpec
  saParameters :: "(string \<times> rawJSON) list option"

type_synonym scanAllSchedule = "(scanAllScheduleSpec, scheduleStatus) resource"

end
