(* ===== verification/Json.thy ===== *)
theory Json
  imports Prelude "HOL-Library.AList"
begin

text \<open>
  The part of Go's \<^verbatim>\<open>encoding/json\<close> that the operator and its Harbor client rely
  on: documents, the text that \<^verbatim>\<open>json.Marshal\<close> prints, the value that
  \<^verbatim>\<open>Decoder.Decode\<close> and \<^verbatim>\<open>json.Unmarshal\<close> read from text,
  and the combinators out of which the decoders and encoders of the client's structs are built. A
  number keeps its literal, as \<^verbatim>\<open>json.Number\<close> would; an integer field reads it with
  \<^verbatim>\<open>ParseInt\<close>, so a fraction or a number outside 64 bits is an error. Strings are
  bytes; those from Kubernetes objects are valid UTF-8, which is what \<^verbatim>\<open>Marshal\<close>
  keeps as it is. The nesting limit of 10000 of the Go scanner is not modelled.
\<close>

datatype json =
    JNull
  | JBool bool
  | JNum string
  | JStr string
  | JArr "json list"
  | JObj "(string \<times> json) list"

section \<open>Printing\<close>

definition hexDigit :: "nat \<Rightarrow> char" where
  "hexDigit d = (if d < 10 then char_of (48 + d) else char_of (87 + d))"

definition jsonUnicode :: "nat \<Rightarrow> string" where
  "jsonUnicode n =
     [CHR 0x5C, CHR ''u'', hexDigit (n div 4096 mod 16), hexDigit (n div 256 mod 16),
      hexDigit (n div 16 mod 16), hexDigit (n mod 16)]"

definition jsonEscapeChar :: "char \<Rightarrow> string" where
  "jsonEscapeChar c =
     (if c = CHR 0x22 then [CHR 0x5C, CHR 0x22]
      else if c = CHR 0x5C then [CHR 0x5C, CHR 0x5C]
      else if c = CHR 0x08 then [CHR 0x5C, CHR ''b'']
      else if c = CHR 0x0C then [CHR 0x5C, CHR ''f'']
      else if c = CHR 0x0A then [CHR 0x5C, CHR ''n'']
      else if c = CHR 0x0D then [CHR 0x5C, CHR ''r'']
      else if c = CHR 0x09 then [CHR 0x5C, CHR ''t'']
      else if of_char c < (32::nat) \<or> c = CHR ''<'' \<or> c = CHR ''>'' \<or> c = CHR ''&''
        then jsonUnicode (of_char c)
      else [c])"

definition jsonPrintStr :: "string \<Rightarrow> string" where
  "jsonPrintStr s = [CHR 0x22] @ concat (map jsonEscapeChar s) @ [CHR 0x22]"

fun jsonPrint :: "json \<Rightarrow> string" where
  "jsonPrint JNull = ''null''"
| "jsonPrint (JBool b) = goBool b"
| "jsonPrint (JNum lit) = lit"
| "jsonPrint (JStr s) = jsonPrintStr s"
| "jsonPrint (JArr xs) = ''['' @ goJoin '','' (map jsonPrint xs) @ '']''"
| "jsonPrint (JObj kvs) =
     ''{'' @ goJoin '','' (map (\<lambda>(k, v). jsonPrintStr k @ '':'' @ jsonPrint v) kvs) @ ''}''"

section \<open>Reading\<close>

definition jsonSpace :: "char \<Rightarrow> bool" where
  "jsonSpace c = (c = CHR '' '' \<or> c = CHR 0x09 \<or> c = CHR 0x0A \<or> c = CHR 0x0D)"

definition skipSpace :: "string \<Rightarrow> string" where
  "skipSpace s = dropWhile jsonSpace s"

definition hexVal :: "char \<Rightarrow> nat option" where
  "hexVal c =
     (let n = (of_char c :: nat) in
      if 48 \<le> n \<and> n \<le> 57 then Some (n - 48)
      else if 97 \<le> n \<and> n \<le> 102 then Some (n - 87)
      else if 65 \<le> n \<and> n \<le> 70 then Some (n - 55) else None)"

definition hex4 :: "char \<Rightarrow> char \<Rightarrow> char \<Rightarrow> char \<Rightarrow> nat option" where
  "hex4 a b c d =
     (case (hexVal a, hexVal b, hexVal c, hexVal d) of
        (Some w, Some x, Some y, Some z) \<Rightarrow> Some (4096 * w + 256 * x + 16 * y + z)
      | _ \<Rightarrow> None)"

definition utf8 :: "nat \<Rightarrow> string" where
  "utf8 n =
     (if n < 128 then [char_of n]
      else if n < 2048 then [char_of (192 + n div 64), char_of (128 + n mod 64)]
      else if n < 65536
        then [char_of (224 + n div 4096), char_of (128 + n div 64 mod 64), char_of (128 + n mod 64)]
      else [char_of (240 + n div 262144), char_of (128 + n div 4096 mod 64),
            char_of (128 + n div 64 mod 64), char_of (128 + n mod 64)])"

definition runeError :: nat where
  "runeError = 65533"

definition isSurrogate :: "nat \<Rightarrow> bool" where
  "isSurrogate n = (55296 \<le> n \<and> n \<le> 57343)"

definition simpleEscape :: "char \<Rightarrow> char option" where
  "simpleEscape c =
     (if c = CHR 0x22 \<or> c = CHR 0x5C \<or> c = CHR ''/'' then Some c
      else if c = CHR ''b'' then Some CHR 0x08
      else if c = CHR ''f'' then Some CHR 0x0C
      else if c = CHR ''n'' then Some CHR 0x0A
      else if c = CHR ''r'' then Some CHR 0x0D
      else if c = CHR ''t'' then Some CHR 0x09 else None)"

text \<open>
  The text of a string after its opening quote: a run of units, each a byte or an escape. A high
  surrogate followed by a low one is one code point, a lone one is the replacement character.
\<close>

datatype strUnit = UEnd | UBad | UByte char | URune nat

definition nextUnit :: "string \<Rightarrow> strUnit \<times> string" where
  "nextUnit s =
     (case s of [] \<Rightarrow> (UBad, []) | c # r \<Rightarrow>
        if c = CHR 0x22 then (UEnd, r)
        else if of_char c < (32::nat) then (UBad, r)
        else if c \<noteq> CHR 0x5C then (UByte c, r)
        else case r of [] \<Rightarrow> (UBad, []) | e # r' \<Rightarrow>
          (case simpleEscape e of
             Some x \<Rightarrow> (UByte x, r')
           | None \<Rightarrow>
               if e = CHR ''u'' \<and> 4 \<le> length r'
               then case hex4 (r' ! 0) (r' ! 1) (r' ! 2) (r' ! 3) of
                      Some n \<Rightarrow> (URune n, drop 4 r')
                    | None \<Rightarrow> (UBad, r')
               else (UBad, r')))"

datatype strChunk = CEnd string | CBad | CText string string

definition nextChunk :: "string \<Rightarrow> strChunk" where
  "nextChunk s =
     (case nextUnit s of
        (UEnd, r) \<Rightarrow> CEnd r
      | (UBad, r) \<Rightarrow> CBad
      | (UByte c, r) \<Rightarrow> CText [c] r
      | (URune n, r) \<Rightarrow>
          if \<not> isSurrogate n then CText (utf8 n) r
          else case nextUnit r of
                 (URune m, r2) \<Rightarrow>
                   if n \<le> 56319 \<and> 56320 \<le> m \<and> m \<le> 57343
                   then CText (utf8 (65536 + (n - 55296) * 1024 + (m - 56320))) r2
                   else CText (utf8 runeError) r
               | _ \<Rightarrow> CText (utf8 runeError) r)"

lemma nextUnit_rest: "nextUnit s = (u, r) \<Longrightarrow> u \<noteq> UBad \<Longrightarrow> length r < length s"
  by (auto simp: nextUnit_def split: list.splits option.splits if_splits)

lemma nextChunk_rest:
  "nextChunk s = CEnd r \<Longrightarrow> length r < length s"
  "nextChunk s = CText t r \<Longrightarrow> length r < length s"
  by (auto simp: nextChunk_def split: prod.splits strUnit.splits if_splits
      dest!: nextUnit_rest)

function parseStr :: "string \<Rightarrow> (string \<times> string) option" where
  "parseStr s =
     (case nextChunk s of
        CEnd r \<Rightarrow> Some ([], r)
      | CBad \<Rightarrow> None
      | CText t r \<Rightarrow> map_option (\<lambda>(ts, r'). (t @ ts, r')) (parseStr r))"
  by pat_completeness auto
termination
  by (relation "measure length") (auto intro: nextChunk_rest(2))

declare parseStr.simps [simp del]

lemma parseStr_rest: "parseStr s = Some (t, r) \<Longrightarrow> length r < length s"
proof (induction s arbitrary: t r rule: parseStr.induct)
  case (1 s)
  show ?case
  proof (cases "nextChunk s")
    case (CText t' r')
    then obtain ts where "parseStr r' = Some (ts, r)"
      using "1.prems" by (auto simp: parseStr.simps [of s])
    then show ?thesis
      using "1.IH" [OF CText] nextChunk_rest(2) [OF CText] by fastforce
  qed (use "1.prems" nextChunk_rest(1) [of s] in \<open>auto simp: parseStr.simps [of s]\<close>)
qed

definition digits1 :: "string \<Rightarrow> (string \<times> string) option" where
  "digits1 s =
     (if takeWhile goIsDigit s = [] then None
      else Some (takeWhile goIsDigit s, dropWhile goIsDigit s))"

definition intPart :: "string \<Rightarrow> (string \<times> string) option" where
  "intPart s =
     (case s of [] \<Rightarrow> None
      | c # r \<Rightarrow> if c = CHR ''0'' then Some ([c], r) else digits1 s)"

definition fracPart :: "string \<Rightarrow> (string \<times> string) option" where
  "fracPart s =
     (case s of [] \<Rightarrow> Some ([], s)
      | c # r \<Rightarrow> if c = CHR ''.'' then map_option (\<lambda>(d, r'). (c # d, r')) (digits1 r)
                 else Some ([], s))"

definition expDigits :: "char \<Rightarrow> string \<Rightarrow> (string \<times> string) option" where
  "expDigits c r =
     (case r of [] \<Rightarrow> None
      | g # r2 \<Rightarrow>
          if g = CHR ''+'' \<or> g = CHR ''-''
          then map_option (\<lambda>(d, r'). (c # g # d, r')) (digits1 r2)
          else map_option (\<lambda>(d, r'). (c # d, r')) (digits1 r))"

definition expPart :: "string \<Rightarrow> (string \<times> string) option" where
  "expPart s =
     (case s of [] \<Rightarrow> Some ([], s)
      | c # r \<Rightarrow> if c = CHR ''e'' \<or> c = CHR ''E'' then expDigits c r else Some ([], s))"

definition unsignedLit :: "string \<Rightarrow> (string \<times> string) option" where
  "unsignedLit s =
     do { (i, r1) \<leftarrow> intPart s;
          (f, r2) \<leftarrow> fracPart r1;
          (e, r3) \<leftarrow> expPart r2;
          Some (i @ f @ e, r3) }"

definition numLit :: "string \<Rightarrow> (string \<times> string) option" where
  "numLit s =
     (case s of [] \<Rightarrow> None
      | c # r \<Rightarrow> if c = CHR ''-'' then map_option (\<lambda>(l, r'). (c # l, r')) (unsignedLit r)
                 else unsignedLit s)"

text \<open>
  One value and the text after it. The fuel bounds the calls; the length of the text is always
  enough, which the round trip below uses.
\<close>

fun parseValue :: "nat \<Rightarrow> string \<Rightarrow> (json \<times> string) option"
  and parseElems :: "nat \<Rightarrow> string \<Rightarrow> (json list \<times> string) option"
  and parseMembers :: "nat \<Rightarrow> string \<Rightarrow> ((string \<times> json) list \<times> string) option" where
  "parseValue 0 s = None"
| "parseValue (Suc n) s =
     (case skipSpace s of [] \<Rightarrow> None
      | c # r \<Rightarrow>
          if c = CHR ''{''
          then (case skipSpace r of [] \<Rightarrow> None
                | d # r' \<Rightarrow> if d = CHR ''}'' then Some (JObj [], r')
                           else map_option (\<lambda>(kvs, r2). (JObj kvs, r2)) (parseMembers n r))
          else if c = CHR ''[''
          then (case skipSpace r of [] \<Rightarrow> None
                | d # r' \<Rightarrow> if d = CHR '']'' then Some (JArr [], r')
                           else map_option (\<lambda>(xs, r2). (JArr xs, r2)) (parseElems n r))
          else if c = CHR 0x22 then map_option (\<lambda>(t, r2). (JStr t, r2)) (parseStr r)
          else if goHasPrefix (c # r) ''null'' then Some (JNull, drop 3 r)
          else if goHasPrefix (c # r) ''true'' then Some (JBool True, drop 3 r)
          else if goHasPrefix (c # r) ''false'' then Some (JBool False, drop 4 r)
          else map_option (\<lambda>(l, r2). (JNum l, r2)) (numLit (c # r)))"
| "parseElems 0 s = None"
| "parseElems (Suc n) s =
     (case parseValue n s of None \<Rightarrow> None
      | Some (v, r) \<Rightarrow>
          (case skipSpace r of [] \<Rightarrow> None
           | c # r2 \<Rightarrow>
               if c = CHR '','' then map_option (\<lambda>(vs, r3). (v # vs, r3)) (parseElems n r2)
               else if c = CHR '']'' then Some ([v], r2) else None))"
| "parseMembers 0 s = None"
| "parseMembers (Suc n) s =
     (case skipSpace s of [] \<Rightarrow> None
      | q # r \<Rightarrow>
          if q \<noteq> CHR 0x22 then None
          else (case parseStr r of None \<Rightarrow> None
                | Some (k, r1) \<Rightarrow>
                    (case skipSpace r1 of [] \<Rightarrow> None
                     | c # r2 \<Rightarrow>
                         if c \<noteq> CHR '':'' then None
                         else (case parseValue n r2 of None \<Rightarrow> None
                               | Some (v, r3) \<Rightarrow>
                                   (case skipSpace r3 of [] \<Rightarrow> None
                                    | d # r4 \<Rightarrow>
                                        if d = CHR '',''
                                        then map_option (\<lambda>(kvs, r5). ((k, v) # kvs, r5)) (parseMembers n r4)
                                        else if d = CHR ''}'' then Some ([(k, v)], r4)
                                        else None)))))"

text \<open>
  \<^verbatim>\<open>Decoder.Decode\<close> reads the first value of a stream and reports
  \<^verbatim>\<open>io.EOF\<close> when there is none; \<^verbatim>\<open>json.Unmarshal\<close> wants
  exactly one value.
\<close>

datatype jsonRead = JsonEOF | JsonBad | JsonValue json

definition decoderRead :: "string \<Rightarrow> jsonRead" where
  "decoderRead s =
     (if skipSpace s = [] then JsonEOF
      else case parseValue (length s) s of None \<Rightarrow> JsonBad | Some (v, _) \<Rightarrow> JsonValue v)"

definition jsonUnmarshal :: "string \<Rightarrow> json option" where
  "jsonUnmarshal s =
     (case parseValue (length s) s of
        None \<Rightarrow> None
      | Some (v, r) \<Rightarrow> if skipSpace r = [] then Some v else None)"

section \<open>Reading back what was printed\<close>

lemma hexVal_hexDigit: "d < 16 \<Longrightarrow> hexVal (hexDigit d) = Some d"
  by (auto simp: hexVal_def hexDigit_def Let_def)

lemma nextChunk_unicode:
  assumes "n < 128"
  shows "nextChunk (jsonUnicode n @ r) = CText [char_of n] r"
proof -
  have "n div 4096 = 0" "n div 256 = 0" "n div 16 < 16" using assms by auto
  then have "hex4 (hexDigit (n div 4096 mod 16)) (hexDigit (n div 256 mod 16))
       (hexDigit (n div 16 mod 16)) (hexDigit (n mod 16)) = Some n"
    by (simp add: hex4_def hexVal_hexDigit)
  then show ?thesis
    using assms
    by (simp add: nextChunk_def nextUnit_def jsonUnicode_def simpleEscape_def isSurrogate_def
        utf8_def)
qed

lemma nextChunk_escape: "nextChunk (jsonEscapeChar c @ r) = CText [c] r"
proof (cases "of_char c < (32::nat) \<or> c = CHR ''<'' \<or> c = CHR ''>'' \<or> c = CHR ''&''")
  case True
  then have "of_char c < (128::nat)" by auto
  from nextChunk_unicode [OF this, of r] True show ?thesis
    by (auto simp: jsonEscapeChar_def nextChunk_def nextUnit_def simpleEscape_def)
next
  case False
  then show ?thesis
    by (auto simp: jsonEscapeChar_def nextChunk_def nextUnit_def simpleEscape_def)
qed

lemma parseStr_print: "parseStr (concat (map jsonEscapeChar s) @ CHR 0x22 # r) = Some (s, r)"
proof (induction s)
  case Nil
  show ?case by (simp add: parseStr.simps nextChunk_def nextUnit_def)
next
  case (Cons c s)
  then show ?case
    by (subst parseStr.simps) (simp add: nextChunk_escape)
qed

definition numStop :: "string \<Rightarrow> bool" where
  "numStop r = (case r of [] \<Rightarrow> True | c # _ \<Rightarrow> c \<in> set '',]} '')"

definition validNum :: "string \<Rightarrow> bool" where
  "validNum l = (numLit l = Some (l, []))"

lemma takeWhile_digit_stop: "numStop r \<Longrightarrow> takeWhile goIsDigit (d @ r) = takeWhile goIsDigit d"
  by (induction d) (auto simp: numStop_def goIsDigit_def less_eq_char_def split: list.splits)

lemma dropWhile_digit_stop: "numStop r \<Longrightarrow> dropWhile goIsDigit (d @ r) = dropWhile goIsDigit d @ r"
  by (induction d) (auto simp: numStop_def goIsDigit_def less_eq_char_def split: list.splits)

lemma digits1_stop: "numStop r \<Longrightarrow> digits1 s = Some (d, q) \<Longrightarrow> digits1 (s @ r) = Some (d, q @ r)"
  by (auto simp: digits1_def takeWhile_digit_stop dropWhile_digit_stop split: if_splits)

lemma intPart_stop: "numStop r \<Longrightarrow> intPart s = Some (d, q) \<Longrightarrow> intPart (s @ r) = Some (d, q @ r)"
  using digits1_stop [of r s] by (cases s) (auto simp: intPart_def split: if_splits)

lemma fracPart_stop: "numStop r \<Longrightarrow> fracPart s = Some (d, q) \<Longrightarrow> fracPart (s @ r) = Some (d, q @ r)"
  using digits1_stop [of r "tl s"]
  by (cases s; cases r) (auto simp: fracPart_def numStop_def split: if_splits)

lemma expDigits_stop:
  "numStop r \<Longrightarrow> expDigits c s = Some (d, q) \<Longrightarrow> expDigits c (s @ r) = Some (d, q @ r)"
  using digits1_stop [of r s] digits1_stop [of r "tl s"]
  by (cases s) (auto simp: expDigits_def split: if_splits)

lemma expPart_stop: "numStop r \<Longrightarrow> expPart s = Some (d, q) \<Longrightarrow> expPart (s @ r) = Some (d, q @ r)"
  using expDigits_stop [of r _ "tl s"]
  by (cases s; cases r) (auto simp: expPart_def numStop_def split: if_splits)

lemma unsignedLit_stop:
  "numStop r \<Longrightarrow> unsignedLit s = Some (d, q) \<Longrightarrow> unsignedLit (s @ r) = Some (d, q @ r)"
  by (auto simp: unsignedLit_def bind_eq_Some_conv intPart_stop fracPart_stop expPart_stop)

lemma numLit_stop: "numStop r \<Longrightarrow> validNum l \<Longrightarrow> numLit (l @ r) = Some (l, r)"
  using unsignedLit_stop [of r l] unsignedLit_stop [of r "tl l"]
  by (cases l) (auto simp: validNum_def numLit_def split: if_splits)

lemma goDigit_zero: "d < 10 \<Longrightarrow> goDigit d = CHR ''0'' \<Longrightarrow> d = 0"
  using of_char_goDigit [of d] by simp

lemma goDigits_no_zero: "0 < n \<Longrightarrow> hd (goDigits n) \<noteq> CHR ''0''"
proof (induction n rule: goDigits.induct)
  case (1 n)
  show ?case
  proof (cases "n < 10")
    case True
    then show ?thesis using goDigit_zero [of n] "1.prems" by (auto simp: goDigits.simps [of n])
  next
    case False
    then show ?thesis
      using "1.IH" goDigits_digits [of "n div 10"] by (auto simp: goDigits.simps [of n])
  qed
qed

lemma unsignedLit_goDigits: "unsignedLit (goDigits n) = Some (goDigits n, [])"
proof -
  obtain c cs where d: "goDigits n = c # cs" and dig: "list_all goIsDigit (c # cs)"
    using goDigits_digits [of n] by (cases "goDigits n") auto
  have "takeWhile goIsDigit (c # cs) = c # cs" "dropWhile goIsDigit (c # cs) = []"
    using dig by (auto simp: list_all_iff takeWhile_eq_all_conv dropWhile_eq_Nil_conv)
  moreover have "c = CHR ''0'' \<Longrightarrow> cs = []"
    using goDigits_no_zero [of n] d by (cases "n = 0") (auto simp: goDigits.simps [of 0])
  ultimately show ?thesis
    by (auto simp: d unsignedLit_def intPart_def digits1_def fracPart_def expPart_def)
qed

lemma validNum_goItoa: "validNum (goItoa n)"
proof -
  have "hd (goDigits (nat n)) \<noteq> CHR ''-''"
    using goDigits_digits [of "nat n"] goIsDigit_sign by (cases "goDigits (nat n)") force+
  then show ?thesis
    using unsignedLit_goDigits [of "nat n"] goDigits_digits [of "nat n"]
    by (cases "goDigits (nat n)")
      (auto simp: validNum_def goItoa_def numLit_def unsignedLit_goDigits)
qed

fun jsonWF :: "json \<Rightarrow> bool" where
  "jsonWF (JNum l) = validNum l"
| "jsonWF (JArr xs) = list_all jsonWF xs"
| "jsonWF (JObj kvs) = list_all (\<lambda>(k, v). jsonWF v) kvs"
| "jsonWF v = True"

lemma validNum_start:
  assumes "validNum l"
  shows "\<exists>c cs. l = c # cs \<and> (goIsDigit c \<or> c = CHR ''-'')"
proof (cases l)
  case Nil
  with assms show ?thesis by (simp add: validNum_def numLit_def)
next
  case (Cons c cs)
  with assms show ?thesis
    by (auto simp: validNum_def numLit_def unsignedLit_def intPart_def digits1_def goIsDigit_def
        less_eq_char_def bind_eq_Some_conv split: if_splits)
qed

text \<open>What a printed value starts with: not a space and not a closing bracket.\<close>

lemma jsonPrint_start:
  assumes "jsonWF v"
  shows "\<exists>c cs. jsonPrint v = c # cs \<and> \<not> jsonSpace c \<and> c \<noteq> CHR '']''"
proof (cases v)
  case (JNum l)
  with assms validNum_start [of l] show ?thesis
    by (auto simp: jsonSpace_def goIsDigit_def less_eq_char_def)
qed (auto simp: jsonSpace_def goBool_def jsonPrintStr_def)

lemma skipSpace_print: "jsonWF v \<Longrightarrow> skipSpace (jsonPrint v @ r) = jsonPrint v @ r"
  using jsonPrint_start [of v] by (auto simp: skipSpace_def)

lemma numStop_close: "numStop (CHR ''}'' # r)" "numStop (CHR '']'' # r)" "numStop (CHR '','' # r)"
  "numStop []"
  by (simp_all add: numStop_def)

lemma parseElems_print:
  assumes "\<And>x n r. x \<in> set xs \<Longrightarrow> jsonWF x \<Longrightarrow> length (jsonPrint x) \<le> n \<Longrightarrow> numStop r \<Longrightarrow>
      parseValue n (jsonPrint x @ r) = Some (x, r)"
    and "list_all jsonWF xs" and "xs \<noteq> []"
    and "length (goJoin '','' (map jsonPrint xs)) < n"
  shows "parseElems n (goJoin '','' (map jsonPrint xs) @ CHR '']'' # r) = Some (xs, r)"
  using assms
proof (induction xs arbitrary: n)
  case (Cons x xs)
  from Cons.prems(4) obtain m where m: "n = Suc m" by (cases n) auto
  show ?case
  proof (cases xs)
    case Nil
    then show ?thesis
      using Cons.prems by (simp add: m numStop_close skipSpace_def jsonSpace_def)
  next
    case (Cons y ys)
    have "parseElems m (goJoin '','' (map jsonPrint xs) @ CHR '']'' # r) = Some (xs, r)"
      using Cons.IH Cons.prems Cons by (simp add: m)
    then show ?thesis
      using Cons.prems Cons by (simp add: m numStop_close skipSpace_def jsonSpace_def)
  qed
qed simp

lemma skipSpace_quote: "skipSpace (jsonPrintStr k @ r) = jsonPrintStr k @ r"
  by (simp add: skipSpace_def jsonPrintStr_def jsonSpace_def)

lemma parseMembers_print:
  assumes "\<And>k v n r. (k, v) \<in> set kvs \<Longrightarrow> jsonWF v \<Longrightarrow> length (jsonPrint v) \<le> n \<Longrightarrow> numStop r \<Longrightarrow>
      parseValue n (jsonPrint v @ r) = Some (v, r)"
    and "list_all (\<lambda>(k, v). jsonWF v) kvs" and "kvs \<noteq> []"
    and "length (goJoin '','' (map (\<lambda>(k, v). jsonPrintStr k @ '':'' @ jsonPrint v) kvs)) < n"
  shows "parseMembers n
      (goJoin '','' (map (\<lambda>(k, v). jsonPrintStr k @ '':'' @ jsonPrint v) kvs) @ CHR ''}'' # r)
      = Some (kvs, r)"
  using assms
proof (induction kvs arbitrary: n)
  case (Cons kv kvs)
  obtain k v where kv: "kv = (k, v)" by (cases kv)
  from Cons.prems(4) obtain m where m: "n = Suc m" by (cases n) auto
  have step: "parseMembers n (jsonPrintStr k @ CHR '':'' # jsonPrint v @ q) =
      (case skipSpace q of [] \<Rightarrow> None
       | d # r4 \<Rightarrow> if d = CHR '',''
                  then map_option (\<lambda>(kvs, r5). ((k, v) # kvs, r5)) (parseMembers m r4)
                  else if d = CHR ''}'' then Some ([(k, v)], r4) else None)"
    if "numStop q" for q
  proof -
    have "length (jsonPrint v) \<le> m" "jsonWF v"
      using Cons.prems(2,4) kv m by (cases kvs; simp)+
    then have "parseValue m (jsonPrint v @ q) = Some (v, q)"
      using Cons.prems(1) [of k v m q] kv that by simp
    then show ?thesis
      by (simp add: m skipSpace_def jsonPrintStr_def jsonSpace_def parseStr_print)
  qed
  show ?case
  proof (cases kvs)
    case Nil
    then show ?thesis
      using step [of "CHR ''}'' # r"]
      by (simp add: kv numStop_close skipSpace_def jsonSpace_def del: parseMembers.simps)
  next
    case (Cons y ys)
    let ?rest = "goJoin '','' (map (\<lambda>(k, v). jsonPrintStr k @ '':'' @ jsonPrint v) kvs)"
    have "parseMembers m (?rest @ CHR ''}'' # r) = Some (kvs, r)"
    proof (rule Cons.IH)
      show "parseValue n (jsonPrint v @ r) = Some (v, r)"
        if "(k, v) \<in> set kvs" "jsonWF v" "length (jsonPrint v) \<le> n" "numStop r" for k v n r
        using Cons.prems(1) that by (meson list.set_intros(2))
    qed (use Cons.prems(2,4) Cons m kv in \<open>simp_all\<close>)
    then show ?thesis
      using step [of "CHR '','' # ?rest @ CHR ''}'' # r"] Cons
      by (simp add: kv numStop_close skipSpace_def jsonSpace_def del: parseMembers.simps)
  qed
qed simp

lemma parseValue_num:
  assumes "validNum l" and "numStop r"
  shows "parseValue (Suc n) (l @ r) = Some (JNum l, r)"
proof -
  obtain c cs where l: "l = c # cs" and c: "goIsDigit c \<or> c = CHR ''-''"
    using validNum_start [OF assms(1)] by auto
  have "\<not> jsonSpace c" "c \<notin> {CHR ''{'', CHR ''['', CHR 0x22, CHR ''n'', CHR ''t'', CHR ''f''}"
    using c by (auto simp: jsonSpace_def goIsDigit_def less_eq_char_def)
  then show ?thesis
    using numLit_stop [OF assms(2) assms(1)] by (simp add: l skipSpace_def goHasPrefix_def)
qed

lemma parseValue_print:
  "jsonWF v \<Longrightarrow> length (jsonPrint v) \<le> n \<Longrightarrow> numStop r \<Longrightarrow>
     parseValue n (jsonPrint v @ r) = Some (v, r)"
proof (induction v arbitrary: n r)
  case (JNum l)
  then show ?case
    using validNum_start [of l] by (cases n) (auto simp: parseValue_num simp del: parseValue.simps(2))
next
  case (JArr xs)
  from JArr.prems(2) obtain m where m: "n = Suc m" by (cases n) auto
  show ?case
  proof (cases xs)
    case Nil
    then show ?thesis by (simp add: m skipSpace_def jsonSpace_def)
  next
    case (Cons y ys)
    have "parseElems m (goJoin '','' (map jsonPrint xs) @ CHR '']'' # r) = Some (xs, r)"
      by (rule parseElems_print) (use JArr m Cons in auto)
    moreover obtain c cs where "goJoin '','' (map jsonPrint xs) = c # cs" "\<not> jsonSpace c" "c \<noteq> CHR '']''"
      using jsonPrint_start [of y] JArr.prems(1) Cons by (cases ys) auto
    ultimately show ?thesis by (simp add: m skipSpace_def jsonSpace_def)
  qed
next
  case (JObj kvs)
  from JObj.prems(2) obtain m where m: "n = Suc m" by (cases n) auto
  show ?case
  proof (cases kvs)
    case Nil
    then show ?thesis by (simp add: m skipSpace_def jsonSpace_def)
  next
    case (Cons y ys)
    let ?t = "goJoin '','' (map (\<lambda>(k, v). jsonPrintStr k @ '':'' @ jsonPrint v) kvs)"
    have "parseMembers m (?t @ CHR ''}'' # r) = Some (kvs, r)"
      by (rule parseMembers_print) (use JObj m Cons in \<open>fastforce+\<close>)
    moreover obtain cs where "?t = CHR 0x22 # cs"
      using Cons by (cases y; cases ys) (auto simp: jsonPrintStr_def)
    ultimately show ?thesis by (simp add: m skipSpace_def jsonSpace_def)
  qed
next
  case JNull
  then show ?case by (cases n) (auto simp: skipSpace_def jsonSpace_def goHasPrefix_def)
next
  case (JBool b)
  then show ?case
    by (cases n; cases b) (auto simp: skipSpace_def jsonSpace_def goHasPrefix_def goBool_def)
next
  case (JStr s)
  then show ?case
    by (cases n) (auto simp: skipSpace_def jsonSpace_def jsonPrintStr_def parseStr_print)
qed

text \<open>What \<^verbatim>\<open>Marshal\<close> prints, a reader gets back.\<close>

lemma jsonUnmarshal_print: "jsonWF v \<Longrightarrow> jsonUnmarshal (jsonPrint v) = Some v"
  using parseValue_print [of v "length (jsonPrint v)" "[]"]
  by (simp add: jsonUnmarshal_def numStop_close skipSpace_def)

lemma decoderRead_print: "jsonWF v \<Longrightarrow> decoderRead (jsonPrint v) = JsonValue v"
  using parseValue_print [of v "length (jsonPrint v)" "[]"] skipSpace_print [of v "[]"]
    jsonPrint_start [of v]
  by (auto simp: decoderRead_def numStop_close)

section \<open>Decoding into Go values\<close>

text \<open>
  A decoder maps a document to a Go value, \<open>None\<close> for an
  \<^verbatim>\<open>UnmarshalTypeError\<close>. \<^verbatim>\<open>null\<close> leaves the zero value,
  and so does a missing field: a struct decoder looks its fields up in the object and finds
  \<^verbatim>\<open>null\<close> where there is none. A key matches a field regardless of case, and
  the last entry that is not \<^verbatim>\<open>null\<close> counts.
\<close>

type_synonym 'a decoder = "json \<Rightarrow> 'a option"

definition jget :: "string \<Rightarrow> (string \<times> json) list \<Rightarrow> json" where
  "jget name kvs =
     (case filter (\<lambda>(k, v). equalFold k name \<and> v \<noteq> JNull) kvs of
        [] \<Rightarrow> JNull
      | es \<Rightarrow> snd (last es))"

definition decStr :: "string decoder" where
  "decStr j = (case j of JNull \<Rightarrow> Some [] | JStr s \<Rightarrow> Some s | _ \<Rightarrow> None)"

definition decInt :: "int decoder" where
  "decInt j = (case j of JNull \<Rightarrow> Some 0 | JNum l \<Rightarrow> goAtoi l | _ \<Rightarrow> None)"

definition decBool :: "bool decoder" where
  "decBool j = (case j of JNull \<Rightarrow> Some False | JBool b \<Rightarrow> Some b | _ \<Rightarrow> None)"

definition decPtr :: "'a decoder \<Rightarrow> 'a option decoder" where
  "decPtr d j = (if j = JNull then Some None else map_option Some (d j))"

fun decAll :: "'a decoder \<Rightarrow> json list \<Rightarrow> 'a list option" where
  "decAll d [] = Some []"
| "decAll d (x # xs) =
     (case d x of None \<Rightarrow> None | Some y \<Rightarrow> map_option (\<lambda>ys. y # ys) (decAll d xs))"

definition decList :: "'a decoder \<Rightarrow> 'a list decoder" where
  "decList d j = (case j of JNull \<Rightarrow> Some [] | JArr xs \<Rightarrow> decAll d xs | _ \<Rightarrow> None)"

definition decObj :: "((string \<times> json) list \<Rightarrow> 'a option) \<Rightarrow> 'a decoder" where
  "decObj d j = (case j of JNull \<Rightarrow> d [] | JObj kvs \<Rightarrow> d kvs | _ \<Rightarrow> None)"

text \<open>
  A Go map decoded from an object: the last entry of a key wins. Maps are kept sorted by key, so
  equality of maps is equality of lists; \<^verbatim>\<open>Marshal\<close> prints them in that order.
\<close>

definition canonMap :: "(string \<times> 'a) list \<Rightarrow> (string \<times> 'a) list" where
  "canonMap kvs =
     sortSlice (\<lambda>a b. fst a < fst b) (fold (\<lambda>(k, v) m. AList.update k v m) kvs [])"

definition decMap :: "'a decoder \<Rightarrow> (string \<times> 'a) list option decoder" where
  "decMap d j =
     (case j of
        JNull \<Rightarrow> Some None
      | JObj kvs \<Rightarrow>
          map_option (\<lambda>vs. Some (canonMap (zip (map fst kvs) vs))) (decAll d (map snd kvs))
      | _ \<Rightarrow> None)"

section \<open>Encoding Go values\<close>

text \<open>One list of fields per struct field, empty where \<^verbatim>\<open>omitempty\<close> drops it.\<close>

definition jInt :: "int \<Rightarrow> json" where
  "jInt n = JNum (goItoa n)"

definition omitStr :: "string \<Rightarrow> string \<Rightarrow> (string \<times> json) list" where
  "omitStr name s = (if s = [] then [] else [(name, JStr s)])"

definition omitInt :: "string \<Rightarrow> int \<Rightarrow> (string \<times> json) list" where
  "omitInt name n = (if n = 0 then [] else [(name, jInt n)])"

definition omitBool :: "string \<Rightarrow> bool \<Rightarrow> (string \<times> json) list" where
  "omitBool name b = (if b then [(name, JBool True)] else [])"

definition omitPtr :: "string \<Rightarrow> ('a \<Rightarrow> json) \<Rightarrow> 'a option \<Rightarrow> (string \<times> json) list" where
  "omitPtr name enc p = (case p of None \<Rightarrow> [] | Some x \<Rightarrow> [(name, enc x)])"

definition omitList :: "string \<Rightarrow> ('a \<Rightarrow> json) \<Rightarrow> 'a list \<Rightarrow> (string \<times> json) list" where
  "omitList name enc xs = (if xs = [] then [] else [(name, JArr (map enc xs))])"

definition omitMap :: "string \<Rightarrow> ('a \<Rightarrow> json) \<Rightarrow> (string \<times> 'a) list option \<Rightarrow> (string \<times> json) list" where
  "omitMap name enc m =
     (case m of None \<Rightarrow> [] | Some kvs \<Rightarrow>
        if kvs = [] then [] else [(name, JObj (map (\<lambda>(k, v). (k, enc v)) (canonMap kvs)))])"

lemma jget_Nil [simp]: "jget name [] = JNull"
  by (simp add: jget_def)

lemma jsonWF_jInt [simp]: "jsonWF (jInt n)"
  by (simp add: jInt_def validNum_goItoa)

lemma decInt_jInt: "minInt64 \<le> n \<Longrightarrow> n \<le> maxInt64 \<Longrightarrow> decInt (jInt n) = Some n"
  by (simp add: decInt_def jInt_def goAtoi_goItoa)

definition fieldsWF :: "(string \<times> json) list \<Rightarrow> bool" where
  "fieldsWF kvs = list_all (\<lambda>(k, v). jsonWF v) kvs"

lemma fieldsWF_simps [simp]:
  "fieldsWF []" "fieldsWF (kv # kvs) = (jsonWF (snd kv) \<and> fieldsWF kvs)"
  "fieldsWF (as @ bs) = (fieldsWF as \<and> fieldsWF bs)"
  "jsonWF (JObj kvs) = fieldsWF kvs"
  by (auto simp: fieldsWF_def split: prod.splits)

lemma fieldsWF_omit [simp]:
  "fieldsWF (omitStr name s)" "fieldsWF (omitInt name n)" "fieldsWF (omitBool name b)"
  "(\<And>x. p = Some x \<Longrightarrow> jsonWF (enc x)) \<Longrightarrow> fieldsWF (omitPtr name enc p)"
  "(\<And>x. x \<in> set xs \<Longrightarrow> jsonWF (enc x)) \<Longrightarrow> fieldsWF (omitList name enc xs)"
  by (auto simp: omitStr_def omitInt_def omitBool_def omitPtr_def omitList_def list_all_iff
      split: option.splits)

section \<open>Fields read back\<close>

text \<open>What a field of an encoded object is read back as, when no later field hides it.\<close>

definition strField :: "string \<Rightarrow> json" where
  "strField s = (if s = [] then JNull else JStr s)"

definition intField :: "int \<Rightarrow> json" where
  "intField n = (if n = 0 then JNull else jInt n)"

definition boolField :: "bool \<Rightarrow> json" where
  "boolField b = (if b then JBool True else JNull)"

definition ptrField :: "('a \<Rightarrow> json) \<Rightarrow> 'a option \<Rightarrow> json" where
  "ptrField enc p = (case p of None \<Rightarrow> JNull | Some x \<Rightarrow> enc x)"

definition listField :: "('a \<Rightarrow> json) \<Rightarrow> 'a list \<Rightarrow> json" where
  "listField enc xs = (if xs = [] then JNull else JArr (map enc xs))"

lemma jget_append:
  "jget name (as @ bs) = (if jget name bs = JNull then jget name as else jget name bs)"
proof (cases "filter (\<lambda>(k, v). equalFold k name \<and> v \<noteq> JNull) bs = []")
  case False
  let ?f = "filter (\<lambda>(k, v). equalFold k name \<and> v \<noteq> JNull) bs"
  have "last ?f \<in> set ?f" using False by (rule last_in_set)
  then have "snd (last ?f) \<noteq> JNull" by auto
  then show ?thesis using False by (auto simp: jget_def split: list.split)
qed (simp add: jget_def)

lemma jget_Cons:
  "jget name ((k, v) # kvs) =
     (if jget name kvs = JNull then (if equalFold k name then v else JNull) else jget name kvs)"
  using jget_append [of name "[(k, v)]" kvs] by (auto simp: jget_def)

lemma jget_skip:
  assumes "\<not> equalFold k name"
  shows "jget name ((k, v) # kvs) = jget name kvs"
    and "jget name (omitStr k s @ kvs) = jget name kvs"
    and "jget name (omitInt k n @ kvs) = jget name kvs"
    and "jget name (omitBool k b @ kvs) = jget name kvs"
    and "jget name (omitPtr k enc p @ kvs) = jget name kvs"
    and "jget name (omitList k enc' xs @ kvs) = jget name kvs"
    and "jget name (omitStr k s) = JNull"
    and "jget name (omitInt k n) = JNull"
    and "jget name (omitBool k b) = JNull"
    and "jget name (omitPtr k enc p) = JNull"
    and "jget name (omitList k enc' xs) = JNull"
  using assms
  by (auto simp: jget_Cons omitStr_def omitInt_def omitBool_def omitPtr_def omitList_def split: option.split)

lemma jget_here:
  assumes "equalFold k name" and "jget name kvs = JNull"
  shows "jget name ((k, v) # kvs) = v"
    and "jget name (omitStr k s @ kvs) = strField s"
    and "jget name (omitInt k n @ kvs) = intField n"
    and "jget name (omitBool k b @ kvs) = boolField b"
    and "jget name (omitPtr k enc p @ kvs) = ptrField enc p"
    and "jget name (omitList k enc' xs @ kvs) = listField enc' xs"
  using assms
  by (auto simp: jget_Cons omitStr_def omitInt_def omitBool_def omitPtr_def omitList_def strField_def
      intField_def boolField_def ptrField_def listField_def split: option.split)

lemma jget_last:
  assumes "equalFold k name"
  shows "jget name (omitStr k s) = strField s"
    and "jget name (omitInt k n) = intField n"
    and "jget name (omitBool k b) = boolField b"
    and "jget name (omitPtr k enc p) = ptrField enc p"
    and "jget name (omitList k enc' xs) = listField enc' xs"
  using jget_here [OF assms, of "[]"] by (simp_all add: jget_Nil)

lemma decField:
  "decStr (strField s) = Some s"
  "minInt64 \<le> n \<Longrightarrow> n \<le> maxInt64 \<Longrightarrow> decInt (intField n) = Some n"
  "decBool (boolField b) = Some b"
  by (simp_all add: decStr_def strField_def intField_def decInt_jInt decBool_def boolField_def)
    (simp add: decInt_def)

lemma decAll_map: "(\<And>x. x \<in> set xs \<Longrightarrow> d (enc x) = Some x) \<Longrightarrow> decAll d (map enc xs) = Some xs"
  by (induction xs) auto

lemma decList_listField:
  "(\<And>x. x \<in> set xs \<Longrightarrow> d (enc x) = Some x) \<Longrightarrow> decList d (listField enc xs) = Some xs"
  by (simp add: decList_def listField_def decAll_map)

lemmas equalFold_eval = equalFold_def goToLower_def goLowerChar_def

lemmas jfield_simps = jget_skip jget_here jget_last decField decObj_def equalFold_eval

end
