(* ===== verification/World.thy ===== *)
theory World
  imports ApiPolicyTypes Json
begin

text \<open>
  What a reconciler runs in. Errors are values of one datatype; the Kubernetes API server, Harbor
  and the clock are an environment \<open>'e\<close> that the record \<open>services\<close> of functions
  acts on (they are parameters: any server may stand behind them); the reconciler's own object, which
  Go updates in place through a pointer, is a field of the state; and the trace records every call
  that leaves the process, in order. The trace is not read by any operation: it is what the
  properties talk about.
\<close>

section \<open>Errors\<close>

datatype kubeReason = KubeNotFound | KubeConflict | KubeAlreadyExists | KubeOther

text \<open>
  \<open>HTTPError\<close> is harborclient's, \<open>HarborConnectionChanged\<close> common.go's
  \<^verbatim>\<open>harborConnectionChangedError\<close>, \<open>ErrMsg\<close> and \<open>ErrWrap\<close>
  \<^verbatim>\<open>fmt.Errorf\<close> without and with \<^verbatim>\<open>%w\<close> (the text before
  the wrapped error), \<open>KubeError\<close> an API status error, \<open>TransportError\<close> what
  net/http reports and \<open>JSONError\<close> a decoding error, whose wording is not modelled.
  \<open>LoopBound\<close> is no Go error: it is the outcome of a paging loop that has not ended within
  the fuel of the model.
\<close>

datatype gerror =
    HTTPError int string
  | TransportError string
  | JSONError
  | KubeError kubeReason string
  | HarborConnectionChanged harborConnectionBinding harborConnectionBinding
  | ErrMsg string
  | ErrWrap string gerror
  | LoopBound

text \<open>The bytes of the en dash in the message of \<open>HTTPError\<close>.\<close>

definition enDash :: string where
  "enDash = [CHR 0xE2, CHR 0x80, CHR 0x93]"

definition bindingText :: "harborConnectionBinding \<Rightarrow> string" where
  "bindingText b =
     hbKind b @ '' '' @ hbNamespace b @ ''/'' @ hbName b @ '' (uid '' @ hbUID b @ '')''"

fun errorString :: "gerror \<Rightarrow> string" where
  "errorString (HTTPError code msg) = ''harbor API '' @ goItoa code @ '' '' @ enDash @ '' '' @ msg"
| "errorString (TransportError msg) = msg"
| "errorString JSONError = ''invalid JSON''"
| "errorString (KubeError r msg) = msg"
| "errorString (HarborConnectionChanged previous current) =
     ''resolved Harbor connection changed from '' @ bindingText previous @ '' to ''
       @ bindingText current @ ''; refusing to modify Harbor''"
| "errorString (ErrMsg msg) = msg"
| "errorString (ErrWrap prefix e) = prefix @ errorString e"
| "errorString LoopBound = ''loop bound''"

text \<open>\<^verbatim>\<open>apierrors.IsNotFound\<close> looks through wrapped errors.\<close>

fun kubeIsNotFound :: "gerror \<Rightarrow> bool" where
  "kubeIsNotFound (KubeError r msg) = (r = KubeNotFound)"
| "kubeIsNotFound (ErrWrap prefix e) = kubeIsNotFound e"
| "kubeIsNotFound _ = False"

section \<open>Requests and responses\<close>

record httpClient =
  htTimeout :: int
  htRootCAs :: "string option"

record httpRequest =
  reqMethod :: string
  reqURL :: string
  reqUsername :: string
  reqPassword :: string
  reqContentType :: string
  reqBody :: "string option"

record httpResponse =
  respStatus :: int
  respHeaders :: stringMap
  respContentLength :: int
  respBody :: string
  respCloseError :: "string option"

text \<open>
  A request can fail when it is built (\<^verbatim>\<open>http.NewRequestWithContext\<close>) or when it
  is performed (\<^verbatim>\<open>Client.Do\<close>).
\<close>

datatype httpFailure = NewRequestFailed string | DoFailed string

definition headerGet :: "httpResponse \<Rightarrow> string \<Rightarrow> string" where
  "headerGet resp name = (case map_of (respHeaders resp) name of Some v \<Rightarrow> v | None \<Rightarrow> [])"

section \<open>Services\<close>

datatype objKind =
    KHarborConnection | KClusterHarborConnection | KProject | KRegistry | KUser | KUserGroupClaim
  | KMember | KLabel | KQuota | KRobot | KWebhookPolicy | KImmutableTagRule | KRetentionPolicy
  | KReplicationPolicy | KScannerRegistration | KConfiguration | KGCSchedule
  | KPurgeAuditSchedule | KScanAllSchedule | KSecret

text \<open>
  The functions of \<^verbatim>\<open>k8s.io/apimachinery\<close> and
  \<^verbatim>\<open>controllerutil\<close> that the operator calls on conditions and finalizers, and
  what it relies on: their documented behaviour.
\<close>

record apimachinery =
  amFindStatusCondition :: "condition list \<Rightarrow> string \<Rightarrow> condition option"
  amSetStatusCondition :: "condition list \<Rightarrow> condition \<Rightarrow> condition list"
  amIsStatusConditionTrue :: "condition list \<Rightarrow> string \<Rightarrow> bool"
  amContainsFinalizer :: "objectMeta \<Rightarrow> string \<Rightarrow> bool"
  amAddFinalizer :: "objectMeta \<Rightarrow> string \<Rightarrow> objectMeta"
  amRemoveFinalizer :: "objectMeta \<Rightarrow> string \<Rightarrow> objectMeta"

definition sameCondition :: "condition \<Rightarrow> condition \<Rightarrow> bool" where
  "sameCondition a b \<longleftrightarrow>
     condType a = condType b \<and> condStatus a = condStatus b \<and> condReason a = condReason b \<and>
     condMessage a = condMessage b \<and> condObservedGeneration a = condObservedGeneration b"

definition lawfulConditions :: "apimachinery \<Rightarrow> bool" where
  "lawfulConditions am \<longleftrightarrow>
     (\<forall>cs t c. amFindStatusCondition am cs t = Some c \<longrightarrow> condType c = t) \<and>
     (\<forall>cs c. \<exists>c'. amFindStatusCondition am (amSetStatusCondition am cs c) (condType c) = Some c' \<and>
        sameCondition c' c) \<and>
     (\<forall>cs c t. t \<noteq> condType c \<longrightarrow>
        amFindStatusCondition am (amSetStatusCondition am cs c) t = amFindStatusCondition am cs t)"

definition lawfulFinalizers :: "apimachinery \<Rightarrow> bool" where
  "lawfulFinalizers am \<longleftrightarrow>
     (\<forall>m f. amContainsFinalizer am m f = (f \<in> set (metaFinalizers m))) \<and>
     (\<forall>m f. \<exists>fs. amAddFinalizer am m f = m\<lparr>metaFinalizers := fs\<rparr> \<and>
        set fs = insert f (set (metaFinalizers m))) \<and>
     (\<forall>m f. \<exists>fs. amRemoveFinalizer am m f = m\<lparr>metaFinalizers := fs\<rparr> \<and>
        set fs = set (metaFinalizers m) - {f})"

text \<open>
  \<^verbatim>\<open>url.Parse\<close> is a parameter too: the text of its error, or the scheme of the
  URL. What is known of the scheme is its syntax (RFC 3986): a letter, then letters, digits,
  \<^verbatim>\<open>+\<close>, \<^verbatim>\<open>-\<close> and \<^verbatim>\<open>.\<close>, up to the
  first colon; \<open>urlScheme\<close> is empty when there is none.
\<close>

definition schemeChar :: "char \<Rightarrow> bool" where
  "schemeChar c \<longleftrightarrow>
     (CHR ''a'' \<le> c \<and> c \<le> CHR ''z'') \<or> (CHR ''A'' \<le> c \<and> c \<le> CHR ''Z'') \<or> goIsDigit c \<or>
     c = CHR ''+'' \<or> c = CHR ''-'' \<or> c = CHR ''.''"

definition schemeStart :: "char \<Rightarrow> bool" where
  "schemeStart c \<longleftrightarrow> (CHR ''a'' \<le> c \<and> c \<le> CHR ''z'') \<or> (CHR ''A'' \<le> c \<and> c \<le> CHR ''Z'')"

definition urlScheme :: "string \<Rightarrow> string" where
  "urlScheme s =
     (let prefix = takeWhile schemeChar s
      in if prefix \<noteq> [] \<and> schemeStart (hd prefix) \<and> length prefix < length s \<and> s ! length prefix = CHR '':''
         then goToLower prefix else [])"

text \<open>
  One client per kind of object that any reconciler may read, and the rest of the outside world. A
  write returns the object as the server stored it, which the Go client decodes into the caller's
  object.
\<close>

record 'e services =
  svcHTTP :: "httpClient \<Rightarrow> httpRequest \<Rightarrow> 'e \<Rightarrow> (httpFailure + httpResponse) \<times> 'e"
  svcNow :: "'e \<Rightarrow> int \<times> 'e"
  svcValidPEM :: "string \<Rightarrow> bool"
  svcURLScheme :: "string \<Rightarrow> string + string"
  svcMachinery :: apimachinery
  svcPageFuel :: nat
  svcGetConnection :: "nsName \<Rightarrow> 'e \<Rightarrow> (gerror + harborConnection) \<times> 'e"
  svcGetClusterConnection :: "nsName \<Rightarrow> 'e \<Rightarrow> (gerror + clusterHarborConnection) \<times> 'e"
  svcGetRegistry :: "nsName \<Rightarrow> 'e \<Rightarrow> (gerror + registry) \<times> 'e"
  svcGetProject :: "nsName \<Rightarrow> 'e \<Rightarrow> (gerror + project) \<times> 'e"
  svcGetUser :: "nsName \<Rightarrow> 'e \<Rightarrow> (gerror + user) \<times> 'e"
  svcGetUserGroup :: "nsName \<Rightarrow> 'e \<Rightarrow> (gerror + userGroupClaim) \<times> 'e"
  svcListMembers :: "'e \<Rightarrow> (gerror + member list) \<times> 'e"
  svcGetSecret :: "nsName \<Rightarrow> 'e \<Rightarrow> (gerror + secret) \<times> 'e"
  svcCreateSecret :: "secret \<Rightarrow> 'e \<Rightarrow> gerror option \<times> 'e"
  svcUpdateSecret :: "secret \<Rightarrow> 'e \<Rightarrow> gerror option \<times> 'e"

definition lawfulURLs :: "'e services \<Rightarrow> bool" where
  "lawfulURLs S \<longleftrightarrow> (\<forall>s sch. svcURLScheme S s = Inr sch \<longrightarrow> sch = urlScheme s)"

record ('e, 'o) kclient =
  kcGet :: "nsName \<Rightarrow> 'e \<Rightarrow> (gerror + 'o) \<times> 'e"
  kcList :: "'e \<Rightarrow> (gerror + 'o list) \<times> 'e"
  kcUpdate :: "'o \<Rightarrow> 'e \<Rightarrow> (gerror + 'o) \<times> 'e"
  kcStatusUpdate :: "'o \<Rightarrow> 'e \<Rightarrow> (gerror + 'o) \<times> 'e"

text \<open>
  A reconciled kind: its tag, what the reflection in \<^verbatim>\<open>sanitizeOptionalHarborConnectionRef\<close>
  does to its spec (nothing where the struct has no such field), and its client.
\<close>

record ('e, 's, 't) kind =
  kdKind :: objKind
  kdSanitize :: "'s \<Rightarrow> 's"
  kdClient :: "('e, ('s, 't) resource) kclient"

section \<open>The trace and the state\<close>

text \<open>
  What the API server shows of an object: its metadata and its connection binding. A failed call
  shows nothing. \<open>EvHttp\<close> has the status of the response, \<open>None\<close> for a failed
  request.
\<close>

type_synonym shown = "(objectMeta \<times> harborConnectionBinding option) option"

datatype event =
    EvLoad objKind nsName shown
  | EvGet objKind nsName bool
  | EvList objKind bool
  | EvUpdate objKind objectMeta shown
  | EvStatusUpdate objKind harborStatusBase shown
  | EvSecretCreate secret bool
  | EvSecretUpdate secret bool
  | EvHttp httpClient httpRequest "int option"
  | EvMetric string string string
  | EvClose

record ('o, 'e) rstate =
  stObj :: 'o
  stEnv :: 'e
  stTrace :: "event list"

type_synonym ('o, 'e, 'a) go = "(('o, 'e) rstate, 'a) state"

definition emit :: "event \<Rightarrow> ('o, 'e, unit) go" where
  "emit ev = State (\<lambda>s. ((), s\<lparr>stTrace := stTrace s @ [ev]\<rparr>))"

definition envCall :: "('e \<Rightarrow> 'a \<times> 'e) \<Rightarrow> ('o, 'e, 'a) go" where
  "envCall f = State (\<lambda>s. case f (stEnv s) of (a, e) \<Rightarrow> (a, s\<lparr>stEnv := e\<rparr>))"

definition getObj :: "('o, 'e, 'o) go" where
  "getObj = State (\<lambda>s. (stObj s, s))"

definition modObj :: "('o \<Rightarrow> 'o) \<Rightarrow> ('o, 'e, unit) go" where
  "modObj f = State (\<lambda>s. ((), s\<lparr>stObj := f (stObj s)\<rparr>))"

text \<open>Run a block only when a condition holds, and a block that may leave the function early.\<close>

definition unlessNone :: "('o, 'e, 'r option) go \<Rightarrow> ('o, 'e, 'r) go \<Rightarrow> ('o, 'e, 'r) go" where
  "unlessNone block rest =
     do { r \<leftarrow> block; case r of Some x \<Rightarrow> State_Monad.return x | None \<Rightarrow> rest }"

section \<open>Calls\<close>

definition shownObj :: "('s, 't harborStatusBase_scheme) resource \<Rightarrow> objectMeta \<times> harborConnectionBinding option" where
  "shownObj obj = (objMeta obj, resolvedHarborConnection (objStatus obj))"

definition shownOf :: "gerror + ('s, 't harborStatusBase_scheme) resource \<Rightarrow> shown" where
  "shownOf r = (case r of Inl e \<Rightarrow> None | Inr obj \<Rightarrow> Some (shownObj obj))"

definition metav1Now :: "'e services \<Rightarrow> ('o, 'e, int) go" where
  "metav1Now S = envCall (svcNow S)"

text \<open>\<^verbatim>\<open>c.Get\<close> of another object.\<close>

definition kubeGet :: "objKind \<Rightarrow> (nsName \<Rightarrow> 'e \<Rightarrow> (gerror + 'a) \<times> 'e) \<Rightarrow> nsName \<Rightarrow> ('o, 'e, gerror + 'a) go" where
  "kubeGet k f key =
     do { r \<leftarrow> envCall (f key);
          _ \<leftarrow> emit (EvGet k key (\<not> isl r));
          State_Monad.return r }"

text \<open>\<^verbatim>\<open>c.Get\<close> into the reconciler's own object.\<close>

definition kubeLoad :: "('e, 's, 't harborStatusBase_scheme) kind \<Rightarrow> nsName \<Rightarrow>
    (('s, 't harborStatusBase_scheme) resource, 'e, gerror option) go" where
  "kubeLoad K key =
     do { r \<leftarrow> envCall (kcGet (kdClient K) key);
          _ \<leftarrow> emit (EvLoad (kdKind K) key (shownOf r));
          case r of
            Inl e \<Rightarrow> State_Monad.return (Some e)
          | Inr obj \<Rightarrow> do { _ \<leftarrow> modObj (\<lambda>_. obj); State_Monad.return None } }"

definition kubeList :: "('e, 's, 't) kind \<Rightarrow> ('o, 'e, gerror + ('s, 't) resource list) go" where
  "kubeList K =
     do { r \<leftarrow> envCall (kcList (kdClient K));
          _ \<leftarrow> emit (EvList (kdKind K) (\<not> isl r));
          State_Monad.return r }"

text \<open>\<^verbatim>\<open>c.Update\<close> and \<^verbatim>\<open>c.Status().Update\<close> of the own object.\<close>

definition kubeUpdate :: "('e, 's, 't harborStatusBase_scheme) kind \<Rightarrow>
    (('s, 't harborStatusBase_scheme) resource, 'e, gerror option) go" where
  "kubeUpdate K =
     do { obj \<leftarrow> getObj;
          r \<leftarrow> envCall (kcUpdate (kdClient K) obj);
          _ \<leftarrow> emit (EvUpdate (kdKind K) (objMeta obj) (shownOf r));
          case r of
            Inl e \<Rightarrow> State_Monad.return (Some e)
          | Inr obj' \<Rightarrow> do { _ \<leftarrow> modObj (\<lambda>_. obj'); State_Monad.return None } }"

definition kubeStatusUpdate :: "('e, 's, 't harborStatusBase_scheme) kind \<Rightarrow>
    (('s, 't harborStatusBase_scheme) resource, 'e, gerror option) go" where
  "kubeStatusUpdate K =
     do { obj \<leftarrow> getObj;
          r \<leftarrow> envCall (kcStatusUpdate (kdClient K) obj);
          _ \<leftarrow> emit (EvStatusUpdate (kdKind K) (harborStatusBase.truncate (objStatus obj)) (shownOf r));
          case r of
            Inl e \<Rightarrow> State_Monad.return (Some e)
          | Inr obj' \<Rightarrow> do { _ \<leftarrow> modObj (\<lambda>_. obj'); State_Monad.return None } }"

definition kubeCreateSecret :: "'e services \<Rightarrow> secret \<Rightarrow> ('o, 'e, gerror option) go" where
  "kubeCreateSecret S sec =
     do { r \<leftarrow> envCall (svcCreateSecret S sec);
          _ \<leftarrow> emit (EvSecretCreate sec (r = None));
          State_Monad.return r }"

definition kubeUpdateSecret :: "'e services \<Rightarrow> secret \<Rightarrow> ('o, 'e, gerror option) go" where
  "kubeUpdateSecret S sec =
     do { r \<leftarrow> envCall (svcUpdateSecret S sec);
          _ \<leftarrow> emit (EvSecretUpdate sec (r = None));
          State_Monad.return r }"

definition httpDo :: "'e services \<Rightarrow> httpClient \<Rightarrow> httpRequest \<Rightarrow> ('o, 'e, httpFailure + httpResponse) go" where
  "httpDo S hc req =
     do { r \<leftarrow> envCall (svcHTTP S hc req);
          _ \<leftarrow> (case r of
                 Inl (NewRequestFailed msg) \<Rightarrow> State_Monad.return ()
               | Inl (DoFailed msg) \<Rightarrow> emit (EvHttp hc req None)
               | Inr resp \<Rightarrow> emit (EvHttp hc req (Some (respStatus resp))));
          State_Monad.return r }"

end
