(* ===== verification/Effects.thy ===== *)
theory Effects
  imports World
begin

text \<open>
  Two judgements on the reconcilers' programs, with one rule per construct. \<open>emits C m\<close>
  says that \<open>m\<close> only adds to the trace events that satisfy \<open>C\<close>;
  \<open>triple P m Q\<close> that \<open>m\<close>, started where \<open>P\<close> holds, ends with a
  result and a state where \<open>Q\<close> does. The rules are in \<open>emits_intros\<close> and
  \<open>triple_intros\<close>, so that a proof about a program follows its text.
\<close>

section \<open>Which events a program adds\<close>

definition emits :: "(event \<Rightarrow> bool) \<Rightarrow> ('o, 'e, 'a) go \<Rightarrow> bool" where
  "emits C m \<longleftrightarrow>
     (\<forall>s. \<exists>evs. stTrace (snd (run_state m s)) = stTrace s @ evs \<and> list_all C evs)"

lemma emitsD: "emits C m \<Longrightarrow> \<exists>evs. stTrace (snd (run_state m s)) = stTrace s @ evs \<and> list_all C evs"
  by (simp add: emits_def)

lemma emits_mono: "emits C m \<Longrightarrow> (\<And>ev. C ev \<Longrightarrow> D ev) \<Longrightarrow> emits D m"
  unfolding emits_def by (metis list.pred_mono_strong)

lemma emits_same: "(\<And>s. stTrace (snd (run_state m s)) = stTrace s) \<Longrightarrow> emits C m"
  by (simp add: emits_def exI [of _ "[]"])

lemma emits_return [emits_intros]: "emits C (State_Monad.return x)"
  by (rule emits_same) (simp add: State_Monad.return_def)

lemma emits_getObj [emits_intros]: "emits C getObj"
  by (rule emits_same) (simp add: getObj_def)

lemma emits_modObj [emits_intros]: "emits C (modObj f)"
  by (rule emits_same) (simp add: modObj_def)

lemma emits_envCall [emits_intros]: "emits C (envCall f)"
  by (rule emits_same) (simp add: envCall_def split: prod.split)

lemma emits_emit [emits_intros]: "C ev \<Longrightarrow> emits C (emit ev)"
  by (simp add: emits_def emit_def exI [of _ "[ev]"])

lemma emits_bind [emits_intros]:
  assumes "emits C m" and "\<And>x. emits C (f x)"
  shows "emits C (State_Monad.bind m f)"
  unfolding emits_def
proof
  fix s
  obtain a s1 where r: "run_state m s = (a, s1)" by (cases "run_state m s")
  obtain evs where "stTrace s1 = stTrace s @ evs" "list_all C evs"
    using emitsD [OF assms(1), of s] r by auto
  moreover obtain evs' where "stTrace (snd (run_state (f a) s1)) = stTrace s1 @ evs'" "list_all C evs'"
    using emitsD [OF assms(2)] by blast
  ultimately show "\<exists>evs. stTrace (snd (run_state (State_Monad.bind m f) s)) = stTrace s @ evs \<and> list_all C evs"
    by (auto simp: State_Monad.bind_def r intro!: exI [of _ "evs @ evs'"])
qed

lemma emits_if [emits_intros]:
  "(b \<Longrightarrow> emits C m) \<Longrightarrow> (\<not> b \<Longrightarrow> emits C n) \<Longrightarrow> emits C (if b then m else n)"
  by simp

lemma emits_option [emits_intros]:
  "(x = None \<Longrightarrow> emits C m) \<Longrightarrow> (\<And>y. x = Some y \<Longrightarrow> emits C (f y)) \<Longrightarrow>
     emits C (case x of None \<Rightarrow> m | Some y \<Rightarrow> f y)"
  by (cases x) auto

lemma emits_sum [emits_intros]:
  "(\<And>y. x = Inl y \<Longrightarrow> emits C (f y)) \<Longrightarrow> (\<And>z. x = Inr z \<Longrightarrow> emits C (g z)) \<Longrightarrow>
     emits C (case x of Inl y \<Rightarrow> f y | Inr z \<Rightarrow> g z)"
  by (cases x) auto

lemma emits_prod [emits_intros]:
  "(\<And>a b. x = (a, b) \<Longrightarrow> emits C (f a b)) \<Longrightarrow> emits C (case x of (a, b) \<Rightarrow> f a b)"
  by (cases x) auto

lemma emits_let [emits_intros]: "emits C (f x) \<Longrightarrow> emits C (Let x f)"
  by simp

lemma emits_unlessNone [emits_intros]:
  "emits C m \<Longrightarrow> emits C n \<Longrightarrow> emits C (unlessNone m n)"
  unfolding unlessNone_def by (intro emits_intros)

section \<open>What holds after a program\<close>

definition triple :: "(('o, 'e) rstate \<Rightarrow> bool) \<Rightarrow> ('o, 'e, 'a) go \<Rightarrow> ('a \<Rightarrow> ('o, 'e) rstate \<Rightarrow> bool) \<Rightarrow> bool" where
  "triple P m Q \<longleftrightarrow> (\<forall>s. P s \<longrightarrow> Q (fst (run_state m s)) (snd (run_state m s)))"

lemma tripleD: "triple P m Q \<Longrightarrow> P s \<Longrightarrow> run_state m s = (a, s') \<Longrightarrow> Q a s'"
  unfolding triple_def by fastforce

lemma triple_pre: "triple P m Q \<Longrightarrow> (\<And>s. P' s \<Longrightarrow> P s) \<Longrightarrow> triple P' m Q"
  by (auto simp: triple_def)

lemma triple_post: "triple P m Q \<Longrightarrow> (\<And>a s. Q a s \<Longrightarrow> Q' a s) \<Longrightarrow> triple P m Q'"
  by (auto simp: triple_def)

lemma triple_conj: "triple P m Q \<Longrightarrow> triple P m R \<Longrightarrow> triple P m (\<lambda>a s. Q a s \<and> R a s)"
  by (auto simp: triple_def)

lemma triple_return [triple_intros]: "(\<And>s. P s \<Longrightarrow> Q x s) \<Longrightarrow> triple P (State_Monad.return x) Q"
  by (simp add: triple_def State_Monad.return_def)

lemma triple_False: "triple (\<lambda>s. False) m Q"
  by (simp add: triple_def)

lemma triple_getObj: "triple P getObj (\<lambda>a s. P s \<and> a = stObj s)"
  by (simp add: triple_def getObj_def)

lemma triple_bind:
  assumes "triple P m Q" and "\<And>x. triple (Q x) (f x) R"
  shows "triple P (State_Monad.bind m f) R"
  using assms by (auto simp: triple_def State_Monad.bind_def split: prod.split)

lemma triple_if [triple_intros]:
  "(b \<Longrightarrow> triple P m Q) \<Longrightarrow> (\<not> b \<Longrightarrow> triple P n Q) \<Longrightarrow> triple P (if b then m else n) Q"
  by simp

lemma triple_option [triple_intros]:
  "(x = None \<Longrightarrow> triple P m Q) \<Longrightarrow> (\<And>y. x = Some y \<Longrightarrow> triple P (f y) Q) \<Longrightarrow>
     triple P (case x of None \<Rightarrow> m | Some y \<Rightarrow> f y) Q"
  by (cases x) auto

lemma triple_sum [triple_intros]:
  "(\<And>y. x = Inl y \<Longrightarrow> triple P (f y) Q) \<Longrightarrow> (\<And>z. x = Inr z \<Longrightarrow> triple P (g z) Q) \<Longrightarrow>
     triple P (case x of Inl y \<Rightarrow> f y | Inr z \<Rightarrow> g z) Q"
  by (cases x) auto

lemma triple_prod [triple_intros]:
  "(\<And>a b. x = (a, b) \<Longrightarrow> triple P (f a b) Q) \<Longrightarrow> triple P (case x of (a, b) \<Rightarrow> f a b) Q"
  by (cases x) auto

lemma triple_let [triple_intros]: "triple P (f x) Q \<Longrightarrow> triple P (Let x f) Q"
  by simp

lemma triple_unlessNone:
  assumes "triple P m (\<lambda>r s. case r of None \<Rightarrow> R s | Some x \<Rightarrow> Q x s)" and "triple R n Q"
  shows "triple P (unlessNone m n) Q"
  unfolding unlessNone_def
  by (rule triple_bind [OF assms(1)])
    (use assms(2) in \<open>auto simp: triple_def State_Monad.return_def split: option.split\<close>)

text \<open>An assertion on the trace that more events of a class cannot break is kept.\<close>

lemma triple_emits:
  assumes "emits C m"
    and "\<And>tr evs. I tr \<Longrightarrow> list_all C evs \<Longrightarrow> I (tr @ evs)"
  shows "triple (\<lambda>s. I (stTrace s)) m (\<lambda>_ s. I (stTrace s))"
  unfolding triple_def using emitsD [OF assms(1)] assms(2) by metis

section \<open>Orders of events\<close>

text \<open>Every event of \<open>Q\<close> has an event of \<open>P\<close> before it.\<close>

fun precededFrom :: "bool \<Rightarrow> (event \<Rightarrow> bool) \<Rightarrow> (event \<Rightarrow> bool) \<Rightarrow> event list \<Rightarrow> bool" where
  "precededFrom b P Q [] = True"
| "precededFrom b P Q (ev # evs) = ((Q ev \<longrightarrow> b) \<and> precededFrom (b \<or> P ev) P Q evs)"

abbreviation preceded :: "(event \<Rightarrow> bool) \<Rightarrow> (event \<Rightarrow> bool) \<Rightarrow> event list \<Rightarrow> bool" where
  "preceded P Q evs \<equiv> precededFrom False P Q evs"

lemma precededFrom_append:
  "precededFrom b P Q (as @ bs) =
     (precededFrom b P Q as \<and> precededFrom (b \<or> list_ex P as) P Q bs)"
  by (induction as arbitrary: b) auto

lemma precededFrom_True [simp]: "precededFrom True P Q evs"
  by (induction evs) auto

lemma precededFrom_none: "list_all (\<lambda>ev. \<not> Q ev) evs \<Longrightarrow> precededFrom b P Q evs"
  by (induction evs arbitrary: b) auto

lemma preceded_iff:
  "preceded P Q evs \<longleftrightarrow> (\<forall>i < length evs. Q (evs ! i) \<longrightarrow> (\<exists>j < i. P (evs ! j)))"
proof (induction evs rule: rev_induct)
  case Nil
  then show ?case by simp
next
  case (snoc x xs)
  have ex: "list_ex P xs \<longleftrightarrow> (\<exists>j < length xs. P (xs ! j))"
    unfolding list_ex_iff by (metis in_set_conv_nth)
  show ?case
    unfolding precededFrom_append snoc.IH ex length_append_singleton All_less_Suc
    by (auto simp: nth_append) (meson less_trans)+
qed

text \<open>Before the first \<open>P\<close> event a program must not add \<open>Q\<close> events; afterwards it may.\<close>

lemma triple_preceded_before:
  "emits (\<lambda>ev. \<not> Q ev) m \<Longrightarrow>
     triple (\<lambda>s. preceded P Q (stTrace s)) m (\<lambda>_ s. preceded P Q (stTrace s))"
  by (rule triple_emits) (auto simp: precededFrom_append precededFrom_none)

lemma triple_preceded_after:
  assumes "emits (\<lambda>_. True) m"
  shows "triple (\<lambda>s. preceded P Q (stTrace s) \<and> list_ex P (stTrace s)) m
     (\<lambda>_ s. preceded P Q (stTrace s) \<and> list_ex P (stTrace s))"
  by (rule triple_emits [OF assms]) (auto simp: precededFrom_append)

text \<open>The trace of a run.\<close>

definition traceOf :: "('o, 'e, 'a) go \<Rightarrow> ('o, 'e) rstate \<Rightarrow> event list" where
  "traceOf m s = stTrace (snd (run_state m s))"

end
