(* ===== verification/HarborClient.thy ===== *)
theory HarborClient
  imports Effects
begin

text \<open>
  The Harbor HTTP client (\<^verbatim>\<open>internal/harborclient/client.go\<close>, util.go and
  ping.go) and the metrics it reports (\<^verbatim>\<open>internal/metrics/harbor.go\<close>). A
  request body is the text of a document, a response body is read as the Go decoder reads it. The
  request duration is not modelled. \<open>getPaged\<close> is a loop that a server can keep going for
  ever, so it has fuel: see the lemmas at its end for when it returns.
\<close>

section \<open>Metrics\<close>

definition observeHarborRequest :: "string \<Rightarrow> string \<Rightarrow> int \<Rightarrow> ('o, 'e, unit) go" where
  "observeHarborRequest method endpoint status =
     emit (EvMetric method endpoint (if 0 < status then goItoa status else ''error''))"

section \<open>Endpoint labels\<close>

text \<open>
  The two path patterns and the number pattern, on the segments between slashes. The dot of the
  first pattern does not match a line feed.
\<close>

definition projectPathSegment :: "string list \<Rightarrow> string list" where
  "projectPathSegment segs =
     (case segs of
        a # b # c # d # x # t # rest \<Rightarrow>
          if [a, b, c, d] = [[], ''api'', ''v2.0'', ''projects''] \<and> x \<noteq> [] \<and>
             t \<in> set [''immutabletagrules'', ''members'', ''webhook''] \<and>
             list_all (\<lambda>p. CHR 0x0A \<notin> set p) rest
          then a # b # c # d # '':project'' # t # rest else segs
      | _ \<Rightarrow> segs)"

definition scannerPathSegment :: "string list \<Rightarrow> string list" where
  "scannerPathSegment segs =
     (case segs of
        [a, b, c, d, x] \<Rightarrow>
          if [a, b, c, d] = [[], ''api'', ''v2.0'', ''scanners''] \<and> x \<noteq> []
          then [a, b, c, d, '':scanner''] else segs
      | _ \<Rightarrow> segs)"

definition numberPathSegment :: "string \<Rightarrow> bool" where
  "numberPathSegment s = (s \<noteq> [] \<and> list_all goIsDigit s)"

definition normalizeEndpoint :: "string \<Rightarrow> string" where
  "normalizeEndpoint relURL =
     (let endpoint = takeWhile (\<lambda>c. c \<noteq> CHR ''?'') relURL;
          segments = scannerPathSegment (projectPathSegment (goSplit CHR ''/'' endpoint))
      in goJoin ''/'' (map (\<lambda>s. if numberPathSegment s then '':id'' else s) segments))"

section \<open>Errors\<close>

definition isStatus :: "gerror option \<Rightarrow> int \<Rightarrow> bool" where
  "isStatus err code = (case err of Some (HTTPError s _) \<Rightarrow> s = code | _ \<Rightarrow> False)"

definition IsNotFound :: "gerror option \<Rightarrow> bool" where
  "IsNotFound err = isStatus err 404"

definition IsConflict :: "gerror option \<Rightarrow> bool" where
  "IsConflict err = isStatus err 409"

definition IsForbidden :: "gerror option \<Rightarrow> bool" where
  "IsForbidden err = isStatus err 403"

section \<open>Requests\<close>

record harborClient =
  hcBaseURL :: string
  hcHTTPClient :: httpClient
  hcUsername :: string
  hcPassword :: string

definition defaultHTTPClient :: httpClient where
  "defaultHTTPClient = \<lparr>htTimeout = 30000000000, htRootCAs = None\<rparr>"

definition defaultListPageSize :: int where
  "defaultListPageSize = 100"

definition newWithHTTPClient :: "string \<Rightarrow> string \<Rightarrow> string \<Rightarrow> httpClient \<Rightarrow> harborClient" where
  "newWithHTTPClient baseURL user pass httpClient =
     \<lparr>hcBaseURL = goTrimRight baseURL CHR ''/'', hcHTTPClient = httpClient,
      hcUsername = user, hcPassword = pass\<rparr>"

definition newClient :: "string \<Rightarrow> string \<Rightarrow> string \<Rightarrow> harborClient" where
  "newClient baseURL user pass = newWithHTTPClient baseURL user pass defaultHTTPClient"

text \<open>
  The deferred function of \<open>do\<close>: the body is closed when the named result
  \<^verbatim>\<open>resp\<close> is not nil, that is on the two successful returns only, and an error
  of \<^verbatim>\<open>Close\<close> becomes the error of the call.
\<close>

definition closeBody :: "httpResponse \<Rightarrow> 'a option \<Rightarrow> ('o, 'e, gerror + httpResponse \<times> 'a option) go" where
  "closeBody resp out =
     do { _ \<leftarrow> emit EvClose;
          State_Monad.return
            (case respCloseError resp of Some msg \<Rightarrow> Inl (TransportError msg) | None \<Rightarrow> Inr (resp, out)) }"

text \<open>
  \<open>do\<close>: the body is the document to send, if any, \<open>out\<close> the decoder of the result, if
  the caller wants one; the value is \<open>None\<close> when the response has no document.
\<close>

definition clientDo :: "'e services \<Rightarrow> harborClient \<Rightarrow> string \<Rightarrow> string \<Rightarrow> json option \<Rightarrow> 'a decoder option \<Rightarrow>
    ('o, 'e, gerror + httpResponse \<times> 'a option) go" where
  "clientDo S c method relURL body out =
     do { let endpointLabel = normalizeEndpoint relURL;
          let req = \<lparr>reqMethod = method, reqURL = hcBaseURL c @ relURL,
                     reqUsername = hcUsername c, reqPassword = hcPassword c,
                     reqContentType = ''application/json'',
                     reqBody = map_option jsonPrint body\<rparr>;
          r \<leftarrow> httpDo S (hcHTTPClient c) req;
          case r of
            Inl failure \<Rightarrow>
              (case failure of
                 NewRequestFailed msg \<Rightarrow> State_Monad.return (Inl (TransportError msg))
               | DoFailed msg \<Rightarrow>
                   do { _ \<leftarrow> observeHarborRequest method endpointLabel 0;
                        State_Monad.return (Inl (TransportError msg)) })
          | Inr resp \<Rightarrow>
              do { _ \<leftarrow> observeHarborRequest method endpointLabel (respStatus resp);
                   if respStatus resp < 200 \<or> 300 \<le> respStatus resp
                   then State_Monad.return (Inl (HTTPError (respStatus resp) (goTrimSpace (respBody resp))))
                   else (case out of
                           None \<Rightarrow> closeBody resp None
                         | Some dec \<Rightarrow>
                             if respContentLength resp = 0 then closeBody resp None
                             else (case decoderRead (respBody resp) of
                                     JsonEOF \<Rightarrow> closeBody resp None
                                   | JsonBad \<Rightarrow> State_Monad.return (Inl JSONError)
                                   | JsonValue v \<Rightarrow>
                                       (case dec v of
                                          None \<Rightarrow> State_Monad.return (Inl JSONError)
                                        | Some x \<Rightarrow> closeBody resp (Some x)))) } }"

definition noOut :: "unit decoder option" where
  "noOut = None"

text \<open>A \<^verbatim>\<open>GET\<close> whose result variable keeps its zero value without a document.\<close>

definition clientGet :: "'e services \<Rightarrow> harborClient \<Rightarrow> string \<Rightarrow> 'a decoder \<Rightarrow> ('o, 'e, gerror + 'a) go" where
  "clientGet S c relURL out =
     do { r \<leftarrow> clientDo S c ''GET'' relURL None (Some out);
          State_Monad.return
            (case r of
               Inl e \<Rightarrow> Inl e
             | Inr (resp, v) \<Rightarrow>
                 (case (case v of Some x \<Rightarrow> Some x | None \<Rightarrow> out JNull) of
                    Some x \<Rightarrow> Inr x | None \<Rightarrow> Inl JSONError)) }"

definition errOf :: "gerror + 'a \<Rightarrow> gerror option" where
  "errOf r = (case r of Inl e \<Rightarrow> Some e | Inr _ \<Rightarrow> None)"

definition clientPost :: "'e services \<Rightarrow> harborClient \<Rightarrow> string \<Rightarrow> json \<Rightarrow> ('o, 'e, gerror option) go" where
  "clientPost S c relURL body =
     do { r \<leftarrow> clientDo S c ''POST'' relURL (Some body) noOut; State_Monad.return (errOf r) }"

definition clientPut :: "'e services \<Rightarrow> harborClient \<Rightarrow> string \<Rightarrow> json \<Rightarrow> ('o, 'e, gerror option) go" where
  "clientPut S c relURL body =
     do { r \<leftarrow> clientDo S c ''PUT'' relURL (Some body) noOut; State_Monad.return (errOf r) }"

definition clientPatch :: "'e services \<Rightarrow> harborClient \<Rightarrow> string \<Rightarrow> json \<Rightarrow> 'a decoder option \<Rightarrow>
    ('o, 'e, gerror option) go" where
  "clientPatch S c relURL body out =
     do { r \<leftarrow> clientDo S c ''PATCH'' relURL (Some body) out; State_Monad.return (errOf r) }"

section \<open>Location headers (util.go)\<close>

definition extractLocationID :: "httpResponse \<Rightarrow> gerror + int" where
  "extractLocationID resp =
     (let loc = headerGet resp ''Location''
      in if loc = [] then Inl (ErrMsg ''no Location header'')
         else case goAtoi (goPathBase loc) of
                None \<Rightarrow> Inl (ErrWrap (''parse Location '' @ goQuote loc @ '': '')
                               (ErrMsg (goAtoiError (goPathBase loc))))
              | Some n \<Rightarrow> Inr n)"

definition extractLocationIDString :: "httpResponse \<Rightarrow> gerror + string" where
  "extractLocationIDString resp =
     (let loc = headerGet resp ''Location''
      in if loc = [] then Inl (ErrMsg ''no Location header'') else Inr (goPathBase loc))"

definition createWithNumericLocationID :: "'e services \<Rightarrow> harborClient \<Rightarrow> string \<Rightarrow> json \<Rightarrow> ('o, 'e, gerror + int) go" where
  "createWithNumericLocationID S c relURL body =
     do { r \<leftarrow> clientDo S c ''POST'' relURL (Some body) noOut;
          State_Monad.return
            (case r of Inl e \<Rightarrow> Inl e | Inr (resp, _) \<Rightarrow> extractLocationID resp) }"

definition createWithStringLocationID :: "'e services \<Rightarrow> harborClient \<Rightarrow> string \<Rightarrow> json \<Rightarrow> ('o, 'e, gerror + string) go" where
  "createWithStringLocationID S c relURL body =
     do { r \<leftarrow> clientDo S c ''POST'' relURL (Some body) noOut;
          State_Monad.return
            (case r of Inl e \<Rightarrow> Inl e | Inr (resp, _) \<Rightarrow> extractLocationIDString resp) }"

definition deleteIgnoringNotFound :: "'e services \<Rightarrow> harborClient \<Rightarrow> string \<Rightarrow>
    (gerror option \<Rightarrow> bool) option list \<Rightarrow> ('o, 'e, gerror option) go" where
  "deleteIgnoringNotFound S c relURL ignoreFns =
     do { r \<leftarrow> clientDo S c ''DELETE'' relURL None noOut;
          let err = errOf r;
          State_Monad.return
            (if IsNotFound err then None
             else if list_ex (\<lambda>fn. case fn of None \<Rightarrow> False | Some ignoreFn \<Rightarrow> ignoreFn err) ignoreFns then None
             else err) }"

section \<open>Query strings\<close>

text \<open>A \<^verbatim>\<open>url.Values\<close> is a map from keys to lists of values.\<close>

type_synonym urlValues = "(string \<times> string list) list"

definition valuesSet :: "string \<Rightarrow> string \<Rightarrow> urlValues \<Rightarrow> urlValues" where
  "valuesSet key v values = AList.update key [v] values"

definition valuesAdd :: "string \<Rightarrow> string \<Rightarrow> urlValues \<Rightarrow> urlValues" where
  "valuesAdd key v values =
     AList.update key ((case map_of values key of None \<Rightarrow> [] | Some vs \<Rightarrow> vs) @ [v]) values"

definition cloneValues :: "urlValues \<Rightarrow> urlValues" where
  "cloneValues values =
     fold (\<lambda>(key, vals) cloned. fold (\<lambda>v m. valuesAdd key v m) vals cloned) values []"

definition hexUpper :: "nat \<Rightarrow> char" where
  "hexUpper d = (if d < 10 then char_of (48 + d) else char_of (55 + d))"

definition queryEscapeChar :: "char \<Rightarrow> string" where
  "queryEscapeChar c =
     (if goIsDigit c \<or> (CHR ''a'' \<le> c \<and> c \<le> CHR ''z'') \<or> (CHR ''A'' \<le> c \<and> c \<le> CHR ''Z'') \<or>
         c \<in> set ''-_.~'' then [c]
      else if c = CHR '' '' then ''+''
      else [CHR ''%'', hexUpper (of_char c div 16), hexUpper (of_char c mod 16)])"

definition queryEscape :: "string \<Rightarrow> string" where
  "queryEscape s = concat (map queryEscapeChar s)"

definition valuesEncode :: "urlValues \<Rightarrow> string" where
  "valuesEncode values =
     goJoin ''&''
       (concat (map (\<lambda>(key, vs). map (\<lambda>v. queryEscape key @ ''='' @ queryEscape v) vs)
          (sortSlice (\<lambda>a b. fst a < fst b) values)))"

definition pathWithQuery :: "string \<Rightarrow> urlValues \<Rightarrow> string" where
  "pathWithQuery path values = (if values = [] then path else path @ ''?'' @ valuesEncode values)"

section \<open>Paging\<close>

definition hasNextPage :: "httpResponse option \<Rightarrow> int \<Rightarrow> int \<Rightarrow> bool" where
  "hasNextPage resp currentCount totalFetched =
     (case (case resp of None \<Rightarrow> None | Some r \<Rightarrow> goAtoi (headerGet r ''X-Total-Count'')) of
        Some n \<Rightarrow> totalFetched < n
      | None \<Rightarrow> currentCount = defaultListPageSize)"

definition pageURL :: "string \<Rightarrow> urlValues \<Rightarrow> int \<Rightarrow> string" where
  "pageURL path baseValues page =
     pathWithQuery path
       (valuesSet ''page_size'' (goItoa defaultListPageSize)
         (valuesSet ''page'' (goItoa page) (cloneValues baseValues)))"

fun getPagedLoop :: "nat \<Rightarrow> 'e services \<Rightarrow> harborClient \<Rightarrow> 'a decoder \<Rightarrow> string \<Rightarrow> urlValues \<Rightarrow> int \<Rightarrow>
    'a list \<Rightarrow> ('o, 'e, gerror + 'a list) go" where
  "getPagedLoop 0 S c dec path baseValues page out = State_Monad.return (Inl LoopBound)"
| "getPagedLoop (Suc n) S c dec path baseValues page out =
     do { r \<leftarrow> clientDo S c ''GET'' (pageURL path baseValues page) None (Some (decList dec));
          case r of
            Inl e \<Rightarrow> State_Monad.return (Inl e)
          | Inr (resp, v) \<Rightarrow>
              do { let current = (case v of None \<Rightarrow> [] | Some xs \<Rightarrow> xs);
                   let out' = out @ current;
                   if \<not> hasNextPage (Some resp) (int (length current)) (int (length out'))
                   then State_Monad.return (Inr out')
                   else getPagedLoop n S c dec path baseValues (page + 1) out' } }"

definition getPaged :: "'e services \<Rightarrow> harborClient \<Rightarrow> 'a decoder \<Rightarrow> string \<Rightarrow> urlValues \<Rightarrow>
    ('o, 'e, gerror + 'a list) go" where
  "getPaged S c dec path values =
     getPagedLoop (svcPageFuel S) S c dec path (cloneValues values) 1 []"

section \<open>Ping (ping.go)\<close>

definition Ping :: "'e services \<Rightarrow> harborClient \<Rightarrow> ('o, 'e, gerror option) go" where
  "Ping S c =
     do { r \<leftarrow> clientDo S c ''GET'' ''/api/v2.0/ping'' None noOut;
          State_Monad.return
            (case errOf r of
               Some (HTTPError code msg) \<Rightarrow> if code = 401 \<or> code = 200 then None else errOf r
             | _ \<Rightarrow> errOf r) }"

definition CheckAuthentication :: "'e services \<Rightarrow> harborClient \<Rightarrow> ('o, 'e, gerror option) go" where
  "CheckAuthentication S c =
     do { r \<leftarrow> clientGet S c ''/api/v2.0/users/current/permissions'' (decList (decObj (\<lambda>_. Some ())));
          State_Monad.return (errOf r) }"

end
