(* ===== verification/ExampleWorld.thy ===== *)
theory ExampleWorld
  imports World
begin

text \<open>
  One concrete outside world, for the theorems that apply a property at a concrete input: the
  condition and finalizer functions of \<^verbatim>\<open>apimachinery\<close> as their documentation
  describes them, and a cluster without any object. The examples override single services of it.
\<close>

section \<open>Conditions and finalizers\<close>

definition exFindCondition :: "condition list \<Rightarrow> string \<Rightarrow> condition option" where
  "exFindCondition cs t = find (\<lambda>c. condType c = t) cs"

fun exSetCondition :: "condition list \<Rightarrow> condition \<Rightarrow> condition list" where
  "exSetCondition [] c = [c]"
| "exSetCondition (d # ds) c =
     (if condType d = condType c
      then (if condStatus d = condStatus c
            then c\<lparr>condLastTransitionTime := condLastTransitionTime d\<rparr> else c) # ds
      else d # exSetCondition ds c)"

definition exMachinery :: apimachinery where
  "exMachinery =
     \<lparr>amFindStatusCondition = exFindCondition,
      amSetStatusCondition = exSetCondition,
      amIsStatusConditionTrue = (\<lambda>cs t. list_ex (\<lambda>c. condType c = t \<and> condStatus c = ''True'') cs),
      amContainsFinalizer = (\<lambda>m f. f \<in> set (metaFinalizers m)),
      amAddFinalizer = (\<lambda>m f. if f \<in> set (metaFinalizers m) then m
                              else m\<lparr>metaFinalizers := metaFinalizers m @ [f]\<rparr>),
      amRemoveFinalizer = (\<lambda>m f. m\<lparr>metaFinalizers := filter (\<lambda>g. g \<noteq> f) (metaFinalizers m)\<rparr>)\<rparr>"

lemma exFind_set_same: "\<exists>c'. exFindCondition (exSetCondition cs c) (condType c) = Some c' \<and> sameCondition c' c"
  by (induction cs) (auto simp: exFindCondition_def sameCondition_def)

lemma exFind_set_other:
  "t \<noteq> condType c \<Longrightarrow> exFindCondition (exSetCondition cs c) t = exFindCondition cs t"
  by (induction cs) (auto simp: exFindCondition_def)

lemma lawful_exMachinery: "lawfulConditions exMachinery" "lawfulFinalizers exMachinery"
proof -
  show "lawfulConditions exMachinery"
    using exFind_set_same exFind_set_other
    by (auto simp: lawfulConditions_def exMachinery_def) (auto simp: exFindCondition_def find_Some_iff)
  show "lawfulFinalizers exMachinery"
    by (auto simp: lawfulFinalizers_def exMachinery_def intro: exI [of _ "metaFinalizers m" for m])
      (metis objectMeta.surjective objectMeta.update_convs(7) insert_absorb)+
qed

section \<open>An empty cluster\<close>

definition noObject :: "nsName \<Rightarrow> 'e \<Rightarrow> (gerror + 'a) \<times> 'e" where
  "noObject key e = (Inl (KubeError KubeNotFound (snd key @ '' not found'')), e)"

definition emptyCluster :: "'e services" where
  "emptyCluster =
     \<lparr>svcHTTP = (\<lambda>hc req e. (Inl (DoFailed ''connection refused''), e)),
      svcNow = (\<lambda>e. (0, e)),
      svcValidPEM = (\<lambda>pem. pem \<noteq> []),
      svcURLScheme = (\<lambda>s. Inr (urlScheme s)),
      svcMachinery = exMachinery,
      svcPageFuel = 100,
      svcGetConnection = noObject,
      svcGetClusterConnection = noObject,
      svcGetRegistry = noObject,
      svcGetProject = noObject,
      svcGetUser = noObject,
      svcGetUserGroup = noObject,
      svcListMembers = (\<lambda>e. (Inr [], e)),
      svcGetSecret = noObject,
      svcCreateSecret = (\<lambda>sec e. (None, e)),
      svcUpdateSecret = (\<lambda>sec e. (None, e))\<rparr>"

text \<open>A response with a JSON document, and a server that answers every request with it.\<close>

definition jsonResponse :: "int \<Rightarrow> stringMap \<Rightarrow> json \<Rightarrow> httpResponse" where
  "jsonResponse status headers doc =
     \<lparr>respStatus = status, respHeaders = headers, respContentLength = -1, respBody = jsonPrint doc,
      respCloseError = None\<rparr>"

lemma jsonResponse_simps [simp]:
  "respStatus (jsonResponse st hs doc) = st" "respHeaders (jsonResponse st hs doc) = hs"
  "respContentLength (jsonResponse st hs doc) = -1" "respBody (jsonResponse st hs doc) = jsonPrint doc"
  "respCloseError (jsonResponse st hs doc) = None"
  by (simp_all add: jsonResponse_def)

definition exMeta :: "string \<Rightarrow> string \<Rightarrow> objectMeta" where
  "exMeta namespace name =
     \<lparr>metaName = name, metaNamespace = namespace, metaUID = ''uid-'' @ name, metaGeneration = 1,
      metaDeletionTimestamp = None, metaCreationTimestamp = 0, metaFinalizers = [],
      metaLabels = None, metaAnnotations = None\<rparr>"

lemma exMeta_simps [simp]:
  "metaName (exMeta ns n) = n" "metaNamespace (exMeta ns n) = ns" "metaUID (exMeta ns n) = ''uid-'' @ n"
  "metaGeneration (exMeta ns n) = 1" "metaDeletionTimestamp (exMeta ns n) = None"
  "metaFinalizers (exMeta ns n) = []" "metaLabels (exMeta ns n) = None"
  "metaAnnotations (exMeta ns n) = None" "metaCreationTimestamp (exMeta ns n) = 0"
  by (simp_all add: exMeta_def)

text \<open>A start state with nothing in the trace.\<close>

definition startState :: "'o \<Rightarrow> 'e \<Rightarrow> ('o, 'e) rstate" where
  "startState obj e = \<lparr>stObj = obj, stEnv = e, stTrace = []\<rparr>"

lemma startState_simps [simp]:
  "stObj (startState obj e) = obj" "stEnv (startState obj e) = e" "stTrace (startState obj e) = []"
  by (simp_all add: startState_def)

end
