(* ===== verification/ClientProperties.thy ===== *)
theory ClientProperties
  imports HarborClientFacts
begin

text \<open>
  Properties of the Harbor client beyond paging: what one call leaves in the trace, the endpoint
  labels of the metrics, and the ids in \<^verbatim>\<open>Location\<close> headers.
\<close>

section \<open>One call\<close>

text \<open>The response is a success whose document the caller can use.\<close>

definition usableBody :: "httpResponse \<Rightarrow> 'a decoder option \<Rightarrow> bool" where
  "usableBody resp out \<longleftrightarrow>
     is2xx resp \<and>
     (case out of
        None \<Rightarrow> True
      | Some dec \<Rightarrow> respContentLength resp = 0 \<or>
          (case decoderRead (respBody resp) of JsonEOF \<Rightarrow> True | JsonBad \<Rightarrow> False | JsonValue v \<Rightarrow> dec v \<noteq> None))"

text \<open>
  C20. What a call of the client leaves: the one request with its method, URL and credentials, one
  observation under the endpoint's label and the response's status, and the closing of the body. The
  body is closed exactly on success: on a status outside 2xx, and when the document cannot be decoded,
  the call fails and the body stays open.
\<close>

theorem clientDo_trace:
  "traceOf (clientDo S c method relURL body out) (startState obj e) =
     (let req = requestFor c method relURL body in
      case fst (svcHTTP S (hcHTTPClient c) req e) of
        Inl (NewRequestFailed msg) \<Rightarrow> []
      | Inl (DoFailed msg) \<Rightarrow>
          [EvHttp (hcHTTPClient c) req None, EvMetric method (normalizeEndpoint relURL) ''error'']
      | Inr resp \<Rightarrow>
          [EvHttp (hcHTTPClient c) req (Some (respStatus resp)),
           EvMetric method (normalizeEndpoint relURL)
             (if 0 < respStatus resp then goItoa (respStatus resp) else ''error'')] @
          (if usableBody resp out then [EvClose] else [])) \<and>
   (isl (fst (run_state (clientDo S c method relURL body out) (startState obj e))) =
     (case fst (svcHTTP S (hcHTTPClient c) (requestFor c method relURL body) e) of
        Inl failure \<Rightarrow> True
      | Inr resp \<Rightarrow> \<not> (usableBody resp out \<and> respCloseError resp = None)))"
proof -
  obtain q e' where h: "svcHTTP S (hcHTTPClient c) (requestFor c method relURL body) e = (q, e')"
    by (cases "svcHTTP S (hcHTTPClient c) (requestFor c method relURL body) e")
  show ?thesis
  proof (cases q)
    case (Inl f)
    then show ?thesis
      using run_httpDo_Inl [of S "hcHTTPClient c" "requestFor c method relURL body" "startState obj e" f e'] h
      by (cases f) (simp_all add: traceOf_def clientDo_def requestFor_def Let_def run_simps
          observeHarborRequest_def)
  next
    case (Inr resp)
    show ?thesis
    proof (cases "is2xx resp")
      case False
      then show ?thesis
        using run_clientDo_status [of S c "method" relURL body "startState obj e" resp e' out] h Inr
        by (simp add: traceOf_def metricOf_def usableBody_def Let_def)
    next
      case True
      then show ?thesis
        using run_httpDo_Inr [of S "hcHTTPClient c" "requestFor c method relURL body" "startState obj e" resp e'] h Inr
        by (auto simp: traceOf_def usableBody_def clientDo_def run_simps Let_def requestFor_def
            observeHarborRequest_def is2xx_def closeBody_def split: option.split jsonRead.split)
    qed
  qed
qed

section \<open>Location headers\<close>

text \<open>
  The id of a created resource comes back from the \<^verbatim>\<open>Location\<close> header: any
  URL that ends with a slash and the decimal text of a 64-bit id gives that id.
\<close>

lemma location_roundtrip:
  assumes "minInt64 \<le> n" "n \<le> maxInt64" "headerGet resp ''Location'' = base @ ''/'' @ goItoa n"
  shows "extractLocationID resp = Inr n \<and> extractLocationIDString resp = Inr (goItoa n)"
  using assms goPathBase_last [of "goItoa n" base] goItoa_no_slash goItoa_nonempty
  by (simp add: extractLocationID_def extractLocationIDString_def goAtoi_goItoa Let_def)

section \<open>Endpoint labels\<close>

definition hideNumber :: "string \<Rightarrow> string" where
  "hideNumber s = (if numberPathSegment s then '':id'' else s)"

lemma hideNumber_lit:
  assumes "\<not> numberPathSegment lit" and "lit \<noteq> '':id''"
  shows "(hideNumber s = lit) = (s = lit)" and "hideNumber lit = lit"
  using assms by (auto simp: hideNumber_def)

lemma numberPathSegment_lits:
  "\<not> numberPathSegment []" "\<not> numberPathSegment '':id''" "\<not> numberPathSegment '':project''"
  "\<not> numberPathSegment '':scanner''" "\<not> numberPathSegment ''api''" "\<not> numberPathSegment ''v2.0''"
  "\<not> numberPathSegment ''projects''" "\<not> numberPathSegment ''scanners''" "\<not> numberPathSegment ''registries''"
  "\<not> numberPathSegment ''immutabletagrules''" "\<not> numberPathSegment ''members''" "\<not> numberPathSegment ''webhook''"
  by (simp_all add: numberPathSegment_def goIsDigit_def)

lemma hideNumber_lits [simp]:
  "hideNumber [] = []" "hideNumber '':project'' = '':project''" "hideNumber '':scanner'' = '':scanner''"
  "hideNumber '':id'' = '':id''"
  "hideNumber ''api'' = ''api''" "hideNumber ''v2.0'' = ''v2.0''" "hideNumber ''projects'' = ''projects''"
  "hideNumber ''scanners'' = ''scanners''" "hideNumber ''registries'' = ''registries''"
  "hideNumber ''immutabletagrules'' = ''immutabletagrules''" "hideNumber ''members'' = ''members''"
  "hideNumber ''webhook'' = ''webhook''"
  by (simp_all only: hideNumber_def numberPathSegment_lits if_False)

lemma hideNumber_is_lit [simp]:
  "(hideNumber s = []) = (s = [])" "(hideNumber s = ''api'') = (s = ''api'')"
  "(hideNumber s = ''v2.0'') = (s = ''v2.0'')" "(hideNumber s = ''projects'') = (s = ''projects'')"
  "(hideNumber s = ''scanners'') = (s = ''scanners'')"
  "(hideNumber s = ''immutabletagrules'') = (s = ''immutabletagrules'')"
  "(hideNumber s = ''members'') = (s = ''members'')" "(hideNumber s = ''webhook'') = (s = ''webhook'')"
  by (rule hideNumber_lit, rule numberPathSegment_lits, simp)+

lemma numberPathSegment_clean: "numberPathSegment s \<Longrightarrow> c \<in> set s \<Longrightarrow> goIsDigit c"
  by (auto simp: numberPathSegment_def list_all_iff)

lemma hideNumber_keeps: "c \<in> {CHR 0x0A, CHR ''/'', CHR ''?''} \<Longrightarrow> (c \<in> set (hideNumber s)) = (c \<in> set s)"
  using numberPathSegment_clean [of s c] by (auto simp: hideNumber_def goIsDigit_def)

lemma hideNumber_idem [simp]: "hideNumber (hideNumber s) = hideNumber s"
  by (auto simp: hideNumber_def numberPathSegment_lits)

lemma hideNumber_noline:
  "list_all (\<lambda>p. CHR 0x0A \<notin> set p) (map hideNumber rest) = list_all (\<lambda>p. CHR 0x0A \<notin> set p) rest"
  by (simp add: list.pred_map comp_def hideNumber_keeps)

lemma projectPathSegment_short: "length segs < 6 \<Longrightarrow> projectPathSegment segs = segs"
  by (auto simp: projectPathSegment_def split: list.split)

lemma projectPathSegment_hide: "projectPathSegment (map hideNumber segs) = map hideNumber (projectPathSegment segs)"
proof (cases "length segs < 6")
  case False
  then obtain a b c d x t rest where "segs = a # b # c # d # x # t # rest"
    by (auto simp: not_less numeral_eq_Suc Suc_le_length_iff)
  then show ?thesis
    by (auto simp: projectPathSegment_def hideNumber_noline simp del: list.pred_map)
qed (simp add: projectPathSegment_short)


lemma scannerPathSegment_hide: "scannerPathSegment (map hideNumber segs) = map hideNumber (scannerPathSegment segs)"
proof (cases "length segs = 5")
  case True
  then obtain a b c d x where "segs = [a, b, c, d, x]"
    by (auto simp: numeral_eq_Suc length_Suc_conv)
  then show ?thesis by (simp add: scannerPathSegment_def)
qed (auto simp: scannerPathSegment_def split: list.split)

lemma segment_idem:
  "projectPathSegment (projectPathSegment segs) = projectPathSegment segs"
  "scannerPathSegment (scannerPathSegment segs) = scannerPathSegment segs"
  "scannerPathSegment segs = segs \<or> projectPathSegment (scannerPathSegment segs) = scannerPathSegment segs"
  by (auto simp: projectPathSegment_def scannerPathSegment_def split: list.split)

lemma projectPathSegment_shape: "projectPathSegment segs = segs \<or> scannerPathSegment (projectPathSegment segs) = projectPathSegment segs"
  by (auto simp: projectPathSegment_def scannerPathSegment_def split: list.split)

definition endpointSegments :: "string list \<Rightarrow> string list" where
  "endpointSegments segs = map hideNumber (scannerPathSegment (projectPathSegment segs))"

lemma endpointSegments_idem: "endpointSegments (endpointSegments segs) = endpointSegments segs"
  unfolding endpointSegments_def projectPathSegment_hide scannerPathSegment_hide
  using segment_idem [of segs] segment_idem [of "projectPathSegment segs"]
    segment_idem(2) [of "projectPathSegment segs"]
  by (auto simp: comp_def)

lemma endpointSegments_clean:
  assumes "\<forall>p \<in> set segs. CHR ''/'' \<notin> set p \<and> CHR ''?'' \<notin> set p" and "segs \<noteq> []"
  shows "\<forall>p \<in> set (endpointSegments segs). CHR ''/'' \<notin> set p \<and> CHR ''?'' \<notin> set p"
    and "endpointSegments segs \<noteq> []"
proof -
  have "\<forall>p \<in> set (scannerPathSegment (projectPathSegment segs)). CHR ''/'' \<notin> set p \<and> CHR ''?'' \<notin> set p"
    using assms(1) by (auto simp: projectPathSegment_def scannerPathSegment_def split: list.splits if_splits)
  then show "\<forall>p \<in> set (endpointSegments segs). CHR ''/'' \<notin> set p \<and> CHR ''?'' \<notin> set p"
    by (simp add: endpointSegments_def hideNumber_keeps)
  show "endpointSegments segs \<noteq> []"
    using assms(2) by (auto simp: endpointSegments_def projectPathSegment_def scannerPathSegment_def split: list.splits)
qed

lemma mem_goJoin: "p \<in> set ps \<Longrightarrow> x \<in> set p \<Longrightarrow> x \<in> set (goJoin sep ps)"
  by (induction sep ps rule: goJoin.induct) auto

lemma goSplit_subset: "p \<in> set (goSplit c s) \<Longrightarrow> x \<in> set p \<Longrightarrow> x \<in> set s"
  using mem_goJoin [of p "goSplit c s" x "[c]"] by (simp add: goJoin_goSplit)

lemma normalizeEndpoint_segments:
  "normalizeEndpoint u = goJoin ''/'' (endpointSegments (goSplit CHR ''/'' (takeWhile (\<lambda>c. c \<noteq> CHR ''?'') u)))"
  by (simp add: normalizeEndpoint_def endpointSegments_def Let_def hideNumber_def [abs_def])

lemma set_goJoin: "x \<in> set (goJoin sep ps) \<Longrightarrow> x \<in> set sep \<or> (\<exists>p \<in> set ps. x \<in> set p)"
  by (induction sep ps rule: goJoin.induct) auto

text \<open>
  The label under which requests are counted is a normal form: taking the label of a label
  changes nothing. It has no query, no segment that is a number, and no scanner id.
\<close>

lemma normalizeEndpoint_normal:
  "normalizeEndpoint (normalizeEndpoint u) = normalizeEndpoint u \<and>
   CHR ''?'' \<notin> set (normalizeEndpoint u) \<and>
   list_all (\<lambda>s. \<not> numberPathSegment s) (goSplit CHR ''/'' (normalizeEndpoint u))"
proof -
  define segs where "segs = goSplit CHR ''/'' (takeWhile (\<lambda>c. c \<noteq> CHR ''?'') u)"
  have "\<forall>p \<in> set segs. CHR ''/'' \<notin> set p \<and> CHR ''?'' \<notin> set p"
    unfolding segs_def using goSplit_no_sep goSplit_subset by (fastforce dest: set_takeWhileD)
  moreover have "segs \<noteq> []" by (simp add: segs_def)
  ultimately have clean: "\<forall>p \<in> set (endpointSegments segs). CHR ''/'' \<notin> set p \<and> CHR ''?'' \<notin> set p"
    and ne: "endpointSegments segs \<noteq> []" by (fact endpointSegments_clean)+
  have n: "normalizeEndpoint u = goJoin ''/'' (endpointSegments segs)"
    by (simp add: normalizeEndpoint_segments segs_def)
  have q: "CHR ''?'' \<notin> set (normalizeEndpoint u)"
    unfolding n using clean by (auto dest!: set_goJoin)
  have split: "goSplit CHR ''/'' (normalizeEndpoint u) = endpointSegments segs"
    unfolding n using clean ne by (intro goSplit_goJoin) auto
  have tw: "takeWhile (\<lambda>c. c \<noteq> CHR ''?'') (normalizeEndpoint u) = normalizeEndpoint u"
    using q by (auto simp: takeWhile_eq_all_conv)
  have "normalizeEndpoint (normalizeEndpoint u) = normalizeEndpoint u"
    unfolding normalizeEndpoint_segments [of "normalizeEndpoint u"] tw split endpointSegments_idem by (rule n [symmetric])
  moreover have "list_all (\<lambda>s. \<not> numberPathSegment s) (endpointSegments segs)"
    by (auto simp: endpointSegments_def list_all_iff hideNumber_def numberPathSegment_lits)
  ultimately show ?thesis using q split by simp
qed

text \<open>
  C21. Ids do not reach the labels: a numeric id, the project of a member, and a scanner's id are
  replaced, whatever the query.
\<close>

theorem endpoint_hides_ids:
  assumes "x \<noteq> []" "CHR ''/'' \<notin> set x" "CHR ''?'' \<notin> set x" "CHR 0x0A \<notin> set x" "0 \<le> n"
  shows "normalizeEndpoint (''/api/v2.0/registries/'' @ goItoa n @ ''?'' @ q) = ''/api/v2.0/registries/:id'' \<and>
     normalizeEndpoint (''/api/v2.0/projects/'' @ x @ ''/members/'' @ goItoa n @ ''?'' @ q) =
       ''/api/v2.0/projects/:project/members/:id'' \<and>
     normalizeEndpoint (''/api/v2.0/scanners/'' @ x @ ''?'' @ q) = ''/api/v2.0/scanners/:scanner''"
proof -
  have digits: "list_all goIsDigit (goItoa n)" "goItoa n \<noteq> []"
    using assms(5) goDigits_digits by (auto simp: goItoa_def)
  then have num: "numberPathSegment (goItoa n)" by (simp add: numberPathSegment_def)
  have free: "c \<notin> set (goItoa n)" if "\<not> goIsDigit c" for c
    using digits(1) that by (auto simp: list_all_iff)
  have cut: "takeWhile (\<lambda>c. c \<noteq> CHR ''?'') (a @ CHR ''?'' # q) = a" if "CHR ''?'' \<notin> set a" for a
    using that by (simp add: takeWhile_append)
  have pass: "takeWhile (\<lambda>c. c \<noteq> CHR ''?'') (x @ r) = x @ takeWhile (\<lambda>c. c \<noteq> CHR ''?'') r" for r
    by (rule takeWhile_append2) (use assms(3) in auto)
  have q: "CHR ''?'' \<notin> set (goItoa n)" "CHR ''/'' \<notin> set (goItoa n)" "CHR 0x0A \<notin> set (goItoa n)"
    by (rule free, simp add: goIsDigit_def)+
  have tw: "takeWhile (\<lambda>c. c \<noteq> CHR ''?'') (''/api/v2.0/registries/'' @ goItoa n @ ''?'' @ q) = ''/api/v2.0/registries/'' @ goItoa n"
    "takeWhile (\<lambda>c. c \<noteq> CHR ''?'') (''/api/v2.0/projects/'' @ x @ ''/members/'' @ goItoa n @ ''?'' @ q) =
       ''/api/v2.0/projects/'' @ x @ ''/members/'' @ goItoa n"
    "takeWhile (\<lambda>c. c \<noteq> CHR ''?'') (''/api/v2.0/scanners/'' @ x @ ''?'' @ q) = ''/api/v2.0/scanners/'' @ x"
    by (simp_all add: cut pass q assms)
  have sp: "goSplit CHR ''/'' (''/api/v2.0/registries/'' @ goItoa n) = [[], ''api'', ''v2.0'', ''registries'', goItoa n]"
    "goSplit CHR ''/'' (''/api/v2.0/projects/'' @ x @ ''/members/'' @ goItoa n) =
       [[], ''api'', ''v2.0'', ''projects'', x, ''members'', goItoa n]"
    "goSplit CHR ''/'' (''/api/v2.0/scanners/'' @ x) = [[], ''api'', ''v2.0'', ''scanners'', x]"
    by (simp_all add: goSplit_append_sep goSplit_single q assms)
  have hide: "hideNumber (goItoa n) = '':id''" by (simp add: hideNumber_def num)
  show ?thesis
    unfolding normalizeEndpoint_segments tw sp
    by (simp add: endpointSegments_def projectPathSegment_def scannerPathSegment_def hide q assms)
qed

lemma endpoint_hides_ids_witness:
  "normalizeEndpoint ''/api/v2.0/projects/web/members/17?x=1'' = ''/api/v2.0/projects/:project/members/:id''"
proof -
  have "goItoa 17 = ''17''" by code_simp
  then show ?thesis using endpoint_hides_ids [of "''web''" 17 "''x=1''"] by simp
qed

lemma location_roundtrip_witness:
  "extractLocationID (jsonResponse 201 [(''Location'', ''/api/v2.0/projects/42'')] JNull) = Inr 42"
proof -
  have "goItoa 42 = ''42''" by code_simp
  then show ?thesis
    using location_roundtrip [of 42 "jsonResponse 201 [(''Location'', ''/api/v2.0/projects/42'')] JNull" "''/api/v2.0/projects''"]
    by (simp add: minInt64_def maxInt64_def headerGet_def)
qed

end
