(* ===== verification/Conditions.thy ===== *)
theory Conditions
  imports Effects
begin

text \<open>
  The status conditions of every object (\<^verbatim>\<open>internal/controller/conditions.go\<close>)
  and the reflective cleaning of an empty connection reference that every write does first
  (\<^verbatim>\<open>sanitizeOptionalHarborConnectionRef\<close>, common.go). The pure functions take
  the clock readings of their three \<^verbatim>\<open>metav1.Now()\<close> calls.
\<close>

definition conditionReady :: string where
  "conditionReady = ''Ready''"

definition conditionReconciling :: string where
  "conditionReconciling = ''Reconciling''"

definition conditionStalled :: string where
  "conditionStalled = ''Stalled''"

lemma condition_names [simp]:
  "conditionReady \<noteq> conditionReconciling" "conditionReady \<noteq> conditionStalled"
  "conditionReconciling \<noteq> conditionStalled" "conditionReconciling \<noteq> conditionReady"
  "conditionStalled \<noteq> conditionReady" "conditionStalled \<noteq> conditionReconciling"
  by (simp_all add: conditionReady_def conditionReconciling_def conditionStalled_def)

definition mkCondition :: "string \<Rightarrow> string \<Rightarrow> string \<Rightarrow> string \<Rightarrow> int \<Rightarrow> int \<Rightarrow> condition" where
  "mkCondition t status reason message generation now =
     \<lparr>condType = t, condStatus = status, condReason = reason, condMessage = message,
      condObservedGeneration = generation, condLastTransitionTime = now\<rparr>"

lemma mkCondition_simps [simp]:
  "condType (mkCondition t st r m g n) = t" "condStatus (mkCondition t st r m g n) = st"
  "condReason (mkCondition t st r m g n) = r" "condMessage (mkCondition t st r m g n) = m"
  "condObservedGeneration (mkCondition t st r m g n) = g"
  by (simp_all add: mkCondition_def)

definition setCondition :: "apimachinery \<Rightarrow> condition list \<Rightarrow> condition \<Rightarrow> bool \<times> condition list" where
  "setCondition am conds cond =
     (case amFindStatusCondition am conds (condType cond) of
        None \<Rightarrow> (True, amSetStatusCondition am conds cond)
      | Some existing \<Rightarrow>
          if condStatus existing = condStatus cond \<and> condReason existing = condReason cond \<and>
             condMessage existing = condMessage cond \<and>
             condObservedGeneration existing = condObservedGeneration cond
          then (False, conds)
          else (True, amSetStatusCondition am conds cond))"

text \<open>
  \<open>markReconciling\<close> and \<open>markReady\<close> differ in the three conditions they set; the
  clock readings are those of the three calls.
\<close>

definition markConditions :: "apimachinery \<Rightarrow> int \<Rightarrow> condition \<times> condition \<times> condition \<Rightarrow>
    't harborStatusBase_scheme \<Rightarrow> bool \<times> 't harborStatusBase_scheme" where
  "markConditions am generation conds base =
     (case conds of (c1, c2, c3) \<Rightarrow>
        let changed0 = (observedGeneration base \<noteq> generation);
            (changed1, cs1) = setCondition am (conditions base) c1;
            (changed2, cs2) = setCondition am cs1 c2;
            (changed3, cs3) = setCondition am cs2 c3
        in (changed3 \<or> changed2 \<or> changed1 \<or> changed0,
            base\<lparr>observedGeneration := generation, conditions := cs3\<rparr>))"

definition markReconciling :: "apimachinery \<Rightarrow> int \<times> int \<times> int \<Rightarrow> int \<Rightarrow> string \<Rightarrow> string \<Rightarrow>
    't harborStatusBase_scheme \<Rightarrow> bool \<times> 't harborStatusBase_scheme" where
  "markReconciling am now generation reason0 message0 base =
     (let reason = (if reason0 = [] then ''Reconciling'' else reason0);
          message = (if message0 = [] then ''Reconciling resource'' else message0)
      in markConditions am generation
           (mkCondition conditionReady ''False'' reason message generation (fst now),
            mkCondition conditionReconciling ''True'' reason message generation (fst (snd now)),
            mkCondition conditionStalled ''False'' ''NotStalled'' ''Resource is not stalled''
              generation (snd (snd now))) base)"

definition markReady :: "apimachinery \<Rightarrow> int \<times> int \<times> int \<Rightarrow> int \<Rightarrow> string \<Rightarrow> string \<Rightarrow>
    't harborStatusBase_scheme \<Rightarrow> bool \<times> 't harborStatusBase_scheme" where
  "markReady am now generation reason0 message0 base =
     (let reason = (if reason0 = [] then ''Reconciled'' else reason0);
          message = (if message0 = [] then ''Resource is ready'' else message0)
      in markConditions am generation
           (mkCondition conditionReady ''True'' reason message generation (fst now),
            mkCondition conditionReconciling ''False'' ''Reconciled'' ''Reconciliation complete''
              generation (fst (snd now)),
            mkCondition conditionStalled ''False'' ''NotStalled'' ''Resource is not stalled''
              generation (snd (snd now))) base)"

definition markError :: "apimachinery \<Rightarrow> int \<times> int \<times> int \<Rightarrow> int \<Rightarrow> gerror option \<Rightarrow>
    't harborStatusBase_scheme \<Rightarrow> bool \<times> 't harborStatusBase_scheme" where
  "markError am now generation err base =
     (let msg0 = (case err of None \<Rightarrow> [] | Some e \<Rightarrow> errorString e);
          msg = (if msg0 = [] then ''Reconcile error'' else msg0)
      in markReconciling am now generation ''ReconcileError'' (''Reconcile error: '' @ msg) base)"

section \<open>Writing the status\<close>

text \<open>The reflective step: the kinds with a \<^verbatim>\<open>HarborConnectionRef\<close> field.\<close>

definition sanitizeRef :: "'s harborClaimSpecBase_scheme \<Rightarrow> 's harborClaimSpecBase_scheme" where
  "sanitizeRef spec =
     (case harborConnectionRef spec of
        None \<Rightarrow> spec
      | Some ref \<Rightarrow> if hcrName ref = [] \<and> hcrKind ref = []
                    then spec\<lparr>harborConnectionRef := None\<rparr> else spec)"

definition sanitizeOptionalHarborConnectionRef ::
    "('e, 's, 't) kind \<Rightarrow> (('s, 't) resource, 'e, unit) go" where
  "sanitizeOptionalHarborConnectionRef K =
     modObj (\<lambda>obj. obj\<lparr>objSpec := kdSanitize K (objSpec obj)\<rparr>)"

definition threeNows :: "'e services \<Rightarrow> ('o, 'e, int \<times> int \<times> int) go" where
  "threeNows S =
     do { n1 \<leftarrow> metav1Now S; n2 \<leftarrow> metav1Now S; n3 \<leftarrow> metav1Now S;
          State_Monad.return (n1, n2, n3) }"

text \<open>Apply one of the pure functions to the status in the object, with what it says of a change.\<close>

definition markStatus :: "'e services \<Rightarrow>
    (int \<times> int \<times> int \<Rightarrow> 't harborStatusBase_scheme \<Rightarrow> bool \<times> 't harborStatusBase_scheme) \<Rightarrow>
    (('s, 't harborStatusBase_scheme) resource, 'e, bool) go" where
  "markStatus S mark =
     do { now \<leftarrow> threeNows S;
          obj \<leftarrow> getObj;
          _ \<leftarrow> modObj (\<lambda>o1. o1\<lparr>objStatus := snd (mark now (objStatus o1))\<rparr>);
          State_Monad.return (fst (mark now (objStatus obj))) }"

definition setReadyStatus :: "'e services \<Rightarrow> ('e, 's, 't harborStatusBase_scheme) kind \<Rightarrow> int \<Rightarrow> string \<Rightarrow>
    string \<Rightarrow> (('s, 't harborStatusBase_scheme) resource, 'e, gerror option) go" where
  "setReadyStatus S K generation reason message =
     do { changed \<leftarrow> markStatus S (\<lambda>now. markReady (svcMachinery S) now generation reason message);
          if changed
          then do { _ \<leftarrow> sanitizeOptionalHarborConnectionRef K; kubeStatusUpdate K }
          else State_Monad.return None }"

definition setReconcilingStatus :: "'e services \<Rightarrow> ('e, 's, 't harborStatusBase_scheme) kind \<Rightarrow> int \<Rightarrow>
    string \<Rightarrow> string \<Rightarrow> (('s, 't harborStatusBase_scheme) resource, 'e, gerror option) go" where
  "setReconcilingStatus S K generation reason message =
     do { changed \<leftarrow> markStatus S (\<lambda>now. markReconciling (svcMachinery S) now generation reason message);
          if changed
          then do { _ \<leftarrow> sanitizeOptionalHarborConnectionRef K; kubeStatusUpdate K }
          else State_Monad.return None }"

definition setErrorStatus :: "'e services \<Rightarrow> ('e, 's, 't harborStatusBase_scheme) kind \<Rightarrow> int \<Rightarrow>
    gerror option \<Rightarrow> (('s, 't harborStatusBase_scheme) resource, 'e, gerror option) go" where
  "setErrorStatus S K generation err =
     do { changed \<leftarrow> markStatus S (\<lambda>now. markError (svcMachinery S) now generation err);
          if changed
          then do { _ \<leftarrow> sanitizeOptionalHarborConnectionRef K;
                    updateErr \<leftarrow> kubeStatusUpdate K;
                    State_Monad.return (if updateErr \<noteq> None then updateErr else err) }
          else State_Monad.return err }"

section \<open>What the conditions say afterwards\<close>

definition hasCondition :: "apimachinery \<Rightarrow> 't harborStatusBase_scheme \<Rightarrow> condition \<Rightarrow> bool" where
  "hasCondition am base c =
     (case amFindStatusCondition am (conditions base) (condType c) of
        None \<Rightarrow> False | Some c' \<Rightarrow> sameCondition c' c)"

lemma lawfulConditionsD:
  assumes "lawfulConditions am"
  shows "amFindStatusCondition am cs t = Some c \<Longrightarrow> condType c = t"
    and "\<exists>c'. amFindStatusCondition am (amSetStatusCondition am cs c) (condType c) = Some c' \<and> sameCondition c' c"
    and "t \<noteq> condType c \<Longrightarrow>
      amFindStatusCondition am (amSetStatusCondition am cs c) t = amFindStatusCondition am cs t"
  using assms by (auto simp: lawfulConditions_def)

lemma setCondition_find:
  assumes "lawfulConditions am"
  shows "\<exists>c'. amFindStatusCondition am (snd (setCondition am cs c)) (condType c) = Some c' \<and> sameCondition c' c"
  using lawfulConditionsD [OF assms]
  by (auto simp: setCondition_def sameCondition_def split: option.split)

lemma setCondition_find_other:
  assumes "lawfulConditions am" and "t \<noteq> condType c"
  shows "amFindStatusCondition am (snd (setCondition am cs c)) t = amFindStatusCondition am cs t"
  using lawfulConditionsD(3) [OF assms] by (auto simp: setCondition_def split: option.split)

lemma setCondition_same:
  assumes "amFindStatusCondition am cs (condType c) = Some c'" and "sameCondition c' c"
  shows "setCondition am cs c = (False, cs)"
  using assms by (simp add: setCondition_def sameCondition_def)

lemma hasCondition_iff:
  "hasCondition am base c \<longleftrightarrow>
     (\<exists>c'. amFindStatusCondition am (conditions base) (condType c) = Some c' \<and> sameCondition c' c)"
  by (auto simp: hasCondition_def split: option.split)

definition distinctTypes :: "condition \<times> condition \<times> condition \<Rightarrow> bool" where
  "distinctTypes cs = (case cs of (c1, c2, c3) \<Rightarrow>
     condType c1 \<noteq> condType c2 \<and> condType c1 \<noteq> condType c3 \<and> condType c2 \<noteq> condType c3)"

lemma markConditions_has:
  assumes "lawfulConditions am" and "distinctTypes (c1, c2, c3)"
  shows "observedGeneration (snd (markConditions am generation (c1, c2, c3) base)) = generation"
    and "hasCondition am (snd (markConditions am generation (c1, c2, c3) base)) c1"
    and "hasCondition am (snd (markConditions am generation (c1, c2, c3) base)) c2"
    and "hasCondition am (snd (markConditions am generation (c1, c2, c3) base)) c3"
  using assms(2) setCondition_find [OF assms(1)] setCondition_find_other [OF assms(1)]
  by (simp_all add: markConditions_def hasCondition_iff distinctTypes_def Let_def split_beta)

lemma markConditions_keeps:
  "resolvedHarborConnection (snd (markConditions am generation cs base)) = resolvedHarborConnection base"
  by (auto simp: markConditions_def Let_def split: prod.split)

lemma markConditions_more:
  "harborStatusBase.more (snd (markConditions am generation cs base)) = harborStatusBase.more base"
  by (auto simp: markConditions_def Let_def split: prod.split)

lemma markConditions_unchanged:
  assumes "observedGeneration base = generation"
    and "hasCondition am base c1" and "hasCondition am base c2" and "hasCondition am base c3"
  shows "markConditions am generation (c1, c2, c3) base = (False, base)"
proof -
  have "setCondition am (conditions base) c1 = (False, conditions base)"
    "setCondition am (conditions base) c2 = (False, conditions base)"
    "setCondition am (conditions base) c3 = (False, conditions base)"
    using assms(2-4) setCondition_same by (auto simp: hasCondition_iff)
  then show ?thesis by (simp add: markConditions_def assms(1))
qed

lemma hasCondition_time: "hasCondition am base (mkCondition t st r m g n) = hasCondition am base (mkCondition t st r m g n')"
  by (simp add: hasCondition_def sameCondition_def split: option.split)

lemma markReady_eq:
  "markReady am now generation reason message = markConditions am generation
     (mkCondition conditionReady ''True'' (if reason = [] then ''Reconciled'' else reason)
        (if message = [] then ''Resource is ready'' else message) generation (fst now),
      mkCondition conditionReconciling ''False'' ''Reconciled'' ''Reconciliation complete'' generation (fst (snd now)),
      mkCondition conditionStalled ''False'' ''NotStalled'' ''Resource is not stalled'' generation (snd (snd now)))"
  by (simp add: markReady_def fun_eq_iff Let_def)

lemma markReconciling_eq:
  "markReconciling am now generation reason message = markConditions am generation
     (mkCondition conditionReady ''False'' (if reason = [] then ''Reconciling'' else reason)
        (if message = [] then ''Reconciling resource'' else message) generation (fst now),
      mkCondition conditionReconciling ''True'' (if reason = [] then ''Reconciling'' else reason)
        (if message = [] then ''Reconciling resource'' else message) generation (fst (snd now)),
      mkCondition conditionStalled ''False'' ''NotStalled'' ''Resource is not stalled'' generation (snd (snd now)))"
  by (simp add: markReconciling_def fun_eq_iff Let_def)

lemma distinctTypes_mk [simp]:
  "distinctTypes (mkCondition conditionReady a b c g n, mkCondition conditionReconciling d e f g' n',
     mkCondition conditionStalled h i j g'' n'')"
  by (simp add: distinctTypes_def)

definition errorText :: "gerror option \<Rightarrow> string" where
  "errorText err =
     (let msg = (case err of None \<Rightarrow> [] | Some e \<Rightarrow> errorString e)
      in ''Reconcile error: '' @ (if msg = [] then ''Reconcile error'' else msg))"

lemma errorText_nonempty [simp]: "errorText err \<noteq> []"
  by (simp add: errorText_def Let_def)

lemma markError_eq:
  "markError am now generation err = markConditions am generation
     (mkCondition conditionReady ''False'' ''ReconcileError'' (errorText err) generation (fst now),
      mkCondition conditionReconciling ''True'' ''ReconcileError'' (errorText err) generation (fst (snd now)),
      mkCondition conditionStalled ''False'' ''NotStalled'' ''Resource is not stalled'' generation (snd (snd now)))"
proof -
  have "markError am now generation err = markReconciling am now generation ''ReconcileError'' (errorText err)"
    by (simp add: markError_def errorText_def Let_def fun_eq_iff)
  then show ?thesis by (simp add: markReconciling_eq)
qed

lemma hasCondition_time0:
  "hasCondition am base (mkCondition t st r m g n) \<Longrightarrow> hasCondition am base (mkCondition t st r m g 0)"
  by (simp add: hasCondition_time [of am base t st r m g n 0])

text \<open>
  C28. The conditions of a status are a function of the outcome. After \<open>markReady\<close> the
  object is Ready with the given reason and message (or the defaults), not Reconciling and not
  Stalled; after \<open>markError\<close> it is not Ready and Reconciling with the text of the error,
  and not Stalled. Both carry the observed generation and leave the connection binding alone.
\<close>

theorem mark_conditions:
  assumes "lawfulConditions am"
  shows "(let b = snd (markReady am now generation reason message base)
          in observedGeneration b = generation \<and>
             resolvedHarborConnection b = resolvedHarborConnection base \<and>
             hasCondition am b (mkCondition conditionReady ''True''
               (if reason = [] then ''Reconciled'' else reason)
               (if message = [] then ''Resource is ready'' else message) generation 0) \<and>
             hasCondition am b (mkCondition conditionReconciling ''False'' ''Reconciled''
               ''Reconciliation complete'' generation 0) \<and>
             hasCondition am b (mkCondition conditionStalled ''False'' ''NotStalled''
               ''Resource is not stalled'' generation 0)) \<and>
         (let b = snd (markError am now generation err base)
          in observedGeneration b = generation \<and>
             resolvedHarborConnection b = resolvedHarborConnection base \<and>
             hasCondition am b (mkCondition conditionReady ''False'' ''ReconcileError''
               (errorText err) generation 0) \<and>
             hasCondition am b (mkCondition conditionReconciling ''True'' ''ReconcileError''
               (errorText err) generation 0) \<and>
             hasCondition am b (mkCondition conditionStalled ''False'' ''NotStalled''
               ''Resource is not stalled'' generation 0))"
proof -
  note has = markConditions_has [OF assms distinctTypes_mk]
  show ?thesis
    unfolding markReady_eq markError_eq Let_def
    by (intro conjI has(1) markConditions_keeps hasCondition_time0 [OF has(2)]
        hasCondition_time0 [OF has(3)] hasCondition_time0 [OF has(4)])
qed

text \<open>
  C29. Marking is idempotent: doing it again, at any later time, with the same arguments reports no
  change and leaves the status as it is, transition times included. This is what stops a reconciler
  from writing a status that only its own write has touched.
\<close>

theorem mark_idempotent:
  assumes "lawfulConditions am"
  shows "(let b = snd (markReady am now generation reason message base)
          in markReady am now' generation reason message b = (False, b)) \<and>
         (let b = snd (markReconciling am now generation reason message base)
          in markReconciling am now' generation reason message b = (False, b)) \<and>
         (let b = snd (markError am now generation err base)
          in markError am now' generation err b = (False, b))"
proof -
  have "(let b = snd (markConditions am generation
          (mkCondition conditionReady s1 r1 m1 generation n1, mkCondition conditionReconciling s2 r2 m2 generation n2,
           mkCondition conditionStalled s3 r3 m3 generation n3) base)
        in markConditions am generation
          (mkCondition conditionReady s1 r1 m1 generation n1', mkCondition conditionReconciling s2 r2 m2 generation n2',
           mkCondition conditionStalled s3 r3 m3 generation n3') b = (False, b))"
    for s1 r1 m1 s2 r2 m2 s3 r3 m3 n1 n2 n3 n1' n2' n3'
    unfolding Let_def
    by (rule markConditions_unchanged; (subst hasCondition_time)?; rule markConditions_has [OF assms distinctTypes_mk])
  then show ?thesis
    unfolding markReady_eq markError_eq markReconciling_eq Let_def by blast
qed

text \<open>What marking leaves alone.\<close>

lemma mark_keeps [simp]:
  "resolvedHarborConnection (snd (markReady am now g r m base)) = resolvedHarborConnection base"
  "resolvedHarborConnection (snd (markReconciling am now g r m base)) = resolvedHarborConnection base"
  "resolvedHarborConnection (snd (markError am now g err base)) = resolvedHarborConnection base"
  "harborStatusBase.more (snd (markReady am now g r m base)) = harborStatusBase.more base"
  "harborStatusBase.more (snd (markReconciling am now g r m base)) = harborStatusBase.more base"
  "harborStatusBase.more (snd (markError am now g err base)) = harborStatusBase.more base"
  by (simp_all add: markReady_eq markReconciling_eq markError_eq markConditions_keeps markConditions_more)

end
