(* ===== verification/Options.thy ===== *)
theory Options
  imports World
begin

text \<open>
  The operator's startup options (\<^verbatim>\<open>internal/controller/options.go\<close>) and
  the policy checks of common.go that depend on them. Durations are nanoseconds. The secret reader,
  when there is one, replaces the cached client for reading Secrets.
\<close>

record 'e operatorOptions =
  forcedHarborConnection :: string
  defaultCreationPolicy :: string
  allowCrossNamespaceReferences :: "bool option"
  defaultDriftDetectionInterval :: int
  harborRequestTimeout :: int
  secretReader :: "(nsName \<Rightarrow> 'e \<Rightarrow> (gerror + secret) \<times> 'e) option"

record operatorConfig =
  cfgForcedHarborConnection :: string
  cfgDefaultCreationPolicy :: string
  cfgAllowCrossNamespaceReferences :: "bool option"
  cfgDefaultDriftDetectionInterval :: int
  cfgHarborRequestTimeout :: int

definition defaultHarborRequestTimeout :: int where
  "defaultHarborRequestTimeout = 30000000000"

definition validateDefaultCreationPolicy :: "string \<Rightarrow> gerror option" where
  "validateDefaultCreationPolicy policy =
     (if policy = creationPolicyCreate \<or> policy = creationPolicyAdopt \<or>
         policy = creationPolicyCreateOrAdopt
      then None
      else Some (ErrMsg (''unsupported default creation policy '' @ goQuote policy)))"

definition NewOperatorOptions :: "operatorConfig \<Rightarrow> gerror + 'e operatorOptions" where
  "NewOperatorOptions config =
     (case validateDefaultCreationPolicy (cfgDefaultCreationPolicy config) of
        Some err \<Rightarrow> Inl err
      | None \<Rightarrow>
          if cfgDefaultDriftDetectionInterval config < 0
          then Inl (ErrMsg ''default drift detection interval must not be negative'')
          else if cfgHarborRequestTimeout config \<le> 0
          then Inl (ErrMsg ''harbor request timeout must be greater than zero'')
          else Inr
            \<lparr>forcedHarborConnection = goTrimSpace (cfgForcedHarborConnection config),
             defaultCreationPolicy = cfgDefaultCreationPolicy config,
             allowCrossNamespaceReferences = cfgAllowCrossNamespaceReferences config,
             defaultDriftDetectionInterval = cfgDefaultDriftDetectionInterval config,
             harborRequestTimeout = cfgHarborRequestTimeout config,
             secretReader = None\<rparr>)"

definition allowsCrossNamespaceReferences :: "'e operatorOptions \<Rightarrow> bool" where
  "allowsCrossNamespaceReferences opts =
     (case allowCrossNamespaceReferences opts of None \<Rightarrow> True | Some b \<Rightarrow> b)"

definition WithSecretReader :: "'e operatorOptions \<Rightarrow> (nsName \<Rightarrow> 'e \<Rightarrow> (gerror + secret) \<times> 'e) \<Rightarrow>
    'e operatorOptions" where
  "WithSecretReader opts reader = opts\<lparr>secretReader := Some reader\<rparr>"

definition effectiveCreationPolicy :: "'e operatorOptions \<Rightarrow> string \<Rightarrow> string" where
  "effectiveCreationPolicy opts policy =
     (if policy \<noteq> [] then policy
      else if defaultCreationPolicy opts = [] then creationPolicyCreate
      else defaultCreationPolicy opts)"

definition requestTimeout :: "'e operatorOptions \<Rightarrow> int" where
  "requestTimeout opts =
     (if harborRequestTimeout opts = 0 then defaultHarborRequestTimeout else harborRequestTimeout opts)"

section \<open>Creation and reference policies (common.go)\<close>

definition requireCreationAllowed :: "'e operatorOptions \<Rightarrow> string \<Rightarrow> gerror option" where
  "requireCreationAllowed opts policy =
     (let policy' = effectiveCreationPolicy opts policy
      in if AllowsCreation policy' then None
         else Some (ErrMsg (''creationPolicy '' @ goQuote policy' @
                '' requires an existing Harbor resource to adopt'')))"

definition allowsAdoption :: "'e operatorOptions \<Rightarrow> string \<Rightarrow> bool" where
  "allowsAdoption opts policy = AllowsAdoption (effectiveCreationPolicy opts policy)"

definition validateReferenceNamespace :: "'e operatorOptions \<Rightarrow> string \<Rightarrow> string \<Rightarrow> string \<Rightarrow> gerror option" where
  "validateReferenceNamespace opts sourceNamespace targetNamespace kind =
     (if allowsCrossNamespaceReferences opts \<or> sourceNamespace = [] \<or> sourceNamespace = targetNamespace
      then None
      else Some (ErrMsg
        (''cross-namespace '' @ kind @ '' reference from namespace '' @ goQuote sourceNamespace @
         '' to namespace '' @ goQuote targetNamespace @
         '' is disabled by --allow-cross-namespace-references=false'')))"

section \<open>Facts\<close>

definition validCreationPolicy :: "string \<Rightarrow> bool" where
  "validCreationPolicy policy \<longleftrightarrow>
     policy \<in> {creationPolicyCreate, creationPolicyAdopt, creationPolicyCreateOrAdopt}"

lemma policy_distinct [simp]:
  "creationPolicyCreate \<noteq> creationPolicyAdopt" "creationPolicyCreate \<noteq> creationPolicyCreateOrAdopt"
  "creationPolicyAdopt \<noteq> creationPolicyCreateOrAdopt" "creationPolicyAdopt \<noteq> creationPolicyCreate"
  "creationPolicyCreateOrAdopt \<noteq> creationPolicyCreate" "creationPolicyCreateOrAdopt \<noteq> creationPolicyAdopt"
  "[] \<noteq> creationPolicyCreate" "[] \<noteq> creationPolicyAdopt" "[] \<noteq> creationPolicyCreateOrAdopt"
  "creationPolicyCreate \<noteq> []" "creationPolicyAdopt \<noteq> []" "creationPolicyCreateOrAdopt \<noteq> []"
  by (simp_all add: policy_defs)

lemma validCreationPolicy_nonempty: "validCreationPolicy policy \<Longrightarrow> policy \<noteq> []"
  by (auto simp: validCreationPolicy_def)

text \<open>
  C31. Startup validation: the constructor succeeds exactly for a supported creation policy, a
  drift interval that is not negative and a positive timeout; the options it returns always have an
  effective creation policy that is one of the three, whatever an object asks for, and a timeout
  that is the configured one.
\<close>

theorem newOperatorOptions_valid:
  "case NewOperatorOptions config of
     Inl _ \<Rightarrow> \<not> (validCreationPolicy (cfgDefaultCreationPolicy config) \<and>
       0 \<le> cfgDefaultDriftDetectionInterval config \<and> 0 < cfgHarborRequestTimeout config)
   | Inr opts \<Rightarrow>
       validCreationPolicy (cfgDefaultCreationPolicy config) \<and>
       0 \<le> defaultDriftDetectionInterval opts \<and> 0 < requestTimeout opts \<and>
       requestTimeout opts = cfgHarborRequestTimeout config \<and>
       effectiveCreationPolicy opts [] = cfgDefaultCreationPolicy config \<and>
       (allowsAdoption opts [] \<or> requireCreationAllowed opts [] = None) \<and>
       forcedHarborConnection opts = goTrimSpace (cfgForcedHarborConnection config) \<and>
       allowsCrossNamespaceReferences opts = (cfgAllowCrossNamespaceReferences config \<noteq> Some False) \<and>
       secretReader opts = None"
proof (cases "validateDefaultCreationPolicy (cfgDefaultCreationPolicy config)")
  case None
  then have "validCreationPolicy (cfgDefaultCreationPolicy config)"
    by (auto simp: validateDefaultCreationPolicy_def validCreationPolicy_def split: if_splits)
  then show ?thesis
    by (auto simp: NewOperatorOptions_def None requestTimeout_def effectiveCreationPolicy_def
        allowsAdoption_def requireCreationAllowed_def AllowsAdoption_def AllowsCreation_def
        allowsCrossNamespaceReferences_def validCreationPolicy_def split: option.splits)
next
  case (Some err)
  then show ?thesis
    by (auto simp: NewOperatorOptions_def validateDefaultCreationPolicy_def validCreationPolicy_def
        split: if_splits)
qed

lemma requireCreationAllowed_iff:
  "requireCreationAllowed opts policy = None \<longleftrightarrow>
     effectiveCreationPolicy opts policy \<in> {creationPolicyCreate, creationPolicyCreateOrAdopt}"
  by (auto simp: requireCreationAllowed_def AllowsCreation_def effectiveCreationPolicy_def Let_def)

lemma allowsAdoption_iff:
  "allowsAdoption opts policy \<longleftrightarrow>
     effectiveCreationPolicy opts policy \<in> {creationPolicyAdopt, creationPolicyCreateOrAdopt}"
  by (auto simp: allowsAdoption_def AllowsAdoption_def)

lemma validateReferenceNamespace_same [simp]: "validateReferenceNamespace opts ns ns kind = None"
  by (simp add: validateReferenceNamespace_def)

end
