(* ===== verification/Sha256.thy ===== *)
theory Sha256
  imports Prelude "HOL-Library.Word"
begin

unbundle bit_operations_syntax

text \<open>
  \<^verbatim>\<open>sha256.Sum256\<close> and \<^verbatim>\<open>hex.EncodeToString\<close>, which the operator
  uses to notice a changed credential without storing it (\<^verbatim>\<open>hashSecret\<close> in
  secrets.go). The hash of FIPS 180-4 over 32-bit words.
\<close>

type_synonym w32 = "32 word"

definition rotr :: "nat \<Rightarrow> w32 \<Rightarrow> w32" where
  "rotr n x = (drop_bit n x) OR (push_bit (32 - n) x)"

definition shaK :: "w32 list" where
  "shaK =
     [1116352408, 1899447441, 3049323471, 3921009573, 961987163, 1508970993, 2453635748,
      2870763221, 3624381080, 310598401, 607225278, 1426881987, 1925078388, 2162078206,
      2614888103, 3248222580, 3835390401, 4022224774, 264347078, 604807628, 770255983,
      1249150122, 1555081692, 1996064986, 2554220882, 2821834349, 2952996808, 3210313671,
      3336571891, 3584528711, 113926993, 338241895, 666307205, 773529912, 1294757372,
      1396182291, 1695183700, 1986661051, 2177026350, 2456956037, 2730485921, 2820302411,
      3259730800, 3345764771, 3516065817, 3600352804, 4094571909, 275423344, 430227734,
      506948616, 659060556, 883997877, 958139571, 1322822218, 1537002063, 1747873779,
      1955562222, 2024104815, 2227730452, 2361852424, 2428436474, 2756734187, 3204031479,
      3329325298]"

definition shaInit :: "w32 list" where
  "shaInit =
     [1779033703, 3144134277, 1013904242, 2773480762, 1359893119, 2600822924, 528734635,
      1541459225]"

definition shaCh :: "w32 \<Rightarrow> w32 \<Rightarrow> w32 \<Rightarrow> w32" where
  "shaCh x y z = (x AND y) XOR (NOT x AND z)"

definition shaMaj :: "w32 \<Rightarrow> w32 \<Rightarrow> w32 \<Rightarrow> w32" where
  "shaMaj x y z = (x AND y) XOR (x AND z) XOR (y AND z)"

definition shaStep :: "w32 list \<Rightarrow> w32 \<times> w32 \<Rightarrow> w32 list" where
  "shaStep st kw =
     (case st of
        [a, b, c, d, e, f, g, h] \<Rightarrow>
          let t1 = h + (rotr 6 e XOR rotr 11 e XOR rotr 25 e) + shaCh e f g + fst kw + snd kw;
              t2 = (rotr 2 a XOR rotr 13 a XOR rotr 22 a) + shaMaj a b c
          in [t1 + t2, a, b, c, d + t1, e, f, g]
      | _ \<Rightarrow> st)"

text \<open>The message schedule, newest word first.\<close>

definition shaNext :: "w32 list \<Rightarrow> w32 list" where
  "shaNext ws =
     (let w2 = ws ! 1; w7 = ws ! 6; w15 = ws ! 14; w16 = ws ! 15
      in ((rotr 17 w2 XOR rotr 19 w2 XOR drop_bit 10 w2) + w7
          + (rotr 7 w15 XOR rotr 18 w15 XOR drop_bit 3 w15) + w16) # ws)"

definition shaBlock :: "w32 list \<Rightarrow> w32 list \<Rightarrow> w32 list" where
  "shaBlock st block =
     (let ws = rev ((shaNext ^^ 48) (rev block))
      in map2 (+) st (foldl shaStep st (zip shaK ws)))"

definition wordOfBytes :: "nat list \<Rightarrow> w32" where
  "wordOfBytes bs = word_of_nat (foldl (\<lambda>n b. 256 * n + b) 0 bs)"

fun chunksOf :: "nat \<Rightarrow> 'a list \<Rightarrow> 'a list list" where
  "chunksOf n xs = (if xs = [] \<or> n = 0 then [] else take n xs # chunksOf n (drop n xs))"

declare chunksOf.simps [simp del]

definition bytesOf :: "nat \<Rightarrow> nat \<Rightarrow> nat list" where
  "bytesOf k n = map (\<lambda>i. n div 256 ^ i mod 256) (rev [0..<k])"

definition shaPad :: "nat list \<Rightarrow> nat list" where
  "shaPad bs =
     bs @ [128] @ replicate ((119 - length bs mod 64) mod 64) 0 @ bytesOf 8 (8 * length bs)"

definition sha256 :: "string \<Rightarrow> nat list" where
  "sha256 s =
     (let blocks = map (map wordOfBytes \<circ> chunksOf 4) (chunksOf 64 (shaPad (map of_char s)))
      in concat (map (\<lambda>w. bytesOf 4 (unat w)) (foldl shaBlock shaInit blocks)))"

definition hexDigitLower :: "nat \<Rightarrow> char" where
  "hexDigitLower d = (if d < 10 then char_of (48 + d) else char_of (87 + d))"

definition hexEncode :: "nat list \<Rightarrow> string" where
  "hexEncode bs = concat (map (\<lambda>b. [hexDigitLower (b div 16), hexDigitLower (b mod 16)]) bs)"

definition hashSecret :: "string \<Rightarrow> string" where
  "hashSecret value = hexEncode (sha256 value)"

section \<open>The digest is 64 hexadecimal digits\<close>

lemma length_shaStep [simp]: "length (shaStep st kw) = length st"
  by (auto simp: shaStep_def Let_def split: list.splits)

lemma length_foldl_shaStep [simp]: "length (foldl shaStep st kws) = length st"
  by (induction kws arbitrary: st) auto

lemma length_shaBlock [simp]: "length (shaBlock st b) = length st"
  by (simp add: shaBlock_def Let_def)

lemma length_foldl_shaBlock [simp]: "length (foldl shaBlock st bs) = length st"
  by (induction bs arbitrary: st) auto

lemma length_concat_const: "\<forall>x \<in> set xs. length (f x) = k \<Longrightarrow> length (concat (map f xs)) = k * length xs"
  by (induction xs) auto

lemma length_sha256 [simp]: "length (sha256 s) = 32"
  by (simp add: sha256_def Let_def length_concat_const [where k = 4] bytesOf_def shaInit_def)

lemma length_hashSecret: "length (hashSecret s) = 64"
  by (simp add: hashSecret_def hexEncode_def length_concat_const [where k = 2])

lemma hashSecret_nonempty [simp]: "hashSecret s \<noteq> []"
  using length_hashSecret [of s] by auto

end
