(* ===== verification/Lifecycle.thy ===== *)
theory Lifecycle
  imports Conditions Options Sha256
begin

text \<open>
  What every reconciler does with its own object (\<^verbatim>\<open>internal/controller/common.go\<close>):
  loading it, marking a new generation, the finalizer, the two ways to finish a deletion, what
  follows when Harbor has lost the resource, and the requeue interval.
\<close>

section \<open>Results of a reconcile\<close>

record ctrlResult =
  requeue :: bool
  requeueAfter :: int

type_synonym outcome = "ctrlResult \<times> gerror option"

definition emptyResult :: ctrlResult where
  "emptyResult = \<lparr>requeue = False, requeueAfter = 0\<rparr>"

text \<open>\<^verbatim>\<open>return ctrl.Result{}, err\<close>.\<close>

definition finish :: "gerror option \<Rightarrow> ('o, 'e, outcome) go" where
  "finish err = State_Monad.return (emptyResult, err)"

definition crGeneration :: "(('s, 't) resource, 'e, int) go" where
  "crGeneration = do { obj \<leftarrow> getObj; State_Monad.return (metaGeneration (objMeta obj)) }"

section \<open>Loading and status\<close>

text \<open>Whether the object was found, and the error.\<close>

definition loadResource :: "('e, 's, 't harborStatusBase_scheme) kind \<Rightarrow> nsName \<Rightarrow>
    (('s, 't harborStatusBase_scheme) resource, 'e, bool \<times> gerror option) go" where
  "loadResource K key =
     do { err \<leftarrow> kubeLoad K key;
          State_Monad.return
            (case err of
               None \<Rightarrow> (True, None)
             | Some e \<Rightarrow> if kubeIsNotFound e then (False, None) else (False, Some e)) }"

definition markReconcilingIfNeeded :: "'e services \<Rightarrow> ('e, 's, 't harborStatusBase_scheme) kind \<Rightarrow> int \<Rightarrow>
    (('s, 't harborStatusBase_scheme) resource, 'e, gerror option) go" where
  "markReconcilingIfNeeded S K generation =
     do { obj \<leftarrow> getObj;
          if observedGeneration (objStatus obj) = generation then State_Monad.return None
          else setReconcilingStatus S K generation [] [] }"

definition requeueOnRemoteNotFound :: "'e services \<Rightarrow> ('e, 's, 't harborStatusBase_scheme) kind \<Rightarrow> int \<Rightarrow>
    ('t harborStatusBase_scheme \<Rightarrow> 't harborStatusBase_scheme) option \<Rightarrow> string \<Rightarrow>
    (('s, 't harborStatusBase_scheme) resource, 'e, outcome) go" where
  "requeueOnRemoteNotFound S K generation reset message =
     do { _ \<leftarrow> (case reset of
                  None \<Rightarrow> State_Monad.return ()
                | Some f \<Rightarrow> modObj (\<lambda>obj. obj\<lparr>objStatus := f (objStatus obj)\<rparr>));
          err \<leftarrow> setReconcilingStatus S K generation ''NotFound'' message;
          if err \<noteq> None then finish err
          else State_Monad.return (emptyResult\<lparr>requeue := True\<rparr>, None) }"

section \<open>The finalizer\<close>

definition finalizerName :: string where
  "finalizerName = ''harbor.harbor-operator.io/finalizer''"

definition ensureFinalizer :: "'e services \<Rightarrow> ('e, 's, 't harborStatusBase_scheme) kind \<Rightarrow>
    (('s, 't harborStatusBase_scheme) resource, 'e, gerror option) go" where
  "ensureFinalizer S K =
     do { obj \<leftarrow> getObj;
          if amContainsFinalizer (svcMachinery S) (objMeta obj) finalizerName
          then State_Monad.return None
          else do {
            _ \<leftarrow> sanitizeOptionalHarborConnectionRef K;
            _ \<leftarrow> modObj (\<lambda>o1. o1\<lparr>objMeta := amAddFinalizer (svcMachinery S) (objMeta o1) finalizerName\<rparr>);
            kubeUpdate K } }"

definition removeFinalizer :: "'e services \<Rightarrow> ('e, 's, 't harborStatusBase_scheme) kind \<Rightarrow>
    (('s, 't harborStatusBase_scheme) resource, 'e, gerror option) go" where
  "removeFinalizer S K =
     do { obj \<leftarrow> getObj;
          if \<not> amContainsFinalizer (svcMachinery S) (objMeta obj) finalizerName
          then State_Monad.return None
          else do {
            _ \<leftarrow> sanitizeOptionalHarborConnectionRef K;
            _ \<leftarrow> modObj (\<lambda>o1. o1\<lparr>objMeta := amRemoveFinalizer (svcMachinery S) (objMeta o1) finalizerName\<rparr>);
            kubeUpdate K } }"

text \<open>
  Both return whether the reconcile is done and its error. A zero deletion timestamp is
  \<open>None\<close>.
\<close>

definition finalizeIfDeleting :: "'e services \<Rightarrow> ('e, 's, 't harborStatusBase_scheme) kind \<Rightarrow> string \<Rightarrow>
    (('s, 't harborStatusBase_scheme) resource, 'e, gerror option) go option \<Rightarrow>
    (('s, 't harborStatusBase_scheme) resource, 'e, bool \<times> gerror option) go" where
  "finalizeIfDeleting S K policy deleteFn =
     do { obj \<leftarrow> getObj;
          if metaDeletionTimestamp (objMeta obj) = None then State_Monad.return (False, None)
          else do {
            err \<leftarrow> (case deleteFn of
                      None \<Rightarrow> State_Monad.return None
                    | Some del \<Rightarrow> if policy \<noteq> deletionPolicyOrphan then del else State_Monad.return None);
            if err \<noteq> None then State_Monad.return (True, err)
            else do { err2 \<leftarrow> removeFinalizer S K; State_Monad.return (True, err2) } } }"

definition finalizeWithoutHarborConnection :: "'e services \<Rightarrow> ('e, 's, 't harborStatusBase_scheme) kind \<Rightarrow>
    string \<Rightarrow> bool \<Rightarrow> gerror \<Rightarrow> (('s, 't harborStatusBase_scheme) resource, 'e, bool \<times> gerror option) go" where
  "finalizeWithoutHarborConnection S K policy requiresRemoteCleanup err =
     do { obj \<leftarrow> getObj;
          if metaDeletionTimestamp (objMeta obj) = None \<or> \<not> kubeIsNotFound err
          then State_Monad.return (False, None)
          else if \<not> requiresRemoteCleanup \<or> policy = deletionPolicyOrphan
          then do { err2 \<leftarrow> removeFinalizer S K; State_Monad.return (True, err2) }
          else State_Monad.return (False, None) }"

section \<open>Requeueing and hashing\<close>

definition returnWithDriftDetection :: "'e operatorOptions \<Rightarrow> 'a harborClaimSpecBase_scheme \<Rightarrow> outcome" where
  "returnWithDriftDetection opts base =
     (let interval = (case GetDriftDetectionInterval base of
                        Some configured \<Rightarrow> configured | None \<Rightarrow> defaultDriftDetectionInterval opts)
      in if interval = 0 then (emptyResult, None)
         else if interval < 0 then (emptyResult, Some (ErrMsg ''drift detection interval must not be negative''))
         else (emptyResult\<lparr>requeueAfter := interval\<rparr>, None))"

definition hashParts :: "string list \<Rightarrow> string" where
  "hashParts parts = hashSecret (goJoin [CHR 0x0A] parts)"

text \<open>
  The pattern \<^verbatim>\<open>return ctrl.Result{}, setErrorStatus(...)\<close> and
  \<^verbatim>\<open>setReadyStatus\<close> followed by the drift interval, with the object's current
  generation.
\<close>

definition failWith :: "'e services \<Rightarrow> ('e, 's, 't harborStatusBase_scheme) kind \<Rightarrow> gerror \<Rightarrow>
    (('s, 't harborStatusBase_scheme) resource, 'e, outcome) go" where
  "failWith S K err =
     do { generation \<leftarrow> crGeneration;
          err2 \<leftarrow> setErrorStatus S K generation (Some err);
          finish err2 }"

definition readyWithDrift :: "'e services \<Rightarrow> 'e operatorOptions \<Rightarrow>
    ('e, 's harborClaimSpecBase_scheme, 't harborStatusBase_scheme) kind \<Rightarrow> string \<Rightarrow> string \<Rightarrow>
    (('s harborClaimSpecBase_scheme, 't harborStatusBase_scheme) resource, 'e, outcome) go" where
  "readyWithDrift S opts K reason message =
     do { generation \<leftarrow> crGeneration;
          err \<leftarrow> setReadyStatus S K generation reason message;
          if err \<noteq> None then finish err
          else do { obj \<leftarrow> getObj; State_Monad.return (returnWithDriftDetection opts (objSpec obj)) } }"

text \<open>
  The other way to finish: the status is written only if something has changed, and without the
  cleaning that \<open>setReadyStatus\<close> does.
\<close>

definition readyIfChanged :: "'e services \<Rightarrow> 'e operatorOptions \<Rightarrow>
    ('e, 's harborClaimSpecBase_scheme, 't harborStatusBase_scheme) kind \<Rightarrow> bool \<Rightarrow> string \<Rightarrow> string \<Rightarrow>
    (('s harborClaimSpecBase_scheme, 't harborStatusBase_scheme) resource, 'e, outcome) go" where
  "readyIfChanged S opts K statusChanged reason message =
     do { generation \<leftarrow> crGeneration;
          condChanged \<leftarrow> markStatus S (\<lambda>now. markReady (svcMachinery S) now generation reason message);
          err \<leftarrow> (if statusChanged \<or> condChanged then kubeStatusUpdate K else State_Monad.return None);
          if err \<noteq> None then finish err
          else do { obj \<leftarrow> getObj; State_Monad.return (returnWithDriftDetection opts (objSpec obj)) } }"

section \<open>Facts\<close>


end
