(* ===== verification/Secrets.thy ===== *)
theory Secrets
  imports Effects Options Sha256 ExampleWorld "HOL-Library.AList"
begin

text \<open>
  Reading credentials from Secrets and writing the Secret of a robot
  (\<^verbatim>\<open>internal/controller/secrets.go\<close>). Labels, annotations and data are Go
  maps: association lists, \<open>None\<close> for the nil map, where a missing key reads as the empty
  string. A loop over a Go map visits its entries in any order; the functions take the entries in
  the order of the visit, and a lemma below shows that the order does not matter.
\<close>

definition managedByLabelKey :: string where
  "managedByLabelKey = ''harbor.harbor-operator.io/managed-by''"

definition managedByLabelValue :: string where
  "managedByLabelValue = ''harbor-operator''"

definition ownerKindAnnotationKey :: string where
  "ownerKindAnnotationKey = ''harbor.harbor-operator.io/owner-kind''"

definition ownerNameAnnotationKey :: string where
  "ownerNameAnnotationKey = ''harbor.harbor-operator.io/owner-name''"

definition ownerNamespaceAnnKey :: string where
  "ownerNamespaceAnnKey = ''harbor.harbor-operator.io/owner-namespace''"

lemma annotation_keys [simp]:
  "ownerKindAnnotationKey \<noteq> ownerNameAnnotationKey" "ownerKindAnnotationKey \<noteq> ownerNamespaceAnnKey"
  "ownerNameAnnotationKey \<noteq> ownerNamespaceAnnKey" "ownerNameAnnotationKey \<noteq> ownerKindAnnotationKey"
  "ownerNamespaceAnnKey \<noteq> ownerKindAnnotationKey" "ownerNamespaceAnnKey \<noteq> ownerNameAnnotationKey"
  by (simp_all add: ownerKindAnnotationKey_def ownerNameAnnotationKey_def ownerNamespaceAnnKey_def)

section \<open>Reading\<close>

definition readSecretValue :: "'e services \<Rightarrow> 'e operatorOptions \<Rightarrow> secretReference \<Rightarrow> string \<Rightarrow> string \<Rightarrow>
    ('o, 'e, gerror + string) go" where
  "readSecretValue S opts ref defaultNamespace defaultKey =
     (let namespace = (if srNamespace ref = [] then defaultNamespace else srNamespace ref)
      in case validateReferenceNamespace opts defaultNamespace namespace ''Secret'' of
           Some err \<Rightarrow> State_Monad.return (Inl err)
         | None \<Rightarrow>
             (let key = (if srKey ref = [] then defaultKey else srKey ref)
              in if key = []
                 then State_Monad.return (Inl (ErrMsg
                        (''secret key must be set for '' @ namespace @ ''/'' @ srName ref)))
                 else do {
                   let reader = (case secretReader opts of Some uncached \<Rightarrow> uncached | None \<Rightarrow> svcGetSecret S);
                   r \<leftarrow> kubeGet KSecret reader (namespace, srName ref);
                   case r of
                     Inl err \<Rightarrow> State_Monad.return (Inl err)
                   | Inr sec \<Rightarrow>
                       State_Monad.return
                         (case map_of (case secretData sec of None \<Rightarrow> [] | Some d \<Rightarrow> d) key of
                            None \<Rightarrow> Inl (ErrMsg (''key '' @ key @ '' not found in secret '' @
                                     namespace @ ''/'' @ srName ref))
                          | Some value \<Rightarrow> Inr value) }))"

section \<open>Writing\<close>

definition goMapGet :: "stringMap option \<Rightarrow> string \<Rightarrow> string" where
  "goMapGet m k =
     (case m of None \<Rightarrow> [] | Some kvs \<Rightarrow> (case map_of kvs k of None \<Rightarrow> [] | Some v \<Rightarrow> v))"

text \<open>
  \<open>setSecretValues\<close> works on the data map, which its caller has made non-nil; it tells
  whether anything changed.
\<close>

fun setSecretValues :: "stringMap \<Rightarrow> (string \<times> string) list \<Rightarrow> bool \<times> stringMap" where
  "setSecretValues d [] = (False, d)"
| "setSecretValues d ((key, value) # values) =
     (if map_of d key = Some value then setSecretValues d values
      else (True, snd (setSecretValues (AList.update key value d) values)))"

definition secretOwnedBy :: "secret \<Rightarrow> objectMeta \<Rightarrow> string \<Rightarrow> bool" where
  "secretOwnedBy sec owner ownerKind \<longleftrightarrow>
     goMapGet (metaLabels (secretMeta sec)) managedByLabelKey = managedByLabelValue \<and>
     goMapGet (metaAnnotations (secretMeta sec)) ownerKindAnnotationKey = ownerKind \<and>
     goMapGet (metaAnnotations (secretMeta sec)) ownerNamespaceAnnKey = metaNamespace owner \<and>
     goMapGet (metaAnnotations (secretMeta sec)) ownerNameAnnotationKey = metaName owner"

text \<open>Set a key of a map unless it has the value, and tell whether it was set.\<close>

definition setIfDiffers :: "string \<Rightarrow> string \<Rightarrow> bool \<times> stringMap \<Rightarrow> bool \<times> stringMap" where
  "setIfDiffers key value cm =
     (if goMapGet (Some (snd cm)) key \<noteq> value then (True, AList.update key value (snd cm)) else cm)"

definition ensureSecretOwnershipMetadata :: "secret \<Rightarrow> objectMeta \<Rightarrow> string \<Rightarrow> bool \<times> secret" where
  "ensureSecretOwnershipMetadata sec owner ownerKind =
     (let m = secretMeta sec;
          labels = (case metaLabels m of None \<Rightarrow> [] | Some l \<Rightarrow> l);
          annotations = (case metaAnnotations m of None \<Rightarrow> [] | Some a \<Rightarrow> a);
          (changed1, labels') = setIfDiffers managedByLabelKey managedByLabelValue (False, labels);
          (changed2, annotations') =
            setIfDiffers ownerNameAnnotationKey (metaName owner)
              (setIfDiffers ownerNamespaceAnnKey (metaNamespace owner)
                (setIfDiffers ownerKindAnnotationKey ownerKind (changed1, annotations)))
      in (changed2, sec\<lparr>secretMeta := m\<lparr>metaLabels := Some labels', metaAnnotations := Some annotations'\<rparr>\<rparr>))"

definition newSecret :: "string \<Rightarrow> string \<Rightarrow> secret" where
  "newSecret namespace name =
     \<lparr>secretMeta = \<lparr>metaName = name, metaNamespace = namespace, metaUID = [], metaGeneration = 0,
        metaDeletionTimestamp = None, metaCreationTimestamp = 0, metaFinalizers = [],
        metaLabels = None, metaAnnotations = None\<rparr>,
      secretType = ''Opaque'', secretData = Some []\<rparr>"

definition upsertOwnedSecretValues :: "'e services \<Rightarrow> objectMeta \<Rightarrow> string \<Rightarrow> string \<Rightarrow> string \<Rightarrow>
    (string \<times> string) list \<Rightarrow> ('o, 'e, gerror option) go" where
  "upsertOwnedSecretValues S owner ownerKind namespace name values =
     (if list_ex (\<lambda>(key, value). key = []) values
      then State_Monad.return (Some (ErrMsg (''secret key must be set for '' @ namespace @ ''/'' @ name)))
      else do {
        r \<leftarrow> kubeGet KSecret (svcGetSecret S) (namespace, name);
        case r of
          Inl err \<Rightarrow>
            (if \<not> kubeIsNotFound err then State_Monad.return (Some err)
             else do {
               let sec = newSecret namespace name;
               let sec1 = sec\<lparr>secretData := Some (snd (setSecretValues [] values))\<rparr>;
               let sec2 = snd (ensureSecretOwnershipMetadata sec1 owner ownerKind);
               kubeCreateSecret S sec2 })
        | Inr sec \<Rightarrow>
            (if \<not> secretOwnedBy sec owner ownerKind
             then State_Monad.return (Some (ErrMsg
                    (''secret '' @ namespace @ ''/'' @ name @ '' already exists and is not managed by '' @
                     ownerKind @ '' '' @ metaNamespace owner @ ''/'' @ metaName owner)))
             else do {
               let (changed1, sec1) = ensureSecretOwnershipMetadata sec owner ownerKind;
               let changed2 = (changed1 \<or> secretData sec1 = None);
               let d = (case secretData sec1 of None \<Rightarrow> [] | Some d0 \<Rightarrow> d0);
               let (changed3, d') = setSecretValues d values;
               if \<not> (changed2 \<or> changed3) then State_Monad.return None
               else kubeUpdateSecret S (sec1\<lparr>secretData := Some d'\<rparr>) }) })"

section \<open>Facts\<close>

lemma setSecretValues_map:
  "distinct (map fst vals) \<Longrightarrow>
     map_of (snd (setSecretValues d vals)) k = (case map_of vals k of Some v \<Rightarrow> Some v | None \<Rightarrow> map_of d k)"
proof (induction d vals rule: setSecretValues.induct)
  case (2 d k1 v1 vals)
  have "map_of vals k1 = None"
    using "2.prems" by (simp add: map_of_eq_None_iff)
  then show ?case
    using 2 by (auto simp: update_conv' split: option.split)
qed simp

lemma setSecretValues_same:
  "(\<And>k v. (k, v) \<in> set vals \<Longrightarrow> map_of d k = Some v) \<Longrightarrow> setSecretValues d vals = (False, d)"
  by (induction vals) auto

lemma setSecretValues_False: "fst (setSecretValues d vals) = False \<Longrightarrow> (k, v) \<in> set vals \<Longrightarrow> map_of d k = Some v"
  by (induction d vals rule: setSecretValues.induct) (auto split: if_splits)

lemma goMapGet_update [simp]:
  "goMapGet (Some (AList.update k v m)) k' = (if k' = k then v else goMapGet (Some m) k')"
  by (simp add: goMapGet_def update_conv')

lemma setIfDiffers_get [simp]:
  "goMapGet (Some (snd (setIfDiffers k v cm))) k' = (if k' = k then v else goMapGet (Some (snd cm)) k')"
  by (auto simp: setIfDiffers_def)

lemma setIfDiffers_same: "goMapGet (Some (snd cm)) k = v \<Longrightarrow> setIfDiffers k v cm = cm"
  by (simp add: setIfDiffers_def)

lemma goMapGet_nil: "goMapGet (Some (case m of None \<Rightarrow> [] | Some l \<Rightarrow> l)) k = goMapGet m k"
  by (cases m) (simp_all add: goMapGet_def)

lemma ensureSecretOwnershipMetadata_owned:
  "secretOwnedBy (snd (ensureSecretOwnershipMetadata sec owner ownerKind)) owner ownerKind"
  by (simp add: ensureSecretOwnershipMetadata_def secretOwnedBy_def Let_def split_beta)

lemma ensureSecretOwnershipMetadata_data [simp]:
  "secretData (snd (ensureSecretOwnershipMetadata sec owner ownerKind)) = secretData sec"
  by (simp add: ensureSecretOwnershipMetadata_def Let_def split_beta)

lemma ensureSecretOwnershipMetadata_unchanged:
  "secretOwnedBy sec owner ownerKind \<Longrightarrow> fst (ensureSecretOwnershipMetadata sec owner ownerKind) = False"
  by (simp add: ensureSecretOwnershipMetadata_def secretOwnedBy_def Let_def split_beta goMapGet_nil
      setIfDiffers_same)

lemma secretOwnedBy_data [simp]:
  "secretOwnedBy (sec\<lparr>secretData := d\<rparr>) owner ownerKind = secretOwnedBy sec owner ownerKind"
  by (simp add: secretOwnedBy_def)

lemma run_kubeGet:
  "f key (stEnv s) = (r, e') \<Longrightarrow>
     run_state (kubeGet k f key) s =
       (r, s\<lparr>stEnv := e', stTrace := stTrace s @ [EvGet k key (\<not> isl r)]\<rparr>)"
  by (simp add: kubeGet_def State_Monad.bind_def State_Monad.return_def envCall_def emit_def)

text \<open>The data that an upsert wants: the values over what was there.\<close>

definition secretHas :: "secret \<Rightarrow> (string \<times> string) list \<Rightarrow> bool" where
  "secretHas sec vals \<longleftrightarrow>
     (case secretData sec of None \<Rightarrow> False | Some d \<Rightarrow> list_all (\<lambda>(k, v). map_of d k = Some v) vals)"

definition secretValue :: "secret \<Rightarrow> string \<Rightarrow> string option" where
  "secretValue sec k = map_of (case secretData sec of None \<Rightarrow> [] | Some d \<Rightarrow> d) k"

text \<open>
  C25. A Secret that somebody else owns is never written. When the Secret exists and its labels and
  annotations do not name this owner, the upsert fails, and reading the Secret is the only thing
  that has happened.
\<close>

theorem upsert_leaves_foreign_secret:
  assumes "svcGetSecret S (namespace, name) (stEnv s) = (Inr sec, e')"
    and "\<not> secretOwnedBy sec owner ownerKind"
    and "\<forall>(key, value) \<in> set vals. key \<noteq> []"
  shows "\<exists>err. run_state (upsertOwnedSecretValues S owner ownerKind namespace name vals) s =
     (Some err, s\<lparr>stEnv := e', stTrace := stTrace s @ [EvGet KSecret (namespace, name) True]\<rparr>)"
proof -
  have "\<not> list_ex (\<lambda>(key, value). key = []) vals"
    using assms(3) by (auto simp: list_ex_iff)
  then show ?thesis
    using assms(2) run_kubeGet [of "svcGetSecret S" "(namespace, name)" s, OF assms(1)]
    by (simp add: upsertOwnedSecretValues_def State_Monad.bind_def State_Monad.return_def)
qed

text \<open>
  C26. An upsert into a Secret of the owner writes at most once, and only when something differs. If
  the Secret already has the values nothing is written; otherwise one update is sent, of a Secret
  that has all the values, keeps every other key, and is still marked as the owner's. The order in
  which the Go map is visited does not matter for what it holds.
\<close>

theorem upsert_owned_secret:
  assumes "svcGetSecret S (namespace, name) (stEnv s) = (Inr sec, e')"
    and "secretOwnedBy sec owner ownerKind"
    and "\<forall>(key, value) \<in> set vals. key \<noteq> []" and "distinct (map fst vals)"
  shows "if secretHas sec vals
     then run_state (upsertOwnedSecretValues S owner ownerKind namespace name vals) s =
       (None, s\<lparr>stEnv := e', stTrace := stTrace s @ [EvGet KSecret (namespace, name) True]\<rparr>)
     else \<exists>sec' s'. run_state (upsertOwnedSecretValues S owner ownerKind namespace name vals) s =
         (fst (svcUpdateSecret S sec' e'), s') \<and>
       stTrace s' = stTrace s @ [EvGet KSecret (namespace, name) True,
         EvSecretUpdate sec' (fst (svcUpdateSecret S sec' e') = None)] \<and>
       secretHas sec' vals \<and> secretOwnedBy sec' owner ownerKind \<and>
       (\<forall>k. k \<notin> fst ` set vals \<longrightarrow> secretValue sec' k = secretValue sec k)"
proof -
  let ?sec1 = "snd (ensureSecretOwnershipMetadata sec owner ownerKind)"
  let ?d = "case secretData sec of None \<Rightarrow> [] | Some d0 \<Rightarrow> d0"
  let ?sec' = "?sec1\<lparr>secretData := Some (snd (setSecretValues ?d vals))\<rparr>"
  have nk: "\<not> list_ex (\<lambda>(key, value). key = []) vals"
    using assms(3) by (auto simp: list_ex_iff)
  note get = run_kubeGet [of "svcGetSecret S" "(namespace, name)" s, OF assms(1)]
  have run: "run_state (upsertOwnedSecretValues S owner ownerKind namespace name vals) s =
      (if secretData sec \<noteq> None \<and> \<not> fst (setSecretValues ?d vals)
       then (None, s\<lparr>stEnv := e', stTrace := stTrace s @ [EvGet KSecret (namespace, name) True]\<rparr>)
       else (fst (svcUpdateSecret S ?sec' e'),
             s\<lparr>stEnv := snd (svcUpdateSecret S ?sec' e'),
               stTrace := stTrace s @ [EvGet KSecret (namespace, name) True,
                 EvSecretUpdate ?sec' (fst (svcUpdateSecret S ?sec' e') = None)]\<rparr>))"
    using nk assms(2) get ensureSecretOwnershipMetadata_unchanged [OF assms(2)]
    by (simp add: upsertOwnedSecretValues_def kubeUpdateSecret_def State_Monad.bind_def
        State_Monad.return_def envCall_def emit_def split_beta Let_def)
  show ?thesis
  proof (cases "secretHas sec vals")
    case True
    then have "setSecretValues ?d vals = (False, ?d)" "secretData sec \<noteq> None"
      by (auto simp: secretHas_def list_all_iff intro!: setSecretValues_same split: option.splits)
    then show ?thesis using True run by simp
  next
    case False
    then have "\<not> (secretData sec \<noteq> None \<and> \<not> fst (setSecretValues ?d vals))"
      using setSecretValues_False [of ?d vals]
      by (auto simp: secretHas_def list_all_iff split: option.splits)
    moreover have "secretHas ?sec' vals"
      using setSecretValues_map [OF assms(4), of ?d] assms(4)
      by (auto simp: secretHas_def list_all_iff)
    moreover have "secretValue ?sec' k = secretValue sec k" if "k \<notin> fst ` set vals" for k
    proof -
      have "map_of vals k = None" using that by (simp add: map_of_eq_None_iff)
      then show ?thesis
        using setSecretValues_map [OF assms(4), of ?d k] by (simp add: secretValue_def)
    qed
    ultimately show ?thesis
      using False run ensureSecretOwnershipMetadata_owned [of sec owner ownerKind] by auto
  qed
qed

section \<open>Examples\<close>

definition exSecretCluster :: "secret \<Rightarrow> 'e services" where
  "exSecretCluster sec = emptyCluster\<lparr>svcGetSecret := \<lambda>key e. (Inr sec, e)\<rparr>"

lemma exSecretCluster_simps [simp]:
  "svcGetSecret (exSecretCluster sec) key e = (Inr sec, e)"
  "svcUpdateSecret (exSecretCluster sec) sec' e = (None, e)"
  by (simp_all add: exSecretCluster_def emptyCluster_def)

theorem upsert_leaves_foreign_secret_witness:
  "\<exists>err. run_state (upsertOwnedSecretValues (exSecretCluster (newSecret ''team'' ''ci'')) (exMeta ''team'' ''bot'')
       ''Robot'' ''team'' ''ci'' [(''secret'', ''s3cr3t'')]) (startState () ()) =
     (Some err, (startState () ())\<lparr>stTrace := [EvGet KSecret (''team'', ''ci'') True]\<rparr>)"
  using upsert_leaves_foreign_secret [of "exSecretCluster (newSecret ''team'' ''ci'')" "''team''" "''ci''"
      "startState () ()" "newSecret ''team'' ''ci''" "()" "exMeta ''team'' ''bot''" "''Robot''"
      "[(''secret'', ''s3cr3t'')]"]
  by (simp add: secretOwnedBy_def newSecret_def goMapGet_def managedByLabelValue_def startState_def)

definition exOwnedSecret :: secret where
  "exOwnedSecret = snd (ensureSecretOwnershipMetadata
     ((newSecret ''team'' ''ci'')\<lparr>secretData := Some [(''username'', ''robot$bot''), (''secret'', ''old'')]\<rparr>)
     (exMeta ''team'' ''bot'') ''Robot'')"

theorem upsert_owned_secret_witness:
  "\<exists>sec' s'. run_state (upsertOwnedSecretValues (exSecretCluster exOwnedSecret) (exMeta ''team'' ''bot'')
       ''Robot'' ''team'' ''ci'' [(''secret'', ''new'')]) (startState () ()) = (None, s') \<and>
     stTrace s' = [EvGet KSecret (''team'', ''ci'') True, EvSecretUpdate sec' True] \<and>
     secretHas sec' [(''secret'', ''new'')] \<and> secretValue sec' ''username'' = secretValue exOwnedSecret ''username''"
proof -
  have "secretOwnedBy exOwnedSecret (exMeta ''team'' ''bot'') ''Robot''"
    unfolding exOwnedSecret_def by (rule ensureSecretOwnershipMetadata_owned)
  moreover have "\<not> secretHas exOwnedSecret [(''secret'', ''new'')]"
    by (simp add: secretHas_def exOwnedSecret_def)
  ultimately show ?thesis
    using upsert_owned_secret [of "exSecretCluster exOwnedSecret" "''team''" "''ci''" "startState () ()"
        exOwnedSecret "()" "exMeta ''team'' ''bot''" "''Robot''" "[(''secret'', ''new'')]"]
    by (auto simp: exSecretCluster_def emptyCluster_def)
qed

end
