(* ===== verification/Connection.thy ===== *)
theory Connection
  imports Lifecycle Secrets HarborClientFacts
begin

text \<open>
  From an object's connection reference to a Harbor client: the resolution of the reference, the
  credentials, and the binding of the object to the connection it resolved
  (\<^verbatim>\<open>internal/controller/common.go\<close>, with the reference comparison of
  singletons.go).
\<close>

section \<open>References\<close>

definition emptyConnectionReference :: harborConnectionReference where
  "emptyConnectionReference = \<lparr>hcrName = [], hcrKind = []\<rparr>"

definition normalizedHarborConnectionRef :: "harborConnectionReference option \<Rightarrow> harborConnectionReference" where
  "normalizedHarborConnectionRef ref =
     (case ref of
        None \<Rightarrow> emptyConnectionReference
      | Some r \<Rightarrow> if hcrKind r = [] then r\<lparr>hcrKind := harborConnectionReferenceKindNamespaced\<rparr> else r)"

definition harborConnectionRefsEqual :: "harborConnectionReference option \<Rightarrow> harborConnectionReference option \<Rightarrow> bool" where
  "harborConnectionRefsEqual a b =
     (let normalizedA = normalizedHarborConnectionRef a; normalizedB = normalizedHarborConnectionRef b
      in hcrName normalizedA = hcrName normalizedB \<and> hcrKind normalizedA = hcrKind normalizedB)"

definition normalizeBaseURL :: "string \<Rightarrow> string" where
  "normalizeBaseURL baseURL = goTrimRight baseURL CHR ''/''"

record connectionConfig =
  ccBaseURL :: string
  ccKind :: string
  ccName :: string
  ccNamespace :: string
  ccUID :: string
  ccCredentials :: "credentials option"
  ccCABundle :: string
  ccCABundleSecretRef :: "secretReference option"
  ccDisplayName :: string

definition namespacedConfig :: "harborConnection \<Rightarrow> connectionConfig" where
  "namespacedConfig conn =
     \<lparr>ccBaseURL = connBaseURL (objSpec conn),
      ccKind = harborConnectionReferenceKindNamespaced,
      ccName = metaName (objMeta conn),
      ccNamespace = metaNamespace (objMeta conn),
      ccUID = metaUID (objMeta conn),
      ccCredentials = connCredentials (objSpec conn),
      ccCABundle = connCABundle (objSpec conn),
      ccCABundleSecretRef = connCABundleSecretRef (objSpec conn),
      ccDisplayName = ''HarborConnection '' @ metaNamespace (objMeta conn) @ ''/'' @ metaName (objMeta conn)\<rparr>"

definition clusterConfig :: "clusterHarborConnection \<Rightarrow> connectionConfig" where
  "clusterConfig conn =
     \<lparr>ccBaseURL = connBaseURL (objSpec conn),
      ccKind = harborConnectionReferenceKindCluster,
      ccName = metaName (objMeta conn),
      ccNamespace = [],
      ccUID = metaUID (objMeta conn),
      ccCredentials = connCredentials (objSpec conn),
      ccCABundle = connCABundle (objSpec conn),
      ccCABundleSecretRef = connCABundleSecretRef (objSpec conn),
      ccDisplayName = ''ClusterHarborConnection '' @ metaName (objMeta conn)\<rparr>"

text \<open>With an operator-wide connection the object's own reference must be empty or the same one.\<close>

definition forcedReference :: "'e operatorOptions \<Rightarrow> harborConnectionReference option \<Rightarrow>
    gerror + harborConnectionReference option" where
  "forcedReference opts ref =
     (let forcedName = forcedHarborConnection opts
      in if forcedName = [] then Inr ref
         else let forced = Some \<lparr>hcrName = forcedName, hcrKind = harborConnectionReferenceKindCluster\<rparr>
              in case ref of
                   None \<Rightarrow> Inr forced
                 | Some r \<Rightarrow>
                     if hcrName r \<noteq> [] \<and>
                        (hcrKind (normalizedHarborConnectionRef (Some r)) \<noteq> harborConnectionReferenceKindCluster \<or>
                         hcrName (normalizedHarborConnectionRef (Some r)) \<noteq> forcedName)
                     then Inl (ErrMsg
                        (''spec.harborConnectionRef must be omitted or reference ClusterHarborConnection '' @
                         goQuote forcedName @ '' when --harbor-connection is set''))
                     else Inr forced)"

definition resolveHarborConnection :: "'e services \<Rightarrow> 'e operatorOptions \<Rightarrow> string \<Rightarrow>
    harborConnectionReference option \<Rightarrow> ('o, 'e, gerror + connectionConfig) go" where
  "resolveHarborConnection S opts namespace ref0 =
     (case forcedReference opts ref0 of
        Inl err \<Rightarrow> State_Monad.return (Inl err)
      | Inr ref1 \<Rightarrow>
          (let missing = State_Monad.return (Inl (ErrMsg
                 ''spec.harborConnectionRef is required unless the operator is started with --harbor-connection''))
           in case ref1 of
                None \<Rightarrow> missing
              | Some ref \<Rightarrow>
                  if hcrName ref = [] then missing
                  else
                    let kind = (if hcrKind ref = [] then harborConnectionReferenceKindNamespaced else hcrKind ref)
                    in if kind = harborConnectionReferenceKindNamespaced
                       then do {
                         r \<leftarrow> kubeGet KHarborConnection (svcGetConnection S) (namespace, hcrName ref);
                         State_Monad.return (case r of Inl err \<Rightarrow> Inl err | Inr conn \<Rightarrow> Inr (namespacedConfig conn)) }
                       else if kind = harborConnectionReferenceKindCluster
                       then do {
                         r \<leftarrow> kubeGet KClusterHarborConnection (svcGetClusterConnection S) ([], hcrName ref);
                         State_Monad.return (case r of Inl err \<Rightarrow> Inl err | Inr conn \<Rightarrow> Inr (clusterConfig conn)) }
                       else State_Monad.return (Inl (ErrMsg
                              (''unsupported harborConnectionRef.kind '' @ goQuote (hcrKind ref))))))"

section \<open>Credentials and the client\<close>

definition getHarborAuth :: "'e services \<Rightarrow> 'e operatorOptions \<Rightarrow> connectionConfig \<Rightarrow>
    ('o, 'e, gerror + string \<times> string) go" where
  "getHarborAuth S opts conn =
     (case ccCredentials conn of
        None \<Rightarrow> State_Monad.return (Inl (ErrMsg (ccDisplayName conn @ '' has no credentials configured'')))
      | Some cred \<Rightarrow>
          do { u \<leftarrow> (case credUsernameSecretRef cred of
                      None \<Rightarrow> State_Monad.return (Inr (credUsername cred))
                    | Some ref \<Rightarrow> readSecretValue S opts ref (ccNamespace conn) ''username'');
               case u of
                 Inl err \<Rightarrow> State_Monad.return (Inl err)
               | Inr username \<Rightarrow>
                   do { p \<leftarrow> readSecretValue S opts (credPasswordSecretRef cred) (ccNamespace conn) ''access_secret'';
                        State_Monad.return
                          (case p of Inl err \<Rightarrow> Inl err | Inr pass \<Rightarrow> Inr (username, pass)) } })"

definition resolveConnectionCABundle :: "'e services \<Rightarrow> 'e operatorOptions \<Rightarrow> connectionConfig \<Rightarrow>
    ('o, 'e, gerror + string) go" where
  "resolveConnectionCABundle S opts conn =
     (case ccCABundleSecretRef conn of
        None \<Rightarrow> State_Monad.return (Inr (ccCABundle conn))
      | Some ref \<Rightarrow>
          if ccCABundle conn \<noteq> []
          then State_Monad.return (Inl (ErrMsg ''caBundle and caBundleSecretRef are mutually exclusive''))
          else do { r \<leftarrow> readSecretValue S opts ref (ccNamespace conn) ''ca.crt'';
                    State_Monad.return
                      (case r of
                         Inl err \<Rightarrow> Inl (ErrWrap ''failed to read caBundleSecretRef: '' err)
                       | Inr caBundle \<Rightarrow> Inr caBundle) })"

definition newHarborClient :: "'e services \<Rightarrow> 'e operatorOptions \<Rightarrow> string \<Rightarrow> string \<Rightarrow> string \<Rightarrow> string \<Rightarrow>
    gerror + harborClient" where
  "newHarborClient S opts baseURL user pass caBundle =
     (if caBundle \<noteq> [] \<and> \<not> svcValidPEM S caBundle
      then Inl (ErrMsg ''invalid caBundle: no certificates found'')
      else Inr (newWithHTTPClient baseURL user pass
             \<lparr>htTimeout = requestTimeout opts,
              htRootCAs = (if caBundle = [] then None else Some caBundle)\<rparr>))"

definition buildHarborClient :: "'e services \<Rightarrow> 'e operatorOptions \<Rightarrow> connectionConfig \<Rightarrow> bool \<Rightarrow>
    ('o, 'e, gerror + harborClient) go" where
  "buildHarborClient S opts conn requireCredentials =
     do { auth \<leftarrow> (if ccCredentials conn \<noteq> None then getHarborAuth S opts conn
                   else if requireCredentials
                   then State_Monad.return (Inl (ErrMsg (ccDisplayName conn @ '' has no credentials configured'')))
                   else State_Monad.return (Inr ([], [])));
          case auth of
            Inl err \<Rightarrow> State_Monad.return (Inl err)
          | Inr (user, pass) \<Rightarrow>
              do { r \<leftarrow> resolveConnectionCABundle S opts conn;
                   case r of
                     Inl err \<Rightarrow> State_Monad.return (Inl err)
                   | Inr caBundle \<Rightarrow>
                       State_Monad.return (newHarborClient S opts (ccBaseURL conn) user pass caBundle) } }"

section \<open>Binding\<close>

definition bindingOf :: "connectionConfig \<Rightarrow> harborConnectionBinding" where
  "bindingOf conn =
     \<lparr>hbKind = ccKind conn, hbName = ccName conn, hbNamespace = ccNamespace conn, hbUID = ccUID conn\<rparr>"

text \<open>The object is bound, and the binding stored, before a client is built.\<close>

definition bindConnection :: "('e, 's, 't harborStatusBase_scheme) kind \<Rightarrow> harborConnectionBinding \<Rightarrow>
    (('s, 't harborStatusBase_scheme) resource, 'e, gerror option) go" where
  "bindConnection K current =
     do { obj \<leftarrow> getObj;
          case resolvedHarborConnection (objStatus obj) of
            Some previous \<Rightarrow>
              State_Monad.return
                (if previous \<noteq> current then Some (HarborConnectionChanged previous current) else None)
          | None \<Rightarrow>
              do { _ \<leftarrow> modObj (\<lambda>o1. o1\<lparr>objStatus := (objStatus o1)\<lparr>resolvedHarborConnection := Some current\<rparr>\<rparr>);
                   kubeStatusUpdate K } }"

definition getHarborClientForObject :: "'e services \<Rightarrow> 'e operatorOptions \<Rightarrow>
    ('e, 's, 't harborStatusBase_scheme) kind \<Rightarrow> string \<Rightarrow> harborConnectionReference option \<Rightarrow>
    (('s, 't harborStatusBase_scheme) resource, 'e, gerror + harborClient) go" where
  "getHarborClientForObject S opts K namespace ref =
     do { r \<leftarrow> resolveHarborConnection S opts namespace ref;
          case r of
            Inl err \<Rightarrow> State_Monad.return (Inl err)
          | Inr conn \<Rightarrow>
              do { err \<leftarrow> bindConnection K (bindingOf conn);
                   case err of
                     Some e \<Rightarrow> State_Monad.return (Inl e)
                   | None \<Rightarrow> buildHarborClient S opts conn True } }"

end
