(* ===== verification/Reconciler.thy ===== *)
theory Reconciler
  imports Connection
begin

text \<open>
  The frame that sixteen of the reconcilers share word for word: load the object, mark a new
  generation, resolve and bind the connection, finish a deletion, ensure the finalizer, and only then
  the kind's own work. \<open>harborBacked\<close> is that frame with the kind's delete function and its
  own work as parameters; the locale \<open>harbor_backed\<close> states what the kind must provide and
  proves once what every such reconciler guarantees about the order of Kubernetes writes and Harbor
  requests.
\<close>

section \<open>The frame\<close>

definition markAndResolve :: "'e services \<Rightarrow> 'e operatorOptions \<Rightarrow>
    ('e, 's harborSpecBase_scheme, 't harborStatusBase_scheme) kind \<Rightarrow> bool \<Rightarrow>
    (harborClient \<Rightarrow> (('s harborSpecBase_scheme, 't harborStatusBase_scheme) resource, 'e, outcome) go) \<Rightarrow>
    (('s harborSpecBase_scheme, 't harborStatusBase_scheme) resource, 'e, outcome) go" where
  "markAndResolve S opts K requiresRemoteCleanup rest =
     do { generation \<leftarrow> crGeneration;
          err \<leftarrow> markReconcilingIfNeeded S K generation;
          if err \<noteq> None then finish err
          else do {
            cr \<leftarrow> getObj;
            r \<leftarrow> getHarborClientForObject S opts K (metaNamespace (objMeta cr)) (harborConnectionRef (objSpec cr));
            case r of
              Inl e \<Rightarrow>
                do { cr \<leftarrow> getObj;
                     (done, finalErr) \<leftarrow> finalizeWithoutHarborConnection S K (GetDeletionPolicy (objSpec cr))
                                            requiresRemoteCleanup e;
                     if done then finish finalErr else failWith S K e }
            | Inr hc \<Rightarrow> rest hc } }"

definition withHarborClient :: "'e services \<Rightarrow> 'e operatorOptions \<Rightarrow>
    ('e, 's harborSpecBase_scheme, 't harborStatusBase_scheme) kind \<Rightarrow> bool \<Rightarrow>
    (harborClient \<Rightarrow> (('s harborSpecBase_scheme, 't harborStatusBase_scheme) resource, 'e, outcome) go) \<Rightarrow>
    nsName \<Rightarrow> (('s harborSpecBase_scheme, 't harborStatusBase_scheme) resource, 'e, outcome) go" where
  "withHarborClient S opts K requiresRemoteCleanup rest key =
     do { (found, err) \<leftarrow> loadResource K key;
          if err \<noteq> None then finish err
          else if \<not> found then finish None
          else markAndResolve S opts K requiresRemoteCleanup rest }"

definition withFinalizer :: "'e services \<Rightarrow>
    ('e, 's harborSpecBase_scheme, 't harborStatusBase_scheme) kind \<Rightarrow>
    (('s harborSpecBase_scheme, 't harborStatusBase_scheme) resource, 'e, gerror option) go option \<Rightarrow>
    (('s harborSpecBase_scheme, 't harborStatusBase_scheme) resource, 'e, outcome) go \<Rightarrow>
    (('s harborSpecBase_scheme, 't harborStatusBase_scheme) resource, 'e, outcome) go" where
  "withFinalizer S K deleteFn rest =
     do { cr \<leftarrow> getObj;
          (done, err) \<leftarrow> finalizeIfDeleting S K (GetDeletionPolicy (objSpec cr)) deleteFn;
          if done then finish err
          else do {
            err \<leftarrow> ensureFinalizer S K;
            if err \<noteq> None then finish err else rest } }"

definition harborBacked :: "'e services \<Rightarrow> 'e operatorOptions \<Rightarrow>
    ('e, 's harborSpecBase_scheme, 't harborStatusBase_scheme) kind \<Rightarrow> bool \<Rightarrow>
    (harborClient \<Rightarrow> (('s harborSpecBase_scheme, 't harborStatusBase_scheme) resource, 'e, gerror option) go) option \<Rightarrow>
    (harborClient \<Rightarrow> (('s harborSpecBase_scheme, 't harborStatusBase_scheme) resource, 'e, outcome) go) \<Rightarrow>
    nsName \<Rightarrow> (('s harborSpecBase_scheme, 't harborStatusBase_scheme) resource, 'e, outcome) go" where
  "harborBacked S opts K requiresRemoteCleanup deleteFn body =
     withHarborClient S opts K requiresRemoteCleanup
       (\<lambda>hc. withFinalizer S K (map_option (\<lambda>del. del hc) deleteFn) (body hc))"

section \<open>Kinds of events\<close>

definition isHttp :: "event \<Rightarrow> bool" where
  "isHttp ev = (case ev of EvHttp hc req st \<Rightarrow> True | _ \<Rightarrow> False)"

definition isDelete :: "event \<Rightarrow> bool" where
  "isDelete ev = (case ev of EvHttp hc req st \<Rightarrow> reqMethod req = ''DELETE'' | _ \<Rightarrow> False)"

text \<open>The API server has shown, or accepted, a connection binding of the object.\<close>

definition binds :: "event \<Rightarrow> bool" where
  "binds ev =
     (case ev of
        EvLoad k key (Some (m, b)) \<Rightarrow> b \<noteq> None
      | EvUpdate k m (Some (m', b)) \<Rightarrow> b \<noteq> None
      | EvStatusUpdate k sb (Some (m', b)) \<Rightarrow> b \<noteq> None \<or> resolvedHarborConnection sb \<noteq> None
      | _ \<Rightarrow> False)"

text \<open>An update that sends the object without the operator's finalizer.\<close>

definition dropsFinalizer :: "event \<Rightarrow> bool" where
  "dropsFinalizer ev =
     (case ev of EvUpdate k m sh \<Rightarrow> finalizerName \<notin> set (metaFinalizers m) | _ \<Rightarrow> False)"

lemma event_simps [simp]:
  "isHttp (EvHttp hc req st)" "\<not> isHttp (EvLoad k key sh)" "\<not> isHttp (EvGet k key b)" "\<not> isHttp (EvList k b)"
  "\<not> isHttp (EvUpdate k m sh)" "\<not> isHttp (EvStatusUpdate k sb sh)" "\<not> isHttp (EvSecretCreate sec b)"
  "\<not> isHttp (EvSecretUpdate sec b)" "\<not> isHttp (EvMetric x y z)" "\<not> isHttp EvClose"
  "isDelete (EvHttp hc req st) = (reqMethod req = ''DELETE'')"
  "\<not> dropsFinalizer (EvHttp hc req st)" "\<not> dropsFinalizer (EvLoad k key sh)"
  "\<not> dropsFinalizer (EvGet k key b)" "\<not> dropsFinalizer (EvList k b)"
  "\<not> dropsFinalizer (EvStatusUpdate k sb sh)" "\<not> dropsFinalizer (EvSecretCreate sec b)"
  "\<not> dropsFinalizer (EvSecretUpdate sec b)" "\<not> dropsFinalizer (EvMetric x y z)" "\<not> dropsFinalizer EvClose"
  "dropsFinalizer (EvUpdate k m sh) = (finalizerName \<notin> set (metaFinalizers m))"
  by (simp_all add: isHttp_def isDelete_def dropsFinalizer_def)

lemma isDelete_isHttp: "isDelete ev \<Longrightarrow> isHttp ev"
  by (auto simp: isDelete_def split: event.splits)

lemma binds_simps [simp]:
  "binds (EvLoad k key sh) = (\<exists>m b. sh = Some (m, Some b))"
  "binds (EvUpdate k m sh) = (\<exists>m b. sh = Some (m, Some b))"
  "binds (EvStatusUpdate k sb sh) = (\<exists>m b. sh = Some (m, b) \<and> (b \<noteq> None \<or> resolvedHarborConnection sb \<noteq> None))"
  "\<not> binds (EvHttp hc req st)"
  by (auto simp: binds_def split: option.splits)

section \<open>The frame's own steps send no Harbor request\<close>

text \<open>
  Most of them only read, and write the status: \<open>quietly\<close>. The finalizer steps update the
  object as well: \<open>noHttp\<close>.
\<close>

definition quietEvent :: "event \<Rightarrow> bool" where
  "quietEvent ev = (case ev of EvHttp hc req st \<Rightarrow> False | EvUpdate k m sh \<Rightarrow> False | _ \<Rightarrow> True)"

lemma quietEvent_simps [simp]:
  "quietEvent (EvLoad k key sh)" "quietEvent (EvGet k key b)" "quietEvent (EvList k b)"
  "quietEvent (EvStatusUpdate k sb sh)" "quietEvent (EvSecretCreate sec b)"
  "quietEvent (EvSecretUpdate sec b)"
  by (simp_all add: quietEvent_def)

lemma quietEvent_imp: "quietEvent ev \<Longrightarrow> \<not> isHttp ev" "quietEvent ev \<Longrightarrow> \<not> dropsFinalizer ev"
  by (auto simp: quietEvent_def isHttp_def dropsFinalizer_def split: event.splits)

abbreviation quietly :: "('o, 'e, 'a) go \<Rightarrow> bool" where
  "quietly m \<equiv> emits quietEvent m"

abbreviation noHttp :: "('o, 'e, 'a) go \<Rightarrow> bool" where
  "noHttp m \<equiv> emits (\<lambda>ev. \<not> isHttp ev) m"

abbreviation noDrop :: "('o, 'e, 'a) go \<Rightarrow> bool" where
  "noDrop m \<equiv> emits (\<lambda>ev. \<not> dropsFinalizer ev) m"

lemma quietly_noHttp: "quietly m \<Longrightarrow> noHttp m"
  by (erule emits_mono) (rule quietEvent_imp)

lemma quietly_noDrop: "quietly m \<Longrightarrow> noDrop m"
  by (erule emits_mono) (rule quietEvent_imp)

lemma quietly_kube:
  "quietly (kubeGet k f key)" "quietly (kubeLoad K key)" "quietly (kubeList K)"
  "quietly (kubeStatusUpdate K)" "quietly (kubeCreateSecret S sec)" "quietly (kubeUpdateSecret S sec)"
  unfolding kubeGet_def kubeLoad_def kubeList_def kubeStatusUpdate_def kubeCreateSecret_def kubeUpdateSecret_def
  by (intro emits_intros; simp)+

lemma noHttp_kubeUpdate [emits_intros]: "noHttp (kubeUpdate K)"
  unfolding kubeUpdate_def by (intro emits_intros) auto

lemma emits_finish [emits_intros]: "emits C (finish err)"
  unfolding finish_def by (rule emits_return)

lemma emits_crGeneration [emits_intros]: "emits C crGeneration"
  unfolding crGeneration_def by (intro emits_intros)

lemma emits_sanitize [emits_intros]: "emits C (sanitizeOptionalHarborConnectionRef K)"
  unfolding sanitizeOptionalHarborConnectionRef_def by (rule emits_modObj)

lemma emits_markStatus [emits_intros]: "emits C (markStatus S mark)"
  unfolding markStatus_def threeNows_def metav1Now_def by (intro emits_intros)

lemma quietly_setStatus:
  "quietly (setReadyStatus S K g reason message)" "quietly (setReconcilingStatus S K g reason message)"
  "quietly (setErrorStatus S K g err)"
  unfolding setReadyStatus_def setReconcilingStatus_def setErrorStatus_def
  by (intro emits_intros quietly_kube)+

lemma quietly_lifecycle:
  "quietly (loadResource K key)" "quietly (markReconcilingIfNeeded S K g)"
  "quietly (requeueOnRemoteNotFound S K g reset message)" "quietly (failWith S K e)"
  unfolding loadResource_def markReconcilingIfNeeded_def requeueOnRemoteNotFound_def failWith_def
  by (intro emits_intros quietly_kube quietly_setStatus)+

lemma quietly_readyWithDrift: "quietly (readyWithDrift S opts K reason message)"
  unfolding readyWithDrift_def by (intro emits_intros quietly_setStatus)

lemma quietly_readSecretValue: "quietly (readSecretValue S opts ref ns key)"
  unfolding readSecretValue_def by (intro emits_intros quietly_kube)

lemma quietly_resolveHarborConnection: "quietly (resolveHarborConnection S opts ns ref)"
  unfolding resolveHarborConnection_def by (intro emits_intros quietly_kube)

lemma quietly_buildHarborClient: "quietly (buildHarborClient S opts conn b)"
  unfolding buildHarborClient_def getHarborAuth_def resolveConnectionCABundle_def
  by (intro emits_intros quietly_readSecretValue)

lemma quietly_bindConnection: "quietly (bindConnection K b)"
  unfolding bindConnection_def by (intro emits_intros quietly_kube)

lemma quietly_getHarborClientForObject: "quietly (getHarborClientForObject S opts K ns ref)"
  unfolding getHarborClientForObject_def
  by (intro emits_intros quietly_resolveHarborConnection quietly_bindConnection quietly_buildHarborClient)

lemma quietly_upsert: "quietly (upsertOwnedSecretValues S owner k ns name vals)"
  unfolding upsertOwnedSecretValues_def by (intro emits_intros quietly_kube)

lemmas quietly_all = quietly_kube quietly_setStatus quietly_lifecycle quietly_readyWithDrift
  quietly_readSecretValue quietly_resolveHarborConnection quietly_buildHarborClient
  quietly_bindConnection quietly_getHarborClientForObject quietly_upsert

lemmas noHttp_quiet [emits_intros] = quietly_all [THEN quietly_noHttp]

lemmas noDrop_quiet [emits_intros] = quietly_all [THEN quietly_noDrop]

lemmas quietly_intros [emits_intros] = quietly_all

lemma noHttp_finalizer [emits_intros]:
  "noHttp (ensureFinalizer S K)" "noHttp (removeFinalizer S K)"
  "noHttp (finalizeWithoutHarborConnection S K policy cleanup err)"
  unfolding ensureFinalizer_def removeFinalizer_def finalizeWithoutHarborConnection_def
  by (intro emits_intros)+

text \<open>The two places where the kind's own functions run.\<close>

lemma emits_finalizeIfDeleting:
  assumes "\<And>d. deleteFn = Some d \<Longrightarrow> emits C d" and "\<And>ev. \<not> isHttp ev \<Longrightarrow> C ev"
  shows "emits C (finalizeIfDeleting S K policy deleteFn)"
proof -
  have rf: "emits C (removeFinalizer S K)"
    by (rule emits_mono [OF noHttp_finalizer(2)]) (rule assms(2))
  show ?thesis
    unfolding finalizeIfDeleting_def by (intro emits_intros rf; erule assms(1))
qed

lemma noHttp_finalize_orphan [emits_intros]: "noHttp (finalizeIfDeleting S K deletionPolicyOrphan deleteFn)"
  unfolding finalizeIfDeleting_def by (intro emits_intros) simp_all

end
