(* ===== verification/ObjectInvariant.thy ===== *)
theory ObjectInvariant
  imports Reconciler
begin

text \<open>
  Invariants of the reconciler's object and the trace. \<open>keeps J m\<close> says that \<open>m\<close>
  preserves \<open>J\<close>, and the locale \<open>object_invariant\<close> lists the few steps that an
  invariant of the frame has to survive once the object is loaded: a new event that is no Harbor request,
  the reply to a status update, and the local changes the frame makes. From those follow the rules for
  all operations of the frame; \<open>rebinding_invariant\<close> adds the writing of a binding.
\<close>

definition keeps :: "('o \<Rightarrow> event list \<Rightarrow> bool) \<Rightarrow> ('o, 'e, 'a) go \<Rightarrow> bool" where
  "keeps J m \<longleftrightarrow>
     (\<forall>s. J (stObj s) (stTrace s) \<longrightarrow>
        J (stObj (snd (run_state m s))) (stTrace (snd (run_state m s))))"

lemma keepsD: "keeps J m \<Longrightarrow> J (stObj s) (stTrace s) \<Longrightarrow> run_state m s = (a, s') \<Longrightarrow> J (stObj s') (stTrace s')"
  unfolding keeps_def by (metis snd_conv)

lemma keeps_return [triple_intros]: "keeps J (State_Monad.return x)"
  by (simp add: keeps_def State_Monad.return_def)

lemma keeps_getObj [triple_intros]: "keeps J getObj"
  by (simp add: keeps_def getObj_def)

lemma keeps_envCall [triple_intros]: "keeps J (envCall f)"
  by (simp add: keeps_def envCall_def split: prod.split)

lemma keeps_bind [triple_intros]:
  assumes "keeps J m" and "\<And>x. keeps J (f x)"
  shows "keeps J (State_Monad.bind m f)"
  using assms by (auto simp: keeps_def State_Monad.bind_def split: prod.split)

lemma keeps_if [triple_intros]: "(b \<Longrightarrow> keeps J m) \<Longrightarrow> (\<not> b \<Longrightarrow> keeps J n) \<Longrightarrow> keeps J (if b then m else n)"
  by simp

lemma keeps_option [triple_intros]:
  "(x = None \<Longrightarrow> keeps J m) \<Longrightarrow> (\<And>y. x = Some y \<Longrightarrow> keeps J (f y)) \<Longrightarrow>
     keeps J (case x of None \<Rightarrow> m | Some y \<Rightarrow> f y)"
  by (cases x) auto

lemma keeps_sum [triple_intros]:
  "(\<And>y. x = Inl y \<Longrightarrow> keeps J (f y)) \<Longrightarrow> (\<And>z. x = Inr z \<Longrightarrow> keeps J (g z)) \<Longrightarrow>
     keeps J (case x of Inl y \<Rightarrow> f y | Inr z \<Rightarrow> g z)"
  by (cases x) auto

lemma keeps_prod [triple_intros]:
  "(\<And>a b. x = (a, b) \<Longrightarrow> keeps J (f a b)) \<Longrightarrow> keeps J (case x of (a, b) \<Rightarrow> f a b)"
  by (cases x) auto

lemma keeps_let [triple_intros]: "keeps J (f x) \<Longrightarrow> keeps J (Let x f)"
  by simp

lemma keeps_modObj: "(\<And>obj tr. J obj tr \<Longrightarrow> J (f obj) tr) \<Longrightarrow> keeps J (modObj f)"
  by (simp add: keeps_def modObj_def)

lemma keeps_emit: "(\<And>obj tr. J obj tr \<Longrightarrow> J obj (tr @ [ev])) \<Longrightarrow> keeps J (emit ev)"
  by (simp add: keeps_def emit_def)

section \<open>Replies of the API server\<close>

text \<open>
  What the API server shows of an object when it is read in the world \<open>e\<close>, and what it
  answers when an object is sent to be stored.
\<close>

definition shown :: "('e, 's, 't) kind \<Rightarrow> nsName \<Rightarrow> 'e \<Rightarrow> (('s, 't) resource \<Rightarrow> bool) \<Rightarrow> bool" where
  "shown K key e P =
     (case fst (kcGet (kdClient K) key e) of
        Inl _ \<Rightarrow> True
      | Inr obj \<Rightarrow> P obj)"

definition stores :: "('e, 's, 't) kind \<Rightarrow> ('s, 't) resource \<Rightarrow> ('s, 't) resource \<Rightarrow> bool" where
  "stores K sent obj \<longleftrightarrow>
     (\<exists>e e'. kcUpdate (kdClient K) sent e = (Inr obj, e') \<or>
        kcStatusUpdate (kdClient K) sent e = (Inr obj, e'))"

lemma shownD: "shown K key e P \<Longrightarrow> kcGet (kdClient K) key e = (Inr obj, e') \<Longrightarrow> P obj"
  by (simp add: shown_def)

lemma shown_True [simp]: "shown K key e (\<lambda>_. True)"
  by (simp add: shown_def split: sum.split)

lemma storesI:
  "kcUpdate (kdClient K) sent e = (Inr obj, e') \<Longrightarrow> stores K sent obj"
  "kcStatusUpdate (kdClient K) sent e = (Inr obj, e') \<Longrightarrow> stores K sent obj"
  unfolding stores_def by blast+

text \<open>
  The API server stores what it is sent: under the same name, with the same spec (up to the empty
  connection reference that the reconciler clears) and the same binding and kind's fields in the
  status. An object that is being deleted stays so. An object that has changed meanwhile is not stored
  at all: the server refuses with a conflict. (An update writes the spec and a status update the status;
  the answer brings the stored other half, which the reconciler has not changed since it was read: it
  changes the kind's fields of the status only on the way to a status update, and of the spec only the
  empty reference.)
\<close>

definition faithful :: "('e, 's, 't harborStatusBase_scheme) kind \<Rightarrow> bool" where
  "faithful K \<longleftrightarrow>
     (\<forall>sent obj. stores K sent obj \<longrightarrow>
        objectKey obj = objectKey sent \<and>
        (metaDeletionTimestamp (objMeta sent) \<noteq> None \<longrightarrow> metaDeletionTimestamp (objMeta obj) \<noteq> None) \<and>
        kdSanitize K (objSpec obj) = kdSanitize K (objSpec sent) \<and>
        resolvedHarborConnection (objStatus obj) = resolvedHarborConnection (objStatus sent) \<and>
        harborStatusBase.more (objStatus obj) = harborStatusBase.more (objStatus sent))"

lemma faithfulD:
  assumes "faithful K" and "stores K sent obj"
  shows "objectKey obj = objectKey sent"
    and "metaDeletionTimestamp (objMeta sent) \<noteq> None \<Longrightarrow> metaDeletionTimestamp (objMeta obj) \<noteq> None"
    and "kdSanitize K (objSpec obj) = kdSanitize K (objSpec sent)"
    and "resolvedHarborConnection (objStatus obj) = resolvedHarborConnection (objStatus sent)"
    and "harborStatusBase.more (objStatus obj) = harborStatusBase.more (objStatus sent)"
  using assms unfolding faithful_def by blast+

lemma keeps_kubeUpdate:
  assumes "\<And>obj tr. J obj tr \<Longrightarrow> J obj (tr @ [EvUpdate (kdKind K) (objMeta obj) None])"
    and "\<And>obj tr e obj' e'. J obj tr \<Longrightarrow> kcUpdate (kdClient K) obj e = (Inr obj', e') \<Longrightarrow>
        J obj' (tr @ [EvUpdate (kdKind K) (objMeta obj) (Some (shownObj obj'))])"
  shows "keeps J (kubeUpdate K)"
  unfolding keeps_def
  by (auto simp: kubeUpdate_def run_simps shownOf_def split: prod.split sum.split intro!: assms)

lemma keeps_kubeStatusUpdate:
  assumes "\<And>obj tr. J obj tr \<Longrightarrow>
        J obj (tr @ [EvStatusUpdate (kdKind K) (harborStatusBase.truncate (objStatus obj)) None])"
    and "\<And>obj tr e obj' e'. J obj tr \<Longrightarrow> kcStatusUpdate (kdClient K) obj e = (Inr obj', e') \<Longrightarrow>
        J obj' (tr @ [EvStatusUpdate (kdKind K) (harborStatusBase.truncate (objStatus obj)) (Some (shownObj obj'))])"
  shows "keeps J (kubeStatusUpdate K)"
  unfolding keeps_def
  by (auto simp: kubeStatusUpdate_def run_simps shownOf_def split: prod.split sum.split intro!: assms)

section \<open>Invariants of the frame\<close>

text \<open>
  The status may change locally in any way that leaves the binding and the kind's own fields alone;
  writing the binding is the business of \<open>bindConnection\<close>, and an invariant that survives
  that too satisfies the second locale.
\<close>

locale object_invariant =
  fixes K :: "('e, 's, 't harborStatusBase_scheme) kind"
    and J :: "('s, 't harborStatusBase_scheme) resource \<Rightarrow> event list \<Rightarrow> bool"
  assumes J_event: "J obj tr \<Longrightarrow> \<not> isHttp ev \<Longrightarrow> J obj (tr @ [ev])"
    and J_status: "J obj tr \<Longrightarrow> kcStatusUpdate (kdClient K) obj e = (Inr obj', e') \<Longrightarrow>
        J obj' (tr @ [EvStatusUpdate (kdKind K) sb (Some (shownObj obj'))])"
    and J_sanitize: "J obj tr \<Longrightarrow> J (obj\<lparr>objSpec := kdSanitize K (objSpec obj)\<rparr>) tr"
    and J_mark: "J obj tr \<Longrightarrow> resolvedHarborConnection sb' = resolvedHarborConnection (objStatus obj) \<Longrightarrow>
        harborStatusBase.more sb' = harborStatusBase.more (objStatus obj) \<Longrightarrow> J (obj\<lparr>objStatus := sb'\<rparr>) tr"
begin

lemma keeps_kubeGet: "keeps J (kubeGet k f key)"
  unfolding kubeGet_def by (intro triple_intros keeps_emit J_event) auto

lemma keeps_status: "keeps J (kubeStatusUpdate K)"
  by (rule keeps_kubeStatusUpdate) (auto intro: J_status J_event)

lemma keeps_sanitize: "keeps J (sanitizeOptionalHarborConnectionRef K)"
  unfolding sanitizeOptionalHarborConnectionRef_def by (rule keeps_modObj) (rule J_sanitize)

lemma keeps_markStatus:
  assumes "\<And>now base. resolvedHarborConnection (snd (mark now base)) = resolvedHarborConnection base"
    and "\<And>now base. harborStatusBase.more (snd (mark now base)) = harborStatusBase.more base"
  shows "keeps J (markStatus S mark)"
  unfolding markStatus_def threeNows_def metav1Now_def
  by (intro triple_intros keeps_modObj J_mark assms)

lemma keeps_setStatus:
  "keeps J (setReadyStatus S K g reason message)"
  "keeps J (setReconcilingStatus S K g reason message)"
  "keeps J (setErrorStatus S K g err)"
  unfolding setReadyStatus_def setReconcilingStatus_def setErrorStatus_def
  by (intro triple_intros keeps_markStatus keeps_sanitize keeps_status mark_keeps)+

lemma keeps_markReconcilingIfNeeded: "keeps J (markReconcilingIfNeeded S K g)"
  unfolding markReconcilingIfNeeded_def by (intro triple_intros keeps_setStatus)

lemma keeps_crGeneration: "keeps J crGeneration"
  unfolding crGeneration_def by (intro triple_intros)

lemma keeps_readSecretValue: "keeps J (readSecretValue S opts ref ns key)"
  unfolding readSecretValue_def by (intro triple_intros keeps_kubeGet)

lemma keeps_resolve: "keeps J (resolveHarborConnection S opts ns ref)"
  unfolding resolveHarborConnection_def by (intro triple_intros keeps_kubeGet)

lemma keeps_build: "keeps J (buildHarborClient S opts conn b)"
  unfolding buildHarborClient_def getHarborAuth_def resolveConnectionCABundle_def
  by (intro triple_intros keeps_readSecretValue)

end

locale rebinding_invariant = object_invariant +
  assumes J_rebind: "J obj tr \<Longrightarrow> J (obj\<lparr>objStatus := (objStatus obj)\<lparr>resolvedHarborConnection := b\<rparr>\<rparr>) tr"
begin

lemma keeps_bindConnection: "keeps J (bindConnection K b)"
  unfolding bindConnection_def by (intro triple_intros keeps_modObj keeps_status J_rebind)

lemma keeps_getHarborClientForObject: "keeps J (getHarborClientForObject S opts K ns ref)"
  unfolding getHarborClientForObject_def
  by (intro triple_intros keeps_resolve keeps_bindConnection keeps_build)

end

text \<open>What the cleaning of an empty reference leaves alone.\<close>

lemma sanitizeRef_more [simp]: "harborClaimSpecBase.more (sanitizeRef spec) = harborClaimSpecBase.more spec"
  by (simp add: sanitizeRef_def split: option.split)

lemma GetDeletionPolicy_sanitizeRef [simp]: "GetDeletionPolicy (sanitizeRef spec) = GetDeletionPolicy spec"
  by (simp add: GetDeletionPolicy_def sanitizeRef_def split: option.split)

lemma creationPolicy_sanitizeRef [simp]: "creationPolicy (sanitizeRef spec) = creationPolicy spec"
  by (simp add: sanitizeRef_def split: option.split)

lemma GetDeletionPolicy_more:
  "harborClaimSpecBase.more spec' = harborClaimSpecBase.more spec \<Longrightarrow> GetDeletionPolicy spec' = GetDeletionPolicy spec"
  by (cases spec; cases spec') (simp add: GetDeletionPolicy_def)

lemma creationPolicy_more:
  "harborClaimSpecBase.more spec' = harborClaimSpecBase.more spec \<Longrightarrow> creationPolicy spec' = creationPolicy spec"
  by (cases spec; cases spec') simp

section \<open>The two invariants\<close>

text \<open>
  No Harbor request without a binding before it, and a bound object in memory means that a binding
  has been seen.
\<close>

definition boundInv :: "('s, 't harborStatusBase_scheme) resource \<Rightarrow> event list \<Rightarrow> bool" where
  "boundInv obj tr \<longleftrightarrow>
     preceded binds isHttp tr \<and>
     (resolvedHarborConnection (objStatus obj) \<noteq> None \<longrightarrow> list_ex binds tr)"

interpretation bound: object_invariant K boundInv for K
  by unfold_locales (auto simp: boundInv_def precededFrom_append shownObj_def)

text \<open>
  A property of the object that neither storing it nor a local step of the frame destroys. It is what
  \<open>stays\<close> says; it covers the deletion policy and the remote id. With an API server that
  stores what it is sent, it holds of everything that is read off the spec and the kind's own status.
\<close>

definition stays :: "('e, 's, 't harborStatusBase_scheme) kind \<Rightarrow>
    (('s, 't harborStatusBase_scheme) resource \<Rightarrow> bool) \<Rightarrow> bool" where
  "stays K P \<longleftrightarrow>
     (\<forall>sent obj. P sent \<longrightarrow> stores K sent obj \<longrightarrow> P obj) \<and>
     (\<forall>obj. P obj \<longrightarrow> P (obj\<lparr>objSpec := kdSanitize K (objSpec obj)\<rparr>)) \<and>
     (\<forall>obj sb'. P obj \<longrightarrow> harborStatusBase.more sb' = harborStatusBase.more (objStatus obj) \<longrightarrow>
        P (obj\<lparr>objStatus := sb'\<rparr>))"

definition staysInv :: "('e, 's, 't harborStatusBase_scheme) kind \<Rightarrow>
    (('s, 't harborStatusBase_scheme) resource \<Rightarrow> bool) \<Rightarrow>
    ('s, 't harborStatusBase_scheme) resource \<Rightarrow> event list \<Rightarrow> bool" where
  "staysInv K P obj tr \<longleftrightarrow> (stays K P \<longrightarrow> P obj)"

interpretation staying: rebinding_invariant K "staysInv K P" for K P
  by unfold_locales (auto simp: staysInv_def stays_def dest: storesI(2))

lemma stays_faithful:
  assumes "faithful K" and "kdSanitize K = sanitizeRef"
    and cong: "\<And>obj obj'. P obj \<Longrightarrow>
        harborClaimSpecBase.more (objSpec obj') = harborClaimSpecBase.more (objSpec obj) \<Longrightarrow>
        harborStatusBase.more (objStatus obj') = harborStatusBase.more (objStatus obj) \<Longrightarrow> P obj'"
  shows "stays K P"
  unfolding stays_def
proof (intro conjI allI impI)
  fix sent obj
  assume P: "P sent" and stored: "stores K sent obj"
  note same = faithfulD [OF assms(1) stored]
  from same(3) have "harborClaimSpecBase.more (objSpec obj) = harborClaimSpecBase.more (objSpec sent)"
    by (metis assms(2) sanitizeRef_more)
  then show "P obj" by (rule cong [OF P _ same(5)])
next
  show "P (obj\<lparr>objSpec := kdSanitize K (objSpec obj)\<rparr>)" if "P obj" for obj
    by (rule cong [OF that]) (simp_all add: assms(2))
  show "P (obj\<lparr>objStatus := sb'\<rparr>)"
    if "P obj" and "harborStatusBase.more sb' = harborStatusBase.more (objStatus obj)" for obj sb'
    by (rule cong [OF that(1)]) (simp_all add: that(2))
qed

lemma stays_orphan:
  assumes "faithful K" and "kdSanitize K = sanitizeRef"
  shows "stays K (\<lambda>obj. GetDeletionPolicy (objSpec obj) = deletionPolicyOrphan)"
  by (rule stays_faithful [OF assms]) (auto dest: GetDeletionPolicy_more)

lemma shown_mono: "shown K key e P \<Longrightarrow> (\<And>obj. P obj \<Longrightarrow> Q obj) \<Longrightarrow> shown K key e Q"
  by (simp add: shown_def split: sum.splits)

text \<open>An object whose stored binding is always the same one.\<close>

definition boundTo :: "harborConnectionBinding \<Rightarrow> ('s, 't harborStatusBase_scheme) resource \<Rightarrow> bool" where
  "boundTo b obj \<longleftrightarrow> resolvedHarborConnection (objStatus obj) = Some b"

definition boundToInv :: "('e, 's, 't harborStatusBase_scheme) kind \<Rightarrow> harborConnectionBinding \<Rightarrow>
    ('s, 't harborStatusBase_scheme) resource \<Rightarrow> event list \<Rightarrow> bool" where
  "boundToInv K b obj tr \<longleftrightarrow> (faithful K \<longrightarrow> boundTo b obj)"

interpretation bound_to: object_invariant K "boundToInv K b" for K b
  by unfold_locales (auto simp: boundToInv_def boundTo_def faithful_def dest: storesI(2))

section \<open>From invariants to triples\<close>

lemma keeps_triple:
  "keeps J m \<Longrightarrow> triple (\<lambda>s. J (stObj s) (stTrace s)) m (\<lambda>_ s. J (stObj s) (stTrace s))"
  by (simp add: keeps_def triple_def)

lemma load_found:
  "triple (\<lambda>s. stTrace s = [] \<and> shown K key (stEnv s) P) (loadResource K key)
     (\<lambda>r s. preceded binds isHttp (stTrace s) \<and> list_all (\<lambda>ev. \<not> isHttp ev) (stTrace s) \<and>
        (fst r \<longrightarrow> boundInv (stObj s) (stTrace s) \<and> P (stObj s)))"
  unfolding triple_def
  by (auto simp: loadResource_def kubeLoad_def run_simps shownOf_def shownObj_def boundInv_def
      split: prod.split sum.split dest: shownD)

lemma load_any:
  "triple (\<lambda>s. stTrace s = []) (loadResource K key)
     (\<lambda>r s. preceded binds isHttp (stTrace s) \<and> list_all (\<lambda>ev. \<not> isHttp ev) (stTrace s) \<and>
        (fst r \<longrightarrow> boundInv (stObj s) (stTrace s)))"
  by (rule triple_post [OF triple_pre [OF load_found [where P = "\<lambda>_. True"]]]) auto

lemma bindConnection_bound:
  "triple (\<lambda>s. boundInv (stObj s) (stTrace s)) (bindConnection K b)
     (\<lambda>err s. preceded binds isHttp (stTrace s) \<and> (err = None \<longrightarrow> list_ex binds (stTrace s)))"
  unfolding triple_def
  by (auto simp: bindConnection_def kubeStatusUpdate_def run_simps shownOf_def shownObj_def boundInv_def
      precededFrom_append harborStatusBase.defs split: prod.split sum.split option.split)

lemma getHarborClient_bound:
  "triple (\<lambda>s. boundInv (stObj s) (stTrace s)) (getHarborClientForObject S opts K ns ref)
     (\<lambda>r s. preceded binds isHttp (stTrace s) \<and> (\<not> isl r \<longrightarrow> list_ex binds (stTrace s)))"
  unfolding getHarborClientForObject_def
proof (rule triple_bind [OF keeps_triple [OF bound.keeps_resolve]], rule triple_sum)
  fix x :: "gerror + connectionConfig" and e assume "x = Inl e"
  show "triple (\<lambda>s. boundInv (stObj s) (stTrace s)) (State_Monad.return (Inl e))
     (\<lambda>r s. preceded binds isHttp (stTrace s) \<and> (\<not> isl r \<longrightarrow> list_ex binds (stTrace s)))"
    by (rule triple_return) (simp add: boundInv_def)
next
  fix x :: "gerror + connectionConfig" and conn assume "x = Inr conn"
  show "triple (\<lambda>s. boundInv (stObj s) (stTrace s))
     (do { err \<leftarrow> bindConnection K (bindingOf conn);
           case err of Some e \<Rightarrow> State_Monad.return (Inl e) | None \<Rightarrow> buildHarborClient S opts conn True })
     (\<lambda>r s. preceded binds isHttp (stTrace s) \<and> (\<not> isl r \<longrightarrow> list_ex binds (stTrace s)))"
    by (rule triple_bind [OF bindConnection_bound], rule triple_option, simp_all)
      (auto intro: triple_return
        triple_post [OF triple_preceded_after [OF emits_mono [OF quietly_buildHarborClient]]])
qed

lemma lawfulFinalizersD:
  assumes "lawfulFinalizers am"
  shows "amContainsFinalizer am m f = (f \<in> set (metaFinalizers m))"
    and "set (metaFinalizers (amAddFinalizer am m f)) = insert f (set (metaFinalizers m))"
    and "set (metaFinalizers (amRemoveFinalizer am m f)) = set (metaFinalizers m) - {f}"
proof -
  obtain fs gs where "amAddFinalizer am m f = m\<lparr>metaFinalizers := fs\<rparr>" "set fs = insert f (set (metaFinalizers m))"
    "amRemoveFinalizer am m f = m\<lparr>metaFinalizers := gs\<rparr>" "set gs = set (metaFinalizers m) - {f}"
    using assms unfolding lawfulFinalizers_def by meson
  then show "set (metaFinalizers (amAddFinalizer am m f)) = insert f (set (metaFinalizers m))"
    and "set (metaFinalizers (amRemoveFinalizer am m f)) = set (metaFinalizers m) - {f}" by simp_all
  show "amContainsFinalizer am m f = (f \<in> set (metaFinalizers m))"
    using assms by (simp add: lawfulFinalizers_def)
qed

lemma noDrop_ensureFinalizer:
  assumes "lawfulFinalizers (svcMachinery S)"
  shows "noDrop (ensureFinalizer S (K :: ('c, 'a, 'b harborStatusBase_scheme) kind))"
  unfolding emits_def
proof
  fix s :: "(('a, 'b harborStatusBase_scheme) resource, 'c) rstate"
  let ?s' = "snd (run_state (ensureFinalizer S K) s)"
  show "\<exists>evs. stTrace ?s' = stTrace s @ evs \<and> list_all (\<lambda>ev. \<not> dropsFinalizer ev) evs"
    by (auto simp: ensureFinalizer_def sanitizeOptionalHarborConnectionRef_def kubeUpdate_def run_simps
        lawfulFinalizersD [OF assms] split: prod.split sum.split)
qed

text \<open>A property of the object together with a class of events.\<close>

abbreviation objTrace :: "('o \<Rightarrow> bool) \<Rightarrow> (event \<Rightarrow> bool) \<Rightarrow> ('o, 'e) rstate \<Rightarrow> bool" where
  "objTrace P C s \<equiv> P (stObj s) \<and> list_all C (stTrace s)"

lemma triple_events: "emits C m \<Longrightarrow> triple (\<lambda>s. list_all C (stTrace s)) m (\<lambda>_ s. list_all C (stTrace s))"
  by (rule triple_emits) auto

lemma triple_objTrace:
  fixes m :: "('o, 'e, 'a) go"
  assumes "keeps (\<lambda>obj tr. P obj) m" and "emits C m"
  shows "triple (objTrace P C) m (\<lambda>_. objTrace P C)"
  unfolding triple_def
proof (intro allI impI)
  fix s :: "('o, 'e) rstate"
  assume s: "objTrace P C s"
  show "objTrace P C (snd (run_state m s))"
    using assms(1) emitsD [OF assms(2), of s] s by (auto simp: keeps_def)
qed

lemma stays_keeps: "stays K P \<Longrightarrow> keeps (staysInv K P) m \<Longrightarrow> keeps (\<lambda>obj tr. P obj) m"
  by (simp add: keeps_def staysInv_def)

lemma stays_stores: "stays K P \<Longrightarrow> P sent \<Longrightarrow> stores K sent obj \<Longrightarrow> P obj"
  unfolding stays_def by blast

lemma stays_sanitize: "stays K P \<Longrightarrow> P obj \<Longrightarrow> P (obj\<lparr>objSpec := kdSanitize K (objSpec obj)\<rparr>)"
  by (simp add: stays_def)

text \<open>The start of a reconcile of an object that the API server shows with \<open>P\<close>.\<close>

abbreviation fresh :: "('e, 's, 't) kind \<Rightarrow> nsName \<Rightarrow> (('s, 't) resource \<Rightarrow> bool) \<Rightarrow>
    (('s, 't) resource, 'e) rstate \<Rightarrow> bool" where
  "fresh K key P s \<equiv> stTrace s = [] \<and> shown K key (stEnv s) P"

text \<open>
  The frame up to the client, for a property \<open>P\<close> of the object that stays and a class
  \<open>C\<close> of events that contains the quiet ones: what the rest may assume, and what has to
  be shown of the deletion without a client.
\<close>

lemma triple_load_stays:
  assumes "\<And>ev. quietEvent ev \<Longrightarrow> C ev"
  shows "triple (fresh K key P) (loadResource K key)
      (\<lambda>r s. list_all C (stTrace s) \<and> (fst r \<longrightarrow> P (stObj s)))"
  unfolding triple_def
  by (auto simp: loadResource_def kubeLoad_def run_simps assms split: prod.split sum.split
      dest!: shownD)

lemma triple_failed_stays:
  assumes "\<And>cr. P cr \<Longrightarrow> triple (\<lambda>s. stObj s = cr \<and> list_all C (stTrace s))
        (finalizeWithoutHarborConnection S K (GetDeletionPolicy (objSpec cr)) cleanup e)
        (\<lambda>_ s. list_all C (stTrace s))"
    and "\<And>ev. quietEvent ev \<Longrightarrow> C ev"
  shows "triple (objTrace P C)
      (do { cr \<leftarrow> getObj;
            (done, finalErr) \<leftarrow> finalizeWithoutHarborConnection S K (GetDeletionPolicy (objSpec cr)) cleanup e;
            if done then finish finalErr else failWith S K e }) (\<lambda>_ s. list_all C (stTrace s))"
proof (rule triple_bind [OF triple_getObj], rule triple_bind)
  show "triple (\<lambda>s. objTrace P C s \<and> cr = stObj s)
      (finalizeWithoutHarborConnection S K (GetDeletionPolicy (objSpec cr)) cleanup e)
      (\<lambda>_ s. list_all C (stTrace s))" for cr
    using assms(1) [of cr] by (auto simp: triple_def)
  show "triple (\<lambda>s. list_all C (stTrace s))
      (case r of (done, finalErr) \<Rightarrow> if done then finish finalErr else failWith S K e)
      (\<lambda>_ s. list_all C (stTrace s))" for r :: "bool \<times> gerror option"
    by (intro triple_prod triple_if triple_events emits_finish emits_mono [OF quietly_lifecycle(4)] assms(2))
qed

lemma triple_resolve_stays:
  assumes st: "stays K P" and C: "\<And>ev. quietEvent ev \<Longrightarrow> C ev"
    and fin: "\<And>cr e. P cr \<Longrightarrow> triple (\<lambda>s. stObj s = cr \<and> list_all C (stTrace s))
        (finalizeWithoutHarborConnection S K (GetDeletionPolicy (objSpec cr)) cleanup e)
        (\<lambda>_ s. list_all C (stTrace s))"
    and rest: "\<And>hc. triple (objTrace P C) (rest hc) (\<lambda>_ s. Q (stTrace s))"
    and Q: "\<And>tr. list_all C tr \<Longrightarrow> Q tr"
  shows "triple (objTrace P C) (markAndResolve S opts K cleanup rest) (\<lambda>_ s. Q (stTrace s))"
  unfolding markAndResolve_def
  apply (rule triple_bind [OF triple_objTrace [OF stays_keeps [OF st staying.keeps_crGeneration] emits_crGeneration]])
  apply (rule triple_bind [OF triple_objTrace [OF stays_keeps [OF st staying.keeps_markReconcilingIfNeeded]
          emits_mono [OF quietly_lifecycle(2) C]]], assumption)
  apply (rule triple_if)
   apply (rule triple_pre [OF triple_post [OF triple_events [OF emits_finish]]], erule Q, simp)
  apply (rule triple_bind [OF triple_objTrace [OF stays_keeps [OF st keeps_getObj] emits_getObj]])
  apply (rule triple_bind [OF triple_objTrace [OF stays_keeps [OF st staying.keeps_getHarborClientForObject]
          emits_mono [OF quietly_getHarborClientForObject C]]], assumption)
  apply (rule triple_sum)
   apply (rule triple_post [OF triple_failed_stays [OF fin C]], assumption+, erule Q)
  apply (rule rest)
  done

lemma triple_frame_stays:
  assumes st: "stays K P" and C: "\<And>ev. quietEvent ev \<Longrightarrow> C ev"
    and fin: "\<And>cr e. P cr \<Longrightarrow> triple (\<lambda>s. stObj s = cr \<and> list_all C (stTrace s))
        (finalizeWithoutHarborConnection S K (GetDeletionPolicy (objSpec cr)) cleanup e)
        (\<lambda>_ s. list_all C (stTrace s))"
    and rest: "\<And>hc. triple (objTrace P C) (rest hc) (\<lambda>_ s. Q (stTrace s))"
    and Q: "\<And>tr. list_all C tr \<Longrightarrow> Q tr"
  shows "triple (fresh K key P) (withHarborClient S opts K cleanup rest key) (\<lambda>_ s. Q (stTrace s))"
  unfolding withHarborClient_def
  apply (rule triple_bind [OF triple_load_stays [OF C]], assumption)
  apply (rule triple_prod, intro triple_if)
    apply (rule triple_pre [OF triple_post [OF triple_events [OF emits_finish]]], erule Q, simp)
   apply (rule triple_pre [OF triple_post [OF triple_events [OF emits_finish]]], erule Q, simp)
  apply (rule triple_pre [OF triple_resolve_stays [OF st C fin rest Q]], assumption+)
  apply auto
  done

text \<open>
  With a stored binding that no connection has any more, the client is refused, whatever the state.
\<close>

definition resolvesAway :: "'e services \<Rightarrow> 'e operatorOptions \<Rightarrow> harborConnectionBinding \<Rightarrow> bool" where
  "resolvesAway S opts b \<longleftrightarrow>
     (\<forall>e key conn e'. svcGetConnection S key e = (Inr conn, e') \<longrightarrow> bindingOf (namespacedConfig conn) \<noteq> b) \<and>
     (\<forall>e key conn e'. svcGetClusterConnection S key e = (Inr conn, e') \<longrightarrow> bindingOf (clusterConfig conn) \<noteq> b)"

lemma resolvesAwayD:
  assumes "resolvesAway S opts b"
  shows "svcGetConnection S key e = (Inr conn, e') \<Longrightarrow> bindingOf (namespacedConfig conn) \<noteq> b"
    and "svcGetClusterConnection S key e = (Inr conn, e') \<Longrightarrow> bindingOf (clusterConfig conn) \<noteq> b"
  using assms unfolding resolvesAway_def by blast+

lemma triple_resolveHarborConnection:
  assumes "resolvesAway S opts b"
  shows "triple (\<lambda>_. True) (resolveHarborConnection S opts ns ref)
     (\<lambda>r s. case r of Inl _ \<Rightarrow> True | Inr conn \<Rightarrow> bindingOf conn \<noteq> b)"
  unfolding resolveHarborConnection_def kubeGet_def Let_def triple_def
  by (auto simp: run_simps dest: resolvesAwayD [OF assms] split: sum.split option.split prod.split)

lemma triple_client_refused:
  assumes "resolvesAway S opts b"
  shows "triple (\<lambda>s. boundTo b (stObj s)) (getHarborClientForObject S opts K ns ref) (\<lambda>r s. isl r)"
  unfolding getHarborClientForObject_def
proof (rule triple_bind)
  show "triple (\<lambda>s. boundTo b (stObj s)) (resolveHarborConnection S opts ns ref)
     (\<lambda>r s. (case r of Inl _ \<Rightarrow> True | Inr conn \<Rightarrow> bindingOf conn \<noteq> b) \<and> boundTo b (stObj s))"
  proof (rule triple_conj)
    show "triple (\<lambda>s. boundTo b (stObj s)) (resolveHarborConnection S opts ns ref) (\<lambda>r s. boundTo b (stObj s))"
      unfolding resolveHarborConnection_def kubeGet_def Let_def triple_def
      by (auto simp: run_simps split: sum.split option.split prod.split)
  qed (rule triple_pre [OF triple_resolveHarborConnection [OF assms]], simp)
next
  show "triple (\<lambda>s. (case r of Inl _ \<Rightarrow> True | Inr conn \<Rightarrow> bindingOf conn \<noteq> b) \<and> boundTo b (stObj s))
     (case r of Inl err \<Rightarrow> State_Monad.return (Inl err)
      | Inr conn \<Rightarrow> do { err \<leftarrow> bindConnection K (bindingOf conn);
           case err of Some e \<Rightarrow> State_Monad.return (Inl e) | None \<Rightarrow> buildHarborClient S opts conn True })
     (\<lambda>r s. isl r)" for r
    by (cases r) (auto simp: triple_def bindConnection_def boundTo_def run_simps)
qed

end
