(* ===== verification/HarborBacked.thy ===== *)
theory HarborBacked
  imports ObjectInvariant
begin

text \<open>
  What every reconciler built on the frame guarantees, proved once. The locale
  \<open>harbor_backed\<close> asks of a kind that its own work sends no \<^verbatim>\<open>DELETE\<close>
  request and does not update the object itself (only its status); \<open>owned_remote\<close> asks of
  its delete function that it reports success only after Harbor has confirmed the deletion, or when
  there is nothing to delete.
\<close>

text \<open>What the kind's own work may add to the trace.\<close>

definition bodyEvent :: "event \<Rightarrow> bool" where
  "bodyEvent ev \<longleftrightarrow> \<not> isDelete ev \<and> \<not> dropsFinalizer ev"

lemma quietly_body: "quietly m \<Longrightarrow> emits bodyEvent m"
  by (erule emits_mono)
    (auto simp: bodyEvent_def dest: quietEvent_imp isDelete_isHttp)

lemmas body_quiet = quietly_all [THEN quietly_body]

text \<open>Client calls other than deletions are body events.\<close>

lemma clientCalls_body: "clientCalls hc (\<lambda>method relURL. method \<noteq> ''DELETE'') bodyEvent"
  by (auto simp: clientCalls_def bodyEvent_def isRequest_def isDelete_def)

lemma clientCalls_noDrop: "clientCalls hc (\<lambda>_ _. True) (\<lambda>ev. \<not> dropsFinalizer ev)"
  by (simp add: clientCalls_def)

locale harbor_backed =
  fixes S :: "'e services"
    and opts :: "'e operatorOptions"
    and K :: "('e, 's harborSpecBase_scheme, 't harborStatusBase_scheme) kind"
    and cleanup :: bool
    and del :: "(harborClient \<Rightarrow> (('s harborSpecBase_scheme, 't harborStatusBase_scheme) resource, 'e, gerror option) go) option"
    and body :: "harborClient \<Rightarrow> (('s harborSpecBase_scheme, 't harborStatusBase_scheme) resource, 'e, outcome) go"
  assumes body_events: "emits bodyEvent (body hc)"
    and del_events: "del = Some d \<Longrightarrow> emits (\<lambda>ev. \<not> dropsFinalizer ev) (d hc)"
begin

abbreviation reconcile :: "nsName \<Rightarrow> (('s harborSpecBase_scheme, 't harborStatusBase_scheme) resource, 'e, outcome) go" where
  "reconcile \<equiv> harborBacked S opts K cleanup del body"

lemma emits_rest: "emits (\<lambda>_. True) (withFinalizer S K (map_option (\<lambda>d. d hc) del) (body hc))"
  unfolding withFinalizer_def
  by (intro emits_intros emits_finalizeIfDeleting emits_mono [OF noHttp_finalizer(1)]
      emits_mono [OF body_events]) (auto intro: emits_mono [OF del_events])

lemma triple_resolve:
  assumes "\<And>hc. triple (\<lambda>s. preceded binds isHttp (stTrace s) \<and> list_ex binds (stTrace s)) (rest hc)
      (\<lambda>_ s. preceded binds isHttp (stTrace s))"
  shows "triple (\<lambda>s. boundInv (stObj s) (stTrace s)) (markAndResolve S opts K cleanup rest)
     (\<lambda>_ s. preceded binds isHttp (stTrace s))"
proof -
  have quiet: "triple (\<lambda>s. preceded binds isHttp (stTrace s)) m (\<lambda>_ s. preceded binds isHttp (stTrace s))"
    if "noHttp m" for m :: "('o, 'f, 'x) go"
    using that by (rule triple_preceded_before)
  show ?thesis
    unfolding markAndResolve_def
    apply (rule triple_bind [OF keeps_triple [OF bound.keeps_crGeneration]])
    apply (rule triple_bind [OF keeps_triple [OF bound.keeps_markReconcilingIfNeeded]])
    apply (rule triple_if)
     apply (rule triple_pre [OF quiet [OF emits_finish]], simp add: boundInv_def)
    apply (rule triple_bind [OF keeps_triple [OF keeps_getObj]])
    apply (rule triple_bind [OF getHarborClient_bound], rule triple_sum)
     apply (rule triple_pre [OF quiet], intro emits_intros, simp)
    apply (rule triple_pre [OF assms], simp)
    done
qed

lemma triple_frame:
  assumes "\<And>hc. triple (\<lambda>s. preceded binds isHttp (stTrace s) \<and> list_ex binds (stTrace s)) (rest hc)
      (\<lambda>_ s. preceded binds isHttp (stTrace s))"
  shows "triple (\<lambda>s. stTrace s = []) (withHarborClient S opts K cleanup rest key)
     (\<lambda>_ s. preceded binds isHttp (stTrace s))"
  unfolding withHarborClient_def
  by (rule triple_bind [OF load_any], rule triple_prod,
      intro triple_if triple_pre [OF triple_preceded_before [OF emits_finish]]
        triple_pre [OF triple_resolve [OF assms]])
    auto

lemma bound_before_harbor:
  "stTrace s = [] \<Longrightarrow> preceded binds isHttp (stTrace (snd (run_state (reconcile key) s)))"
proof -
  have "triple (\<lambda>s. preceded binds isHttp (stTrace s) \<and> list_ex binds (stTrace s))
      (withFinalizer S K (map_option (\<lambda>d. d hc) del) (body hc)) (\<lambda>_ s. preceded binds isHttp (stTrace s))" for hc
    by (rule triple_post [OF triple_preceded_after [OF emits_rest]]) simp
  from triple_frame [OF this] show "stTrace s = [] \<Longrightarrow> ?thesis"
    unfolding harborBacked_def triple_def by auto
qed

lemma orphan_rest:
  "triple (objTrace (\<lambda>obj. GetDeletionPolicy (objSpec obj) = deletionPolicyOrphan) (\<lambda>ev. \<not> isDelete ev))
     (withFinalizer S K (map_option (\<lambda>d. d hc) del) (body hc))
     (\<lambda>_ s. list_all (\<lambda>ev. \<not> isDelete ev) (stTrace s))"
  unfolding withFinalizer_def
proof (rule triple_bind [OF triple_getObj], rule triple_bind)
  let ?N = "\<lambda>s. list_all (\<lambda>ev. \<not> isDelete ev) (stTrace s)"
  have no: "\<And>ev. \<not> isHttp ev \<Longrightarrow> \<not> isDelete ev" using isDelete_isHttp by blast
  show "triple (\<lambda>s. objTrace (\<lambda>obj. GetDeletionPolicy (objSpec obj) = deletionPolicyOrphan)
            (\<lambda>ev. \<not> isDelete ev) s \<and> cr = stObj s)
      (finalizeIfDeleting S K (GetDeletionPolicy (objSpec cr)) (map_option (\<lambda>d. d hc) del)) (\<lambda>_. ?N)" for cr
  proof (cases "GetDeletionPolicy (objSpec cr) = deletionPolicyOrphan")
    case True
    show ?thesis
      unfolding True
      by (rule triple_pre [OF triple_events [OF emits_mono [OF noHttp_finalize_orphan no]]]) auto
  qed (auto simp: triple_def)
  show "triple ?N (case r of (done, err) \<Rightarrow> if done then finish err
        else do { err \<leftarrow> ensureFinalizer S K; if err \<noteq> None then finish err else body hc }) (\<lambda>_. ?N)"
    for r :: "bool \<times> gerror option"
    by (rule triple_events, intro emits_intros emits_mono [OF noHttp_finalizer(1) no]
        emits_mono [OF body_events]) (simp_all add: bodyEvent_def)
qed

lemma orphan_never_deletes:
  assumes "stays K (\<lambda>obj. GetDeletionPolicy (objSpec obj) = deletionPolicyOrphan)"
    and "fresh K key (\<lambda>obj. GetDeletionPolicy (objSpec obj) = deletionPolicyOrphan) s"
  shows "list_all (\<lambda>ev. \<not> isDelete ev) (stTrace (snd (run_state (reconcile key) s)))"
proof -
  have no: "\<And>ev. \<not> isHttp ev \<Longrightarrow> \<not> isDelete ev" using isDelete_isHttp by blast
  have "triple (fresh K key (\<lambda>obj. GetDeletionPolicy (objSpec obj) = deletionPolicyOrphan)) (reconcile key)
      (\<lambda>_ s. list_all (\<lambda>ev. \<not> isDelete ev) (stTrace s))"
    unfolding harborBacked_def
  proof (rule triple_frame_stays [OF assms(1) _ _ orphan_rest])
    show "\<And>ev. quietEvent ev \<Longrightarrow> \<not> isDelete ev" using quietEvent_imp(1) no by blast
    show "triple (\<lambda>s. stObj s = cr \<and> list_all (\<lambda>ev. \<not> isDelete ev) (stTrace s))
        (finalizeWithoutHarborConnection S K (GetDeletionPolicy (objSpec cr)) cleanup e)
        (\<lambda>_ s. list_all (\<lambda>ev. \<not> isDelete ev) (stTrace s))" for cr e
      by (rule triple_pre [OF triple_events [OF emits_mono [OF noHttp_finalizer(3) no]]]) auto
  qed auto
  with assms(2) show ?thesis by (simp add: triple_def)
qed

lemma moved_connection_silent:
  assumes "faithful K" and "resolvesAway S opts b" and "fresh K key (boundTo b) s"
  shows "list_all (\<lambda>ev. \<not> isHttp ev) (stTrace (snd (run_state (reconcile key) s)))"
proof -
  let ?B = "objTrace (boundTo b) (\<lambda>ev. \<not> isHttp ev)"
  let ?N = "\<lambda>s. list_all (\<lambda>ev. \<not> isHttp ev) (stTrace s)"
  have keep: "keeps (\<lambda>obj tr. boundTo b obj) m" if "keeps (boundToInv K b) m" for m
    using that assms(1) by (simp add: keeps_def boundToInv_def)
  have load: "triple (fresh K key (boundTo b)) (loadResource K key) (\<lambda>r s. ?N s \<and> (fst r \<longrightarrow> boundTo b (stObj s)))"
    by (rule triple_post [OF load_found]) auto
  have mark: "triple ?B (markAndResolve S opts K cleanup rest) (\<lambda>_. ?N)" for rest
    unfolding markAndResolve_def
    apply (rule triple_bind [OF triple_objTrace [OF keep [OF bound_to.keeps_crGeneration] emits_crGeneration]])
    apply (rule triple_bind [OF triple_objTrace [OF keep [OF bound_to.keeps_markReconcilingIfNeeded] noHttp_quiet(11)]])
    apply (rule triple_if)
     apply (rule triple_pre [OF triple_events [OF emits_finish]], simp)
    apply (rule triple_bind [OF triple_objTrace [OF keep [OF keeps_getObj] emits_getObj]])
    apply (rule triple_bind [OF triple_conj [OF triple_pre [OF triple_client_refused [OF assms(2)]]
          triple_pre [OF triple_events [OF quietly_noHttp [OF quietly_getHarborClientForObject]]]]])
      apply simp
     apply simp
    apply (rule triple_sum)
     apply (rule triple_pre [OF triple_events], intro emits_intros, simp)
    apply (simp add: triple_def)
    done
  have "triple (fresh K key (boundTo b)) (reconcile key) (\<lambda>_. ?N)"
    unfolding harborBacked_def withHarborClient_def
    by (rule triple_bind [OF load], rule triple_prod,
        intro triple_if triple_pre [OF triple_events [OF emits_finish]] triple_pre [OF mark]) auto
  with assms(3) show ?thesis by (simp add: triple_def)
qed

end

text \<open>
  A kind that owns a resource in Harbor. \<open>owes\<close> says that an object still has one that must
  go first; \<open>cleaned\<close> is Harbor's answer that it is gone.
\<close>

locale owned_remote = harbor_backed +
  fixes owes :: "('b harborSpecBase_scheme, 'c harborStatusBase_scheme) resource \<Rightarrow> bool"
    and cleaned :: "event \<Rightarrow> bool"
    and d0 :: "harborClient \<Rightarrow> (('b harborSpecBase_scheme, 'c harborStatusBase_scheme) resource, 'a, gerror option) go"
  assumes del_is: "del = Some d0"
    and cleanup_needed: "cleanup"
    and owes_policy: "owes obj \<Longrightarrow> GetDeletionPolicy (objSpec obj) \<noteq> deletionPolicyOrphan"
    and del_cleans: "triple (\<lambda>s. owes (stObj s)) (d0 hc) (\<lambda>r s. r = None \<longrightarrow> list_ex cleaned (stTrace s))"
begin

lemma finalize_after_cleaning:
  assumes "owes cr"
  shows "triple (\<lambda>s. stObj s = cr \<and> list_all (\<lambda>ev. \<not> dropsFinalizer ev) (stTrace s))
      (finalizeIfDeleting S K (GetDeletionPolicy (objSpec cr)) (Some (d0 hc)))
      (\<lambda>_ s. preceded cleaned dropsFinalizer (stTrace s))"
  unfolding finalizeIfDeleting_def
proof (rule triple_bind [OF triple_getObj], rule triple_if)
  let ?N = "\<lambda>s. list_all (\<lambda>ev. \<not> dropsFinalizer ev) (stTrace s)"
  have start: "?N s \<Longrightarrow> preceded cleaned dropsFinalizer (stTrace s)" for s
    by (rule precededFrom_none)
  show "triple (\<lambda>s. (stObj s = cr \<and> ?N s) \<and> obj = stObj s) (State_Monad.return (False, None))
      (\<lambda>_ s. preceded cleaned dropsFinalizer (stTrace s))" for obj
    by (rule triple_return) (use start in auto)
  have d: "triple (\<lambda>s. stObj s = cr \<and> ?N s) (d0 hc)
      (\<lambda>r s. (r = None \<longrightarrow> list_ex cleaned (stTrace s)) \<and> ?N s)"
    by (rule triple_conj)
      (rule triple_pre [OF del_cleans], use assms in simp,
       rule triple_pre [OF triple_events [OF del_events [OF del_is]]], simp)
  have after: "triple (\<lambda>s. list_ex cleaned (stTrace s) \<and> preceded cleaned dropsFinalizer (stTrace s)) m
      (\<lambda>_ s. preceded cleaned dropsFinalizer (stTrace s))" if "noHttp m" for m :: "('o, 'f, 'x) go"
    by (rule triple_pre [OF triple_post [OF triple_preceded_after [OF emits_mono [OF that]]]]) auto
  show "triple (\<lambda>s. (stObj s = cr \<and> ?N s) \<and> obj = stObj s)
      (do { err \<leftarrow> (case Some (d0 hc) of None \<Rightarrow> State_Monad.return None
              | Some del \<Rightarrow> if GetDeletionPolicy (objSpec cr) \<noteq> deletionPolicyOrphan then del
                           else State_Monad.return None);
            if err \<noteq> None then State_Monad.return (True, err)
            else do { err2 \<leftarrow> removeFinalizer S K; State_Monad.return (True, err2) } })
      (\<lambda>_ s. preceded cleaned dropsFinalizer (stTrace s))" for obj
    unfolding option.case if_P [OF owes_policy [OF assms]]
    apply (rule triple_bind [OF triple_pre [OF d]], simp)
    apply (rule triple_if)
     apply (rule triple_return, use start in blast)
    apply (rule triple_pre [OF after], intro emits_intros, use start in auto)
    done
qed

lemma cleaned_before_finalizer:
  assumes "stays K owes" and "fresh K key owes s" and lawful: "lawfulFinalizers (svcMachinery S)"
  shows "preceded cleaned dropsFinalizer (stTrace (snd (run_state (reconcile key) s)))"
proof -
  let ?N = "\<lambda>s. list_all (\<lambda>ev. \<not> dropsFinalizer ev) (stTrace s)"
  have rest: "triple (objTrace owes (\<lambda>ev. \<not> dropsFinalizer ev))
      (withFinalizer S K (map_option (\<lambda>d. d hc) del) (body hc))
      (\<lambda>_ s. preceded cleaned dropsFinalizer (stTrace s))" for hc
    unfolding withFinalizer_def del_is option.map
  proof (rule triple_bind [OF triple_getObj], rule triple_bind)
    show "triple (\<lambda>s. objTrace owes (\<lambda>ev. \<not> dropsFinalizer ev) s \<and> cr = stObj s)
        (finalizeIfDeleting S K (GetDeletionPolicy (objSpec cr)) (Some (d0 hc)))
        (\<lambda>_ s. preceded cleaned dropsFinalizer (stTrace s))" for cr
      using finalize_after_cleaning [of cr hc] by (auto simp: triple_def)
    show "triple (\<lambda>s. preceded cleaned dropsFinalizer (stTrace s))
        (case r of (done, err) \<Rightarrow> if done then finish err
          else do { err \<leftarrow> ensureFinalizer S K; if err \<noteq> None then finish err else body hc })
        (\<lambda>_ s. preceded cleaned dropsFinalizer (stTrace s))" for r :: "bool \<times> gerror option"
      by (rule triple_preceded_before, intro emits_intros noDrop_ensureFinalizer [OF lawful]
          emits_mono [OF body_events]) (simp add: bodyEvent_def)
  qed
  have "triple (fresh K key owes) (reconcile key) (\<lambda>_ s. preceded cleaned dropsFinalizer (stTrace s))"
    unfolding harborBacked_def
  proof (rule triple_frame_stays [OF assms(1) _ _ rest])
    show "triple (\<lambda>s. stObj s = cr \<and> ?N s)
        (finalizeWithoutHarborConnection S K (GetDeletionPolicy (objSpec cr)) cleanup e) (\<lambda>_. ?N)"
      if "owes cr" for cr e
      using owes_policy [OF that] cleanup_needed
      by (auto simp: triple_def finalizeWithoutHarborConnection_def run_simps)
  qed (auto intro: precededFrom_none dest: quietEvent_imp)
  with assms(2) show ?thesis by (simp add: triple_def)
qed

end

end
