(* ===== verification/Guards.thy ===== *)
theory Guards
  imports HarborBacked
begin

text \<open>
  Programs that run while a property \<open>P\<close> of the object stays true and only add events of
  a class \<open>C\<close>: \<open>guards P C\<close>, with a rule per construct in
  \<open>guard_intros\<close>; the rule for \<open>getObj\<close> hands \<open>P\<close> to what
  follows. The locale \<open>guarded_body\<close> lifts such a fact from a kind's own work to its whole
  reconcile.
\<close>

named_theorems guard_intros

abbreviation guards :: "('o \<Rightarrow> bool) \<Rightarrow> (event \<Rightarrow> bool) \<Rightarrow> ('o, 'e, 'a) go \<Rightarrow> bool" where
  "guards P C m \<equiv> triple (objTrace P C) m (\<lambda>_. objTrace P C)"

section \<open>Operations that leave the object alone\<close>

definition untouched :: "('o, 'e, 'a) go \<Rightarrow> bool" where
  "untouched m \<longleftrightarrow> (\<forall>s. stObj (snd (run_state m s)) = stObj s)"

lemma untouched_basic [triple_intros]:
  "untouched (State_Monad.return x)" "untouched getObj" "untouched (envCall f)" "untouched (emit ev)"
  by (simp_all add: untouched_def run_simps split: prod.split)

lemma untouched_bind [triple_intros]:
  "untouched m \<Longrightarrow> (\<And>x. untouched (f x)) \<Longrightarrow> untouched (State_Monad.bind m f)"
  by (auto simp: untouched_def State_Monad.bind_def split: prod.split) (metis snd_conv)

lemma untouched_cases [triple_intros]:
  "(b \<Longrightarrow> untouched m) \<Longrightarrow> (\<not> b \<Longrightarrow> untouched n) \<Longrightarrow> untouched (if b then m else n)"
  "untouched m \<Longrightarrow> (\<And>y. untouched (g y)) \<Longrightarrow> untouched (case x of None \<Rightarrow> m | Some y \<Rightarrow> g y)"
  "(\<And>y. untouched (p y)) \<Longrightarrow> (\<And>z. untouched (q z)) \<Longrightarrow> untouched (case w of Inl y \<Rightarrow> p y | Inr z \<Rightarrow> q z)"
  "(\<And>a b. untouched (h a b)) \<Longrightarrow> untouched (case u of (a, b) \<Rightarrow> h a b)"
  "untouched (k v) \<Longrightarrow> untouched (Let v k)"
  by (auto split: option.split sum.split prod.split)

lemma untouched_kubeGet [triple_intros]: "untouched (kubeGet k f key)"
  unfolding kubeGet_def by (intro triple_intros)

lemma untouched_httpDo [triple_intros]: "untouched (httpDo S hc req)"
  unfolding httpDo_def by (intro triple_intros) (auto split: httpFailure.split intro: triple_intros)

lemma untouched_clientDo [triple_intros]: "untouched (clientDo S c method relURL body out)"
  unfolding clientDo_def observeHarborRequest_def closeBody_def
  by (intro triple_intros) (auto split: httpFailure.split jsonRead.split intro!: triple_intros)

lemma untouched_getPagedLoop [triple_intros]: "untouched (getPagedLoop fuel S c dec relURL query page items)"
  by (induction fuel arbitrary: page items) (auto simp: Let_def intro!: triple_intros)

lemma untouched_client [triple_intros]:
  "untouched (clientGet S c relURL dec)" "untouched (getPaged S c dec relURL query)"
  "untouched (clientPost S c relURL body)" "untouched (clientPut S c relURL body)"
  "untouched (clientPatch S c relURL body out)"
  "untouched (createWithNumericLocationID S c relURL body)"
  "untouched (createWithStringLocationID S c relURL body)"
  "untouched (deleteIgnoringNotFound S c relURL ignore)"
  unfolding clientGet_def getPaged_def clientPost_def clientPut_def clientPatch_def
    createWithNumericLocationID_def createWithStringLocationID_def deleteIgnoringNotFound_def
  by (intro triple_intros)+

section \<open>Rules\<close>

lemma guards_plain:
  "untouched m \<Longrightarrow> emits C m \<Longrightarrow> guards P C m"
  by (rule triple_objTrace) (simp_all add: keeps_def untouched_def)

lemma guards_return [guard_intros]: "guards P C (State_Monad.return x)"
  by (rule triple_return)

lemma guards_getObj [guard_intros]:
  assumes "\<And>cr. P cr \<Longrightarrow> guards P C (f cr)"
  shows "guards P C (State_Monad.bind getObj f)"
proof (rule triple_bind [OF triple_getObj])
  show "triple (\<lambda>s. objTrace P C s \<and> cr = stObj s) (f cr) (\<lambda>_. objTrace P C)" for cr
    using assms [of cr] by (auto simp: triple_def)
qed

lemma guards_bind [guard_intros]:
  "guards P C m \<Longrightarrow> (\<And>x. guards P C (f x)) \<Longrightarrow> guards P C (State_Monad.bind m f)"
  by (rule triple_bind)

lemma guards_modObj [guard_intros]: "(\<And>obj. P obj \<Longrightarrow> P (f obj)) \<Longrightarrow> guards P C (modObj f)"
  by (simp add: triple_def modObj_def)

lemmas guards_cases [guard_intros] =
  triple_if [where P = "objTrace P C" and Q = "\<lambda>_. objTrace P C" for P C]
  triple_option [where P = "objTrace P C" and Q = "\<lambda>_. objTrace P C" for P C]
  triple_sum [where P = "objTrace P C" and Q = "\<lambda>_. objTrace P C" for P C]
  triple_prod [where P = "objTrace P C" and Q = "\<lambda>_. objTrace P C" for P C]
  triple_let [where P = "objTrace P C" and Q = "\<lambda>_. objTrace P C" for P C]

definition admitsLocal :: "(event \<Rightarrow> bool) \<Rightarrow> bool" where
  "admitsLocal C \<longleftrightarrow> (\<forall>ev. \<not> isHttp ev \<longrightarrow> C ev)"

lemma admitsLocal_quiet: "admitsLocal C \<Longrightarrow> quietly m \<Longrightarrow> emits C m"
  by (erule emits_mono [OF quietly_noHttp]) (simp add: admitsLocal_def)

lemma guards_local:
  assumes "stays K P" and "admitsLocal C" and "keeps (staysInv K P) m" and "quietly m"
  shows "guards P C m"
  by (rule triple_objTrace [OF stays_keeps [OF assms(1,3)] admitsLocal_quiet [OF assms(2,4)]])

lemma guards_frame [guard_intros]:
  assumes "stays K P" and "admitsLocal C"
  shows "guards P C (setReadyStatus S K g reason message)"
    and "guards P C (setReconcilingStatus S K g reason message)"
    and "guards P C (setErrorStatus S K g err)"
    and "guards P C (kubeStatusUpdate K)"
    and "guards P C (sanitizeOptionalHarborConnectionRef K)"
  by (rule guards_local [OF assms], rule staying.keeps_setStatus staying.keeps_status
      staying.keeps_sanitize, intro emits_intros)+

lemma guards_crGeneration [guard_intros]: "guards P C crGeneration"
  unfolding crGeneration_def by (intro guard_intros)

lemma guards_finish [guard_intros]: "guards P C (finish err)"
  unfolding finish_def by (intro guard_intros)

lemma guards_failWith [guard_intros]:
  "stays K P \<Longrightarrow> admitsLocal C \<Longrightarrow> guards P C (failWith S K e)"
  unfolding failWith_def by (intro guard_intros; assumption)

lemma guards_readyWithDrift [guard_intros]:
  "stays K P \<Longrightarrow> admitsLocal C \<Longrightarrow> guards P C (readyWithDrift S opts K reason message)"
  unfolding readyWithDrift_def by (intro guard_intros; assumption)

lemma guards_requeue [guard_intros]:
  assumes "stays K P" and "admitsLocal C"
    and "\<And>f obj. reset = Some f \<Longrightarrow> P obj \<Longrightarrow> P (obj\<lparr>objStatus := f (objStatus obj)\<rparr>)"
  shows "guards P C (requeueOnRemoteNotFound S K g reset message)"
  unfolding requeueOnRemoteNotFound_def
  by (intro guard_intros assms(1,2)) (rule assms(3))

lemma quietly_readyIfChanged: "quietly (readyIfChanged S opts K changed reason message)"
  unfolding readyIfChanged_def by (intro emits_intros)

lemma keeps_readyIfChanged: "keeps (staysInv K P) (readyIfChanged S opts K changed reason message)"
  unfolding readyIfChanged_def finish_def
  by (intro triple_intros staying.keeps_crGeneration staying.keeps_markStatus staying.keeps_status mark_keeps)

lemma guards_readyIfChanged [guard_intros]:
  "stays K P \<Longrightarrow> admitsLocal C \<Longrightarrow> guards P C (readyIfChanged S opts K changed reason message)"
  by (rule guards_local [OF _ _ keeps_readyIfChanged quietly_readyIfChanged])

lemma untouched_readSecretValue [triple_intros]: "untouched (readSecretValue S opts ref ns key)"
  unfolding readSecretValue_def by (intro triple_intros)

lemma guards_readSecretValue [guard_intros]:
  "admitsLocal C \<Longrightarrow> guards P C (readSecretValue S opts ref ns key)"
  by (rule guards_plain [OF untouched_readSecretValue])
    (erule admitsLocal_quiet, rule quietly_readSecretValue)

lemma guards_post: "guards P C m \<Longrightarrow> triple (objTrace P C) m (\<lambda>_ s. list_all C (stTrace s))"
  by (erule triple_post) simp

lemma emits_post: "emits C m \<Longrightarrow> triple (objTrace P C) m (\<lambda>_ s. list_all C (stTrace s))"
  by (rule triple_pre [OF triple_events]) simp_all

section \<open>The whole reconcile\<close>

locale guarded_body = harbor_backed +
  fixes P :: "('b harborSpecBase_scheme, 'c harborStatusBase_scheme) resource \<Rightarrow> bool"
    and C :: "event \<Rightarrow> bool"
  assumes body_guarded: "stays K P \<Longrightarrow> admitsLocal C \<Longrightarrow>
      triple (objTrace P C) (body hc) (\<lambda>_ s. list_all C (stTrace s))"
    and del_guarded: "del = Some d \<Longrightarrow> admitsLocal C \<Longrightarrow>
      triple (objTrace P C) (d hc) (\<lambda>_ s. list_all C (stTrace s))"
    and local_events: "admitsLocal C"
    and meta_free: "P obj \<Longrightarrow> P (obj\<lparr>objMeta := m\<rparr>)"
begin

lemma guarded_rest:
  assumes "stays K P"
  shows "triple (objTrace P C) (withFinalizer S K (map_option (\<lambda>d. d hc) del) (body hc))
     (\<lambda>_ s. list_all C (stTrace s))"
  unfolding withFinalizer_def
proof (rule triple_bind [OF triple_getObj], rule triple_bind)
  let ?N = "\<lambda>s. list_all C (stTrace s)"
  have loc: "\<And>ev. \<not> isHttp ev \<Longrightarrow> C ev" using local_events by (simp add: admitsLocal_def)
  have rem: "triple ?N (removeFinalizer S K) (\<lambda>_. ?N)"
    by (rule triple_events [OF emits_mono [OF noHttp_finalizer(2) loc]])
  have del: "triple (objTrace P C) (case map_option (\<lambda>d. d hc) del of None \<Rightarrow> State_Monad.return None
        | Some dl \<Rightarrow> if pol \<noteq> deletionPolicyOrphan then dl else State_Monad.return None) (\<lambda>_. ?N)" for pol
    by (cases del) (auto intro: triple_return del_guarded local_events)
  show "triple (\<lambda>s. objTrace P C s \<and> cr = stObj s)
      (finalizeIfDeleting S K (GetDeletionPolicy (objSpec cr)) (map_option (\<lambda>d. d hc) del))
      (\<lambda>r s. ?N s \<and> (\<not> fst r \<longrightarrow> P (stObj s)))" for cr
    unfolding finalizeIfDeleting_def
    apply (rule triple_bind [OF triple_getObj])
    apply (rule triple_if)
     apply (rule triple_return, simp)
    apply (rule triple_bind [OF triple_pre [OF del]], simp)
    apply (rule triple_if)
     apply (rule triple_return, simp)
    apply (rule triple_bind [OF rem])
    apply (rule triple_return, simp)
    done
  have "triple (\<lambda>s. P (stObj s)) (ensureFinalizer S K) (\<lambda>r s. r = None \<longrightarrow> P (stObj s))"
    by (auto simp: triple_def ensureFinalizer_def sanitizeOptionalHarborConnectionRef_def kubeUpdate_def
        run_simps split: prod.split sum.split dest!: storesI(1)
        intro: stays_stores [OF assms] meta_free stays_sanitize [OF assms])
  then have fin: "triple (objTrace P C) (ensureFinalizer S K) (\<lambda>r s. (r = None \<longrightarrow> P (stObj s)) \<and> ?N s)"
    by (intro triple_conj)
      (rule triple_pre, assumption, simp,
       rule triple_pre [OF triple_events [OF emits_mono [OF noHttp_finalizer(1) loc]]], simp_all)
  show "triple (\<lambda>s. ?N s \<and> (\<not> fst r \<longrightarrow> P (stObj s)))
      (case r of (done, err) \<Rightarrow> if done then finish err
        else do { err \<leftarrow> ensureFinalizer S K; if err \<noteq> None then finish err else body hc }) (\<lambda>_. ?N)"
    for r :: "bool \<times> gerror option"
    apply (rule triple_prod, rule triple_if)
     apply (rule triple_pre [OF triple_events [OF emits_finish]], simp)
    apply (rule triple_pre [where P = "objTrace P C"])
     apply (rule triple_bind [OF fin], rule triple_if)
      apply (rule triple_pre [OF triple_events [OF emits_finish]], simp)
     apply (rule triple_pre [OF body_guarded [OF assms local_events]], simp)
    apply simp
    done
qed

lemma reconcile_guarded:
  assumes "stays K P" and "fresh K key P s"
  shows "list_all C (stTrace (snd (run_state (reconcile key) s)))"
proof -
  have loc: "\<And>ev. \<not> isHttp ev \<Longrightarrow> C ev" using local_events by (simp add: admitsLocal_def)
  have "triple (fresh K key P) (reconcile key) (\<lambda>_ s. list_all C (stTrace s))"
    unfolding harborBacked_def
  proof (rule triple_frame_stays [OF assms(1) _ _ guarded_rest [OF assms(1)]])
    show "\<And>ev. quietEvent ev \<Longrightarrow> C ev" using quietEvent_imp(1) loc by blast
    show "triple (\<lambda>s. stObj s = cr \<and> list_all C (stTrace s))
        (finalizeWithoutHarborConnection S K (GetDeletionPolicy (objSpec cr)) cleanup e)
        (\<lambda>_ s. list_all C (stTrace s))" for cr e
      by (rule triple_pre [OF triple_events [OF emits_mono [OF noHttp_finalizer(3) loc]]]) auto
  qed auto
  with assms(2) show ?thesis by (simp add: triple_def)
qed

end

text \<open>
  A class of events with everything that stays local contains the trace of a reconcile if the kind's
  own functions stay within it.
\<close>

lemma emits_harborBacked:
  assumes "admitsLocal C" and "\<And>hc. emits C (body hc)" and "\<And>d hc. del = Some d \<Longrightarrow> emits C (d hc)"
  shows "emits C (harborBacked S opts K cleanup del body key)"
proof -
  have loc: "emits C m" if "noHttp m" for m :: "('o, 'f, 'x) go"
    using that by (rule emits_mono) (use assms(1) in \<open>simp add: admitsLocal_def\<close>)
  have quiet: "emits C m" if "quietly m" for m :: "('o, 'f, 'x) go"
    using that by (rule admitsLocal_quiet [OF assms(1)])
  have rest: "emits C (withFinalizer S K (map_option (\<lambda>d. d hc) del) (body hc))" for hc
    unfolding withFinalizer_def
    by (intro emits_intros emits_finalizeIfDeleting loc [OF noHttp_finalizer(1)] assms(2))
      (use assms(1,3) in \<open>auto simp: admitsLocal_def\<close>)
  show ?thesis
    unfolding harborBacked_def withHarborClient_def markAndResolve_def
    by (intro emits_intros quiet [OF quietly_lifecycle(1)] quiet [OF quietly_lifecycle(2)]
        quiet [OF quietly_lifecycle(4)] quiet [OF quietly_getHarborClientForObject]
        loc [OF noHttp_finalizer(3)] rest)
qed

text \<open>Only requests with given methods.\<close>

definition methodsIn :: "string list \<Rightarrow> event \<Rightarrow> bool" where
  "methodsIn ms ev = (case ev of EvHttp hc req st \<Rightarrow> reqMethod req \<in> set ms | _ \<Rightarrow> True)"

lemma methodsIn_local [simp]: "admitsLocal (methodsIn ms)"
  by (auto simp: admitsLocal_def methodsIn_def isHttp_def split: event.splits)

lemma clientCalls_methodsIn: "clientCalls hc (\<lambda>method relURL. method \<in> set ms) (methodsIn ms)"
  by (auto simp: clientCalls_def methodsIn_def isRequest_def)

lemmas methodsIn_quiet = admitsLocal_quiet [OF methodsIn_local]

lemmas methodsIn_steps = quietly_all [THEN methodsIn_quiet] quietly_readyIfChanged [THEN methodsIn_quiet]

section \<open>Requests that create\<close>

definition isPost :: "event \<Rightarrow> bool" where
  "isPost ev = (case ev of EvHttp hc req st \<Rightarrow> reqMethod req = ''POST'' | _ \<Rightarrow> False)"

lemma notPost_admitsLocal [simp]: "admitsLocal (\<lambda>ev. \<not> isPost ev)"
  by (auto simp: admitsLocal_def isPost_def split: event.splits)

lemma clientCalls_notPost: "clientCalls hc (\<lambda>method relURL. method \<noteq> ''POST'') (\<lambda>ev. \<not> isPost ev)"
  by (auto simp: clientCalls_def isPost_def isRequest_def)

text \<open>The effective creation policy of the object does not let the reconciler create.\<close>

definition mayNotCreate :: "'e operatorOptions \<Rightarrow> ('s harborCreatableSpec_scheme, 't) resource \<Rightarrow> bool" where
  "mayNotCreate opts obj \<longleftrightarrow> requireCreationAllowed opts (creationPolicy (objSpec obj)) \<noteq> None"

lemma mayNotCreate_meta [simp]: "mayNotCreate opts (obj\<lparr>objMeta := m\<rparr>) = mayNotCreate opts obj"
  by (simp add: mayNotCreate_def)

lemma stays_mayNotCreate:
  assumes "faithful K" and "kdSanitize K = sanitizeRef"
  shows "stays K (mayNotCreate opts)"
  by (rule stays_faithful [OF assms]) (auto simp: mayNotCreate_def dest!: creationPolicy_more)

lemma mayNotCreateE:
  assumes "mayNotCreate opts obj"
  obtains err where "requireCreationAllowed opts (creationPolicy (objSpec obj)) = Some err"
  using assms by (auto simp: mayNotCreate_def)

end
