(* ===== verification/ExampleCluster.thy ===== *)
theory ExampleCluster
  imports Guards
begin

text \<open>
  A concrete cluster for the examples: in every namespace a connection \<^verbatim>\<open>harbor\<close>
  with a password Secret, and a kind whose API server returns what it is given.
\<close>

definition exOptions :: "'e operatorOptions" where
  "exOptions =
     \<lparr>forcedHarborConnection = [], defaultCreationPolicy = [], allowCrossNamespaceReferences = Some False,
      defaultDriftDetectionInterval = 60000000000, harborRequestTimeout = 0, secretReader = None\<rparr>"

definition exStatusBase :: harborStatusBase where
  "exStatusBase = \<lparr>observedGeneration = 0, conditions = [], resolvedHarborConnection = None\<rparr>"

definition exConnection :: "string \<Rightarrow> string \<Rightarrow> harborConnection" where
  "exConnection namespace name =
     \<lparr>objMeta = exMeta namespace name,
      objSpec = \<lparr>connBaseURL = ''https://harbor.example/'',
        connCredentials = Some \<lparr>credType = ''basic'', credUsername = ''admin'', credUsernameSecretRef = None,
          credPasswordSecretRef = \<lparr>srName = ''creds'', srKey = [], srNamespace = []\<rparr>\<rparr>,
        connCABundle = [], connCABundleSecretRef = None\<rparr>,
      objStatus = harborStatusBase.extend exStatusBase (harborConnectionStatus.fields True)\<rparr>"

definition exCluster :: "'e services" where
  "exCluster = emptyCluster
     \<lparr>svcGetConnection := \<lambda>key e. if snd key = ''harbor'' then (Inr (exConnection (fst key) ''harbor''), e)
        else noObject key e,
      svcGetSecret := \<lambda>key e. (Inr ((newSecret (fst key) (snd key))\<lparr>secretData := Some [(''access_secret'', ''pw'')]\<rparr>), e)\<rparr>"

definition exRef :: "harborConnectionReference option" where
  "exRef = Some \<lparr>hcrName = ''harbor'', hcrKind = []\<rparr>"

text \<open>The client that the connection gives.\<close>

definition exHarbor :: harborClient where
  "exHarbor =
     \<lparr>hcBaseURL = ''https://harbor.example'', hcHTTPClient = defaultHTTPClient, hcUsername = ''admin'',
      hcPassword = ''pw''\<rparr>"

text \<open>An API server with one object, which accepts every write as it is.\<close>

definition exClient :: "('s, 't) resource list \<Rightarrow> ('e, ('s, 't) resource) kclient" where
  "exClient objs =
     \<lparr>kcGet = (\<lambda>key e. case find (\<lambda>obj. objectKey obj = key) objs of
        None \<Rightarrow> noObject key e | Some obj \<Rightarrow> (Inr obj, e)),
      kcList = (\<lambda>e. (Inr objs, e)),
      kcUpdate = (\<lambda>obj e. (Inr obj, e)),
      kcStatusUpdate = (\<lambda>obj e. (Inr obj, e))\<rparr>"

lemma exCluster_simps [simp]:
  "svcGetConnection exCluster (ns, ''harbor'') e = (Inr (exConnection ns ''harbor''), e)"
  "svcMachinery exCluster = exMachinery" "svcValidPEM exCluster pem = (pem \<noteq> [])"
  "svcNow exCluster e = (0, e)"
  by (simp_all add: exCluster_def emptyCluster_def)

lemma frozen_exCluster: "\<forall>key e e'. fst (svcGetConnection exCluster key e) = fst (svcGetConnection exCluster key e')"
  "\<forall>key e e'. fst (svcGetClusterConnection exCluster key e) = fst (svcGetClusterConnection exCluster key e')"
  by (auto simp: exCluster_def emptyCluster_def noObject_def)

lemma exConnection_simps [simp]:
  "objMeta (exConnection ns n) = exMeta ns n" "connBaseURL (objSpec (exConnection ns n)) = ''https://harbor.example/''"
  by (simp_all add: exConnection_def)

lemma resolve_exRef:
  "run_state (resolveHarborConnection exCluster exOptions ns exRef) s =
     (Inr (namespacedConfig (exConnection ns ''harbor'')),
      s\<lparr>stTrace := stTrace s @ [EvGet KHarborConnection (ns, ''harbor'') True]\<rparr>)"
  by (simp add: resolveHarborConnection_def forcedReference_def exOptions_def exRef_def Let_def kubeGet_def
      run_simps)

text \<open>An API server that has the given objects, and stores what it is sent.\<close>

definition exStore :: "('s, 't) resource list \<Rightarrow> ('e, ('s, 't) resource) kclient" where
  "exStore objs =
     \<lparr>kcGet = (\<lambda>key e. case find (\<lambda>obj. objectKey obj = key) objs of
        None \<Rightarrow> noObject key e | Some obj \<Rightarrow> (Inr obj, e)),
      kcList = (\<lambda>e. (Inr objs, e)),
      kcUpdate = (\<lambda>obj e. (Inr obj, e)),
      kcStatusUpdate = (\<lambda>obj e. (Inr obj, e))\<rparr>"

lemma faithful_store: "kdClient K = exStore objs \<Longrightarrow> faithful K"
  by (auto simp: faithful_def stores_def exStore_def)

lemma shown_store:
  "kdClient K = exStore objs \<Longrightarrow>
     shown K key e P \<longleftrightarrow> (case find (\<lambda>obj. objectKey obj = key) objs of None \<Rightarrow> True | Some obj \<Rightarrow> P obj)"
  by (auto simp: shown_def exStore_def noObject_def split: option.split)

lemma shown_only: "kdClient K = exStore [obj] \<Longrightarrow> P obj \<Longrightarrow> shown K key e P"
  by (simp add: shown_store)

text \<open>Connections of the cluster all have the UID \<^verbatim>\<open>uid-harbor\<close>.\<close>

lemma resolvesAway_exCluster: "hbUID b \<noteq> ''uid-harbor'' \<Longrightarrow> resolvesAway exCluster opts b"
  by (auto simp: resolvesAway_def exCluster_def emptyCluster_def noObject_def bindingOf_def
      namespacedConfig_def exConnection_def split: if_splits)

definition exBinding :: "string \<Rightarrow> harborConnectionBinding" where
  "exBinding uid = \<lparr>hbKind = ''HarborConnection'', hbName = ''harbor'', hbNamespace = ''team'', hbUID = uid\<rparr>"

end
