(* ===== verification/References.thy ===== *)
theory References
  imports Reconciler
begin

text \<open>
  References from one object to another (\<^verbatim>\<open>internal/controller/common.go\<close>):
  the Harbor id of a registry or a project, the name of a project or a user, and the group behind a
  claim.
\<close>

text \<open>\<^verbatim>\<open>MemberGroup\<close> of the Harbor client (members.go).\<close>

record memberGroup =
  mgGroupName :: string
  mgGroupType :: int
  mgLDAPGroupDN :: string

definition refNamespace :: "string \<Rightarrow> namedReference \<Rightarrow> string" where
  "refNamespace namespace ref = (if nrNamespace ref = [] then namespace else nrNamespace ref)"

definition resolveRegistryID :: "'e services \<Rightarrow> 'e operatorOptions \<Rightarrow> string \<Rightarrow> registryReference option \<Rightarrow>
    ('o, 'e, gerror + int) go" where
  "resolveRegistryID S opts namespace ref0 =
     (case ref0 of
        None \<Rightarrow> State_Monad.return (Inl (ErrMsg ''registryRef is required''))
      | Some ref \<Rightarrow>
          if nrName ref = [] then State_Monad.return (Inl (ErrMsg ''registryRef.name must not be empty''))
          else let ns = refNamespace namespace ref
          in case validateReferenceNamespace opts namespace ns ''Registry'' of
               Some err \<Rightarrow> State_Monad.return (Inl err)
             | None \<Rightarrow>
                 do { r \<leftarrow> kubeGet KRegistry (svcGetRegistry S) (ns, nrName ref);
                      State_Monad.return
                        (case r of
                           Inl err \<Rightarrow> Inl err
                         | Inr reg \<Rightarrow>
                             if harborRegistryID (objStatus reg) = 0
                             then Inl (ErrMsg (''referenced Registry '' @ ns @ ''/'' @ nrName ref @
                                    '' does not have harborRegistryID yet''))
                             else Inr (harborRegistryID (objStatus reg))) })"

definition resolveProject :: "'e services \<Rightarrow> 'e operatorOptions \<Rightarrow> string \<Rightarrow> projectReference option \<Rightarrow>
    ('o, 'e, gerror + string \<times> int) go" where
  "resolveProject S opts namespace ref0 =
     (case ref0 of
        None \<Rightarrow> State_Monad.return (Inl (ErrMsg ''projectRef is required''))
      | Some ref \<Rightarrow>
          if nrName ref = [] then State_Monad.return (Inl (ErrMsg ''projectRef.name must not be empty''))
          else let ns = refNamespace namespace ref
          in case validateReferenceNamespace opts namespace ns ''Project'' of
               Some err \<Rightarrow> State_Monad.return (Inl err)
             | None \<Rightarrow>
                 do { r \<leftarrow> kubeGet KProject (svcGetProject S) (ns, nrName ref);
                      State_Monad.return
                        (case r of
                           Inl err \<Rightarrow> Inl err
                         | Inr p \<Rightarrow>
                             if harborProjectID (objStatus p) = 0
                             then Inl (ErrMsg (''referenced Project '' @ ns @ ''/'' @ nrName ref @
                                    '' does not have harborProjectID yet''))
                             else Inr (goItoa (harborProjectID (objStatus p)), harborProjectID (objStatus p))) })"

definition resolveProjectName :: "'e services \<Rightarrow> 'e operatorOptions \<Rightarrow> string \<Rightarrow> projectReference option \<Rightarrow>
    ('o, 'e, gerror + string) go" where
  "resolveProjectName S opts namespace ref0 =
     (case ref0 of
        None \<Rightarrow> State_Monad.return (Inl (ErrMsg ''projectRef.name must not be empty''))
      | Some ref \<Rightarrow>
          if nrName ref = [] then State_Monad.return (Inl (ErrMsg ''projectRef.name must not be empty''))
          else let ns = refNamespace namespace ref
          in case validateReferenceNamespace opts namespace ns ''Project'' of
               Some err \<Rightarrow> State_Monad.return (Inl err)
             | None \<Rightarrow>
                 do { r \<leftarrow> kubeGet KProject (svcGetProject S) (ns, nrName ref);
                      State_Monad.return
                        (case r of
                           Inl err \<Rightarrow> Inl err
                         | Inr p \<Rightarrow>
                             if harborProjectID (objStatus p) = 0
                             then Inl (ErrMsg (''referenced Project '' @ ns @ ''/'' @ nrName ref @
                                    '' does not have harborProjectID yet''))
                             else Inr (metaName (objMeta p))) })"

definition resolveUserName :: "'e services \<Rightarrow> 'e operatorOptions \<Rightarrow> string \<Rightarrow> userReference \<Rightarrow>
    ('o, 'e, gerror + string) go" where
  "resolveUserName S opts namespace ref =
     (let ns = refNamespace namespace ref
      in case validateReferenceNamespace opts namespace ns ''User'' of
           Some err \<Rightarrow> State_Monad.return (Inl err)
         | None \<Rightarrow>
             do { r \<leftarrow> kubeGet KUser (svcGetUser S) (ns, nrName ref);
                  State_Monad.return (case r of Inl err \<Rightarrow> Inl err | Inr u \<Rightarrow> Inr (metaName (objMeta u))) })"

definition resolveUserGroup :: "'e services \<Rightarrow> 'e operatorOptions \<Rightarrow> string \<Rightarrow> userGroupClaimReference \<Rightarrow>
    harborConnectionBinding option \<Rightarrow> ('o, 'e, gerror + memberGroup) go" where
  "resolveUserGroup S opts namespace ref expectedConnection =
     (let ns = refNamespace namespace ref
      in case validateReferenceNamespace opts namespace ns ''UserGroupClaim'' of
           Some err \<Rightarrow> State_Monad.return (Inl err)
         | None \<Rightarrow>
             do { r \<leftarrow> kubeGet KUserGroupClaim (svcGetUserGroup S) (ns, nrName ref);
                  State_Monad.return
                    (case r of
                       Inl err \<Rightarrow> Inl err
                     | Inr g \<Rightarrow>
                         if harborGroupID (objStatus g) = 0 \<or>
                            \<not> amIsStatusConditionTrue (svcMachinery S) (conditions (objStatus g)) conditionReady
                         then Inl (ErrMsg (''referenced UserGroupClaim '' @ ns @ ''/'' @ nrName ref @ '' is not ready''))
                         else if expectedConnection \<noteq> None \<and>
                                 resolvedHarborConnection (objStatus g) \<noteq> expectedConnection
                         then Inl (ErrMsg (''referenced UserGroupClaim '' @ ns @ ''/'' @ nrName ref @
                                '' resolves a different Harbor connection''))
                         else Inr \<lparr>mgGroupName = ugGroupName (objSpec g), mgGroupType = ugGroupType (objSpec g),
                                   mgLDAPGroupDN = ugLDAPGroupDN (objSpec g)\<rparr>) })"

section \<open>Facts\<close>

text \<open>Every read of another object stays in one namespace.\<close>

definition readsWithin :: "string \<Rightarrow> event \<Rightarrow> bool" where
  "readsWithin ns ev = (case ev of EvGet k key ok \<Rightarrow> fst key = ns | _ \<Rightarrow> False)"

lemma emits_kubeGet_within: "fst key = ns \<Longrightarrow> emits (readsWithin ns) (kubeGet k f key)"
  unfolding kubeGet_def by (intro emits_intros) (simp add: readsWithin_def)

lemma validateReferenceNamespace_confined:
  "allowCrossNamespaceReferences opts = Some False \<Longrightarrow> ns \<noteq> [] \<Longrightarrow>
     validateReferenceNamespace opts ns ns' kind = None \<Longrightarrow> ns' = ns"
  by (auto simp: validateReferenceNamespace_def allowsCrossNamespaceReferences_def split: if_splits)


end
