(* ===== verification/Examples.thy ===== *)
theory Examples
  imports ExampleCluster References
begin

text \<open>
  Concrete inputs for the properties of the shared parts: conditions, requeueing and references.
\<close>

lemma mark_conditions_witness:
  "let b = snd (markReady exMachinery (1, 2, 3) 4 [] [] exStatusBase)
   in observedGeneration b = 4 \<and>
      hasCondition exMachinery b (mkCondition conditionReady ''True'' ''Reconciled'' ''Resource is ready'' 4 0)"
  using mark_conditions [OF lawful_exMachinery(1), of "(1, 2, 3)" 4 "[]" "[]" exStatusBase] by (simp add: Let_def)

lemma mark_idempotent_witness:
  "let b = snd (markError exMachinery (1, 2, 3) 4 (Some (ErrMsg ''boom'')) exStatusBase)
   in markError exMachinery (5, 6, 7) 4 (Some (ErrMsg ''boom'')) b = (False, b)"
  using mark_idempotent [OF lawful_exMachinery(1), of "(1, 2, 3)" 4 "[]" "[]" exStatusBase "(5, 6, 7)" "Some (ErrMsg ''boom'')"]
  by (simp add: Let_def)

definition exConfig :: operatorConfig where
  "exConfig =
     \<lparr>cfgForcedHarborConnection = [], cfgDefaultCreationPolicy = ''Create'',
      cfgAllowCrossNamespaceReferences = Some False, cfgDefaultDriftDetectionInterval = 60,
      cfgHarborRequestTimeout = 30\<rparr>"



end
