(* ===== verification/Singletons.thy ===== *)
theory Singletons
  imports ExampleCluster
begin

text \<open>
  One owner per Harbor instance for the instance-wide kinds: configuration and the three schedules
  (\<^verbatim>\<open>internal/controller/singletons.go\<close>). Every object of the kind that
  resolves the same base URL is a candidate, and the oldest one owns the instance.
\<close>

record singletonCandidate =
  scName :: nsName
  scCreatedAt :: int

definition candidateOf :: "objectMeta \<Rightarrow> singletonCandidate" where
  "candidateOf m = \<lparr>scName = (metaNamespace m, metaName m), scCreatedAt = metaCreationTimestamp m\<rparr>"

definition candidateLess :: "singletonCandidate \<Rightarrow> singletonCandidate \<Rightarrow> bool" where
  "candidateLess a b =
     (if scCreatedAt a \<noteq> scCreatedAt b then scCreatedAt a < scCreatedAt b
      else if fst (scName a) \<noteq> fst (scName b) then fst (scName a) < fst (scName b)
      else snd (scName a) < snd (scName b))"

definition singletonOwnerConflict :: "objectMeta \<Rightarrow> string \<Rightarrow> singletonCandidate list \<Rightarrow> string \<Rightarrow> gerror option" where
  "singletonOwnerConflict current harborInstance peers singletonKind =
     (if peers = [] then None
      else
        let currentName = (metaNamespace current, metaName current);
            candidates = sortSlice candidateLess (peers @ [candidateOf current]);
            owner = hd candidates
        in if scName owner = currentName then None
           else Some (ErrMsg
             (singletonKind @ '' '' @ metaNamespace current @ ''/'' @ metaName current @
              '' conflicts with existing owner '' @ fst (scName owner) @ ''/'' @ snd (scName owner) @
              '' for Harbor instance '' @ goQuote harborInstance)))"

text \<open>The loop over the listed objects that collects the peers.\<close>

fun singletonPeers :: "'e services \<Rightarrow> 'e operatorOptions \<Rightarrow> nsName \<Rightarrow> string \<Rightarrow>
    ('s harborClaimSpecBase_scheme, 't) resource list \<Rightarrow> ('o, 'e, singletonCandidate list) go" where
  "singletonPeers S opts currentName currentBaseURL [] = State_Monad.return []"
| "singletonPeers S opts currentName currentBaseURL (item # items) =
     (if objectKey item = currentName \<or> metaDeletionTimestamp (objMeta item) \<noteq> None
      then singletonPeers S opts currentName currentBaseURL items
      else do {
        r \<leftarrow> resolveHarborConnection S opts (metaNamespace (objMeta item)) (harborConnectionRef (objSpec item));
        peers \<leftarrow> singletonPeers S opts currentName currentBaseURL items;
        State_Monad.return
          (case r of
             Inl err \<Rightarrow> peers
           | Inr itemConn \<Rightarrow>
               if normalizeBaseURL (ccBaseURL itemConn) \<noteq> currentBaseURL then peers
               else candidateOf (objMeta item) # peers) })"

definition ensureSingletonOwner :: "'e services \<Rightarrow> 'e operatorOptions \<Rightarrow>
    ('e, 's harborClaimSpecBase_scheme, 't) kind \<Rightarrow> string \<Rightarrow>
    (('s harborClaimSpecBase_scheme, 't) resource, 'e, gerror option) go" where
  "ensureSingletonOwner S opts K singletonKind =
     do { current \<leftarrow> getObj;
          r \<leftarrow> resolveHarborConnection S opts (metaNamespace (objMeta current)) (harborConnectionRef (objSpec current));
          case r of
            Inl err \<Rightarrow> State_Monad.return (Some err)
          | Inr currentConn \<Rightarrow>
              do { l \<leftarrow> kubeList K;
                   case l of
                     Inl err \<Rightarrow> State_Monad.return (Some err)
                   | Inr items \<Rightarrow>
                       do { peers \<leftarrow> singletonPeers S opts (objectKey current)
                              (normalizeBaseURL (ccBaseURL currentConn)) items;
                            State_Monad.return
                              (singletonOwnerConflict (objMeta current) (ccBaseURL currentConn) peers singletonKind) } } }"

definition ensureConfigurationSingletonOwner :: "'e services \<Rightarrow> 'e operatorOptions \<Rightarrow>
    ('e, configurationSpec, harborStatusBase) kind \<Rightarrow> (configuration, 'e, gerror option) go" where
  "ensureConfigurationSingletonOwner S opts K = ensureSingletonOwner S opts K ''Configuration''"

definition ensureGCScheduleSingletonOwner :: "'e services \<Rightarrow> 'e operatorOptions \<Rightarrow>
    ('e, gcScheduleSpec, scheduleStatus) kind \<Rightarrow> (gcScheduleResource, 'e, gerror option) go" where
  "ensureGCScheduleSingletonOwner S opts K = ensureSingletonOwner S opts K ''GCSchedule''"

definition ensurePurgeAuditScheduleSingletonOwner :: "'e services \<Rightarrow> 'e operatorOptions \<Rightarrow>
    ('e, purgeAuditScheduleSpec, scheduleStatus) kind \<Rightarrow> (purgeAuditSchedule, 'e, gerror option) go" where
  "ensurePurgeAuditScheduleSingletonOwner S opts K = ensureSingletonOwner S opts K ''PurgeAuditSchedule''"

definition ensureScanAllScheduleSingletonOwner :: "'e services \<Rightarrow> 'e operatorOptions \<Rightarrow>
    ('e, scanAllScheduleSpec, scheduleStatus) kind \<Rightarrow> (scanAllSchedule, 'e, gerror option) go" where
  "ensureScanAllScheduleSingletonOwner S opts K = ensureSingletonOwner S opts K ''ScanAllSchedule''"

section \<open>The order of candidates\<close>

interpretation candidates_less: total_slice_less candidateLess
proof unfold_locales
  fix x y z :: singletonCandidate
  show "\<not> candidateLess x x" by (simp add: candidateLess_def)
  show "candidateLess x y \<Longrightarrow> candidateLess y z \<Longrightarrow> candidateLess x z"
    by (auto simp: candidateLess_def split: if_splits)
  show "candidateLess x z \<Longrightarrow> candidateLess x y \<or> candidateLess y z"
    by (auto simp: candidateLess_def split: if_splits)
  show "candidateLess x y \<or> x = y \<or> candidateLess y x"
    by (cases x; cases y) (auto simp: candidateLess_def split: if_splits)
qed

lemma owner_hd:
  assumes "cs \<noteq> []"
  shows "hd (sortSlice candidateLess cs) \<in> set cs"
    and "\<And>c. c \<in> set cs \<Longrightarrow> c = hd (sortSlice candidateLess cs) \<or> candidateLess (hd (sortSlice candidateLess cs)) c"
proof -
  show "hd (sortSlice candidateLess cs) \<in> set cs"
    using assms by (metis hd_in_set set_sortSlice sortSlice_Nil_iff)
  show "c = hd (sortSlice candidateLess cs) \<or> candidateLess (hd (sortSlice candidateLess cs)) c"
    if "c \<in> set cs" for c
    using candidates_less.hd_sortSlice_least [OF that] candidates_less.less_total by blast
qed

section \<open>One owner\<close>

definition metaKey :: "objectMeta \<Rightarrow> nsName" where
  "metaKey m = (metaNamespace m, metaName m)"

lemma scName_candidateOf [simp]: "scName (candidateOf m) = metaKey m"
  by (simp add: candidateOf_def metaKey_def)

text \<open>The peers of one of a list of rivals: all the others.\<close>

definition peersOf :: "objectMeta list \<Rightarrow> objectMeta \<Rightarrow> singletonCandidate list" where
  "peersOf objs m = map candidateOf (filter (\<lambda>d. metaKey d \<noteq> metaKey m) objs)"

definition ownerOf :: "objectMeta list \<Rightarrow> singletonCandidate" where
  "ownerOf objs = hd (sortSlice candidateLess (map candidateOf objs))"

lemma mset_filter_key:
  "distinct (map metaKey objs) \<Longrightarrow> m \<in> set objs \<Longrightarrow>
     mset (filter (\<lambda>d. metaKey d \<noteq> metaKey m) objs) + {#m#} = mset objs"
proof (induction objs)
  case (Cons x xs)
  show ?case
  proof (cases "m = x")
    case True
    then have "filter (\<lambda>d. metaKey d \<noteq> metaKey m) xs = xs"
      using Cons.prems(1) by (auto simp: filter_id_conv) (metis image_eqI)
    then show ?thesis using True by simp
  next
    case False
    then have "metaKey x \<noteq> metaKey m" "m \<in> set xs" using Cons.prems by auto
    then show ?thesis using Cons by simp
  qed
qed simp

lemma conflict_iff_owner:
  assumes "distinct (map metaKey objs)" and "m \<in> set objs"
  shows "singletonOwnerConflict m inst (peersOf objs m) k = None \<longleftrightarrow> scName (ownerOf objs) = metaKey m"
proof -
  have "mset (peersOf objs m @ [candidateOf m]) = mset (map candidateOf objs)"
    using arg_cong [OF mset_filter_key [OF assms], of "image_mset candidateOf"]
    by (simp add: peersOf_def)
  then have perm: "sortSlice candidateLess (peersOf objs m @ [candidateOf m]) = sortSlice candidateLess (map candidateOf objs)"
    by (rule candidates_less.sortSlice_perm)
  show ?thesis
  proof (cases "peersOf objs m = []")
    case True
    then have "ownerOf objs = candidateOf m"
      using perm [symmetric] by (simp add: ownerOf_def)
    then show ?thesis using True by (simp add: singletonOwnerConflict_def)
  next
    case False
    then show ?thesis
      using perm by (simp add: singletonOwnerConflict_def ownerOf_def metaKey_def Let_def)
  qed
qed

lemma ownerOf_in:
  assumes "objs \<noteq> []"
  obtains m where "m \<in> set objs" and "ownerOf objs = candidateOf m"
  using owner_hd(1) [of "map candidateOf objs"] assms by (auto simp: ownerOf_def)

section \<open>The check against a cluster\<close>

text \<open>A cluster that does not change while the check runs: reads give the same answer at any time.\<close>

definition frozenReads :: "'e services \<Rightarrow> bool" where
  "frozenReads S \<longleftrightarrow>
     (\<forall>key e e'. fst (svcGetConnection S key e) = fst (svcGetConnection S key e')) \<and>
     (\<forall>key e e'. fst (svcGetClusterConnection S key e) = fst (svcGetClusterConnection S key e'))"

lemma resolve_frozen:
  fixes s :: "('o, 'e) rstate" and s' :: "('p, 'e) rstate"
  assumes "frozenReads S"
  shows "fst (run_state (resolveHarborConnection S opts ns ref) s) =
     fst (run_state (resolveHarborConnection S opts ns ref) s')"
proof -
  have "fst (svcGetConnection S key (stEnv s)) = fst (svcGetConnection S key (stEnv s'))"
    "fst (svcGetClusterConnection S key (stEnv s)) = fst (svcGetClusterConnection S key (stEnv s'))" for key
    using assms unfolding frozenReads_def by blast+
  then show ?thesis
    unfolding resolveHarborConnection_def Let_def kubeGet_def
    by (auto simp: run_simps split_beta split: sum.split option.split)
qed

text \<open>The base URL that an object's reference resolves to, if any, when asked at \<open>e\<close>.\<close>

definition baseURLOf :: "'e services \<Rightarrow> 'e operatorOptions \<Rightarrow> 'e \<Rightarrow>
    ('s harborClaimSpecBase_scheme, 't) resource \<Rightarrow> string option" where
  "baseURLOf S opts e obj =
     (case fst (run_state (resolveHarborConnection S opts (metaNamespace (objMeta obj))
        (harborConnectionRef (objSpec obj))) (startState () e)) of
        Inl err \<Rightarrow> None
      | Inr conn \<Rightarrow> Some (normalizeBaseURL (ccBaseURL conn)))"

text \<open>The rivals for an instance: listed, not being deleted, and resolving its base URL.\<close>

definition rivals :: "'e services \<Rightarrow> 'e operatorOptions \<Rightarrow> 'e \<Rightarrow> string \<Rightarrow>
    ('s harborClaimSpecBase_scheme, 't) resource list \<Rightarrow> objectMeta list" where
  "rivals S opts e url items =
     map objMeta (filter (\<lambda>obj. metaDeletionTimestamp (objMeta obj) = None \<and> baseURLOf S opts e obj = Some url) items)"

lemma baseURLOf_run:
  assumes "frozenReads S"
  shows "baseURLOf S opts e obj =
     (case fst (run_state (resolveHarborConnection S opts (metaNamespace (objMeta obj))
        (harborConnectionRef (objSpec obj))) s) of
        Inl err \<Rightarrow> None | Inr conn \<Rightarrow> Some (normalizeBaseURL (ccBaseURL conn)))"
  unfolding baseURLOf_def resolve_frozen [OF assms, of _ _ _ "startState () e" s] ..

lemma singletonPeers_run:
  assumes "frozenReads S"
  shows "fst (run_state (singletonPeers S opts key url items) s) =
     map candidateOf (filter (\<lambda>m. metaKey m \<noteq> key) (rivals S opts e url items))"
proof (induction items arbitrary: s)
  case Nil
  then show ?case by (simp add: run_simps rivals_def)
next
  case (Cons item items)
  have k: "objectKey item = metaKey (objMeta item)"
    by (simp add: objectKey_def metaKey_def)
  obtain r s1 where r: "run_state (resolveHarborConnection S opts (metaNamespace (objMeta item))
      (harborConnectionRef (objSpec item))) s = (r, s1)" by fastforce
  obtain p s2 where p: "run_state (singletonPeers S opts key url items) s1 = (p, s2)" by fastforce
  have "baseURLOf S opts e item = (case r of Inl err \<Rightarrow> None | Inr conn \<Rightarrow> Some (normalizeBaseURL (ccBaseURL conn)))"
    unfolding baseURLOf_run [OF assms, of opts e item s] r by simp
  moreover have "p = map candidateOf (filter (\<lambda>m. metaKey m \<noteq> key) (rivals S opts e url items))"
    using Cons.IH [of s1] p by simp
  ultimately show ?case
    using Cons.IH [of s] r p by (cases r) (auto simp: run_simps rivals_def k)
qed

text \<open>
  C22. Exactly one owner. In a cluster that does not change meanwhile, take all objects of a kind that
  are not being deleted and resolve the same base URL: of these the check passes for exactly one, the
  oldest (ties broken by namespace and name), and it fails for every other one with an error that
  names the owner's kind. Two objects never manage one Harbor instance at the same time.
\<close>

theorem singleton_unique_owner:
  fixes K :: "('e, 's harborClaimSpecBase_scheme, 't) kind"
  assumes "frozenReads S" and "\<And>e. fst (kcList (kdClient K) e) = Inr items"
    and "distinct (map objectKey items)" and "rivals S opts e0 url items \<noteq> []"
  shows "\<exists>owner \<in> set items. objMeta owner \<in> set (rivals S opts e0 url items) \<and>
     (\<forall>m \<in> set (rivals S opts e0 url items).
        m = objMeta owner \<or> candidateLess (candidateOf (objMeta owner)) (candidateOf m)) \<and>
     (\<forall>current \<in> set items. \<forall>e.
        metaDeletionTimestamp (objMeta current) = None \<longrightarrow> baseURLOf S opts e0 current = Some url \<longrightarrow>
        (fst (run_state (ensureSingletonOwner S opts K singletonKind) (startState current e)) = None
           \<longleftrightarrow> current = owner))"
proof -
  let ?objs = "rivals S opts e0 url items"
  have inj: "obj = obj'" if "obj \<in> set items" "obj' \<in> set items" "metaKey (objMeta obj) = metaKey (objMeta obj')" for obj obj'
    using assms(3) that by (auto simp: distinct_map inj_on_def objectKey_def metaKey_def)
  have dist: "distinct (map metaKey ?objs)"
    using assms(3) by (auto simp: rivals_def distinct_map inj_on_def objectKey_def metaKey_def)
  obtain m where m: "m \<in> set ?objs" "ownerOf ?objs = candidateOf m"
    using ownerOf_in [OF assms(4)] .
  then obtain owner where o1: "owner \<in> set items" "objMeta owner = m"
    by (auto simp: rivals_def)
  have least: "m' = m \<or> candidateLess (candidateOf m) (candidateOf m')" if "m' \<in> set ?objs" for m'
  proof -
    have "candidateOf m' = candidateOf m \<or> candidateLess (candidateOf m) (candidateOf m')"
      using owner_hd(2) [of "map candidateOf ?objs" "candidateOf m'"] that m(2) assms(4)
      by (auto simp: ownerOf_def)
    moreover have "candidateOf m' = candidateOf m \<Longrightarrow> metaKey m' = metaKey m"
      by (metis scName_candidateOf)
    moreover have "metaKey m' = metaKey m \<Longrightarrow> m' = m"
      using dist that m(1) by (auto simp: distinct_map inj_on_def)
    ultimately show ?thesis by blast
  qed
  have run: "fst (run_state (ensureSingletonOwner S opts K singletonKind) (startState current e)) = None \<longleftrightarrow> current = owner"
    if c: "current \<in> set items" "metaDeletionTimestamp (objMeta current) = None" "baseURLOf S opts e0 current = Some url"
    for current e
  proof -
    obtain r s1 where r: "run_state (resolveHarborConnection S opts (metaNamespace (objMeta current))
        (harborConnectionRef (objSpec current))) (startState current e) = (r, s1)" by fastforce
    obtain conn where conn: "r = Inr conn" "normalizeBaseURL (ccBaseURL conn) = url"
      using c(3) unfolding baseURLOf_run [OF assms(1), of opts e0 current "startState current e"] r
      by (auto split: sum.splits)
    have "fst (run_state (kubeList K) s1) = Inr items"
      by (simp add: kubeList_def run_simps split_beta assms(2))
    then obtain s2 where l: "run_state (kubeList K) s1 = (Inr items, s2)"
      by (cases "run_state (kubeList K) s1") auto
    have "objMeta current \<in> set ?objs" using c by (auto simp: rivals_def)
    then have "singletonOwnerConflict (objMeta current) inst (peersOf ?objs (objMeta current)) singletonKind = None \<longleftrightarrow>
        current = owner" for inst
      using conflict_iff_owner [OF dist] m(2) inj [OF c(1) o1(1)] o1(2) by auto
    then show ?thesis
      using r l conn singletonPeers_run [OF assms(1), of opts "objectKey current" url items s2 e0]
      by (simp add: ensureSingletonOwner_def run_simps split_beta peersOf_def objectKey_def metaKey_def)
  qed
  show ?thesis using o1 m(1) least run by auto
qed

section \<open>Example\<close>

definition exSchedule :: "string \<Rightarrow> int \<Rightarrow> scanAllSchedule" where
  "exSchedule name created =
     \<lparr>objMeta = (exMeta ''team'' name)\<lparr>metaCreationTimestamp := created\<rparr>,
      objSpec = \<lparr>harborConnectionRef = exRef, driftDetectionInterval = None, reconcileNonce = [],
        deletionPolicy = [], saSchedule = \<lparr>schType = ''Daily'', schCron = []\<rparr>, saParameters = None\<rparr>,
      objStatus = \<lparr>observedGeneration = 1, conditions = [], resolvedHarborConnection = None,
        lastAppliedScheduleHash = []\<rparr>\<rparr>"

definition exScheduleKind :: "('e, scanAllScheduleSpec, scheduleStatus) kind" where
  "exScheduleKind = \<lparr>kdKind = KScanAllSchedule, kdSanitize = sanitizeRef,
     kdClient = exClient [exSchedule ''late'' 9, exSchedule ''early'' 4]\<rparr>"

lemma baseURLOf_exSchedule: "baseURLOf exCluster exOptions e (exSchedule name created) = Some ''https://harbor.example''"
  by (simp add: baseURLOf_def exSchedule_def resolve_exRef namespacedConfig_def exConnection_def
      normalizeBaseURL_def goTrimRight_def)

theorem singleton_unique_owner_witness:
  "fst (run_state (ensureSingletonOwner exCluster exOptions exScheduleKind ''ScanAllSchedule'')
     (startState (exSchedule ''early'' 4) ())) = None \<and>
   fst (run_state (ensureSingletonOwner exCluster exOptions exScheduleKind ''ScanAllSchedule'')
     (startState (exSchedule ''late'' 9) ())) \<noteq> None"
proof -
  let ?items = "[exSchedule ''late'' 9, exSchedule ''early'' 4]"
  have frozen: "frozenReads (exCluster :: unit services)"
    unfolding frozenReads_def using frozen_exCluster by blast
  have list: "fst (kcList (kdClient exScheduleKind) e) = Inr ?items" for e :: unit
    by (simp add: exScheduleKind_def exClient_def)
  have dist: "distinct (map objectKey ?items)"
    by (simp add: exSchedule_def objectKey_def)
  have riv: "rivals exCluster exOptions () ''https://harbor.example'' ?items = map objMeta ?items"
    by (simp add: rivals_def baseURLOf_exSchedule) (simp add: exSchedule_def)
  have less: "\<not> candidateLess (candidateOf (objMeta (exSchedule ''late'' 9))) (candidateOf (objMeta (exSchedule ''early'' 4)))"
    by (simp add: candidateLess_def candidateOf_def exSchedule_def)
  have ne: "objMeta (exSchedule ''early'' 4) \<noteq> objMeta (exSchedule ''late'' 9)"
    by (simp add: exSchedule_def exMeta_def)
  have ne': "rivals exCluster exOptions () ''https://harbor.example'' ?items \<noteq> []"
    unfolding riv by simp
  obtain owner where ow: "owner \<in> set ?items"
    "\<forall>m \<in> set (map objMeta ?items). m = objMeta owner \<or> candidateLess (candidateOf (objMeta owner)) (candidateOf m)"
    and pass: "\<forall>current \<in> set ?items. \<forall>e :: unit. metaDeletionTimestamp (objMeta current) = None \<longrightarrow>
       baseURLOf exCluster exOptions () current = Some ''https://harbor.example'' \<longrightarrow>
       (fst (run_state (ensureSingletonOwner exCluster exOptions exScheduleKind ''ScanAllSchedule'')
          (startState current e)) = None \<longleftrightarrow> current = owner)"
    using singleton_unique_owner [OF frozen list dist ne', of "''ScanAllSchedule''"] unfolding riv
    by (elim bexE conjE) (rule that)
  have early: "exSchedule ''early'' 4 \<in> set ?items" "exSchedule ''late'' 9 \<in> set ?items" by simp_all
  have active: "metaDeletionTimestamp (objMeta (exSchedule n c)) = None" for n c
    by (simp add: exSchedule_def)
  have "objMeta (exSchedule ''early'' 4) \<in> set (map objMeta ?items)" by simp
  then have "owner \<noteq> exSchedule ''late'' 9" using ow(2) less ne by blast
  then have "owner = exSchedule ''early'' 4" using ow(1) by simp
  moreover have "exSchedule ''late'' 9 \<noteq> exSchedule ''early'' 4" using ne by metis
  ultimately show ?thesis
    using pass [rule_format, OF early(1) active baseURLOf_exSchedule]
      pass [rule_format, OF early(2) active baseURLOf_exSchedule] by simp
qed

end
