(* ===== verification/Watches.thy ===== *)
theory Watches
  imports ExampleCluster
begin

text \<open>
  Which objects a change of a connection wakes up (\<^verbatim>\<open>setupHarborBackedController\<close>
  and the two request functions of \<^verbatim>\<open>internal/controller/common.go\<close>). The
  manager's cached list is an argument: an error, or the objects of the kind; a list with
  \<^verbatim>\<open>MatchingFields\<close> has those whose index contains the value.
\<close>

section \<open>Indexes and requests\<close>

definition indexNamespaced :: "('s harborClaimSpecBase_scheme, 't) resource \<Rightarrow> string list" where
  "indexNamespaced obj =
     (let ref = normalizedHarborConnectionRef (harborConnectionRef (objSpec obj))
      in if hcrName ref = [] \<or> hcrKind ref \<noteq> harborConnectionReferenceKindNamespaced then []
         else [nsNameString (metaNamespace (objMeta obj), hcrName ref)])"

definition indexCluster :: "('s harborClaimSpecBase_scheme, 't) resource \<Rightarrow> string list" where
  "indexCluster obj =
     (let ref = normalizedHarborConnectionRef (harborConnectionRef (objSpec obj))
      in if hcrName ref = [] \<or> hcrKind ref \<noteq> harborConnectionReferenceKindCluster then []
         else [hcrName ref])"

definition requestsForIndexedHarborConnection :: "(('s, 't) resource \<Rightarrow> string list) \<Rightarrow> string \<Rightarrow>
    gerror + ('s, 't) resource list \<Rightarrow> nsName list" where
  "requestsForIndexedHarborConnection index v listed =
     (case listed of
        Inl err \<Rightarrow> []
      | Inr objs \<Rightarrow> map objectKey (filter (\<lambda>obj. v \<in> set (index obj)) objs))"

definition requestsForAllHarborBackedObjects :: "gerror + ('s, 't) resource list \<Rightarrow> nsName list" where
  "requestsForAllHarborBackedObjects listed =
     (case listed of Inl err \<Rightarrow> [] | Inr objs \<Rightarrow> map objectKey objs)"

text \<open>The watch on the namespaced kind exists only without an operator-wide connection.\<close>

definition namespacedConnectionRequests :: "'e operatorOptions \<Rightarrow> nsName \<Rightarrow>
    gerror + ('s harborClaimSpecBase_scheme, 't) resource list \<Rightarrow> nsName list" where
  "namespacedConnectionRequests opts key listed =
     (if forcedHarborConnection opts \<noteq> [] then []
      else requestsForIndexedHarborConnection indexNamespaced (nsNameString key) listed)"

definition clusterConnectionRequests :: "'e operatorOptions \<Rightarrow> string \<Rightarrow>
    gerror + ('s harborClaimSpecBase_scheme, 't) resource list \<Rightarrow> nsName list" where
  "clusterConnectionRequests opts name listed =
     (if forcedHarborConnection opts \<noteq> []
      then if name \<noteq> forcedHarborConnection opts then [] else requestsForAllHarborBackedObjects listed
      else requestsForIndexedHarborConnection indexCluster name listed)"

section \<open>The watches cover what the reconcilers read\<close>

text \<open>A reconcile of the object asks the API server for the given connection.\<close>

definition readsConnection :: "'e services \<Rightarrow> 'e operatorOptions \<Rightarrow> 'e \<Rightarrow> objKind \<Rightarrow> nsName \<Rightarrow>
    ('s harborClaimSpecBase_scheme, 't) resource \<Rightarrow> bool" where
  "readsConnection S opts e k key obj =
     list_ex (\<lambda>ev. case ev of EvGet k' key' b \<Rightarrow> k' = k \<and> key' = key | _ \<Rightarrow> False)
       (traceOf (resolveHarborConnection S opts (metaNamespace (objMeta obj)) (harborConnectionRef (objSpec obj)))
          (startState () e))"

lemma kinds_differ [simp]:
  "harborConnectionReferenceKindNamespaced \<noteq> harborConnectionReferenceKindCluster"
  "harborConnectionReferenceKindCluster \<noteq> harborConnectionReferenceKindNamespaced"
  "harborConnectionReferenceKindNamespaced \<noteq> []" "harborConnectionReferenceKindCluster \<noteq> []"
  by (simp_all add: harborConnectionReferenceKindNamespaced_def harborConnectionReferenceKindCluster_def)

lemma nsNameString_inj:
  "CHR ''/'' \<notin> set ns \<Longrightarrow> CHR ''/'' \<notin> set ns' \<Longrightarrow>
     nsNameString (ns, n) = nsNameString (ns', n') \<longleftrightarrow> ns = ns' \<and> n = n'"
proof (induction ns arbitrary: ns')
  case Nil
  then show ?case by (cases ns') (auto simp: nsNameString_def)
next
  case (Cons c ns)
  then show ?case by (cases ns') (auto simp: nsNameString_def)
qed

lemma traceOf_kubeGet:
  "traceOf (State_Monad.bind (kubeGet k f key) (\<lambda>r. State_Monad.return (g r))) (startState obj e) =
     [EvGet k key (\<not> isl (fst (f key e)))]"
  by (simp add: traceOf_def kubeGet_def run_simps split: prod.split)

lemma traceOf_return: "traceOf (State_Monad.return x) s = stTrace s"
  by (simp add: traceOf_def run_simps)

lemma reads_unforced:
  assumes "forcedHarborConnection opts = []" and "CHR ''/'' \<notin> set (metaNamespace (objMeta obj))"
  shows "CHR ''/'' \<notin> set (fst key) \<Longrightarrow>
      readsConnection S opts e KHarborConnection key obj = (nsNameString key \<in> set (indexNamespaced obj))"
    and "readsConnection S opts e KClusterHarborConnection ([], name) obj = (name \<in> set (indexCluster obj))"
  using assms
  by (cases key; auto simp: readsConnection_def resolveHarborConnection_def forcedReference_def indexNamespaced_def
      indexCluster_def normalizedHarborConnectionRef_def emptyConnectionReference_def Let_def traceOf_kubeGet
      traceOf_return nsNameString_inj split: option.split)+

lemma reads_forced:
  assumes "forcedHarborConnection opts \<noteq> []"
  shows "\<not> readsConnection S opts e KHarborConnection key obj"
    and "readsConnection S opts e KClusterHarborConnection ([], name) obj \<Longrightarrow> name = forcedHarborConnection opts"
  using assms
  by (auto simp: readsConnection_def resolveHarborConnection_def forcedReference_def Let_def traceOf_kubeGet
      traceOf_return split: option.splits if_splits)


definition exDependent :: "string \<Rightarrow> string \<Rightarrow> harborConnectionReference option \<Rightarrow> (harborClaimSpecBase, unit) resource" where
  "exDependent namespace name ref =
     \<lparr>objMeta = exMeta namespace name,
      objSpec = \<lparr>harborConnectionRef = ref, driftDetectionInterval = None, reconcileNonce = []\<rparr>,
      objStatus = ()\<rparr>"


end
