(* ===== verification/ConnectionControllers.thy ===== *)
theory ConnectionControllers
  imports ExampleCluster
begin

text \<open>
  The reconcilers of the two connection kinds
  (\<^verbatim>\<open>internal/controller/harborconnection_controller.go\<close>,
  \<^verbatim>\<open>clusterharborconnection_controller.go\<close>): they check the base URL and the
  credentials against Harbor and have neither finalizer nor remote state. The two differ in how the
  connection is described, so they share \<open>reconcileConnection\<close>; the cluster kind's own
  \<^verbatim>\<open>Get\<close> with \<^verbatim>\<open>IgnoreNotFound\<close> does what
  \<open>loadResource\<close> does.
\<close>

definition connectionKind :: "('e, harborConnection) kclient \<Rightarrow> ('e, harborConnectionSpec, harborConnectionStatus) kind" where
  "connectionKind c = \<lparr>kdKind = KHarborConnection, kdSanitize = (\<lambda>spec. spec), kdClient = c\<rparr>"

definition clusterConnectionKind :: "('e, clusterHarborConnection) kclient \<Rightarrow>
    ('e, harborConnectionSpec, harborConnectionStatus) kind" where
  "clusterConnectionKind c = \<lparr>kdKind = KClusterHarborConnection, kdSanitize = (\<lambda>spec. spec), kdClient = c\<rparr>"

definition validateBaseURL :: "'e services \<Rightarrow> string \<Rightarrow> gerror option" where
  "validateBaseURL S baseURL =
     (case svcURLScheme S baseURL of
        Inl err \<Rightarrow> Some (ErrMsg err)
      | Inr scheme \<Rightarrow>
          if scheme = [] then Some (ErrMsg (''baseURL '' @ baseURL @ '' is missing a protocol scheme'')) else None)"

definition setAuthenticated :: "bool \<Rightarrow> harborConnection \<Rightarrow> harborConnection" where
  "setAuthenticated b conn = conn\<lparr>objStatus := (objStatus conn)\<lparr>connAuthenticated := b\<rparr>\<rparr>"

definition checkConnection :: "'e services \<Rightarrow> 'e operatorOptions \<Rightarrow>
    ('e, harborConnectionSpec, harborConnectionStatus) kind \<Rightarrow> (harborConnection \<Rightarrow> connectionConfig) \<Rightarrow>
    (harborConnection, 'e, outcome) go" where
  "checkConnection S opts K config =
     do { conn \<leftarrow> getObj;
          let authenticated = (connCredentials (objSpec conn) \<noteq> None);
          r \<leftarrow> buildHarborClient S opts (config conn) authenticated;
          case r of
            Inl err \<Rightarrow> failWith S K err
          | Inr hc \<Rightarrow>
              do { err \<leftarrow> (if authenticated then CheckAuthentication S hc else Ping S hc);
                   case err of
                     Some e \<Rightarrow> failWith S K e
                   | None \<Rightarrow>
                       do { _ \<leftarrow> modObj (setAuthenticated authenticated);
                            generation \<leftarrow> crGeneration;
                            err2 \<leftarrow> (if authenticated
                                     then setReadyStatus S K generation ''Authenticated''
                                            ''Successfully authenticated with Harbor API''
                                     else setReadyStatus S K generation ''Reachable''
                                            ''Harbor reachable without credentials'');
                            finish err2 } } }"

definition reconcileConnection :: "'e services \<Rightarrow> 'e operatorOptions \<Rightarrow>
    ('e, harborConnectionSpec, harborConnectionStatus) kind \<Rightarrow> (harborConnection \<Rightarrow> connectionConfig) \<Rightarrow>
    nsName \<Rightarrow> (harborConnection, 'e, outcome) go" where
  "reconcileConnection S opts K config key =
     do { (found, err) \<leftarrow> loadResource K key;
          if err \<noteq> None then finish err
          else if \<not> found then finish None
          else do {
            generation \<leftarrow> crGeneration;
            err \<leftarrow> markReconcilingIfNeeded S K generation;
            if err \<noteq> None then finish err
            else do {
              conn \<leftarrow> getObj;
              case validateBaseURL S (connBaseURL (objSpec conn)) of
                Some e \<Rightarrow> failWith S K e
              | None \<Rightarrow> checkConnection S opts K config } } }"

definition reconcileHarborConnection :: "'e services \<Rightarrow> 'e operatorOptions \<Rightarrow> ('e, harborConnection) kclient \<Rightarrow>
    nsName \<Rightarrow> (harborConnection, 'e, outcome) go" where
  "reconcileHarborConnection S opts c = reconcileConnection S opts (connectionKind c) namespacedConfig"

definition reconcileClusterHarborConnection :: "'e services \<Rightarrow> 'e operatorOptions \<Rightarrow>
    ('e, clusterHarborConnection) kclient \<Rightarrow> nsName \<Rightarrow> (clusterHarborConnection, 'e, outcome) go" where
  "reconcileClusterHarborConnection S opts c =
     reconcileConnection S opts (clusterConnectionKind c) clusterConfig"

section \<open>What it sends\<close>

text \<open>
  A request of the connection checks: a \<^verbatim>\<open>GET\<close> of the ping or of the
  permissions endpoint. Other events are Kubernetes reads and status updates.
\<close>

definition isCheck :: "event \<Rightarrow> bool" where
  "isCheck ev =
     (case ev of
        EvHttp hc req st \<Rightarrow> reqMethod req = ''GET'' \<and>
          (goHasSuffix (reqURL req) ''/api/v2.0/ping'' \<or>
           goHasSuffix (reqURL req) ''/api/v2.0/users/current/permissions'')
      | EvUpdate k m sh \<Rightarrow> False
      | EvSecretCreate sec b \<Rightarrow> False
      | EvSecretUpdate sec b \<Rightarrow> False
      | _ \<Rightarrow> True)"

lemma clientCalls_check:
  "clientCalls hc (\<lambda>method relURL. method = ''GET'' \<and>
     (relURL = ''/api/v2.0/ping'' \<or> relURL = ''/api/v2.0/users/current/permissions'')) isCheck"
  by (auto simp: clientCalls_def isCheck_def isRequest_def goHasSuffix_append)

lemma check_kube:
  "emits isCheck (kubeGet k f key)" "emits isCheck (kubeLoad K key)" "emits isCheck (kubeStatusUpdate K)"
  unfolding kubeGet_def kubeLoad_def kubeStatusUpdate_def
  by (intro emits_intros; simp add: isCheck_def)+

lemma check_status:
  "emits isCheck (setReadyStatus S K g reason message)" "emits isCheck (setReconcilingStatus S K g reason message)"
  "emits isCheck (setErrorStatus S K g err)"
  unfolding setReadyStatus_def setReconcilingStatus_def setErrorStatus_def
  by (intro emits_intros check_kube)+

lemma check_lifecycle:
  "emits isCheck (loadResource K key)" "emits isCheck (markReconcilingIfNeeded S K g)"
  "emits isCheck (failWith S K e)" "emits isCheck (buildHarborClient S opts conn b)"
  unfolding loadResource_def markReconcilingIfNeeded_def failWith_def buildHarborClient_def getHarborAuth_def
    resolveConnectionCABundle_def readSecretValue_def
  by (intro emits_intros check_kube check_status)+

lemmas check_calls = emits_Ping [OF clientCalls_check] emits_CheckAuthentication [OF clientCalls_check]

lemma check_connection: "emits isCheck (reconcileConnection S opts K config key)"
  unfolding reconcileConnection_def checkConnection_def
  by (intro emits_intros check_lifecycle check_status check_calls) simp_all

text \<open>
  A connection is only looked at: the reconcile of either kind sends nothing to Harbor but
  \<^verbatim>\<open>GET\<close> requests of the ping and the permissions endpoint, and changes nothing in
  Kubernetes but the status.
\<close>

lemma connection_only_checks:
  "list_all isCheck (traceOf (reconcileHarborConnection S opts c key) (startState obj e)) \<and>
   list_all isCheck (traceOf (reconcileClusterHarborConnection S opts c' key) (startState obj e))"
  using emitsD [OF check_connection, of S opts "connectionKind c" namespacedConfig key "startState obj e"]
    emitsD [OF check_connection, of S opts "clusterConnectionKind c'" clusterConfig key "startState obj e"]
  by (auto simp: traceOf_def reconcileHarborConnection_def reconcileClusterHarborConnection_def)

section \<open>The base URL\<close>

text \<open>
  C27. Which base URLs pass. A URL passes only if it parses and has a scheme; but a host name and a
  port without a scheme pass as well when they parse, because the host name is read as the scheme.
\<close>

theorem baseURL_scheme:
  assumes "lawfulURLs S"
  shows "(validateBaseURL S url = None \<longleftrightarrow> (\<exists>scheme. svcURLScheme S url = Inr scheme) \<and> urlScheme url \<noteq> []) \<and>
    (list_all schemeChar (h # host) \<and> schemeStart h \<and> svcURLScheme S (h # host @ '':'' @ port) = Inr scheme \<longrightarrow>
       validateBaseURL S (h # host @ '':'' @ port) = None)"
proof -
  have scheme: "svcURLScheme S u = Inr sch \<Longrightarrow> sch = urlScheme u" for u sch
    using assms by (simp add: lawfulURLs_def)
  have "urlScheme (h # host @ '':'' @ port) = goToLower (h # host)"
    if "list_all schemeChar (h # host)" "schemeStart h"
  proof -
    have "\<not> schemeChar CHR '':''" by (simp add: schemeChar_def goIsDigit_def)
    then have "takeWhile schemeChar (h # host @ '':'' @ port) = h # host"
      using that takeWhile_append2 [of "h # host" schemeChar "'':'' @ port"]
      by (simp add: list_all_iff)
    then show ?thesis using that(2) by (simp add: urlScheme_def nth_append)
  qed
  then show ?thesis
    using scheme by (auto simp: validateBaseURL_def goToLower_def split: sum.split)
qed

lemma exCluster_urls: "svcURLScheme exCluster s = Inr (urlScheme s)" "lawfulURLs exCluster"
  by (simp_all add: lawfulURLs_def exCluster_def emptyCluster_def)

lemma baseURL_scheme_witness:
  "validateBaseURL (exCluster :: unit services) ''harbor.example:8443'' = None \<and>
   validateBaseURL (exCluster :: unit services) ''https://harbor.example'' = None"
proof -
  have "urlScheme ''https://harbor.example'' \<noteq> []" by code_simp
  moreover have "list_all schemeChar (CHR ''h'' # ''arbor.example'') \<and> schemeStart CHR ''h''" by code_simp
  ultimately show ?thesis
    using baseURL_scheme [of "exCluster :: unit services", OF exCluster_urls(2), of "''https://harbor.example''" "CHR ''h''" "''arbor.example''" "''8443''"
        "urlScheme ''harbor.example:8443''"]
    by (simp add: exCluster_urls(1))
qed

end
