(* ===== verification/HarborProjects.thy ===== *)
theory HarborProjects
  imports Guards
begin

text \<open>
  The project calls of the Harbor client (\<^verbatim>\<open>internal/harborclient/projects.go\<close>).
  \<open>Project\<close> embeds \<open>CVEAllowlist\<close>, so its fields are decoded from the keys of
  the project object itself, not from \<^verbatim>\<open>cve_allowlist\<close>, and the outer
  \<^verbatim>\<open>project_id\<close> hides the embedded one.
\<close>

record hProjectMetadata =
  hpmPublic :: string
  hpmEnableContentTrust :: string
  hpmEnableContentTrustCosign :: string
  hpmPreventVul :: string
  hpmSeverity :: string
  hpmAutoScan :: string
  hpmAutoSBOMGeneration :: string
  hpmReuseSysCVEAllowlist :: string
  hpmRetentionID :: string
  hpmProxySpeedKB :: string

record hCVEAllowlist =
  hcvID :: int
  hcvProjectID :: int
  hcvExpiresAt :: int
  hcvItems :: "string list"
  hcvCreationTime :: string
  hcvUpdateTime :: string

record hProject =
  hpProjectID :: int
  hpName :: string
  hpRegistryID :: int
  hpOwnerName :: string
  hpMetadata :: hProjectMetadata
  hpCVEAllowlist :: hCVEAllowlist

record createProjectRequest =
  cprProjectName :: string
  cprPublic :: bool
  cprOwner :: string
  cprMetadata :: hProjectMetadata
  cprCVEAllowlist :: hCVEAllowlist
  cprStorageLimit :: "int option"
  cprRegistryID :: "int option"

section \<open>JSON\<close>

definition encProjectMetadata :: "hProjectMetadata \<Rightarrow> json" where
  "encProjectMetadata m = JObj
     (omitStr ''public'' (hpmPublic m) @
      omitStr ''enable_content_trust'' (hpmEnableContentTrust m) @
      omitStr ''enable_content_trust_cosign'' (hpmEnableContentTrustCosign m) @
      omitStr ''prevent_vul'' (hpmPreventVul m) @
      omitStr ''severity'' (hpmSeverity m) @
      omitStr ''auto_scan'' (hpmAutoScan m) @
      omitStr ''auto_sbom_generation'' (hpmAutoSBOMGeneration m) @
      omitStr ''reuse_sys_cve_allowlist'' (hpmReuseSysCVEAllowlist m) @
      omitStr ''retention_id'' (hpmRetentionID m) @
      omitStr ''proxy_speed_kb'' (hpmProxySpeedKB m))"

definition decProjectMetadata :: "hProjectMetadata decoder" where
  "decProjectMetadata = decObj (\<lambda>kvs.
     do { a \<leftarrow> decStr (jget ''public'' kvs);
          b \<leftarrow> decStr (jget ''enable_content_trust'' kvs);
          c \<leftarrow> decStr (jget ''enable_content_trust_cosign'' kvs);
          d \<leftarrow> decStr (jget ''prevent_vul'' kvs);
          e \<leftarrow> decStr (jget ''severity'' kvs);
          f \<leftarrow> decStr (jget ''auto_scan'' kvs);
          g \<leftarrow> decStr (jget ''auto_sbom_generation'' kvs);
          h \<leftarrow> decStr (jget ''reuse_sys_cve_allowlist'' kvs);
          i \<leftarrow> decStr (jget ''retention_id'' kvs);
          j \<leftarrow> decStr (jget ''proxy_speed_kb'' kvs);
          Some \<lparr>hpmPublic = a, hpmEnableContentTrust = b, hpmEnableContentTrustCosign = c,
                hpmPreventVul = d, hpmSeverity = e, hpmAutoScan = f, hpmAutoSBOMGeneration = g,
                hpmReuseSysCVEAllowlist = h, hpmRetentionID = i, hpmProxySpeedKB = j\<rparr> })"

definition encCVEAllowlist :: "hCVEAllowlist \<Rightarrow> json" where
  "encCVEAllowlist a = JObj
     (omitInt ''id'' (hcvID a) @ omitInt ''project_id'' (hcvProjectID a) @
      omitInt ''expires_at'' (hcvExpiresAt a) @
      omitList ''items'' (\<lambda>c. JObj (omitStr ''cve_id'' c)) (hcvItems a) @
      omitStr ''creation_time'' (hcvCreationTime a) @ omitStr ''update_time'' (hcvUpdateTime a))"

definition decCVEItem :: "string decoder" where
  "decCVEItem = decObj (\<lambda>kvs. decStr (jget ''cve_id'' kvs))"

definition decProject :: "hProject decoder" where
  "decProject = decObj (\<lambda>kvs.
     do { projectID \<leftarrow> decInt (jget ''project_id'' kvs);
          nm \<leftarrow> decStr (jget ''name'' kvs);
          registryID \<leftarrow> decInt (jget ''registry_id'' kvs);
          ownerName \<leftarrow> decStr (jget ''owner_name'' kvs);
          metadata \<leftarrow> decProjectMetadata (jget ''metadata'' kvs);
          allowID \<leftarrow> decInt (jget ''id'' kvs);
          expiresAt \<leftarrow> decInt (jget ''expires_at'' kvs);
          items \<leftarrow> decList decCVEItem (jget ''items'' kvs);
          creationTime \<leftarrow> decStr (jget ''creation_time'' kvs);
          updateTime \<leftarrow> decStr (jget ''update_time'' kvs);
          Some \<lparr>hpProjectID = projectID, hpName = nm, hpRegistryID = registryID, hpOwnerName = ownerName,
                hpMetadata = metadata,
                hpCVEAllowlist = \<lparr>hcvID = allowID, hcvProjectID = 0, hcvExpiresAt = expiresAt,
                  hcvItems = items, hcvCreationTime = creationTime, hcvUpdateTime = updateTime\<rparr>\<rparr> })"

definition encCreateProjectRequest :: "createProjectRequest \<Rightarrow> json" where
  "encCreateProjectRequest r = JObj
     (omitStr ''project_name'' (cprProjectName r) @
      omitBool ''public'' (cprPublic r) @
      omitStr ''owner'' (cprOwner r) @
      [(''metadata'', encProjectMetadata (cprMetadata r)),
       (''cve_allowlist'', encCVEAllowlist (cprCVEAllowlist r))] @
      omitPtr ''storage_limit'' jInt (cprStorageLimit r) @
      omitPtr ''registry_id'' jInt (cprRegistryID r))"

section \<open>Calls\<close>

definition projectURL :: "int \<Rightarrow> string" where
  "projectURL n = ''/api/v2.0/projects/'' @ goItoa n"

definition ListProjects :: "'e services \<Rightarrow> harborClient \<Rightarrow> ('o, 'e, gerror + hProject list) go" where
  "ListProjects S c = getPaged S c decProject ''/api/v2.0/projects'' []"

definition FindProjectByName :: "'e services \<Rightarrow> harborClient \<Rightarrow> string \<Rightarrow> ('o, 'e, gerror + hProject option) go" where
  "FindProjectByName S c nm =
     (if nm = [] then State_Monad.return (Inr None)
      else do {
        r \<leftarrow> getPaged S c decProject ''/api/v2.0/projects'' (valuesSet ''q'' (''name='' @ nm) []);
        State_Monad.return
          (case r of
             Inl err \<Rightarrow> Inl err
           | Inr projects \<Rightarrow> Inr (find (\<lambda>p. equalFold (hpName p) nm) projects)) })"

definition GetProjectByID :: "'e services \<Rightarrow> harborClient \<Rightarrow> int \<Rightarrow> ('o, 'e, gerror + hProject) go" where
  "GetProjectByID S c n = clientGet S c (projectURL n) decProject"

definition CreateProject :: "'e services \<Rightarrow> harborClient \<Rightarrow> createProjectRequest \<Rightarrow> ('o, 'e, gerror + int) go" where
  "CreateProject S c req = createWithNumericLocationID S c ''/api/v2.0/projects'' (encCreateProjectRequest req)"

definition UpdateProject :: "'e services \<Rightarrow> harborClient \<Rightarrow> int \<Rightarrow> createProjectRequest \<Rightarrow> ('o, 'e, gerror option) go" where
  "UpdateProject S c n req = clientPut S c (projectURL n) (encCreateProjectRequest req)"

definition DeleteProject :: "'e services \<Rightarrow> harborClient \<Rightarrow> int \<Rightarrow> ('o, 'e, gerror option) go" where
  "DeleteProject S c n = deleteIgnoringNotFound S c (projectURL n) []"

section \<open>Events of the calls\<close>

lemma emits_FindProjectByName:
  "clientCalls c M C \<Longrightarrow> (\<And>relURL. M ''GET'' relURL) \<Longrightarrow> emits C (FindProjectByName S c nm)"
  unfolding FindProjectByName_def by (intro emits_intros client_emits)

lemma emits_ProjectCalls:
  "clientCalls c M C \<Longrightarrow> M ''GET'' (projectURL n) \<Longrightarrow> emits C (GetProjectByID S c n)"
  "clientCalls c M C \<Longrightarrow> M ''POST'' ''/api/v2.0/projects'' \<Longrightarrow> emits C (CreateProject S c req)"
  "clientCalls c M C \<Longrightarrow> M ''PUT'' (projectURL n) \<Longrightarrow> emits C (UpdateProject S c n req)"
  "clientCalls c M C \<Longrightarrow> M ''DELETE'' (projectURL n) \<Longrightarrow> emits C (DeleteProject S c n)"
  unfolding GetProjectByID_def CreateProject_def UpdateProject_def DeleteProject_def
  by (intro client_emits; assumption)+

lemma untouched_project_calls [triple_intros]:
  "untouched (FindProjectByName S hc nm)" "untouched (GetProjectByID S hc n)"
  "untouched (CreateProject S hc req)" "untouched (UpdateProject S hc n req)" "untouched (DeleteProject S hc n)"
  unfolding FindProjectByName_def GetProjectByID_def CreateProject_def UpdateProject_def DeleteProject_def
  by (intro triple_intros)+

end
