(* ===== verification/GoTime.thy ===== *)
theory GoTime
  imports Prelude
begin

text \<open>
  \<^verbatim>\<open>t.UTC().Format(time.RFC3339)\<close> of a time given in seconds since 1970: the
  civil date of a day number in the proleptic Gregorian calendar, and the text. The zero
  \<^verbatim>\<open>metav1.Time\<close> is the first of January of year 1.
\<close>

definition zeroTime :: int where
  "zeroTime = - 62135596800"

text \<open>
  Years are counted from March, so that the leap day is the last of its year; 719468 days separate
  the first of March of year 0 from 1970.
\<close>

definition civilDate :: "int \<Rightarrow> int \<times> int \<times> int" where
  "civilDate days =
     (let z = days + 719468;
          era = z div 146097;
          dayOfEra = z mod 146097;
          yearOfEra = (dayOfEra - dayOfEra div 1460 + dayOfEra div 36524 - dayOfEra div 146096) div 365;
          dayOfYear = dayOfEra - (365 * yearOfEra + yearOfEra div 4 - yearOfEra div 100);
          shifted = (5 * dayOfYear + 2) div 153;
          day = dayOfYear - (153 * shifted + 2) div 5 + 1;
          month = (if shifted < 10 then shifted + 3 else shifted - 9)
      in (yearOfEra + era * 400 + (if month \<le> 2 then 1 else 0), month, day))"

definition goPad :: "nat \<Rightarrow> int \<Rightarrow> string" where
  "goPad w n = (let s = goItoa n in replicate (w - length s) CHR ''0'' @ s)"

definition goRFC3339 :: "int \<Rightarrow> string" where
  "goRFC3339 t =
     (let (y, m, d) = civilDate (t div 86400); s = t mod 86400
      in goPad 4 y @ ''-'' @ goPad 2 m @ ''-'' @ goPad 2 d @ ''T'' @
         goPad 2 (s div 3600) @ '':'' @ goPad 2 (s div 60 mod 60) @ '':'' @ goPad 2 (s mod 60) @ ''Z'')"

end
