(* ===== verification/OwnedRemote.thy ===== *)
theory OwnedRemote
  imports ExampleCluster
begin

text \<open>
  The delete functions of the reconcilers have one shape: nothing to do without an id in the status,
  otherwise a \<^verbatim>\<open>DELETE\<close> request, and an answer 404 counts as success. Here is
  what that shape guarantees, for ids of any type and any URL made of them, and what an object owes
  to Harbor before its finalizer may go.
\<close>

section \<open>Harbor's answer that a resource is gone\<close>

definition remoteGone :: "string \<Rightarrow> event \<Rightarrow> bool" where
  "remoteGone relURL ev =
     (case ev of
        EvHttp hc req (Some st) \<Rightarrow>
          reqMethod req = ''DELETE'' \<and> goHasSuffix (reqURL req) relURL \<and> (200 \<le> st \<and> st < 300 \<or> st = 404)
      | _ \<Rightarrow> False)"

lemma remoteGone_response:
  assumes "list_ex (isResponse c ''DELETE'' relURL goneStatus) tr"
  shows "list_ex (remoteGone relURL) tr"
proof -
  have "isResponse c ''DELETE'' relURL goneStatus ev \<Longrightarrow> remoteGone relURL ev" for ev
    by (cases ev) (auto simp: isResponse_def remoteGone_def isRequest_def ok2xx_def goHasSuffix_append
        split: option.splits)
  then show ?thesis using assms unfolding list_ex_iff by blast
qed

lemma delete_reports_gone:
  "triple (\<lambda>_. True) (deleteIgnoringNotFound S hc relURL [])
     (\<lambda>r s. (r = None \<longrightarrow> list_ex (remoteGone relURL) (stTrace s)) \<and> \<not> IsNotFound r)"
  by (rule triple_conj [OF triple_post [OF deleteIgnoringNotFound_gone]])
    (auto intro: remoteGone_response deleteIgnoringNotFound_not404)

text \<open>The shape of the delete functions; \<open>none\<close> is the id that says there is nothing.\<close>

lemma delete_by_id_gone:
  assumes "\<And>obj. owes obj \<Longrightarrow> ident obj = n \<and> n \<noteq> none"
  shows "triple (\<lambda>s. owes (stObj s))
     (do { cr \<leftarrow> getObj;
           if ident cr = none then State_Monad.return None
           else do { err \<leftarrow> deleteIgnoringNotFound S hc (relURL (ident cr)) [];
                     State_Monad.return (if IsNotFound err then None else err) } })
     (\<lambda>r s. r = None \<longrightarrow> list_ex (remoteGone (relURL n)) (stTrace s))"
proof (rule triple_bind [OF triple_getObj])
  show "triple (\<lambda>s. owes (stObj s) \<and> cr = stObj s)
      (if ident cr = none then State_Monad.return None
       else do { err \<leftarrow> deleteIgnoringNotFound S hc (relURL (ident cr)) [];
                 State_Monad.return (if IsNotFound err then None else err) })
      (\<lambda>r s. r = None \<longrightarrow> list_ex (remoteGone (relURL n)) (stTrace s))" for cr
  proof (cases "ident cr = n \<and> n \<noteq> none")
    case True
    then have "ident cr \<noteq> none" "relURL (ident cr) = relURL n" by auto
    then show ?thesis
      by (simp only: if_False)
        (intro triple_bind [OF triple_pre [OF delete_reports_gone]] triple_return, auto)
  qed (use assms in \<open>auto simp: triple_def\<close>)
qed

text \<open>Some delete functions hand the client's answer on as it is.\<close>

lemma delete_by_id_plain:
  assumes "\<And>obj. owes obj \<Longrightarrow> ident obj = n \<and> n \<noteq> none"
  shows "triple (\<lambda>s. owes (stObj s))
     (do { cr \<leftarrow> getObj;
           if ident cr = none then State_Monad.return None
           else deleteIgnoringNotFound S hc (relURL (ident cr)) [] })
     (\<lambda>r s. r = None \<longrightarrow> list_ex (remoteGone (relURL n)) (stTrace s))"
proof (rule triple_bind [OF triple_getObj])
  show "triple (\<lambda>s. owes (stObj s) \<and> cr = stObj s)
      (if ident cr = none then State_Monad.return None else deleteIgnoringNotFound S hc (relURL (ident cr)) [])
      (\<lambda>r s. r = None \<longrightarrow> list_ex (remoteGone (relURL n)) (stTrace s))" for cr
  proof (cases "ident cr = n \<and> n \<noteq> none")
    case True
    then have "ident cr \<noteq> none" "relURL (ident cr) = relURL n" by auto
    then show ?thesis
      by (simp only: if_False) (rule triple_post [OF triple_pre [OF delete_reports_gone]], auto)
  qed (use assms in \<open>auto simp: triple_def\<close>)
qed

section \<open>Deleting nothing else\<close>

text \<open>The only resource that is deleted is the one at a given URL.\<close>

definition deletesOnly :: "string \<Rightarrow> event \<Rightarrow> bool" where
  "deletesOnly relURL ev =
     (case ev of
        EvHttp hc req st \<Rightarrow> reqMethod req = ''DELETE'' \<longrightarrow> goHasSuffix (reqURL req) relURL
      | _ \<Rightarrow> True)"

lemma deletesOnly_local [simp]: "admitsLocal (deletesOnly relURL)"
  by (auto simp: admitsLocal_def deletesOnly_def isHttp_def split: event.splits)

lemma bodyEvent_deletesOnly: "emits bodyEvent m \<Longrightarrow> emits (deletesOnly relURL) m"
  by (erule emits_mono) (auto simp: bodyEvent_def deletesOnly_def isDelete_def split: event.splits)

lemma clientCalls_deletesOnly: "clientCalls hc (\<lambda>method u. method = ''DELETE'' \<longrightarrow> u = relURL) (deletesOnly relURL)"
  by (auto simp: clientCalls_def deletesOnly_def isRequest_def goHasSuffix_append)

lemma emits_delete_own: "emits (deletesOnly relURL) (deleteIgnoringNotFound S hc relURL ignore)"
  by (rule emits_deleteIgnoringNotFound [OF clientCalls_deletesOnly]) simp

lemma delete_by_id_only:
  assumes "\<And>obj. owes obj \<Longrightarrow> ident obj = n"
    and "\<And>m. n = m \<Longrightarrow> emits (deletesOnly (relURL n)) (rest m)"
  shows "triple (objTrace owes (deletesOnly (relURL n)))
     (do { cr \<leftarrow> getObj; if ident cr = none then State_Monad.return None else rest (ident cr) })
     (\<lambda>_ s. list_all (deletesOnly (relURL n)) (stTrace s))"
proof (rule triple_bind [OF triple_getObj], rule triple_if)
  show "triple (\<lambda>s. objTrace owes (deletesOnly (relURL n)) s \<and> cr = stObj s) (rest (ident cr))
      (\<lambda>_ s. list_all (deletesOnly (relURL n)) (stTrace s))" for cr
  proof (cases "owes cr")
    case True
    then show ?thesis
      using assms by (intro triple_pre [OF triple_events]) auto
  qed (auto simp: triple_def)
qed (auto intro: triple_return)

section \<open>What an object owes\<close>

text \<open>The object has the Harbor resource \<open>n\<close>; and it is not orphaned.\<close>

definition hasRemote :: "('t \<Rightarrow> 'i) \<Rightarrow> 'i \<Rightarrow> ('s, 't) resource \<Rightarrow> bool" where
  "hasRemote ident n obj \<longleftrightarrow> ident (objStatus obj) = n"

lemma hasRemote_meta [simp]: "hasRemote ident n (obj\<lparr>objMeta := m\<rparr>) = hasRemote ident n obj"
  by (simp add: hasRemote_def)

lemma hasRemote_ident: "hasRemote ident n obj \<Longrightarrow> ident (objStatus obj) = n"
  by (simp add: hasRemote_def)

definition owesRemote :: "('t \<Rightarrow> 'i) \<Rightarrow> 'i \<Rightarrow> 'i \<Rightarrow> ('s harborSpecBase_scheme, 't) resource \<Rightarrow> bool" where
  "owesRemote ident none n obj \<longleftrightarrow>
     GetDeletionPolicy (objSpec obj) \<noteq> deletionPolicyOrphan \<and> ident (objStatus obj) = n \<and> n \<noteq> none"

lemma owesRemoteD: "owesRemote ident none n obj \<Longrightarrow> GetDeletionPolicy (objSpec obj) \<noteq> deletionPolicyOrphan"
  by (simp add: owesRemote_def)

lemma owesRemote_ident: "owesRemote ident none n obj \<Longrightarrow> ident (objStatus obj) = n \<and> n \<noteq> none"
  by (simp add: owesRemote_def)

text \<open>Both are read off the spec and the kind's own status, so both stay.\<close>

lemma stays_owesRemote:
  assumes "faithful K" and "kdSanitize K = sanitizeRef"
    and ident: "\<And>sb sb'. harborStatusBase.more sb' = harborStatusBase.more sb \<Longrightarrow> ident sb' = ident sb"
  shows "stays K (owesRemote ident none n)"
  by (rule stays_faithful [OF assms(1,2)]) (auto simp: owesRemote_def dest!: GetDeletionPolicy_more ident)

lemma stays_hasRemote:
  assumes "faithful K" and "kdSanitize K = sanitizeRef"
    and ident: "\<And>sb sb'. harborStatusBase.more sb' = harborStatusBase.more sb \<Longrightarrow> ident sb' = ident sb"
  shows "stays K (hasRemote ident n)"
  by (rule stays_faithful [OF assms(1,2)]) (auto simp: hasRemote_def dest!: ident)

lemma owesRemote_hasRemote: "owesRemote ident none n obj \<Longrightarrow> hasRemote ident n obj"
  by (simp add: owesRemote_def hasRemote_def)

end
