(* ===== verification/ReferenceRules.thy ===== *)
theory ReferenceRules
  imports Guards References
begin

text \<open>
  Resolving a reference only reads from the Kubernetes API and leaves the reconciler's own object
  alone: the rules with which the proofs about the reconcilers pass over it.
\<close>

lemma quietly_resolve:
  "quietly (resolveRegistryID S opts ns ref)" "quietly (resolveProject S opts ns ref)"
  "quietly (resolveProjectName S opts ns ref)" "quietly (resolveUserName S opts ns uref)"
  "quietly (resolveUserGroup S opts ns uref expected)"
  unfolding resolveRegistryID_def resolveProject_def resolveProjectName_def resolveUserName_def
    resolveUserGroup_def
  by (intro emits_intros)+

lemmas body_resolve = quietly_resolve [THEN quietly_body]

lemma untouched_resolve [triple_intros]:
  "untouched (resolveRegistryID S opts ns ref)" "untouched (resolveProject S opts ns ref)"
  "untouched (resolveProjectName S opts ns ref)" "untouched (resolveUserName S opts ns uref)"
  "untouched (resolveUserGroup S opts ns uref expected)"
  unfolding resolveRegistryID_def resolveProject_def resolveProjectName_def resolveUserName_def
    resolveUserGroup_def
  by (intro triple_intros)+

lemma guards_resolve [guard_intros]:
  assumes "admitsLocal C"
  shows "guards P C (resolveRegistryID S opts ns ref)" and "guards P C (resolveProject S opts ns ref)"
    and "guards P C (resolveProjectName S opts ns ref)" and "guards P C (resolveUserName S opts ns uref)"
    and "guards P C (resolveUserGroup S opts ns uref expected)"
  by (rule guards_plain, rule untouched_resolve, rule admitsLocal_quiet [OF assms], rule quietly_resolve)+

end
