(* ===== verification/ProjectController.thy ===== *)
theory ProjectController
  imports HarborProjects References GoTime OwnedRemote ReferenceRules
begin

text \<open>
  The project reconciler (\<^verbatim>\<open>internal/controller/project_controller.go\<close>): the
  request it wants Harbor to have, when the current project differs from it, adoption by name, and
  the reconcile itself on the shared frame.
\<close>

section \<open>The desired payload\<close>

definition emptyMetadata :: hProjectMetadata where
  "emptyMetadata =
     \<lparr>hpmPublic = [], hpmEnableContentTrust = [], hpmEnableContentTrustCosign = [], hpmPreventVul = [],
      hpmSeverity = [], hpmAutoScan = [], hpmAutoSBOMGeneration = [], hpmReuseSysCVEAllowlist = [],
      hpmRetentionID = [], hpmProxySpeedKB = []\<rparr>"

definition emptyAllowlist :: hCVEAllowlist where
  "emptyAllowlist =
     \<lparr>hcvID = 0, hcvProjectID = 0, hcvExpiresAt = 0, hcvItems = [], hcvCreationTime = [], hcvUpdateTime = []\<rparr>"

definition projectRequestMetadata :: "projectSpec \<Rightarrow> hProjectMetadata" where
  "projectRequestMetadata spec =
     (let meta = (case projMetadata spec of
                    None \<Rightarrow> emptyMetadata
                  | Some m \<Rightarrow>
                      \<lparr>hpmPublic = pmPublic m, hpmEnableContentTrust = pmEnableContentTrust m,
                       hpmEnableContentTrustCosign = pmEnableContentTrustCosign m,
                       hpmPreventVul = pmPreventVul m, hpmSeverity = pmSeverity m,
                       hpmAutoScan = pmAutoScan m, hpmAutoSBOMGeneration = pmAutoSBOMGeneration m,
                       hpmReuseSysCVEAllowlist = pmReuseSysCVEAllowlist m,
                       hpmRetentionID = pmRetentionID m, hpmProxySpeedKB = pmProxySpeedKB m\<rparr>)
      in if hpmPublic meta = []
         then meta\<lparr>hpmPublic := if projPublic spec then ''true'' else ''false''\<rparr> else meta)"

definition projectRequestAllowlist :: "projectSpec \<Rightarrow> hCVEAllowlist" where
  "projectRequestAllowlist spec =
     (case projCVEAllowlist spec of
        None \<Rightarrow> emptyAllowlist
      | Some a \<Rightarrow>
          \<lparr>hcvID = cveID a, hcvProjectID = cveProjectID a, hcvExpiresAt = cveExpiresAt a,
           hcvItems = cveItems a, hcvCreationTime = goRFC3339 (cveCreationTime a),
           hcvUpdateTime = goRFC3339 (cveUpdateTime a)\<rparr>)"

definition buildProjectCreateReq :: "'e services \<Rightarrow> 'e operatorOptions \<Rightarrow> (project, 'e, gerror + createProjectRequest) go" where
  "buildProjectCreateReq S opts =
     do { cr \<leftarrow> getObj;
          registryID \<leftarrow> (case projRegistryRef (objSpec cr) of
                           None \<Rightarrow> State_Monad.return (Inr None)
                         | Some ref \<Rightarrow>
                             do { r \<leftarrow> resolveRegistryID S opts (metaNamespace (objMeta cr)) (Some ref);
                                  State_Monad.return (case r of Inl err \<Rightarrow> Inl err | Inr n \<Rightarrow> Inr (Some n)) });
          State_Monad.return
            (case registryID of
               Inl err \<Rightarrow> Inl err
             | Inr rid \<Rightarrow>
                 Inr \<lparr>cprProjectName = metaName (objMeta cr), cprPublic = projPublic (objSpec cr),
                      cprOwner = projOwner (objSpec cr), cprMetadata = projectRequestMetadata (objSpec cr),
                      cprCVEAllowlist = projectRequestAllowlist (objSpec cr),
                      cprStorageLimit = (if projStorageLimit (objSpec cr) \<noteq> 0
                                         then Some (projStorageLimit (objSpec cr)) else None),
                      cprRegistryID = rid\<rparr>) }"

definition projectNeedsUpdate :: "createProjectRequest \<Rightarrow> hProject \<Rightarrow> bool" where
  "projectNeedsUpdate desired current =
     (if cprProjectName desired \<noteq> hpName current then True
      else if (if cprPublic desired then ''true'' else ''false'') \<noteq> hpmPublic (hpMetadata current) then True
      else if \<not> equalFold (cprOwner desired) (hpOwnerName current) then True
      else if cprRegistryID desired = None \<and> hpRegistryID current \<noteq> 0 then True
      else if cprRegistryID desired \<noteq> None \<and> the (cprRegistryID desired) \<noteq> hpRegistryID current then True
      else let mw = cprMetadata desired; mc = hpMetadata current
      in if hpmEnableContentTrust mw \<noteq> hpmEnableContentTrust mc \<or>
            hpmEnableContentTrustCosign mw \<noteq> hpmEnableContentTrustCosign mc \<or>
            hpmPreventVul mw \<noteq> hpmPreventVul mc \<or> hpmSeverity mw \<noteq> hpmSeverity mc \<or>
            hpmAutoScan mw \<noteq> hpmAutoScan mc \<or> hpmAutoSBOMGeneration mw \<noteq> hpmAutoSBOMGeneration mc \<or>
            hpmReuseSysCVEAllowlist mw \<noteq> hpmReuseSysCVEAllowlist mc \<or>
            hpmRetentionID mw \<noteq> hpmRetentionID mc \<or> hpmProxySpeedKB mw \<noteq> hpmProxySpeedKB mc
         then True
         else let aw = cprCVEAllowlist desired; ac = hpCVEAllowlist current
         in if hcvID aw \<noteq> hcvID ac \<or> hcvProjectID aw \<noteq> hcvProjectID ac \<or>
               hcvExpiresAt aw \<noteq> hcvExpiresAt ac \<or> length (hcvItems aw) \<noteq> length (hcvItems ac)
            then True
            else list_ex (\<lambda>(w, c). w \<noteq> c) (zip (hcvItems aw) (hcvItems ac)))"

section \<open>The reconciler\<close>

definition projectKind :: "('e, project) kclient \<Rightarrow> ('e, projectSpec, projectStatus) kind" where
  "projectKind c = \<lparr>kdKind = KProject, kdSanitize = sanitizeRef, kdClient = c\<rparr>"

definition deleteProject :: "'e services \<Rightarrow> harborClient \<Rightarrow> (project, 'e, gerror option) go" where
  "deleteProject S hc =
     do { cr \<leftarrow> getObj;
          if harborProjectID (objStatus cr) = 0 then State_Monad.return None
          else do { err \<leftarrow> DeleteProject S hc (harborProjectID (objStatus cr));
                    State_Monad.return (if IsNotFound err then None else err) } }"

definition setProjectID :: "int \<Rightarrow> project \<Rightarrow> project" where
  "setProjectID n cr = cr\<lparr>objStatus := (objStatus cr)\<lparr>harborProjectID := n\<rparr>\<rparr>"

definition adoptExistingProject :: "'e services \<Rightarrow> ('e, projectSpec, projectStatus) kind \<Rightarrow> harborClient \<Rightarrow>
    (project, 'e, bool \<times> gerror option) go" where
  "adoptExistingProject S K hc =
     do { cr \<leftarrow> getObj;
          r \<leftarrow> FindProjectByName S hc (metaName (objMeta cr));
          case r of
            Inl err \<Rightarrow> State_Monad.return (False, Some err)
          | Inr found \<Rightarrow>
              (case found of
                 None \<Rightarrow> State_Monad.return (False, None)
               | Some p \<Rightarrow>
                   do { _ \<leftarrow> modObj (setProjectID (hpProjectID p));
                        err \<leftarrow> kubeStatusUpdate K;
                        State_Monad.return (True, err) }) }"

definition createProjectPath :: "'e services \<Rightarrow> 'e operatorOptions \<Rightarrow> ('e, projectSpec, projectStatus) kind \<Rightarrow>
    harborClient \<Rightarrow> createProjectRequest \<Rightarrow> (project, 'e, outcome) go" where
  "createProjectPath S opts K hc createReq =
     do { cr \<leftarrow> getObj;
          case requireCreationAllowed opts (creationPolicy (objSpec cr)) of
            Some err \<Rightarrow> failWith S K err
          | None \<Rightarrow>
              do { r \<leftarrow> CreateProject S hc createReq;
                   case r of
                     Inl err \<Rightarrow> failWith S K err
                   | Inr newID \<Rightarrow>
                       do { _ \<leftarrow> modObj (setProjectID newID);
                            readyWithDrift S opts K ''Created'' ''Project created'' } } }"

definition updateProjectPath :: "'e services \<Rightarrow> 'e operatorOptions \<Rightarrow> ('e, projectSpec, projectStatus) kind \<Rightarrow>
    harborClient \<Rightarrow> createProjectRequest \<Rightarrow> (project, 'e, outcome) go" where
  "updateProjectPath S opts K hc createReq =
     do { cr \<leftarrow> getObj;
          r \<leftarrow> GetProjectByID S hc (harborProjectID (objStatus cr));
          case r of
            Inl err \<Rightarrow>
              (if IsNotFound (Some err)
               then do { generation \<leftarrow> crGeneration;
                         requeueOnRemoteNotFound S K generation (Some (\<lambda>st. st\<lparr>harborProjectID := 0\<rparr>))
                           ''Project not found in Harbor'' }
               else failWith S K err)
          | Inr current \<Rightarrow>
              do { uerr \<leftarrow> (if projectNeedsUpdate createReq current
                           then UpdateProject S hc (hpProjectID current) createReq
                           else State_Monad.return None);
                   case uerr of
                     Some err \<Rightarrow> failWith S K err
                   | None \<Rightarrow> readyWithDrift S opts K ''Reconciled'' ''Project reconciled'' } }"

definition projectBody :: "'e services \<Rightarrow> 'e operatorOptions \<Rightarrow> ('e, projectSpec, projectStatus) kind \<Rightarrow>
    harborClient \<Rightarrow> (project, 'e, outcome) go" where
  "projectBody S opts K hc =
     do { cr \<leftarrow> getObj;
          adoptErr \<leftarrow> (if harborProjectID (objStatus cr) = 0 \<and> allowsAdoption opts (creationPolicy (objSpec cr))
                       then do { (adopted, err) \<leftarrow> adoptExistingProject S K hc; State_Monad.return err }
                       else State_Monad.return None);
          case adoptErr of
            Some err \<Rightarrow> failWith S K err
          | None \<Rightarrow>
              do { r \<leftarrow> buildProjectCreateReq S opts;
                   case r of
                     Inl err \<Rightarrow> failWith S K err
                   | Inr createReq \<Rightarrow>
                       do { cr \<leftarrow> getObj;
                            if harborProjectID (objStatus cr) = 0
                            then createProjectPath S opts K hc createReq
                            else updateProjectPath S opts K hc createReq } } }"

definition reconcileProject :: "'e services \<Rightarrow> 'e operatorOptions \<Rightarrow> ('e, project) kclient \<Rightarrow> nsName \<Rightarrow>
    (project, 'e, outcome) go" where
  "reconcileProject S opts c =
     harborBacked S opts (projectKind c) True (Some (deleteProject S)) (projectBody S opts (projectKind c))"

section \<open>The contract of the frame\<close>

lemma body_buildProjectCreateReq: "emits bodyEvent (buildProjectCreateReq S opts)"
  unfolding buildProjectCreateReq_def by (intro emits_intros body_resolve)

lemmas project_call_events =
  emits_FindProjectByName [OF clientCalls_body] emits_ProjectCalls(1-3) [OF clientCalls_body]

lemma projectBody_events: "emits bodyEvent (projectBody S opts K hc)"
  unfolding projectBody_def adoptExistingProject_def createProjectPath_def updateProjectPath_def
  by (intro emits_intros body_quiet body_buildProjectCreateReq project_call_events) simp_all

lemma deleteProject_events: "emits (\<lambda>ev. \<not> dropsFinalizer ev) (deleteProject S hc)"
  unfolding deleteProject_def
  by (intro emits_intros emits_ProjectCalls(4) [OF clientCalls_noDrop]) simp

text \<open>Harbor's answer that the project with a given id is gone.\<close>

definition projectGone :: "int \<Rightarrow> event \<Rightarrow> bool" where
  "projectGone n = remoteGone (projectURL n)"

definition owesProject :: "int \<Rightarrow> project \<Rightarrow> bool" where
  "owesProject n obj \<longleftrightarrow>
     GetDeletionPolicy (objSpec obj) \<noteq> deletionPolicyOrphan \<and> harborProjectID (objStatus obj) = n \<and> n \<noteq> 0"

lemma owesProject_remote: "owesProject n = owesRemote harborProjectID 0 n"
  by (auto simp: fun_eq_iff owesProject_def owesRemote_def)

end
