(* ===== verification/ProjectFacts.thy ===== *)
theory ProjectFacts
  imports ProjectController
begin

text \<open>
  The project reconciler keeps the frame's promises, respects the creation policy, and when it
  settles.
\<close>

section \<open>The contract of the delete function\<close>

lemma deleteProject_gone:
  "triple (\<lambda>s. owesProject n (stObj s)) (deleteProject S hc)
     (\<lambda>r s. r = None \<longrightarrow> list_ex (projectGone n) (stTrace s))"
  unfolding deleteProject_def DeleteProject_def projectGone_def
  by (rule delete_by_id_gone) (simp add: owesProject_def)

section \<open>The frame's promises\<close>

interpretation project: harbor_backed S opts "projectKind c" True "Some (deleteProject S)"
    "projectBody S opts (projectKind c)" for S opts c
  by unfold_locales (auto intro: projectBody_events deleteProject_events)

lemma owesProjectD: "owesProject n obj \<Longrightarrow> GetDeletionPolicy (objSpec obj) \<noteq> deletionPolicyOrphan"
  by (simp add: owesProject_def)

interpretation owned_project: owned_remote S opts "projectKind c" True "Some (deleteProject S)"
    "projectBody S opts (projectKind c)" "owesProject n" "projectGone n" "deleteProject S" for S opts c n
  by unfold_locales (auto intro: deleteProject_gone dest: owesProjectD)

text \<open>
  Before the first Harbor request of a project reconcile, the API server has shown or stored the
  binding of the project to its connection: an event that shows a binding comes before every
  request, whatever the API server, Harbor and the clock do.
\<close>

theorem project_bound_before_harbor:
  "preceded binds isHttp (traceOf (reconcileProject S opts c key) (startState obj e))"
  unfolding traceOf_def reconcileProject_def by (rule project.bound_before_harbor) simp

lemma same_projectID:
  "harborStatusBase.more sb = harborStatusBase.more sb' \<Longrightarrow> harborProjectID sb = harborProjectID sb'"
  by (cases sb; cases sb') simp

lemma projectKind_sanitize: "kdSanitize (projectKind c) = sanitizeRef"
  and projectKind_client: "kdClient (projectKind c) = c"
  by (simp_all add: projectKind_def)

lemma stays_owesProject: "faithful (projectKind c) \<Longrightarrow> stays (projectKind c) (owesProject n)"
  unfolding owesProject_remote by (erule stays_owesRemote [OF _ projectKind_sanitize]) (rule same_projectID)

text \<open>
  A project with the deletion policy \<^verbatim>\<open>Orphan\<close> is never deleted in Harbor:
  no reconcile of it sends a \<^verbatim>\<open>DELETE\<close> request, being deleted or not.
\<close>

theorem project_orphan_never_deletes:
  assumes "faithful (projectKind c)"
    and "shown (projectKind c) key e (\<lambda>obj. GetDeletionPolicy (objSpec obj) = deletionPolicyOrphan)"
  shows "list_all (\<lambda>ev. \<not> isDelete ev) (traceOf (reconcileProject S opts c key) (startState obj e))"
  unfolding traceOf_def reconcileProject_def 
  by (rule project.orphan_never_deletes [OF stays_orphan [OF assms(1) projectKind_sanitize]]) (simp add: assms(2))


text \<open>
  C11. When the connection a project refers to is no longer the one it is bound to (another
  object of that name, hence another UID), no request is sent to Harbor at all.
\<close>

theorem project_moved_connection_silent:
  assumes "faithful (projectKind c)" and "shown (projectKind c) key e (boundTo b)" and "resolvesAway S opts b"
  shows "list_all (\<lambda>ev. \<not> isHttp ev) (traceOf (reconcileProject S opts c key) (startState obj e))"
  unfolding traceOf_def reconcileProject_def
  by (rule project.moved_connection_silent [OF assms(1,3)]) (simp add: assms(2))

section \<open>The creation policy\<close>

lemma mayNotCreate_setProjectID [simp]: "mayNotCreate opts (setProjectID n obj) = mayNotCreate opts obj"
  by (simp add: mayNotCreate_def setProjectID_def)

lemmas project_notPost = emits_FindProjectByName [OF clientCalls_notPost]
  emits_ProjectCalls(1,3,4) [OF clientCalls_notPost]

lemma guards_project_calls [guard_intros]:
  "guards P (\<lambda>ev. \<not> isPost ev) (FindProjectByName S hc nm)"
  "guards P (\<lambda>ev. \<not> isPost ev) (GetProjectByID S hc n)"
  "guards P (\<lambda>ev. \<not> isPost ev) (UpdateProject S hc n req)"
  "guards P (\<lambda>ev. \<not> isPost ev) (DeleteProject S hc n)"
  by (rule guards_plain, rule untouched_project_calls, rule project_notPost, simp)+

lemma project_body_guarded:
  assumes "stays K (mayNotCreate opts)"
  shows "guards (mayNotCreate opts) (\<lambda>ev. \<not> isPost ev) (projectBody S opts K hc)"
proof -
  have no: "guards (mayNotCreate opts) (\<lambda>ev. \<not> isPost ev) (createProjectPath S opts K hc req)" for req
    unfolding createProjectPath_def
  proof (rule guards_getObj)
    fix cr assume "mayNotCreate opts cr"
    then obtain err where "requireCreationAllowed opts (creationPolicy (objSpec cr)) = Some err"
      by (auto simp: mayNotCreate_def)
    then show "guards (mayNotCreate opts) (\<lambda>ev. \<not> isPost ev)
        (case requireCreationAllowed opts (creationPolicy (objSpec cr)) of
            Some err \<Rightarrow> failWith S K err
          | None \<Rightarrow>
              do { r \<leftarrow> CreateProject S hc req;
                   case r of
                     Inl err \<Rightarrow> failWith S K err
                   | Inr newID \<Rightarrow>
                       do { _ \<leftarrow> modObj (setProjectID newID);
                            readyWithDrift S opts K ''Created'' ''Project created'' } })"
      by (simp add: guards_failWith [OF assms])
  qed
  show ?thesis
    unfolding projectBody_def adoptExistingProject_def updateProjectPath_def buildProjectCreateReq_def
    by (intro guard_intros no assms) (auto simp: mayNotCreate_def setProjectID_def)
qed

lemma deleteProject_notPost: "emits (\<lambda>ev. \<not> isPost ev) (deleteProject S hc)"
  unfolding deleteProject_def by (intro emits_intros project_notPost) simp

interpretation guarded_project: guarded_body S opts "projectKind c" True "Some (deleteProject S)"
    "projectBody S opts (projectKind c)" "mayNotCreate opts" "\<lambda>ev. \<not> isPost ev" for S opts c
  by unfold_locales (auto intro!: guards_post [OF project_body_guarded] emits_post [OF deleteProject_notPost])

lemma deleteProject_only:
  "triple (objTrace (hasRemote harborProjectID n) (deletesOnly (projectURL n))) (deleteProject S hc)
     (\<lambda>_ s. list_all (deletesOnly (projectURL n)) (stTrace s))"
  unfolding deleteProject_def DeleteProject_def
  by (rule delete_by_id_only [where relURL = projectURL])
    (auto intro!: emits_intros emits_delete_own dest: hasRemote_ident)

interpretation own_project: guarded_body S opts "projectKind c" True "Some (deleteProject S)"
    "projectBody S opts (projectKind c)" "hasRemote harborProjectID n" "deletesOnly (projectURL n)" for S opts c n
  by unfold_locales
    (auto intro!: emits_post bodyEvent_deletesOnly projectBody_events deleteProject_only)

text \<open>
  A project whose creation policy (its own, or the operator's default) does not allow creation
  is never created: no reconcile sends a \<^verbatim>\<open>POST\<close> request.
\<close>

theorem project_adopt_never_creates:
  assumes "faithful (projectKind c)" and "shown (projectKind c) key e (mayNotCreate opts)"
  shows "list_all (\<lambda>ev. \<not> isPost ev) (traceOf (reconcileProject S opts c key) (startState obj e))"
  unfolding traceOf_def reconcileProject_def 
  by (rule guarded_project.reconcile_guarded [OF stays_mayNotCreate [OF assms(1) projectKind_sanitize]])
    (simp add: assms(2))

section \<open>When a project settles\<close>

lemma decProjectMetadata_enc: "decProjectMetadata (encProjectMetadata m) = Some m"
  unfolding decProjectMetadata_def encProjectMetadata_def by (simp add: jfield_simps)

text \<open>
  The document with which Harbor describes a project that it has stored as the request said: the
  allowlist is a field of its own, and the owner is the one Harbor knows.
\<close>

definition harborShows :: "createProjectRequest \<Rightarrow> string \<Rightarrow> int \<Rightarrow> string \<Rightarrow> string \<Rightarrow> json" where
  "harborShows r owner n created updated = JObj
     (omitInt ''project_id'' n @ omitStr ''name'' (cprProjectName r) @
      omitInt ''registry_id'' (case cprRegistryID r of None \<Rightarrow> 0 | Some k \<Rightarrow> k) @
      omitStr ''owner_name'' owner @
      [(''metadata'', encProjectMetadata (cprMetadata r)),
       (''cve_allowlist'', encCVEAllowlist (cprCVEAllowlist r))] @
      omitStr ''creation_time'' created @ omitStr ''update_time'' updated)"

lemma decProject_shows:
  assumes "minInt64 \<le> n" "n \<le> maxInt64"
    and "\<And>k. cprRegistryID r = Some k \<Longrightarrow> minInt64 \<le> k \<and> k \<le> maxInt64"
  shows "decProject (harborShows r owner n created updated) = Some
     \<lparr>hpProjectID = n, hpName = cprProjectName r,
      hpRegistryID = (case cprRegistryID r of None \<Rightarrow> 0 | Some k \<Rightarrow> k), hpOwnerName = owner,
      hpMetadata = cprMetadata r,
      hpCVEAllowlist = \<lparr>hcvID = 0, hcvProjectID = 0, hcvExpiresAt = 0, hcvItems = [],
        hcvCreationTime = created, hcvUpdateTime = updated\<rparr>\<rparr>"
proof -
  have reg: "decInt (intField (case cprRegistryID r of None \<Rightarrow> 0 | Some k \<Rightarrow> k)) =
      Some (case cprRegistryID r of None \<Rightarrow> 0 | Some k \<Rightarrow> k)"
    using assms(3) by (cases "cprRegistryID r") (auto simp: intField_def decInt_jInt, simp_all add: decInt_def)
  show ?thesis
    unfolding decProject_def harborShows_def
    by (simp add: jfield_simps assms(1,2) reg decProjectMetadata_enc)
      (simp add: decInt_def decList_def)
qed

text \<open>
  C12. When an update settles. Harbor has stored what the request said and describes the project so;
  the next comparison still asks for an update exactly if the metadata's
  \<^verbatim>\<open>public\<close> differs from the spec's, the owner is not the one Harbor knows (so
  also when the spec names none), or an allowlist was given. In those cases every reconcile sends the
  same update again.
\<close>

theorem project_settles_iff:
  assumes "minInt64 \<le> n" "n \<le> maxInt64"
    and "\<And>k. cprRegistryID r = Some k \<Longrightarrow> minInt64 \<le> k \<and> k \<le> maxInt64"
  shows "map_option (projectNeedsUpdate r) (decProject (harborShows r owner n created updated)) = Some
       (hpmPublic (cprMetadata r) \<noteq> goBool (cprPublic r) \<or>
        \<not> equalFold (cprOwner r) owner \<or>
        hcvItems (cprCVEAllowlist r) \<noteq> [] \<or> hcvID (cprCVEAllowlist r) \<noteq> 0 \<or>
        hcvProjectID (cprCVEAllowlist r) \<noteq> 0 \<or> hcvExpiresAt (cprCVEAllowlist r) \<noteq> 0)"
  apply (subst decProject_shows, rule assms, rule assms, rule assms, assumption)
  unfolding option.map option.inject
  apply (cases "cprRegistryID r")
   apply (auto simp: projectNeedsUpdate_def goBool_def)
  done

section \<open>Concrete inputs\<close>

definition exProjectSpec :: "string \<Rightarrow> string \<Rightarrow> projectSpec" where
  "exProjectSpec deletion creation =
     \<lparr>harborConnectionRef = exRef, driftDetectionInterval = None, reconcileNonce = [],
      deletionPolicy = deletion, creationPolicy = creation, projPublic = True, projOwner = [],
      projMetadata = None, projCVEAllowlist = None, projStorageLimit = 0, projRegistryRef = None\<rparr>"

definition exProject :: "int option \<Rightarrow> string \<Rightarrow> string \<Rightarrow> int \<Rightarrow> project" where
  "exProject deleted deletion creation n =
     \<lparr>objMeta = (exMeta ''team'' ''web'')\<lparr>metaDeletionTimestamp := deleted, metaFinalizers := [finalizerName]\<rparr>,
      objSpec = exProjectSpec deletion creation,
      objStatus = harborStatusBase.extend exStatusBase \<lparr>harborProjectID = n\<rparr>\<rparr>"

definition runProject :: "harborConnectionBinding \<Rightarrow> project \<Rightarrow> event list" where
  "runProject b obj =
     traceOf (reconcileProject exCluster exOptions
        (exStore [obj\<lparr>objStatus := (objStatus obj)\<lparr>resolvedHarborConnection := Some b\<rparr>\<rparr>]) (''team'', ''web''))
       (startState obj ())"

lemma project_orphan_never_deletes_witness:
  "let tr = runProject (exBinding ''uid-harbor'') (exProject (Some 7) ''Orphan'' ''Adopt'' 5)
   in list_all (\<lambda>ev. \<not> isDelete ev) tr \<and> list_ex dropsFinalizer tr"
proof -
  have "list_all (\<lambda>ev. \<not> isDelete ev) (runProject (exBinding ''uid-harbor'') (exProject (Some 7) ''Orphan'' ''Adopt'' 5))"
    unfolding runProject_def
    by (rule project_orphan_never_deletes [OF faithful_store [OF projectKind_client] shown_only [OF projectKind_client]]) code_simp
  moreover have "list_ex dropsFinalizer (runProject (exBinding ''uid-harbor'') (exProject (Some 7) ''Orphan'' ''Adopt'' 5))"
    by code_simp
  ultimately show ?thesis by simp
qed


lemma project_moved_connection_silent_witness:
  "let tr = runProject (exBinding ''old'') (exProject (Some 7) ''Delete'' ''Create'' 5)
   in list_all (\<lambda>ev. \<not> isHttp ev) tr \<and> tr \<noteq> []"
proof -
  have "resolvesAway exCluster exOptions (exBinding ''old'')"
    by (rule resolvesAway_exCluster) (simp add: exBinding_def)
  then have "list_all (\<lambda>ev. \<not> isHttp ev)
      (runProject (exBinding ''old'') (exProject (Some 7) ''Delete'' ''Create'' 5))"
    unfolding runProject_def
    by (rule project_moved_connection_silent [OF faithful_store [OF projectKind_client] shown_only [OF projectKind_client], rotated])
      (simp add: boundTo_def)
  moreover have "runProject (exBinding ''old'') (exProject (Some 7) ''Delete'' ''Create'' 5) \<noteq> []"
    by code_simp
  ultimately show ?thesis by simp
qed

lemma project_adopt_never_creates_witness:
  "let tr = runProject (exBinding ''uid-harbor'') (exProject None ''Delete'' ''Adopt'' 0)
   in list_all (\<lambda>ev. \<not> isPost ev) tr \<and> list_ex isHttp tr"
proof -
  have "list_all (\<lambda>ev. \<not> isPost ev) (runProject (exBinding ''uid-harbor'') (exProject None ''Delete'' ''Adopt'' 0))"
    unfolding runProject_def
    by (rule project_adopt_never_creates [OF faithful_store [OF projectKind_client] shown_only [OF projectKind_client]]) code_simp
  moreover have "list_ex isHttp (runProject (exBinding ''uid-harbor'') (exProject None ''Delete'' ''Adopt'' 0))"
    by code_simp
  ultimately show ?thesis by simp
qed

lemma project_settles_witness:
  "let r = \<lparr>cprProjectName = ''web'', cprPublic = True, cprOwner = [],
      cprMetadata = emptyMetadata\<lparr>hpmPublic := ''true''\<rparr>, cprCVEAllowlist = emptyAllowlist,
      cprStorageLimit = None, cprRegistryID = None\<rparr>
   in map_option (projectNeedsUpdate r) (decProject (harborShows r ''admin'' 5 [] [])) = Some True"
  unfolding Let_def
  by (subst project_settles_iff) (auto simp: minInt64_def maxInt64_def equalFold_def goToLower_def)

end
