(* ===== verification/HarborRegistries.thy ===== *)
theory HarborRegistries
  imports Guards
begin

text \<open>
  The registry calls of the Harbor client (\<^verbatim>\<open>internal/harborclient/registries.go\<close>).
  Every field of the two request bodies is \<^verbatim>\<open>omitempty\<close>, so a false flag or an
  empty text is not sent.
\<close>

record registryCredential =
  rcType :: string
  rcAccessKey :: string
  rcAccessSecret :: string

record hRegistry =
  hrID :: int
  hrURL :: string
  hrName :: string
  hrDescription :: string
  hrType :: string
  hrInsecure :: bool
  hrCACertificate :: string
  hrCredential :: "registryCredential option"

record createRegistryRequest =
  crrURL :: string
  crrName :: string
  crrDescription :: string
  crrType :: string
  crrInsecure :: bool
  crrCACertificate :: string
  crrCredential :: "registryCredential option"

record updateRegistryRequest =
  urrName :: string
  urrDescription :: string
  urrURL :: string
  urrCredentialType :: string
  urrAccessKey :: string
  urrAccessSecret :: string
  urrInsecure :: bool
  urrCACertificate :: string

section \<open>JSON\<close>

definition encRegistryCredential :: "registryCredential \<Rightarrow> json" where
  "encRegistryCredential c = JObj
     (omitStr ''type'' (rcType c) @ omitStr ''access_key'' (rcAccessKey c) @
      omitStr ''access_secret'' (rcAccessSecret c))"

definition decRegistryCredential :: "registryCredential decoder" where
  "decRegistryCredential = decObj (\<lambda>kvs.
     do { t \<leftarrow> decStr (jget ''type'' kvs);
          k \<leftarrow> decStr (jget ''access_key'' kvs);
          s \<leftarrow> decStr (jget ''access_secret'' kvs);
          Some \<lparr>rcType = t, rcAccessKey = k, rcAccessSecret = s\<rparr> })"

definition decRegistry :: "hRegistry decoder" where
  "decRegistry = decObj (\<lambda>kvs.
     do { n \<leftarrow> decInt (jget ''id'' kvs);
          u \<leftarrow> decStr (jget ''url'' kvs);
          nm \<leftarrow> decStr (jget ''name'' kvs);
          d \<leftarrow> decStr (jget ''description'' kvs);
          t \<leftarrow> decStr (jget ''type'' kvs);
          i \<leftarrow> decBool (jget ''insecure'' kvs);
          ca \<leftarrow> decStr (jget ''ca_certificate'' kvs);
          c \<leftarrow> decPtr decRegistryCredential (jget ''credential'' kvs);
          Some \<lparr>hrID = n, hrURL = u, hrName = nm, hrDescription = d, hrType = t, hrInsecure = i,
                hrCACertificate = ca, hrCredential = c\<rparr> })"

definition encCreateRegistryRequest :: "createRegistryRequest \<Rightarrow> json" where
  "encCreateRegistryRequest r = JObj
     (omitStr ''url'' (crrURL r) @ omitStr ''name'' (crrName r) @
      omitStr ''description'' (crrDescription r) @ omitStr ''type'' (crrType r) @
      omitBool ''insecure'' (crrInsecure r) @ omitStr ''ca_certificate'' (crrCACertificate r) @
      omitPtr ''credential'' encRegistryCredential (crrCredential r))"

definition updateRegistryFields :: "updateRegistryRequest \<Rightarrow> (string \<times> json) list" where
  "updateRegistryFields r =
     omitStr ''name'' (urrName r) @ omitStr ''description'' (urrDescription r) @
     omitStr ''url'' (urrURL r) @ omitStr ''credential_type'' (urrCredentialType r) @
     omitStr ''access_key'' (urrAccessKey r) @ omitStr ''access_secret'' (urrAccessSecret r) @
     omitBool ''insecure'' (urrInsecure r) @ omitStr ''ca_certificate'' (urrCACertificate r)"

definition encUpdateRegistryRequest :: "updateRegistryRequest \<Rightarrow> json" where
  "encUpdateRegistryRequest r = JObj (updateRegistryFields r)"

section \<open>Calls\<close>

definition registriesURL :: string where
  "registriesURL = ''/api/v2.0/registries''"

definition registryURL :: "int \<Rightarrow> string" where
  "registryURL n = ''/api/v2.0/registries/'' @ goItoa n"

definition FindRegistryByName :: "'e services \<Rightarrow> harborClient \<Rightarrow> string \<Rightarrow> ('o, 'e, gerror + hRegistry option) go" where
  "FindRegistryByName S c nm =
     (if nm = [] then State_Monad.return (Inr None)
      else do {
        r \<leftarrow> getPaged S c decRegistry registriesURL (valuesSet ''q'' (''name='' @ nm) []);
        State_Monad.return
          (case r of
             Inl err \<Rightarrow> Inl err
           | Inr regs \<Rightarrow> Inr (find (\<lambda>g. hrName g = nm) regs)) })"

definition GetRegistryByID :: "'e services \<Rightarrow> harborClient \<Rightarrow> int \<Rightarrow> ('o, 'e, gerror + hRegistry) go" where
  "GetRegistryByID S c n = clientGet S c (registryURL n) decRegistry"

definition CreateRegistry :: "'e services \<Rightarrow> harborClient \<Rightarrow> createRegistryRequest \<Rightarrow> ('o, 'e, gerror + int) go" where
  "CreateRegistry S c req = createWithNumericLocationID S c registriesURL (encCreateRegistryRequest req)"

definition UpdateRegistry :: "'e services \<Rightarrow> harborClient \<Rightarrow> int \<Rightarrow> updateRegistryRequest \<Rightarrow> ('o, 'e, gerror option) go" where
  "UpdateRegistry S c n req = clientPut S c (registryURL n) (encUpdateRegistryRequest req)"

definition DeleteRegistry :: "'e services \<Rightarrow> harborClient \<Rightarrow> int \<Rightarrow> ('o, 'e, gerror option) go" where
  "DeleteRegistry S c n = deleteIgnoringNotFound S c (registryURL n) []"

section \<open>Events of the calls\<close>

lemma emits_RegistryCalls:
  "clientCalls c M C \<Longrightarrow> (\<And>relURL. M ''GET'' relURL) \<Longrightarrow> emits C (FindRegistryByName S c nm)"
  "clientCalls c M C \<Longrightarrow> M ''GET'' (registryURL n) \<Longrightarrow> emits C (GetRegistryByID S c n)"
  "clientCalls c M C \<Longrightarrow> M ''POST'' registriesURL \<Longrightarrow> emits C (CreateRegistry S c req)"
  "clientCalls c M C \<Longrightarrow> M ''PUT'' (registryURL n) \<Longrightarrow> emits C (UpdateRegistry S c n req')"
  "clientCalls c M C \<Longrightarrow> M ''DELETE'' (registryURL n) \<Longrightarrow> emits C (DeleteRegistry S c n)"
  unfolding FindRegistryByName_def GetRegistryByID_def CreateRegistry_def UpdateRegistry_def DeleteRegistry_def
  by ((intro emits_intros client_emits; assumption?), (simp; fail)?)+

lemma untouched_registry_calls [triple_intros]:
  "untouched (FindRegistryByName S hc nm)" "untouched (GetRegistryByID S hc n)"
  "untouched (CreateRegistry S hc req)" "untouched (UpdateRegistry S hc n req')"
  "untouched (DeleteRegistry S hc n)"
  unfolding FindRegistryByName_def GetRegistryByID_def CreateRegistry_def UpdateRegistry_def DeleteRegistry_def
  by (intro triple_intros)+

end
