(* ===== verification/RegistryController.thy ===== *)
theory RegistryController
  imports HarborRegistries OwnedRemote
begin

text \<open>
  The registry reconciler (\<^verbatim>\<open>internal/controller/registry_controller.go\<close>). The
  credentials come from Secrets; what was last sent to Harbor is remembered as a hash in the status,
  because Harbor does not give secrets back.
\<close>

definition registryKind :: "('e, registry) kclient \<Rightarrow> ('e, registrySpec, registryStatus) kind" where
  "registryKind c = \<lparr>kdKind = KRegistry, kdSanitize = sanitizeRef, kdClient = c\<rparr>"

section \<open>Credentials and payloads\<close>

definition registryCACert :: "'e services \<Rightarrow> 'e operatorOptions \<Rightarrow> registry \<Rightarrow> (registry, 'e, gerror + string) go" where
  "registryCACert S opts cr =
     (case regCACertificateRef (objSpec cr) of
        None \<Rightarrow> State_Monad.return (Inr (regCACertificate (objSpec cr)))
      | Some ref \<Rightarrow>
          if regCACertificate (objSpec cr) \<noteq> []
          then State_Monad.return (Inl (ErrMsg ''spec.caCertificate and spec.caCertificateRef are mutually exclusive''))
          else do { r \<leftarrow> readSecretValue S opts ref (metaNamespace (objMeta cr)) ''ca.crt'';
                    State_Monad.return
                      (case r of
                         Inl err \<Rightarrow> Inl (ErrWrap ''failed to read caCertificateRef: '' err)
                       | Inr v \<Rightarrow> Inr v) })"

text \<open>The text that is hashed: the credential's type, key and secret, and the CA certificate.\<close>

definition credentialHashInput :: "string \<Rightarrow> string \<Rightarrow> string \<Rightarrow> string \<Rightarrow> string" where
  "credentialHashInput t key sec ca =
     ''type='' @ t @ [CHR 0x0A] @ ''key='' @ key @ [CHR 0x0A] @ ''secret='' @ sec @ [CHR 0x0A] @ ''ca='' @ ca"

definition buildRegistryCredential :: "'e services \<Rightarrow> 'e operatorOptions \<Rightarrow>
    (registry, 'e, gerror + registryCredential option \<times> string \<times> string) go" where
  "buildRegistryCredential S opts =
     do { cr \<leftarrow> getObj;
          r \<leftarrow> registryCACert S opts cr;
          case r of
            Inl err \<Rightarrow> State_Monad.return (Inl err)
          | Inr caCert \<Rightarrow>
              (case regCredential (objSpec cr) of
                 None \<Rightarrow>
                   State_Monad.return
                     (Inr (if caCert = [] then (None, [], [])
                           else (None, hashSecret (''ca:'' @ caCert), caCert)))
               | Some cred \<Rightarrow>
                   if srName (rcsAccessKeySecretRef cred) = []
                   then State_Monad.return (Inl (ErrMsg ''spec.credential.accessKeySecretRef.name is required''))
                   else if srName (rcsAccessSecretSecretRef cred) = []
                   then State_Monad.return (Inl (ErrMsg ''spec.credential.accessSecretSecretRef.name is required''))
                   else do {
                     k \<leftarrow> readSecretValue S opts (rcsAccessKeySecretRef cred) (metaNamespace (objMeta cr)) ''access_key'';
                     case k of
                       Inl err \<Rightarrow> State_Monad.return (Inl (ErrWrap ''failed to read access key secret: '' err))
                     | Inr accessKey \<Rightarrow>
                         do { v \<leftarrow> readSecretValue S opts (rcsAccessSecretSecretRef cred)
                                     (metaNamespace (objMeta cr)) ''access_secret'';
                              State_Monad.return
                                (case v of
                                   Inl err \<Rightarrow> Inl (ErrWrap ''failed to read access secret: '' err)
                                 | Inr accessSecret \<Rightarrow>
                                     let credType = (if rcsType cred = [] then ''basic'' else rcsType cred)
                                     in Inr (Some \<lparr>rcType = credType, rcAccessKey = accessKey,
                                                    rcAccessSecret = accessSecret\<rparr>,
                                             hashSecret (credentialHashInput credType accessKey accessSecret caCert),
                                             caCert)) } }) }"

definition buildRegistryCreateReq :: "registry \<Rightarrow> registryCredential option \<Rightarrow> string \<Rightarrow> createRegistryRequest" where
  "buildRegistryCreateReq cr credential caCert =
     \<lparr>crrURL = regURL (objSpec cr), crrName = metaName (objMeta cr),
      crrDescription = regDescription (objSpec cr), crrType = regType (objSpec cr),
      crrInsecure = regInsecure (objSpec cr), crrCACertificate = caCert, crrCredential = credential\<rparr>"

definition buildRegistryUpdateReq :: "registry \<Rightarrow> registryCredential option \<Rightarrow> string \<Rightarrow> updateRegistryRequest" where
  "buildRegistryUpdateReq cr credential caCert =
     (let req = \<lparr>urrName = metaName (objMeta cr), urrDescription = regDescription (objSpec cr),
                 urrURL = regURL (objSpec cr), urrCredentialType = [], urrAccessKey = [], urrAccessSecret = [],
                 urrInsecure = regInsecure (objSpec cr), urrCACertificate = caCert\<rparr>
      in case credential of
           None \<Rightarrow> req
         | Some c \<Rightarrow> req\<lparr>urrCredentialType := rcType c, urrAccessKey := rcAccessKey c,
                           urrAccessSecret := rcAccessSecret c\<rparr>)"

definition registryNeedsUpdate :: "registry \<Rightarrow> hRegistry \<Rightarrow> string \<Rightarrow> string \<Rightarrow> bool" where
  "registryNeedsUpdate cr current desiredCredHash desiredCACert =
     (if metaName (objMeta cr) \<noteq> hrName current then True
      else if regURL (objSpec cr) \<noteq> hrURL current then True
      else if regDescription (objSpec cr) \<noteq> hrDescription current then True
      else if \<not> equalFold (regType (objSpec cr)) (hrType current) then True
      else if regInsecure (objSpec cr) \<noteq> hrInsecure current then True
      else if desiredCACert \<noteq> [] \<and> desiredCACert \<noteq> hrCACertificate current then True
      else if desiredCredHash \<noteq> [] \<and> desiredCredHash \<noteq> regCredentialHash (objStatus cr) then True
      else False)"

section \<open>The reconciler\<close>

definition setRegistryID :: "int \<Rightarrow> registry \<Rightarrow> registry" where
  "setRegistryID n cr = cr\<lparr>objStatus := (objStatus cr)\<lparr>harborRegistryID := n\<rparr>\<rparr>"

definition setCredentialHash :: "string \<Rightarrow> registry \<Rightarrow> registry" where
  "setCredentialHash h cr = cr\<lparr>objStatus := (objStatus cr)\<lparr>regCredentialHash := h\<rparr>\<rparr>"

definition deleteRegistry :: "'e services \<Rightarrow> harborClient \<Rightarrow> (registry, 'e, gerror option) go" where
  "deleteRegistry S hc =
     do { cr \<leftarrow> getObj;
          if harborRegistryID (objStatus cr) = 0 then State_Monad.return None
          else do { err \<leftarrow> DeleteRegistry S hc (harborRegistryID (objStatus cr));
                    State_Monad.return (if IsNotFound err then None else err) } }"

definition adoptExistingRegistry :: "'e services \<Rightarrow> ('e, registrySpec, registryStatus) kind \<Rightarrow> harborClient \<Rightarrow>
    (registry, 'e, bool \<times> gerror option) go" where
  "adoptExistingRegistry S K hc =
     do { cr \<leftarrow> getObj;
          r \<leftarrow> FindRegistryByName S hc (metaName (objMeta cr));
          case r of
            Inl err \<Rightarrow> State_Monad.return (False, Some err)
          | Inr found \<Rightarrow>
              (case found of
                 None \<Rightarrow> State_Monad.return (False, None)
               | Some reg \<Rightarrow>
                   do { _ \<leftarrow> modObj (setRegistryID (hrID reg));
                        err \<leftarrow> kubeStatusUpdate K;
                        State_Monad.return (True, err) }) }"

definition createRegistryPath :: "'e services \<Rightarrow> 'e operatorOptions \<Rightarrow> ('e, registrySpec, registryStatus) kind \<Rightarrow>
    harborClient \<Rightarrow> registryCredential option \<Rightarrow> string \<Rightarrow> string \<Rightarrow> (registry, 'e, outcome) go" where
  "createRegistryPath S opts K hc credential credHash caCert =
     do { cr \<leftarrow> getObj;
          case requireCreationAllowed opts (creationPolicy (objSpec cr)) of
            Some err \<Rightarrow> failWith S K err
          | None \<Rightarrow>
              do { r \<leftarrow> CreateRegistry S hc (buildRegistryCreateReq cr credential caCert);
                   case r of
                     Inl err \<Rightarrow> failWith S K err
                   | Inr newID \<Rightarrow>
                       do { _ \<leftarrow> modObj (setRegistryID newID);
                            _ \<leftarrow> modObj (setCredentialHash credHash);
                            readyWithDrift S opts K ''Created'' ''Registry created'' } } }"

definition updateRegistryPath :: "'e services \<Rightarrow> 'e operatorOptions \<Rightarrow> ('e, registrySpec, registryStatus) kind \<Rightarrow>
    harborClient \<Rightarrow> registryCredential option \<Rightarrow> string \<Rightarrow> string \<Rightarrow> (registry, 'e, outcome) go" where
  "updateRegistryPath S opts K hc credential credHash caCert =
     do { cr \<leftarrow> getObj;
          r \<leftarrow> GetRegistryByID S hc (harborRegistryID (objStatus cr));
          case r of
            Inl err \<Rightarrow>
              (if IsNotFound (Some err)
               then do { generation \<leftarrow> crGeneration;
                         requeueOnRemoteNotFound S K generation (Some (\<lambda>st. st\<lparr>harborRegistryID := 0\<rparr>))
                           ''Registry not found in Harbor'' }
               else failWith S K err)
          | Inr current \<Rightarrow>
              if registryNeedsUpdate cr current credHash caCert
              then do {
                uerr \<leftarrow> UpdateRegistry S hc (hrID current) (buildRegistryUpdateReq cr credential caCert);
                case uerr of
                  Some err \<Rightarrow> failWith S K err
                | None \<Rightarrow>
                    if credHash \<noteq> [] \<and> credHash \<noteq> regCredentialHash (objStatus cr)
                    then do { _ \<leftarrow> modObj (setCredentialHash credHash); readyIfChanged S opts K True ''Reconciled'' ''Registry reconciled'' }
                    else readyIfChanged S opts K False ''Reconciled'' ''Registry reconciled'' }
              else readyIfChanged S opts K False ''Reconciled'' ''Registry reconciled'' }"

definition registryBody :: "'e services \<Rightarrow> 'e operatorOptions \<Rightarrow> ('e, registrySpec, registryStatus) kind \<Rightarrow>
    harborClient \<Rightarrow> (registry, 'e, outcome) go" where
  "registryBody S opts K hc =
     do { cr \<leftarrow> getObj;
          adoptErr \<leftarrow> (if harborRegistryID (objStatus cr) = 0 \<and> allowsAdoption opts (creationPolicy (objSpec cr))
                       then do { (ok, err) \<leftarrow> adoptExistingRegistry S K hc; State_Monad.return err }
                       else State_Monad.return None);
          case adoptErr of
            Some err \<Rightarrow> failWith S K err
          | None \<Rightarrow>
              do { r \<leftarrow> buildRegistryCredential S opts;
                   case r of
                     Inl err \<Rightarrow> failWith S K err
                   | Inr (credential, credHash, caCert) \<Rightarrow>
                       do { cr \<leftarrow> getObj;
                            if harborRegistryID (objStatus cr) = 0
                            then createRegistryPath S opts K hc credential credHash caCert
                            else updateRegistryPath S opts K hc credential credHash caCert } } }"

definition reconcileRegistry :: "'e services \<Rightarrow> 'e operatorOptions \<Rightarrow> ('e, registry) kclient \<Rightarrow> nsName \<Rightarrow>
    (registry, 'e, outcome) go" where
  "reconcileRegistry S opts c =
     harborBacked S opts (registryKind c) True (Some (deleteRegistry S)) (registryBody S opts (registryKind c))"

end
