(* ===== verification/RegistryFacts.thy ===== *)
theory RegistryFacts
  imports RegistryController
begin

text \<open>
  The registry reconciler keeps the frame's promises and respects the creation policy; what its
  comparison can see, and what its update cannot say.
\<close>

section \<open>The contract of the frame\<close>

lemma body_buildRegistryCredential: "emits bodyEvent (buildRegistryCredential S opts)"
  unfolding buildRegistryCredential_def registryCACert_def by (intro emits_intros body_quiet)

lemmas registry_call_events = emits_RegistryCalls(1-4) [OF clientCalls_body]

lemma registryBody_events: "emits bodyEvent (registryBody S opts K hc)"
  unfolding registryBody_def adoptExistingRegistry_def createRegistryPath_def updateRegistryPath_def
  by (intro emits_intros body_quiet body_buildRegistryCredential registry_call_events
      quietly_body [OF quietly_readyIfChanged]) simp_all

lemma deleteRegistry_events: "emits (\<lambda>ev. \<not> dropsFinalizer ev) (deleteRegistry S hc)"
  unfolding deleteRegistry_def by (intro emits_intros emits_RegistryCalls(5) [OF clientCalls_noDrop]) simp

text \<open>Harbor's answer that the registry with a given id is gone, and an object that owes it.\<close>

definition registryGone :: "int \<Rightarrow> event \<Rightarrow> bool" where
  "registryGone n = remoteGone (registryURL n)"

definition owesRegistry :: "int \<Rightarrow> registry \<Rightarrow> bool" where
  "owesRegistry n obj \<longleftrightarrow>
     GetDeletionPolicy (objSpec obj) \<noteq> deletionPolicyOrphan \<and> harborRegistryID (objStatus obj) = n \<and> n \<noteq> 0"

lemma owesRegistry_remote: "owesRegistry n = owesRemote harborRegistryID 0 n"
  by (auto simp: fun_eq_iff owesRegistry_def owesRemote_def)

lemma same_registryID:
  "harborStatusBase.more sb = harborStatusBase.more sb' \<Longrightarrow> harborRegistryID sb = harborRegistryID sb'"
  by (cases sb; cases sb') simp

lemma registryKind_sanitize: "kdSanitize (registryKind c) = sanitizeRef"
  and registryKind_client: "kdClient (registryKind c) = c"
  by (simp_all add: registryKind_def)

lemma stays_owesRegistry: "faithful (registryKind c) \<Longrightarrow> stays (registryKind c) (owesRegistry n)"
  unfolding owesRegistry_remote by (erule stays_owesRemote [OF _ registryKind_sanitize]) (rule same_registryID)

lemma deleteRegistry_gone:
  "triple (\<lambda>s. owesRegistry n (stObj s)) (deleteRegistry S hc)
     (\<lambda>r s. r = None \<longrightarrow> list_ex (registryGone n) (stTrace s))"
  unfolding deleteRegistry_def DeleteRegistry_def registryGone_def
  by (rule delete_by_id_gone) (simp add: owesRegistry_def)

lemma owesRegistryD: "owesRegistry n obj \<Longrightarrow> GetDeletionPolicy (objSpec obj) \<noteq> deletionPolicyOrphan"
  by (simp add: owesRegistry_def)

lemmas registry_notPost = emits_RegistryCalls(1,2,4,5) [OF clientCalls_notPost]

lemma guards_registry_calls [guard_intros]:
  "guards P (\<lambda>ev. \<not> isPost ev) (FindRegistryByName S hc nm)"
  "guards P (\<lambda>ev. \<not> isPost ev) (GetRegistryByID S hc n)"
  "guards P (\<lambda>ev. \<not> isPost ev) (UpdateRegistry S hc n req)"
  "guards P (\<lambda>ev. \<not> isPost ev) (DeleteRegistry S hc n)"
  by (rule guards_plain, rule untouched_registry_calls, rule registry_notPost, simp)+

lemma registry_body_guarded:
  assumes "stays K (mayNotCreate opts)"
  shows "guards (mayNotCreate opts) (\<lambda>ev. \<not> isPost ev) (registryBody S opts K hc)"
proof -
  have no: "guards (mayNotCreate opts) (\<lambda>ev. \<not> isPost ev) (createRegistryPath S opts K hc credential h ca)"
    for credential h ca
    unfolding createRegistryPath_def
    by (rule guards_getObj, erule mayNotCreateE) (simp add: guards_failWith [OF assms])
  show ?thesis
    unfolding registryBody_def adoptExistingRegistry_def updateRegistryPath_def buildRegistryCredential_def
      registryCACert_def
    by (intro guard_intros no assms) (auto simp: mayNotCreate_def setRegistryID_def setCredentialHash_def)
qed

interpretation registry: harbor_backed S opts "registryKind c" True "Some (deleteRegistry S)"
    "registryBody S opts (registryKind c)" for S opts c
  by unfold_locales (auto intro: registryBody_events deleteRegistry_events)

interpretation owned_registry: owned_remote S opts "registryKind c" True "Some (deleteRegistry S)"
    "registryBody S opts (registryKind c)" "owesRegistry n" "registryGone n" "deleteRegistry S" for S opts c n
  by unfold_locales (auto intro: deleteRegistry_gone dest: owesRegistryD)

lemma deleteRegistry_notPost: "emits (\<lambda>ev. \<not> isPost ev) (deleteRegistry S hc)"
  unfolding deleteRegistry_def by (intro emits_intros registry_notPost) simp

interpretation guarded_registry: guarded_body S opts "registryKind c" True "Some (deleteRegistry S)"
    "registryBody S opts (registryKind c)" "mayNotCreate opts" "\<lambda>ev. \<not> isPost ev" for S opts c
  by unfold_locales (auto intro!: guards_post [OF registry_body_guarded] emits_post [OF deleteRegistry_notPost])

lemma deleteRegistry_only:
  "triple (objTrace (hasRemote harborRegistryID n) (deletesOnly (registryURL n))) (deleteRegistry S hc)
     (\<lambda>_ s. list_all (deletesOnly (registryURL n)) (stTrace s))"
  unfolding deleteRegistry_def DeleteRegistry_def
  by (rule delete_by_id_only [where relURL = registryURL])
    (auto intro!: emits_intros emits_delete_own dest: hasRemote_ident)

interpretation own_registry: guarded_body S opts "registryKind c" True "Some (deleteRegistry S)"
    "registryBody S opts (registryKind c)" "hasRemote harborRegistryID n" "deletesOnly (registryURL n)" for S opts c n
  by unfold_locales
    (auto intro!: emits_post bodyEvent_deletesOnly registryBody_events deleteRegistry_only)

text \<open>
  The finalizer of a registry that has a Harbor registry and is not orphaned is dropped only
  after Harbor has answered its \<^verbatim>\<open>DELETE\<close> request with success or with 404.
\<close>

theorem registry_deleted_before_finalizer:
  assumes "faithful (registryKind c)" and "shown (registryKind c) key e (owesRegistry n)"
    and "lawfulFinalizers (svcMachinery S)"
  shows "preceded (registryGone n) dropsFinalizer
     (traceOf (reconcileRegistry S opts c key) (startState obj e))"
  unfolding traceOf_def reconcileRegistry_def
  by (rule owned_registry.cleaned_before_finalizer [OF stays_owesRegistry [OF assms(1)] _ assms(3)])
    (simp add: assms(2))

text \<open>
  A registry whose effective creation policy does not allow creation is never created, and no
  request is sent before the registry is bound to its connection.
\<close>

theorem registry_adopt_never_creates:
  assumes "faithful (registryKind c)" and "shown (registryKind c) key e (mayNotCreate opts)"
  shows "list_all (\<lambda>ev. \<not> isPost ev) (traceOf (reconcileRegistry S opts c key) (startState obj e)) \<and>
     preceded binds isHttp (traceOf (reconcileRegistry S opts c key) (startState obj e))"
  unfolding traceOf_def reconcileRegistry_def
  by (intro conjI registry.bound_before_harbor
      guarded_registry.reconcile_guarded [OF stays_mayNotCreate [OF assms(1) registryKind_sanitize]])
    (simp_all add: assms(2))

section \<open>What the comparison sees\<close>

lemma append_sep_inj: "c \<notin> set a \<Longrightarrow> c \<notin> set b \<Longrightarrow> a @ c # xs = b @ c # ys \<Longrightarrow> a = b \<and> xs = ys"
proof (induction a arbitrary: b)
  case Nil
  then show ?case by (cases b) auto
next
  case (Cons x a)
  then show ?case by (cases b) auto
qed

text \<open>
  C15. The text that is hashed tells apart any two credentials without line feeds in the type, the
  key and the secret. With a line feed it does not: a key and a secret can be cut differently and
  give the same text, so that the change is never sent to Harbor.
\<close>

theorem credential_hash_input:
  assumes "CHR 0x0A \<notin> set t \<union> set key \<union> set sec" and "CHR 0x0A \<notin> set t' \<union> set key' \<union> set sec'"
  shows "(credentialHashInput t key sec ca = credentialHashInput t' key' sec' ca') =
     ((t, key, sec, ca) = (t', key', sec', ca')) \<and>
   credentialHashInput t (key @ [CHR 0x0A] @ ''secret='' @ sec) sec' ca =
     credentialHashInput t key (sec @ [CHR 0x0A] @ ''secret='' @ sec') ca"
proof -
  have "(t, key, sec, ca) = (t', key', sec', ca')"
    if "credentialHashInput t key sec ca = credentialHashInput t' key' sec' ca'"
  proof -
    have 1: "t = t' \<and> ''key='' @ key @ [CHR 0x0A] @ ''secret='' @ sec @ [CHR 0x0A] @ ''ca='' @ ca =
        ''key='' @ key' @ [CHR 0x0A] @ ''secret='' @ sec' @ [CHR 0x0A] @ ''ca='' @ ca'"
      using that assms by (auto simp: credentialHashInput_def dest!: append_sep_inj [rotated 2])
    then have 2: "key = key' \<and> ''secret='' @ sec @ [CHR 0x0A] @ ''ca='' @ ca =
        ''secret='' @ sec' @ [CHR 0x0A] @ ''ca='' @ ca'"
      using assms by (auto dest!: append_sep_inj [rotated 2])
    then have "sec = sec' \<and> ca = ca'" using assms by (auto dest!: append_sep_inj [rotated 2])
    with 1 2 show ?thesis by simp
  qed
  then show ?thesis by (auto simp: credentialHashInput_def)
qed

lemma credential_hash_input_witness:
  "credentialHashInput ''basic'' ''key'' ''a'' [] \<noteq> credentialHashInput ''basic'' ''key'' ''b'' [] \<and>
   credentialHashInput ''basic'' (''key'' @ [CHR 0x0A] @ ''secret='' @ ''a'') ''b'' [] =
     credentialHashInput ''basic'' ''key'' (''a'' @ [CHR 0x0A] @ ''secret='' @ ''b'') []"
  using credential_hash_input [of "''basic''" "''key''" "''a''" "''basic''" "''key''" "''b''" "[]" "[]"] by simp

text \<open>The document with which Harbor describes a registry it has stored as a request said.\<close>

definition harborShowsRegistry :: "createRegistryRequest \<Rightarrow> int \<Rightarrow> json" where
  "harborShowsRegistry r n = JObj
     (omitInt ''id'' n @ omitStr ''url'' (crrURL r) @ omitStr ''name'' (crrName r) @
      omitStr ''description'' (crrDescription r) @ omitStr ''type'' (crrType r) @
      omitBool ''insecure'' (crrInsecure r) @ omitStr ''ca_certificate'' (crrCACertificate r))"

lemma decRegistry_shows:
  assumes "minInt64 \<le> n" "n \<le> maxInt64"
  shows "decRegistry (harborShowsRegistry r n) = Some
     \<lparr>hrID = n, hrURL = crrURL r, hrName = crrName r, hrDescription = crrDescription r, hrType = crrType r,
      hrInsecure = crrInsecure r, hrCACertificate = crrCACertificate r, hrCredential = None\<rparr>"
  unfolding decRegistry_def harborShowsRegistry_def
  by (simp add: jfield_simps assms) (simp add: decPtr_def)

text \<open>
  C13. A registry settles: once Harbor has stored what the create request said, the comparison asks
  for an update exactly if there is a credential hash and it is not the one in the status; with the
  hash that the reconciler then writes, there is no further update.
\<close>

theorem registry_settles:
  assumes "minInt64 \<le> n" "n \<le> maxInt64"
  shows "map_option (\<lambda>current. registryNeedsUpdate cr current credHash caCert)
        (decRegistry (harborShowsRegistry (buildRegistryCreateReq cr credential caCert) n)) =
      Some (credHash \<noteq> [] \<and> credHash \<noteq> regCredentialHash (objStatus cr)) \<and>
    map_option (\<lambda>current. registryNeedsUpdate (setCredentialHash credHash cr) current credHash caCert)
        (decRegistry (harborShowsRegistry (buildRegistryCreateReq cr credential caCert) n)) = Some False"
  unfolding decRegistry_shows [OF assms]
  by (simp add: registryNeedsUpdate_def buildRegistryCreateReq_def setCredentialHash_def)

text \<open>
  C14. What an update cannot say: when Harbor's registry is insecure and the spec's is not, or has a
  description and the spec's is empty, the comparison asks for an update, but the body of the update
  has no such field, so Harbor is asked for the same update on every reconcile.
\<close>

theorem registry_update_cannot_clear:
  "(\<not> regInsecure (objSpec cr) \<and> hrInsecure current \<longrightarrow>
      registryNeedsUpdate cr current h ca \<and>
      jget ''insecure'' (updateRegistryFields (buildRegistryUpdateReq cr credential ca)) = JNull) \<and>
   (regDescription (objSpec cr) = [] \<and> hrDescription current \<noteq> [] \<longrightarrow>
      registryNeedsUpdate cr current h ca \<and>
      jget ''description'' (updateRegistryFields (buildRegistryUpdateReq cr credential ca)) = JNull)"
  by (auto simp: registryNeedsUpdate_def buildRegistryUpdateReq_def updateRegistryFields_def jfield_simps
      boolField_def strField_def Let_def split: option.split)

section \<open>Concrete inputs\<close>

definition exRegistrySpec :: "string \<Rightarrow> string \<Rightarrow> registrySpec" where
  "exRegistrySpec deletion creation =
     \<lparr>harborConnectionRef = exRef, driftDetectionInterval = None, reconcileNonce = [],
      deletionPolicy = deletion, creationPolicy = creation, regType = ''docker-hub'', regDescription = [],
      regURL = ''https://hub.docker.com'', regCredential = None, regCACertificate = [],
      regCACertificateRef = None, regInsecure = False\<rparr>"

definition exRegistry :: "int option \<Rightarrow> string \<Rightarrow> string \<Rightarrow> int \<Rightarrow> registry" where
  "exRegistry deleted deletion creation n =
     \<lparr>objMeta = (exMeta ''team'' ''hub'')\<lparr>metaDeletionTimestamp := deleted, metaFinalizers := [finalizerName]\<rparr>,
      objSpec = exRegistrySpec deletion creation,
      objStatus = harborStatusBase.extend exStatusBase \<lparr>harborRegistryID = n, regCredentialHash = []\<rparr>\<rparr>"

definition runRegistry :: "registry \<Rightarrow> event list" where
  "runRegistry obj =
     traceOf (reconcileRegistry exCluster exOptions (exStore [obj]) (''team'', ''hub'')) (startState obj ())"

lemma registry_deleted_before_finalizer_witness:
  "let tr = runRegistry (exRegistry (Some 7) ''Delete'' ''Create'' 5)
   in preceded (registryGone 5) dropsFinalizer tr \<and> list_ex isDelete tr"
proof -
  have "preceded (registryGone 5) dropsFinalizer (runRegistry (exRegistry (Some 7) ''Delete'' ''Create'' 5))"
    unfolding runRegistry_def
    by (rule registry_deleted_before_finalizer [OF faithful_store [OF registryKind_client] shown_only [OF registryKind_client]])
      (code_simp, simp add: lawful_exMachinery)
  moreover have "list_ex isDelete (runRegistry (exRegistry (Some 7) ''Delete'' ''Create'' 5))"
    by code_simp
  ultimately show ?thesis by simp
qed

lemma registry_adopt_never_creates_witness:
  "let tr = runRegistry (exRegistry None ''Delete'' ''Adopt'' 0)
   in list_all (\<lambda>ev. \<not> isPost ev) tr \<and> preceded binds isHttp tr \<and> list_ex isHttp tr"
proof -
  let ?o = "exRegistry None ''Delete'' ''Adopt'' 0"
  have "list_all (\<lambda>ev. \<not> isPost ev) (runRegistry ?o) \<and> preceded binds isHttp (runRegistry ?o)"
    unfolding runRegistry_def
    by (rule registry_adopt_never_creates [OF faithful_store [OF registryKind_client] shown_only [OF registryKind_client]]) code_simp
  moreover have "list_ex isHttp (runRegistry ?o)"
    by code_simp
  ultimately show ?thesis by simp
qed

lemma registry_settles_witness:
  "let cr = exRegistry None ''Delete'' ''Create'' 5
   in map_option (\<lambda>current. registryNeedsUpdate cr current ''h'' [])
        (decRegistry (harborShowsRegistry (buildRegistryCreateReq cr None []) 5)) = Some True"
  using registry_settles [of 5 "exRegistry None ''Delete'' ''Create'' 5" "''h''" "[]" None]
  by (simp add: minInt64_def maxInt64_def exRegistry_def harborStatusBase.defs)

lemma registry_update_cannot_clear_witness:
  "let cr = exRegistry None ''Delete'' ''Create'' 5;
       current = \<lparr>hrID = 5, hrURL = ''https://hub.docker.com'', hrName = ''hub'', hrDescription = ''old'',
         hrType = ''docker-hub'', hrInsecure = True, hrCACertificate = [], hrCredential = None\<rparr>
   in registryNeedsUpdate cr current [] [] \<and>
      jget ''description'' (updateRegistryFields (buildRegistryUpdateReq cr None [])) = JNull"
  using registry_update_cannot_clear [of "exRegistry None ''Delete'' ''Create'' 5"
      "\<lparr>hrID = 5, hrURL = ''https://hub.docker.com'', hrName = ''hub'', hrDescription = ''old'',
         hrType = ''docker-hub'', hrInsecure = True, hrCACertificate = [], hrCredential = None\<rparr>" "[]" "[]" None]
  by (simp add: exRegistry_def exRegistrySpec_def)

end
