(* ===== verification/Users.thy ===== *)
theory Users
  imports OwnedRemote
begin

text \<open>
  Users: the calls of \<^verbatim>\<open>internal/harborclient/users.go\<close>, the reconciler of
  \<^verbatim>\<open>internal/controller/user_controller.go\<close>, and what holds of it.
\<close>

section \<open>The Harbor client\<close>

record hUser =
  huUserID :: int
  huUsername :: string
  huEmail :: string
  huRealname :: string
  huComment :: string
  huSysadminFlag :: bool

record createUserRequest =
  curEmail :: string
  curRealname :: string
  curComment :: string
  curPassword :: string
  curUsername :: string

definition decUser :: "hUser decoder" where
  "decUser = decObj (\<lambda>kvs.
     do { n \<leftarrow> decInt (jget ''user_id'' kvs);
          u \<leftarrow> decStr (jget ''username'' kvs);
          m \<leftarrow> decStr (jget ''email'' kvs);
          r \<leftarrow> decStr (jget ''realname'' kvs);
          c \<leftarrow> decStr (jget ''comment'' kvs);
          s \<leftarrow> decBool (jget ''sysadmin_flag'' kvs);
          Some \<lparr>huUserID = n, huUsername = u, huEmail = m, huRealname = r, huComment = c, huSysadminFlag = s\<rparr> })"

definition createUserFields :: "createUserRequest \<Rightarrow> (string \<times> json) list" where
  "createUserFields r =
     omitStr ''email'' (curEmail r) @ omitStr ''realname'' (curRealname r) @
     omitStr ''comment'' (curComment r) @ omitStr ''password'' (curPassword r) @
     omitStr ''username'' (curUsername r)"

definition usersURL :: string where
  "usersURL = ''/api/v2.0/users''"

definition userURL :: "int \<Rightarrow> string" where
  "userURL n = ''/api/v2.0/users/'' @ goItoa n"

definition ListUsers :: "'e services \<Rightarrow> harborClient \<Rightarrow> string \<Rightarrow> ('o, 'e, gerror + hUser list) go" where
  "ListUsers S c query =
     getPaged S c decUser usersURL (if query \<noteq> [] then valuesSet ''q'' query [] else [])"

definition GetUserByID :: "'e services \<Rightarrow> harborClient \<Rightarrow> int \<Rightarrow> ('o, 'e, gerror + hUser) go" where
  "GetUserByID S c n = clientGet S c (userURL n) decUser"

definition CreateUser :: "'e services \<Rightarrow> harborClient \<Rightarrow> createUserRequest \<Rightarrow> ('o, 'e, gerror + int) go" where
  "CreateUser S c req = createWithNumericLocationID S c usersURL (JObj (createUserFields req))"

definition UpdateUser :: "'e services \<Rightarrow> harborClient \<Rightarrow> int \<Rightarrow> createUserRequest \<Rightarrow> ('o, 'e, gerror option) go" where
  "UpdateUser S c n req = clientPut S c (userURL n) (JObj (createUserFields req))"

definition DeleteUser :: "'e services \<Rightarrow> harborClient \<Rightarrow> int \<Rightarrow> ('o, 'e, gerror option) go" where
  "DeleteUser S c n = deleteIgnoringNotFound S c (userURL n) []"

lemma emits_UserCalls:
  "clientCalls c M C \<Longrightarrow> (\<And>relURL. M ''GET'' relURL) \<Longrightarrow> emits C (ListUsers S c q)"
  "clientCalls c M C \<Longrightarrow> M ''GET'' (userURL n) \<Longrightarrow> emits C (GetUserByID S c n)"
  "clientCalls c M C \<Longrightarrow> M ''POST'' usersURL \<Longrightarrow> emits C (CreateUser S c req)"
  "clientCalls c M C \<Longrightarrow> M ''PUT'' (userURL n) \<Longrightarrow> emits C (UpdateUser S c n req)"
  "clientCalls c M C \<Longrightarrow> M ''DELETE'' (userURL n) \<Longrightarrow> emits C (DeleteUser S c n)"
  unfolding ListUsers_def GetUserByID_def CreateUser_def UpdateUser_def DeleteUser_def
  by (intro client_emits; (assumption | simp))+

lemma untouched_user_calls [triple_intros]:
  "untouched (ListUsers S hc q)" "untouched (GetUserByID S hc n)" "untouched (CreateUser S hc req)"
  "untouched (UpdateUser S hc n req)" "untouched (DeleteUser S hc n)"
  unfolding ListUsers_def GetUserByID_def CreateUser_def UpdateUser_def DeleteUser_def
  by (intro triple_intros)+

section \<open>The reconciler\<close>

definition userKind :: "('e, user) kclient \<Rightarrow> ('e, userSpec, userStatus) kind" where
  "userKind c = \<lparr>kdKind = KUser, kdSanitize = sanitizeRef, kdClient = c\<rparr>"

definition getUserPassword :: "'e services \<Rightarrow> 'e operatorOptions \<Rightarrow> user \<Rightarrow> (user, 'e, gerror + string) go" where
  "getUserPassword S opts cr =
     do { r \<leftarrow> readSecretValue S opts
                 \<lparr>srName = userPasswordSecretName (objSpec cr), srKey = userPasswordSecretKey (objSpec cr),
                  srNamespace = []\<rparr> (metaNamespace (objMeta cr)) [];
          State_Monad.return
            (case r of
               Inl err \<Rightarrow> Inl (ErrWrap ''failed to read user password secret: '' err)
             | Inr password \<Rightarrow> Inr password) }"

definition buildUserCreateReq :: "user \<Rightarrow> string \<Rightarrow> createUserRequest" where
  "buildUserCreateReq cr password =
     \<lparr>curEmail = userEmail (objSpec cr),
      curRealname = (if userRealname (objSpec cr) = [] then metaName (objMeta cr) else userRealname (objSpec cr)),
      curComment = userComment (objSpec cr), curPassword = password, curUsername = metaName (objMeta cr)\<rparr>"

definition userNeedsUpdate :: "createUserRequest \<Rightarrow> hUser \<Rightarrow> bool" where
  "userNeedsUpdate desired current \<longleftrightarrow>
     curEmail desired \<noteq> huEmail current \<or> curRealname desired \<noteq> huRealname current \<or>
     curComment desired \<noteq> huComment current"

definition setUserID :: "int \<Rightarrow> user \<Rightarrow> user" where
  "setUserID n cr = cr\<lparr>objStatus := (objStatus cr)\<lparr>harborUserID := n\<rparr>\<rparr>"

definition deleteUser :: "'e services \<Rightarrow> harborClient \<Rightarrow> (user, 'e, gerror option) go" where
  "deleteUser S hc =
     do { cr \<leftarrow> getObj;
          if harborUserID (objStatus cr) = 0 then State_Monad.return None
          else do { err \<leftarrow> DeleteUser S hc (harborUserID (objStatus cr));
                    State_Monad.return (if IsNotFound err then None else err) } }"

definition adoptExistingUser :: "'e services \<Rightarrow> ('e, userSpec, userStatus) kind \<Rightarrow> harborClient \<Rightarrow>
    (user, 'e, bool \<times> gerror option) go" where
  "adoptExistingUser S K hc =
     do { cr \<leftarrow> getObj;
          r \<leftarrow> ListUsers S hc (''username='' @ metaName (objMeta cr));
          case r of
            Inl err \<Rightarrow> State_Monad.return (False, Some err)
          | Inr users \<Rightarrow>
              (case find (\<lambda>u. equalFold (huUsername u) (metaName (objMeta cr))) users of
                 None \<Rightarrow> State_Monad.return (False, None)
               | Some u \<Rightarrow>
                   do { _ \<leftarrow> modObj (setUserID (huUserID u));
                        err \<leftarrow> kubeStatusUpdate K;
                        State_Monad.return (True, err) }) }"

definition createUserPath :: "'e services \<Rightarrow> 'e operatorOptions \<Rightarrow> ('e, userSpec, userStatus) kind \<Rightarrow>
    harborClient \<Rightarrow> createUserRequest \<Rightarrow> (user, 'e, outcome) go" where
  "createUserPath S opts K hc createReq =
     do { cr \<leftarrow> getObj;
          case requireCreationAllowed opts (creationPolicy (objSpec cr)) of
            Some err \<Rightarrow> failWith S K err
          | None \<Rightarrow>
              do { r \<leftarrow> CreateUser S hc createReq;
                   case r of
                     Inl err \<Rightarrow> failWith S K err
                   | Inr n \<Rightarrow> do { _ \<leftarrow> modObj (setUserID n);
                                  readyWithDrift S opts K ''Created'' ''User created'' } } }"

definition updateUserPath :: "'e services \<Rightarrow> 'e operatorOptions \<Rightarrow> ('e, userSpec, userStatus) kind \<Rightarrow>
    harborClient \<Rightarrow> createUserRequest \<Rightarrow> (user, 'e, outcome) go" where
  "updateUserPath S opts K hc createReq =
     do { cr \<leftarrow> getObj;
          r \<leftarrow> GetUserByID S hc (harborUserID (objStatus cr));
          case r of
            Inl err \<Rightarrow>
              (if IsNotFound (Some err)
               then do { generation \<leftarrow> crGeneration;
                         requeueOnRemoteNotFound S K generation (Some (\<lambda>st. st\<lparr>harborUserID := 0\<rparr>))
                           ''User not found in Harbor'' }
               else failWith S K err)
          | Inr current \<Rightarrow>
              do { uerr \<leftarrow> (if userNeedsUpdate createReq current
                           then UpdateUser S hc (huUserID current) createReq
                           else State_Monad.return None);
                   case uerr of
                     Some err \<Rightarrow> failWith S K err
                   | None \<Rightarrow> readyWithDrift S opts K ''Reconciled'' ''User reconciled'' } }"

definition userBody :: "'e services \<Rightarrow> 'e operatorOptions \<Rightarrow> ('e, userSpec, userStatus) kind \<Rightarrow>
    harborClient \<Rightarrow> (user, 'e, outcome) go" where
  "userBody S opts K hc =
     do { cr \<leftarrow> getObj;
          adoptErr \<leftarrow> (if harborUserID (objStatus cr) = 0 \<and> allowsAdoption opts (creationPolicy (objSpec cr))
                       then do { (ok, err) \<leftarrow> adoptExistingUser S K hc; State_Monad.return err }
                       else State_Monad.return None);
          case adoptErr of
            Some err \<Rightarrow> failWith S K err
          | None \<Rightarrow>
              do { cr1 \<leftarrow> getObj;
                   p \<leftarrow> getUserPassword S opts cr1;
                   case p of
                     Inl err \<Rightarrow> failWith S K err
                   | Inr password \<Rightarrow>
                       (if harborUserID (objStatus cr1) = 0
                        then createUserPath S opts K hc (buildUserCreateReq cr1 password)
                        else updateUserPath S opts K hc (buildUserCreateReq cr1 password)) } }"

definition reconcileUser :: "'e services \<Rightarrow> 'e operatorOptions \<Rightarrow> ('e, user) kclient \<Rightarrow> nsName \<Rightarrow>
    (user, 'e, outcome) go" where
  "reconcileUser S opts c =
     harborBacked S opts (userKind c) True (Some (deleteUser S)) (userBody S opts (userKind c))"

section \<open>The contract of the frame\<close>

lemma quietly_getUserPassword: "quietly (getUserPassword S opts cr)"
  unfolding getUserPassword_def by (intro emits_intros)

lemmas user_call_events = emits_UserCalls(1-4) [OF clientCalls_body]
lemmas user_notPost = emits_UserCalls(1,2,4,5) [OF clientCalls_notPost]

lemma userBody_events: "emits bodyEvent (userBody S opts K hc)"
  unfolding userBody_def adoptExistingUser_def createUserPath_def updateUserPath_def
  by (intro emits_intros body_quiet user_call_events quietly_body [OF quietly_getUserPassword]) simp_all

lemma deleteUser_events: "emits (\<lambda>ev. \<not> dropsFinalizer ev) (deleteUser S hc)"
  unfolding deleteUser_def by (intro emits_intros emits_UserCalls(5) [OF clientCalls_noDrop]) simp

abbreviation owesUser :: "int \<Rightarrow> user \<Rightarrow> bool" where
  "owesUser n \<equiv> owesRemote harborUserID 0 n"

lemma deleteUser_gone:
  "triple (\<lambda>s. owesUser n (stObj s)) (deleteUser S hc)
     (\<lambda>r s. r = None \<longrightarrow> list_ex (remoteGone (userURL n)) (stTrace s))"
  unfolding deleteUser_def DeleteUser_def by (rule delete_by_id_gone) (rule owesRemote_ident)

lemma guards_user_calls [guard_intros]:
  "guards P (\<lambda>ev. \<not> isPost ev) (ListUsers S hc q)"
  "guards P (\<lambda>ev. \<not> isPost ev) (GetUserByID S hc n)"
  "guards P (\<lambda>ev. \<not> isPost ev) (UpdateUser S hc n req)"
  "guards P (\<lambda>ev. \<not> isPost ev) (DeleteUser S hc n)"
  by (rule guards_plain, rule untouched_user_calls, rule user_notPost, simp)+

lemma user_body_guarded:
  assumes "stays K (mayNotCreate opts)"
  shows "guards (mayNotCreate opts) (\<lambda>ev. \<not> isPost ev) (userBody S opts K hc)"
proof -
  have no: "guards (mayNotCreate opts) (\<lambda>ev. \<not> isPost ev) (createUserPath S opts K hc req)" for req
    unfolding createUserPath_def
    by (rule guards_getObj, erule mayNotCreateE) (simp add: guards_failWith [OF assms])
  show ?thesis
    unfolding userBody_def adoptExistingUser_def updateUserPath_def getUserPassword_def
    by (intro guard_intros no assms) (auto simp: mayNotCreate_def setUserID_def)
qed

interpretation user: harbor_backed S opts "userKind c" True "Some (deleteUser S)"
    "userBody S opts (userKind c)" for S opts c
  by unfold_locales (auto intro: userBody_events deleteUser_events)

interpretation owned_user: owned_remote S opts "userKind c" True "Some (deleteUser S)"
    "userBody S opts (userKind c)" "owesUser n" "remoteGone (userURL n)" "deleteUser S" for S opts c n
  by unfold_locales (auto intro: deleteUser_gone dest: owesRemoteD)

lemma deleteUser_notPost: "emits (\<lambda>ev. \<not> isPost ev) (deleteUser S hc)"
  unfolding deleteUser_def by (intro emits_intros user_notPost) simp

interpretation guarded_user: guarded_body S opts "userKind c" True "Some (deleteUser S)"
    "userBody S opts (userKind c)" "mayNotCreate opts" "\<lambda>ev. \<not> isPost ev" for S opts c
  by unfold_locales (auto intro!: guards_post [OF user_body_guarded] emits_post [OF deleteUser_notPost])

lemma deleteUser_only:
  "triple (objTrace (hasRemote harborUserID n) (deletesOnly (userURL n))) (deleteUser S hc)
     (\<lambda>_ s. list_all (deletesOnly (userURL n)) (stTrace s))"
  unfolding deleteUser_def DeleteUser_def
  by (rule delete_by_id_only [where relURL = userURL])
    (auto intro!: emits_intros emits_delete_own dest: hasRemote_ident)

interpretation own_user: guarded_body S opts "userKind c" True "Some (deleteUser S)"
    "userBody S opts (userKind c)" "hasRemote harborUserID n" "deletesOnly (userURL n)" for S opts c n
  by unfold_locales
    (auto intro!: emits_post bodyEvent_deletesOnly userBody_events deleteUser_only)

end
