(* ===== verification/Labels.thy ===== *)
theory Labels
  imports OwnedRemote ReferenceRules
begin

text \<open>
  Labels: the calls of \<^verbatim>\<open>internal/harborclient/labels.go\<close>, the reconciler of
  \<^verbatim>\<open>internal/controller/label_controller.go\<close>, and what holds of it. A label
  belongs to a project or, without one, to the whole instance; after an adoption the object is
  queued again.
\<close>

section \<open>The Harbor client\<close>

record hLabel =
  hlID :: int
  hlName :: string
  hlDescription :: string
  hlColor :: string
  hlScope :: string
  hlProjectID :: int
  hlCreationTime :: string
  hlUpdateTime :: string

definition decLabel :: "hLabel decoder" where
  "decLabel = decObj (\<lambda>kvs.
     do { n \<leftarrow> decInt (jget ''id'' kvs);
          nm \<leftarrow> decStr (jget ''name'' kvs);
          d \<leftarrow> decStr (jget ''description'' kvs);
          c \<leftarrow> decStr (jget ''color'' kvs);
          s \<leftarrow> decStr (jget ''scope'' kvs);
          p \<leftarrow> decInt (jget ''project_id'' kvs);
          ct \<leftarrow> decStr (jget ''creation_time'' kvs);
          ut \<leftarrow> decStr (jget ''update_time'' kvs);
          Some \<lparr>hlID = n, hlName = nm, hlDescription = d, hlColor = c, hlScope = s, hlProjectID = p,
                hlCreationTime = ct, hlUpdateTime = ut\<rparr> })"

definition labelFields :: "hLabel \<Rightarrow> (string \<times> json) list" where
  "labelFields l =
     omitInt ''id'' (hlID l) @ omitStr ''name'' (hlName l) @ omitStr ''description'' (hlDescription l) @
     omitStr ''color'' (hlColor l) @ omitStr ''scope'' (hlScope l) @ omitInt ''project_id'' (hlProjectID l) @
     omitStr ''creation_time'' (hlCreationTime l) @ omitStr ''update_time'' (hlUpdateTime l)"

definition labelsURL :: string where
  "labelsURL = ''/api/v2.0/labels''"

definition labelURL :: "int \<Rightarrow> string" where
  "labelURL n = ''/api/v2.0/labels/'' @ goItoa n"

definition ListLabels :: "'e services \<Rightarrow> harborClient \<Rightarrow> string \<Rightarrow> string \<Rightarrow> int option \<Rightarrow>
    ('o, 'e, gerror + hLabel list) go" where
  "ListLabels S c name scope projectID =
     (let v1 = (if name \<noteq> [] then valuesSet ''name'' name [] else []);
          v2 = (if scope \<noteq> [] then valuesSet ''scope'' scope v1 else v1);
          v3 = (case projectID of None \<Rightarrow> v2 | Some p \<Rightarrow> valuesSet ''project_id'' (goItoa p) v2)
      in getPaged S c decLabel labelsURL v3)"

definition GetLabel :: "'e services \<Rightarrow> harborClient \<Rightarrow> int \<Rightarrow> ('o, 'e, gerror + hLabel) go" where
  "GetLabel S c n = clientGet S c (labelURL n) decLabel"

definition CreateLabel :: "'e services \<Rightarrow> harborClient \<Rightarrow> hLabel \<Rightarrow> ('o, 'e, gerror + int) go" where
  "CreateLabel S c l = createWithNumericLocationID S c labelsURL (JObj (labelFields l))"

definition UpdateLabel :: "'e services \<Rightarrow> harborClient \<Rightarrow> int \<Rightarrow> hLabel \<Rightarrow> ('o, 'e, gerror option) go" where
  "UpdateLabel S c n l = clientPut S c (labelURL n) (JObj (labelFields l))"

definition DeleteLabel :: "'e services \<Rightarrow> harborClient \<Rightarrow> int \<Rightarrow> ('o, 'e, gerror option) go" where
  "DeleteLabel S c n = deleteIgnoringNotFound S c (labelURL n) []"

lemma emits_LabelCalls:
  "clientCalls c M C \<Longrightarrow> (\<And>relURL. M ''GET'' relURL) \<Longrightarrow> emits C (ListLabels S c nm sc p)"
  "clientCalls c M C \<Longrightarrow> M ''GET'' (labelURL n) \<Longrightarrow> emits C (GetLabel S c n)"
  "clientCalls c M C \<Longrightarrow> M ''POST'' labelsURL \<Longrightarrow> emits C (CreateLabel S c l)"
  "clientCalls c M C \<Longrightarrow> M ''PUT'' (labelURL n) \<Longrightarrow> emits C (UpdateLabel S c n l)"
  "clientCalls c M C \<Longrightarrow> M ''DELETE'' (labelURL n) \<Longrightarrow> emits C (DeleteLabel S c n)"
  unfolding ListLabels_def GetLabel_def CreateLabel_def UpdateLabel_def DeleteLabel_def Let_def
  by (intro client_emits; (assumption | simp))+

lemma untouched_label_calls [triple_intros]:
  "untouched (ListLabels S hc nm sc p)" "untouched (GetLabel S hc n)" "untouched (CreateLabel S hc l)"
  "untouched (UpdateLabel S hc n l)" "untouched (DeleteLabel S hc n)"
  unfolding ListLabels_def GetLabel_def CreateLabel_def UpdateLabel_def DeleteLabel_def Let_def
  by (intro triple_intros)+

section \<open>The reconciler\<close>

definition labelKind :: "('e, label) kclient \<Rightarrow> ('e, labelSpec, labelStatus) kind" where
  "labelKind c = \<lparr>kdKind = KLabel, kdSanitize = sanitizeRef, kdClient = c\<rparr>"

definition setLabelID :: "int \<Rightarrow> label \<Rightarrow> label" where
  "setLabelID n cr = cr\<lparr>objStatus := (objStatus cr)\<lparr>harborLabelID := n\<rparr>\<rparr>"

definition deleteLabelFn :: "'e services \<Rightarrow> harborClient \<Rightarrow> (label, 'e, gerror option) go" where
  "deleteLabelFn S hc =
     do { cr \<leftarrow> getObj;
          if harborLabelID (objStatus cr) = 0 then State_Monad.return None
          else DeleteLabel S hc (harborLabelID (objStatus cr)) }"

text \<open>Scope and project of the label, from the spec.\<close>

definition labelScopeOf :: "'e services \<Rightarrow> 'e operatorOptions \<Rightarrow> label \<Rightarrow> (label, 'e, gerror + string \<times> int) go" where
  "labelScopeOf S opts cr =
     do { r \<leftarrow> (case labProjectRef (objSpec cr) of
                 None \<Rightarrow>
                   State_Monad.return (Inr (if labScope (objSpec cr) = [] then ''g'' else labScope (objSpec cr), 0))
               | Some ref \<Rightarrow>
                   if labScope (objSpec cr) \<noteq> [] \<and> labScope (objSpec cr) \<noteq> ''p''
                   then State_Monad.return (Inl (ErrMsg (''spec.scope must be '' @ [CHR 0x27] @ ''p'' @ [CHR 0x27] @
                          '' when projectRef is set'')))
                   else do { p \<leftarrow> resolveProject S opts (metaNamespace (objMeta cr)) (Some ref);
                             State_Monad.return (case p of Inl err \<Rightarrow> Inl err | Inr (key, pid) \<Rightarrow> Inr (''p'', pid)) });
          State_Monad.return
            (case r of
               Inl err \<Rightarrow> Inl err
             | Inr (scope, pid) \<Rightarrow>
                 if scope = ''p'' \<and> pid = 0
                 then Inl (ErrMsg ''project-scoped labels require projectRef'')
                 else Inr (scope, pid)) }"

definition desiredLabel :: "label \<Rightarrow> string \<Rightarrow> int \<Rightarrow> hLabel" where
  "desiredLabel cr scope projectID =
     \<lparr>hlID = 0, hlName = metaName (objMeta cr), hlDescription = labDescription (objSpec cr),
      hlColor = labColor (objSpec cr), hlScope = scope, hlProjectID = projectID,
      hlCreationTime = [], hlUpdateTime = []\<rparr>"

definition sameLabel :: "hLabel \<Rightarrow> hLabel \<Rightarrow> bool" where
  "sameLabel desired l \<longleftrightarrow>
     equalFold (hlName l) (hlName desired) \<and> hlScope l = hlScope desired \<and>
     (hlScope desired \<noteq> ''p'' \<or> hlProjectID l = hlProjectID desired)"

definition adoptExistingLabel :: "'e services \<Rightarrow> ('e, labelSpec, labelStatus) kind \<Rightarrow> harborClient \<Rightarrow> hLabel \<Rightarrow>
    (label, 'e, bool \<times> gerror option) go" where
  "adoptExistingLabel S K hc desired =
     do { r \<leftarrow> ListLabels S hc (hlName desired) (hlScope desired)
                 (if hlScope desired = ''p'' then Some (hlProjectID desired) else None);
          case r of
            Inl err \<Rightarrow> State_Monad.return (False, Some err)
          | Inr ls \<Rightarrow>
              (case find (sameLabel desired) ls of
                 None \<Rightarrow> State_Monad.return (False, None)
               | Some l \<Rightarrow>
                   do { _ \<leftarrow> modObj (setLabelID (hlID l));
                        err \<leftarrow> kubeStatusUpdate K;
                        State_Monad.return (True, err) }) }"

definition normalizeLabel :: "hLabel \<Rightarrow> hLabel" where
  "normalizeLabel l = l\<lparr>hlID := 0, hlCreationTime := [], hlUpdateTime := []\<rparr>"

definition labelNeedsUpdate :: "hLabel \<Rightarrow> hLabel option \<Rightarrow> bool" where
  "labelNeedsUpdate desired current =
     (case current of None \<Rightarrow> True | Some l \<Rightarrow> normalizeLabel desired \<noteq> normalizeLabel l)"

definition createLabelPath :: "'e services \<Rightarrow> 'e operatorOptions \<Rightarrow> ('e, labelSpec, labelStatus) kind \<Rightarrow>
    harborClient \<Rightarrow> hLabel \<Rightarrow> (label, 'e, outcome) go" where
  "createLabelPath S opts K hc desired =
     do { cr \<leftarrow> getObj;
          case requireCreationAllowed opts (creationPolicy (objSpec cr)) of
            Some err \<Rightarrow> failWith S K err
          | None \<Rightarrow>
              do { r \<leftarrow> CreateLabel S hc desired;
                   case r of
                     Inl err \<Rightarrow> failWith S K err
                   | Inr n \<Rightarrow> do { _ \<leftarrow> modObj (setLabelID n);
                                  readyWithDrift S opts K ''Created'' ''Label created'' } } }"

definition updateLabelPath :: "'e services \<Rightarrow> 'e operatorOptions \<Rightarrow> ('e, labelSpec, labelStatus) kind \<Rightarrow>
    harborClient \<Rightarrow> hLabel \<Rightarrow> (label, 'e, outcome) go" where
  "updateLabelPath S opts K hc desired =
     do { cr \<leftarrow> getObj;
          r \<leftarrow> GetLabel S hc (harborLabelID (objStatus cr));
          case r of
            Inl err \<Rightarrow>
              (if IsNotFound (Some err)
               then do { generation \<leftarrow> crGeneration;
                         requeueOnRemoteNotFound S K generation (Some (\<lambda>st. st\<lparr>harborLabelID := 0\<rparr>))
                           ''Label not found in Harbor'' }
               else failWith S K err)
          | Inr current \<Rightarrow>
              do { uerr \<leftarrow> (if labelNeedsUpdate desired (Some current)
                           then UpdateLabel S hc (harborLabelID (objStatus cr)) desired
                           else State_Monad.return None);
                   case uerr of
                     Some err \<Rightarrow> failWith S K err
                   | None \<Rightarrow> readyWithDrift S opts K ''Reconciled'' ''Label reconciled'' } }"

definition labelBody :: "'e services \<Rightarrow> 'e operatorOptions \<Rightarrow> ('e, labelSpec, labelStatus) kind \<Rightarrow>
    harborClient \<Rightarrow> (label, 'e, outcome) go" where
  "labelBody S opts K hc =
     do { cr \<leftarrow> getObj;
          r \<leftarrow> labelScopeOf S opts cr;
          case r of
            Inl err \<Rightarrow> failWith S K err
          | Inr (scope, pid) \<Rightarrow>
              let desired = desiredLabel cr scope pid in
              do { (adopted, aerr) \<leftarrow>
                     (if harborLabelID (objStatus cr) = 0 \<and> allowsAdoption opts (creationPolicy (objSpec cr))
                      then adoptExistingLabel S K hc desired
                      else State_Monad.return (False, None));
                   case aerr of
                     Some err \<Rightarrow> failWith S K err
                   | None \<Rightarrow>
                       if adopted then State_Monad.return (emptyResult\<lparr>requeue := True\<rparr>, None)
                       else if harborLabelID (objStatus cr) = 0
                       then createLabelPath S opts K hc desired
                       else updateLabelPath S opts K hc desired } }"

definition reconcileLabel :: "'e services \<Rightarrow> 'e operatorOptions \<Rightarrow> ('e, label) kclient \<Rightarrow> nsName \<Rightarrow>
    (label, 'e, outcome) go" where
  "reconcileLabel S opts c =
     harborBacked S opts (labelKind c) True (Some (deleteLabelFn S)) (labelBody S opts (labelKind c))"

section \<open>The contract of the frame\<close>

lemmas label_call_events = emits_LabelCalls(1-4) [OF clientCalls_body]
lemmas label_notPost = emits_LabelCalls(1,2,4,5) [OF clientCalls_notPost]

lemma labelBody_events: "emits bodyEvent (labelBody S opts K hc)"
  unfolding labelBody_def labelScopeOf_def adoptExistingLabel_def createLabelPath_def updateLabelPath_def
  by (intro emits_intros body_quiet label_call_events body_resolve) simp_all

lemma deleteLabel_events: "emits (\<lambda>ev. \<not> dropsFinalizer ev) (deleteLabelFn S hc)"
  unfolding deleteLabelFn_def by (intro emits_intros emits_LabelCalls(5) [OF clientCalls_noDrop]) simp

abbreviation owesLabel :: "int \<Rightarrow> label \<Rightarrow> bool" where
  "owesLabel n \<equiv> owesRemote harborLabelID 0 n"

lemma deleteLabel_gone:
  "triple (\<lambda>s. owesLabel n (stObj s)) (deleteLabelFn S hc)
     (\<lambda>r s. r = None \<longrightarrow> list_ex (remoteGone (labelURL n)) (stTrace s))"
  unfolding deleteLabelFn_def DeleteLabel_def by (rule delete_by_id_plain) (rule owesRemote_ident)

lemma guards_label_calls [guard_intros]:
  "guards P (\<lambda>ev. \<not> isPost ev) (ListLabels S hc nm sc p)"
  "guards P (\<lambda>ev. \<not> isPost ev) (GetLabel S hc n)"
  "guards P (\<lambda>ev. \<not> isPost ev) (UpdateLabel S hc n l)"
  "guards P (\<lambda>ev. \<not> isPost ev) (DeleteLabel S hc n)"
  by (rule guards_plain, rule untouched_label_calls, rule label_notPost, simp)+

lemma label_body_guarded:
  assumes "stays K (mayNotCreate opts)"
  shows "guards (mayNotCreate opts) (\<lambda>ev. \<not> isPost ev) (labelBody S opts K hc)"
proof -
  have no: "guards (mayNotCreate opts) (\<lambda>ev. \<not> isPost ev) (createLabelPath S opts K hc l)" for l
    unfolding createLabelPath_def
    by (rule guards_getObj, erule mayNotCreateE) (simp add: guards_failWith [OF assms])
  show ?thesis
    unfolding labelBody_def labelScopeOf_def adoptExistingLabel_def updateLabelPath_def
    by (intro guard_intros no assms) (auto simp: mayNotCreate_def setLabelID_def)
qed

interpretation label: harbor_backed S opts "labelKind c" True "Some (deleteLabelFn S)"
    "labelBody S opts (labelKind c)" for S opts c
  by unfold_locales (auto intro: labelBody_events deleteLabel_events)

interpretation owned_label: owned_remote S opts "labelKind c" True "Some (deleteLabelFn S)"
    "labelBody S opts (labelKind c)" "owesLabel n" "remoteGone (labelURL n)" "deleteLabelFn S" for S opts c n
  by unfold_locales (auto intro: deleteLabel_gone dest: owesRemoteD)

lemma deleteLabel_notPost: "emits (\<lambda>ev. \<not> isPost ev) (deleteLabelFn S hc)"
  unfolding deleteLabelFn_def by (intro emits_intros label_notPost) simp

interpretation guarded_label: guarded_body S opts "labelKind c" True "Some (deleteLabelFn S)"
    "labelBody S opts (labelKind c)" "mayNotCreate opts" "\<lambda>ev. \<not> isPost ev" for S opts c
  by unfold_locales (auto intro!: guards_post [OF label_body_guarded] emits_post [OF deleteLabel_notPost])

lemma deleteLabel_only:
  "triple (objTrace (hasRemote harborLabelID n) (deletesOnly (labelURL n))) (deleteLabelFn S hc)
     (\<lambda>_ s. list_all (deletesOnly (labelURL n)) (stTrace s))"
  unfolding deleteLabelFn_def DeleteLabel_def
  by (rule delete_by_id_only [where relURL = labelURL])
    (auto intro!: emits_intros emits_delete_own dest: hasRemote_ident)

interpretation own_label: guarded_body S opts "labelKind c" True "Some (deleteLabelFn S)"
    "labelBody S opts (labelKind c)" "hasRemote harborLabelID n" "deletesOnly (labelURL n)" for S opts c n
  by unfold_locales
    (auto intro!: emits_post bodyEvent_deletesOnly labelBody_events deleteLabel_only)

end
