(* ===== verification/GoFloat.thy ===== *)
theory GoFloat
  imports Json
begin

text \<open>
  JSON that goes through an \<^verbatim>\<open>any\<close>. There \<^verbatim>\<open>encoding/json\<close>
  makes every number a \<^verbatim>\<open>float64\<close>, and \<^verbatim>\<open>Marshal\<close>
  prints the shortest decimal that reads back as the same \<^verbatim>\<open>float64\<close>. So a
  number of a document is not printed as it was written: this theory computes what is printed, from
  the exact value of the literal, by rounding to 53 bits (ties to even, subnormals included) and by a
  search for the shortest decimal. A literal beyond the range of \<^verbatim>\<open>float64\<close> is
  an error of \<^verbatim>\<open>Unmarshal\<close>.
\<close>

section \<open>Rounding to 53 bits\<close>

text \<open>A fraction times a power of a base.\<close>

definition scaleBy :: "int \<Rightarrow> int \<Rightarrow> int \<times> int \<Rightarrow> int \<times> int" where
  "scaleBy b e = (\<lambda>(n, d). if 0 \<le> e then (n * b ^ nat e, d) else (n, d * b ^ nat (- e)))"

function bitLength :: "int \<Rightarrow> int" where
  "bitLength n = (if n \<le> 0 then 0 else 1 + bitLength (n div 2))"
  by auto

termination by (relation "measure nat") auto

function decimalDigits :: "int \<Rightarrow> string" where
  "decimalDigits n =
     (if n < 10 then [goDigit (nat n)] else decimalDigits (n div 10) @ [goDigit (nat (n mod 10))])"
  by auto

termination by (relation "measure nat") auto

declare bitLength.simps [simp del] decimalDigits.simps [simp del]

definition digitsValue :: "string \<Rightarrow> int" where
  "digitsValue ds = foldl (\<lambda>n c. 10 * n + int (goDigitVal c)) 0 ds"

definition roundHalfEven :: "int \<times> int \<Rightarrow> int" where
  "roundHalfEven = (\<lambda>(n, d).
     let q = n div d; r = n mod d
     in if d < 2 * r \<or> (2 * r = d \<and> odd q) then q + 1 else q)"

text \<open>
  The \<^verbatim>\<open>float64\<close> nearest to a fraction as mantissa and binary exponent,
  \<open>None\<close> for an overflow. The mantissa has 53 bits unless the exponent is the least one.
\<close>

definition minFloatExp :: int where "minFloatExp = - 1074"

definition maxFloatExp :: int where "maxFloatExp = 971"

definition nearestFloat :: "int \<times> int \<Rightarrow> (int \<times> int) option" where
  "nearestFloat = (\<lambda>(n, d).
     if n = 0 then Some (0, minFloatExp)
     else
       let e0 = bitLength n - bitLength d - 53;
           e1 = (case scaleBy 2 (- e0) (n, d) of (a, b) \<Rightarrow> if 2 ^ 53 \<le> a div b then e0 + 1 else e0);
           e2 = max e1 minFloatExp;
           m = roundHalfEven (scaleBy 2 (- e2) (n, d));
           (m', e3) = (if m = 2 ^ 53 then (2 ^ 52, e2 + 1) else (m, e2))
       in if maxFloatExp < e3 then None else Some (m', e3))"

text \<open>The float of digits and a decimal exponent.\<close>

definition floatOfDecimal :: "int \<Rightarrow> int \<Rightarrow> (int \<times> int) option" where
  "floatOfDecimal digits exp10 = nearestFloat (scaleBy 10 exp10 (digits, 1))"

section \<open>The shortest decimal\<close>

text \<open>The position of the decimal point: \<open>k\<close> with the value in [10^(k-1), 10^k).\<close>

definition pointPosition :: "int \<times> int \<Rightarrow> int" where
  "pointPosition = (\<lambda>(n, d).
     if d \<le> n then int (length (decimalDigits (n div d)))
     else let j = length (decimalDigits (d div n))
          in if n * 10 ^ (j - 1) = d then 2 - int j else 1 - int j)"

text \<open>
  The decimal with \<open>p\<close> digits for a float, if rounding down or up to it stays with the
  float: the digits and the decimal exponent.
\<close>

definition decimalWith :: "int \<times> int \<Rightarrow> nat \<Rightarrow> (int \<times> int) option" where
  "decimalWith f p =
     (let v = scaleBy 2 (snd f) (fst f, 1);
          exp10 = pointPosition v - int p;
          (n, d) = scaleBy 10 (- exp10) v;
          t = n div d;
          down = floatOfDecimal t exp10 = Some f;
          up = floatOfDecimal (t + 1) exp10 = Some f
      in if down \<and> up then Some (roundHalfEven (n, d), exp10)
         else if down then Some (t, exp10)
         else if up then Some (t + 1, exp10)
         else None)"

fun firstDecimal :: "int \<times> int \<Rightarrow> nat list \<Rightarrow> int \<times> int" where
  "firstDecimal f [] = (0, 0)"
| "firstDecimal f (p # ps) = (case decimalWith f p of Some r \<Rightarrow> r | None \<Rightarrow> firstDecimal f ps)"

text \<open>Seventeen digits are always enough for a \<^verbatim>\<open>float64\<close>.\<close>

definition shortestDecimal :: "int \<times> int \<Rightarrow> int \<times> int" where
  "shortestDecimal f = firstDecimal f [1..<18]"

section \<open>The text\<close>

definition dropTrailingZeros :: "string \<Rightarrow> string" where
  "dropTrailingZeros s = rev (dropWhile (\<lambda>c. c = CHR ''0'') (rev s))"

text \<open>
  The layout of \<^verbatim>\<open>encoding/json\<close>: plain between 1e-6 and 1e21, with an exponent
  outside. \<open>ds\<close> are the digits and \<open>dp\<close> is the position of the point.
\<close>

definition layoutFloat :: "string \<Rightarrow> int \<Rightarrow> string" where
  "layoutFloat ds dp =
     (if dp - 1 < -6 \<or> 21 \<le> dp - 1
      then take 1 ds @ (if length ds = 1 then [] else ''.'' @ drop 1 ds)
             @ (if dp - 1 < 0 then ''e-'' @ decimalDigits (1 - dp) else ''e+'' @ decimalDigits (dp - 1))
      else if dp \<le> 0 then ''0.'' @ replicate (nat (- dp)) (CHR ''0'') @ ds
      else if int (length ds) \<le> dp then ds @ replicate (nat dp - length ds) (CHR ''0'')
      else take (nat dp) ds @ ''.'' @ drop (nat dp) ds)"

definition floatText :: "bool \<Rightarrow> int \<times> int \<Rightarrow> string" where
  "floatText negative f =
     (let ds = decimalDigits (fst (shortestDecimal f));
          body = (if fst f = 0 then ''0''
                  else layoutFloat (dropTrailingZeros ds) (int (length ds) + snd (shortestDecimal f)))
      in if negative then CHR ''-'' # body else body)"

text \<open>Sign, digits and decimal exponent of a literal.\<close>

definition litParts :: "string \<Rightarrow> bool \<times> string \<times> int" where
  "litParts l =
     (let negative = (case l of [] \<Rightarrow> False | c # _ \<Rightarrow> c = CHR ''-'');
          s = (if negative then drop 1 l else l);
          ip = takeWhile goIsDigit s;
          r1 = dropWhile goIsDigit s;
          fp = (case r1 of [] \<Rightarrow> [] | c # r \<Rightarrow> if c = CHR ''.'' then takeWhile goIsDigit r else []);
          r2 = (case r1 of [] \<Rightarrow> [] | c # r \<Rightarrow> if c = CHR ''.'' then dropWhile goIsDigit r else r1);
          ex = (case r2 of [] \<Rightarrow> 0
                | c # r \<Rightarrow> (case r of [] \<Rightarrow> 0
                   | g # r' \<Rightarrow> if g = CHR ''-'' then - digitsValue r'
                              else if g = CHR ''+'' then digitsValue r' else digitsValue r))
      in (negative, ip @ fp, ex - int (length fp)))"

text \<open>What \<^verbatim>\<open>Marshal\<close> prints for a number that \<^verbatim>\<open>Unmarshal\<close> has read.\<close>

definition jsonFloat :: "string \<Rightarrow> string option" where
  "jsonFloat l =
     (case litParts l of (negative, ds, exp10) \<Rightarrow>
        map_option (floatText negative) (floatOfDecimal (digitsValue ds) exp10))"

section \<open>Values of type any\<close>

text \<open>
  A document as it is after \<^verbatim>\<open>Unmarshal\<close> into an \<^verbatim>\<open>any\<close> and
  as \<^verbatim>\<open>Marshal\<close> would print it: numbers are floats, objects are maps.
\<close>

fun jcanon :: "json \<Rightarrow> json option" and jcanons :: "json list \<Rightarrow> json list option"
  and jcanonFields :: "(string \<times> json) list \<Rightarrow> (string \<times> json) list option" where
  "jcanon (JNum l) = map_option JNum (jsonFloat l)"
| "jcanon (JArr xs) = map_option JArr (jcanons xs)"
| "jcanon (JObj kvs) = map_option (\<lambda>es. JObj (canonMap es)) (jcanonFields kvs)"
| "jcanon v = Some v"
| "jcanons [] = Some []"
| "jcanons (x # xs) =
     (case jcanon x of None \<Rightarrow> None | Some y \<Rightarrow> map_option (\<lambda>ys. y # ys) (jcanons xs))"
| "jcanonFields [] = Some []"
| "jcanonFields (kv # kvs) =
     (case jcanon (snd kv) of None \<Rightarrow> None
      | Some y \<Rightarrow> map_option (\<lambda>es. (fst kv, y) # es) (jcanonFields kvs))"

definition decAny :: "json decoder" where
  "decAny = jcanon"

definition unmarshalAny :: "string \<Rightarrow> json option" where
  "unmarshalAny s = (case jsonUnmarshal s of None \<Rightarrow> None | Some v \<Rightarrow> jcanon v)"

end
