(* ===== verification/Scanners.thy ===== *)
theory Scanners
  imports OwnedRemote GoFloat
begin

text \<open>
  Scanner registrations: \<^verbatim>\<open>internal/harborclient/scanners.go\<close> and the
  reconciler of \<^verbatim>\<open>internal/controller/scannerregistration_controller.go\<close>. Their
  ids are texts; the access credential, from the spec or a Secret, is remembered as a hash, and one
  registration may be made the default.
\<close>

section \<open>The Harbor client\<close>

record hScanner =
  hscUUID :: string
  hscName :: string
  hscDescription :: string
  hscURL :: string
  hscDisabled :: bool
  hscIsDefault :: bool
  hscAuth :: string
  hscAccessCredential :: string
  hscSkipCertVerify :: bool
  hscUseInternalAddr :: bool
  hscCreateTime :: string
  hscUpdateTime :: string
  hscAdapter :: string
  hscVendor :: string
  hscVersion :: string
  hscHealth :: string
  hscCapabilities :: "(string \<times> json) list option"

record scannerReq =
  scrName :: string
  scrDescription :: string
  scrURL :: string
  scrAuth :: string
  scrAccessCredential :: string
  scrSkipCertVerify :: bool
  scrUseInternalAddr :: bool
  scrDisabled :: bool

definition decScanner :: "hScanner decoder" where
  "decScanner = decObj (\<lambda>kvs.
     do { u \<leftarrow> decStr (jget ''uuid'' kvs);
          nm \<leftarrow> decStr (jget ''name'' kvs);
          d \<leftarrow> decStr (jget ''description'' kvs);
          l \<leftarrow> decStr (jget ''url'' kvs);
          dis \<leftarrow> decBool (jget ''disabled'' kvs);
          def \<leftarrow> decBool (jget ''is_default'' kvs);
          a \<leftarrow> decStr (jget ''auth'' kvs);
          ac \<leftarrow> decStr (jget ''access_credential'' kvs);
          sk \<leftarrow> decBool (jget ''skip_certVerify'' kvs);
          ui \<leftarrow> decBool (jget ''use_internal_addr'' kvs);
          ct \<leftarrow> decStr (jget ''create_time'' kvs);
          ut \<leftarrow> decStr (jget ''update_time'' kvs);
          ad \<leftarrow> decStr (jget ''adapter'' kvs);
          ve \<leftarrow> decStr (jget ''vendor'' kvs);
          vs \<leftarrow> decStr (jget ''version'' kvs);
          h \<leftarrow> decStr (jget ''health'' kvs);
          cp \<leftarrow> decMap decAny (jget ''capabilities'' kvs);
          Some \<lparr>hscUUID = u, hscName = nm, hscDescription = d, hscURL = l, hscDisabled = dis, hscIsDefault = def,
                hscAuth = a, hscAccessCredential = ac, hscSkipCertVerify = sk, hscUseInternalAddr = ui,
                hscCreateTime = ct, hscUpdateTime = ut, hscAdapter = ad, hscVendor = ve, hscVersion = vs,
                hscHealth = h, hscCapabilities = cp\<rparr> })"

definition scannerReqFields :: "scannerReq \<Rightarrow> (string \<times> json) list" where
  "scannerReqFields r =
     omitStr ''name'' (scrName r) @ omitStr ''description'' (scrDescription r) @ omitStr ''url'' (scrURL r) @
     omitStr ''auth'' (scrAuth r) @ omitStr ''access_credential'' (scrAccessCredential r) @
     omitBool ''skip_certVerify'' (scrSkipCertVerify r) @ omitBool ''use_internal_addr'' (scrUseInternalAddr r) @
     omitBool ''disabled'' (scrDisabled r)"

definition scannersURL :: string where
  "scannersURL = ''/api/v2.0/scanners''"

definition scannerURL :: "string \<Rightarrow> string" where
  "scannerURL n = ''/api/v2.0/scanners/'' @ n"

definition ListScanners :: "'e services \<Rightarrow> harborClient \<Rightarrow> ('o, 'e, gerror + hScanner list) go" where
  "ListScanners S c = getPaged S c decScanner scannersURL []"

definition GetScanner :: "'e services \<Rightarrow> harborClient \<Rightarrow> string \<Rightarrow> ('o, 'e, gerror + hScanner) go" where
  "GetScanner S c n = clientGet S c (scannerURL n) decScanner"

definition CreateScanner :: "'e services \<Rightarrow> harborClient \<Rightarrow> scannerReq \<Rightarrow> ('o, 'e, gerror + string) go" where
  "CreateScanner S c req = createWithStringLocationID S c scannersURL (JObj (scannerReqFields req))"

definition UpdateScanner :: "'e services \<Rightarrow> harborClient \<Rightarrow> string \<Rightarrow> scannerReq \<Rightarrow> ('o, 'e, gerror option) go" where
  "UpdateScanner S c n req = clientPut S c (scannerURL n) (JObj (scannerReqFields req))"

definition DeleteScanner :: "'e services \<Rightarrow> harborClient \<Rightarrow> string \<Rightarrow> ('o, 'e, gerror option) go" where
  "DeleteScanner S c n = deleteIgnoringNotFound S c (scannerURL n) []"

definition SetDefaultScanner :: "'e services \<Rightarrow> harborClient \<Rightarrow> string \<Rightarrow> bool \<Rightarrow> ('o, 'e, gerror option) go" where
  "SetDefaultScanner S c n isDefault =
     clientPatch S c (scannerURL n) (JObj [(''is_default'', JBool isDefault)]) (None :: unit decoder option)"

lemma emits_ScannerCalls:
  "clientCalls c M C \<Longrightarrow> (\<And>relURL. M ''GET'' relURL) \<Longrightarrow> emits C (ListScanners S c)"
  "clientCalls c M C \<Longrightarrow> M ''GET'' (scannerURL n) \<Longrightarrow> emits C (GetScanner S c n)"
  "clientCalls c M C \<Longrightarrow> M ''PUT'' (scannerURL n) \<Longrightarrow> emits C (UpdateScanner S c n req)"
  "clientCalls c M C \<Longrightarrow> M ''PATCH'' (scannerURL n) \<Longrightarrow> emits C (SetDefaultScanner S c n b)"
  "clientCalls c M C \<Longrightarrow> M ''POST'' scannersURL \<Longrightarrow> emits C (CreateScanner S c req)"
  "clientCalls c M C \<Longrightarrow> M ''DELETE'' (scannerURL n) \<Longrightarrow> emits C (DeleteScanner S c n)"
  unfolding ListScanners_def GetScanner_def CreateScanner_def UpdateScanner_def SetDefaultScanner_def DeleteScanner_def
  by (intro client_emits; (assumption | simp))+

lemma untouched_scanner_calls [triple_intros]:
  "untouched (ListScanners S hc)" "untouched (GetScanner S hc n)"
  "untouched (UpdateScanner S hc n req)" "untouched (SetDefaultScanner S hc n b)"
  "untouched (CreateScanner S hc req)" "untouched (DeleteScanner S hc n)"
  unfolding ListScanners_def GetScanner_def CreateScanner_def UpdateScanner_def SetDefaultScanner_def DeleteScanner_def
  by (intro triple_intros)+

section \<open>The reconciler\<close>

definition scannerKind :: "('e, scannerRegistration) kclient \<Rightarrow>
    ('e, scannerRegistrationSpec, scannerRegistrationStatus) kind" where
  "scannerKind c = \<lparr>kdKind = KScannerRegistration, kdSanitize = sanitizeRef, kdClient = c\<rparr>"

definition setScannerID :: "string \<Rightarrow> scannerRegistration \<Rightarrow> scannerRegistration" where
  "setScannerID n cr = cr\<lparr>objStatus := (objStatus cr)\<lparr>harborScannerID := n\<rparr>\<rparr>"

definition setScannerHash :: "string \<Rightarrow> scannerRegistration \<Rightarrow> scannerRegistration" where
  "setScannerHash h cr = cr\<lparr>objStatus := (objStatus cr)\<lparr>scnCredentialHash := h\<rparr>\<rparr>"

definition deleteScannerFn :: "'e services \<Rightarrow> harborClient \<Rightarrow> (scannerRegistration, 'e, gerror option) go" where
  "deleteScannerFn S hc =
     do { cr \<leftarrow> getObj;
          if harborScannerID (objStatus cr) = [] then State_Monad.return None
          else DeleteScanner S hc (harborScannerID (objStatus cr)) }"

definition resolveScannerCredential :: "'e services \<Rightarrow> 'e operatorOptions \<Rightarrow> scannerRegistration \<Rightarrow>
    (scannerRegistration, 'e, gerror + string \<times> string) go" where
  "resolveScannerCredential S opts cr =
     do { r \<leftarrow> (case scnAccessCredentialSecretRef (objSpec cr) of
                 None \<Rightarrow> State_Monad.return (Inr (scnAccessCredential (objSpec cr)))
               | Some ref \<Rightarrow>
                   if scnAccessCredential (objSpec cr) \<noteq> []
                   then State_Monad.return (Inl (ErrMsg
                     ''spec.accessCredential and spec.accessCredentialSecretRef are mutually exclusive''))
                   else do { v \<leftarrow> readSecretValue S opts ref (metaNamespace (objMeta cr)) ''accessCredential'';
                             State_Monad.return
                               (case v of
                                  Inl err \<Rightarrow> Inl (ErrWrap ''failed to read accessCredentialSecretRef: '' err)
                                | Inr x \<Rightarrow> Inr x) });
          State_Monad.return
            (case r of
               Inl err \<Rightarrow> Inl err
             | Inr credential \<Rightarrow> Inr (if credential = [] then ([], []) else (credential, hashParts [credential]))) }"

definition buildScannerReq :: "scannerRegistration \<Rightarrow> string \<Rightarrow> scannerReq" where
  "buildScannerReq cr credential =
     \<lparr>scrName = metaName (objMeta cr), scrDescription = scnDescription (objSpec cr), scrURL = scnURL (objSpec cr),
      scrAuth = scnAuth (objSpec cr), scrAccessCredential = credential,
      scrSkipCertVerify = scnSkipCertVerify (objSpec cr), scrUseInternalAddr = scnUseInternalAddr (objSpec cr),
      scrDisabled = scnDisabled (objSpec cr)\<rparr>"

definition scannerNeedsUpdate :: "scannerReq \<Rightarrow> hScanner option \<Rightarrow> bool" where
  "scannerNeedsUpdate desired current =
     (case current of None \<Rightarrow> True
      | Some c \<Rightarrow> scrName desired \<noteq> hscName c \<or> scrDescription desired \<noteq> hscDescription c \<or>
          scrURL desired \<noteq> hscURL c \<or> scrAuth desired \<noteq> hscAuth c \<or>
          scrSkipCertVerify desired \<noteq> hscSkipCertVerify c \<or>
          scrUseInternalAddr desired \<noteq> hscUseInternalAddr c \<or> scrDisabled desired \<noteq> hscDisabled c)"

definition adoptExistingScanner :: "'e services \<Rightarrow>
    ('e, scannerRegistrationSpec, scannerRegistrationStatus) kind \<Rightarrow> harborClient \<Rightarrow>
    (scannerRegistration, 'e, bool \<times> gerror option) go" where
  "adoptExistingScanner S K hc =
     do { cr \<leftarrow> getObj;
          r \<leftarrow> ListScanners S hc;
          case r of
            Inl err \<Rightarrow> State_Monad.return (False, Some err)
          | Inr regs \<Rightarrow>
              (case find (\<lambda>reg. equalFold (hscName reg) (metaName (objMeta cr))) regs of
                 None \<Rightarrow> State_Monad.return (False, None)
               | Some reg \<Rightarrow>
                   do { _ \<leftarrow> modObj (setScannerID (hscUUID reg));
                        err \<leftarrow> kubeStatusUpdate K;
                        State_Monad.return (True, err) }) }"

definition createScannerPath :: "'e services \<Rightarrow> 'e operatorOptions \<Rightarrow>
    ('e, scannerRegistrationSpec, scannerRegistrationStatus) kind \<Rightarrow> harborClient \<Rightarrow> scannerReq \<Rightarrow> string \<Rightarrow>
    (scannerRegistration, 'e, outcome) go" where
  "createScannerPath S opts K hc req credentialHash =
     do { cr \<leftarrow> getObj;
          case requireCreationAllowed opts (creationPolicy (objSpec cr)) of
            Some err \<Rightarrow> failWith S K err
          | None \<Rightarrow>
              do { r \<leftarrow> CreateScanner S hc req;
                   case r of
                     Inl err \<Rightarrow> failWith S K err
                   | Inr n \<Rightarrow>
                       do { _ \<leftarrow> modObj (setScannerID n);
                            _ \<leftarrow> modObj (setScannerHash credentialHash);
                            readyWithDrift S opts K ''Created'' ''Scanner registration created'' } } }"

text \<open>The default is set after an update, with the status change of the update still to be written.\<close>

definition finishScanner :: "'e services \<Rightarrow> 'e operatorOptions \<Rightarrow>
    ('e, scannerRegistrationSpec, scannerRegistrationStatus) kind \<Rightarrow> harborClient \<Rightarrow> hScanner \<Rightarrow> bool \<Rightarrow>
    (scannerRegistration, 'e, outcome) go" where
  "finishScanner S opts K hc current statusChanged =
     do { cr \<leftarrow> getObj;
          derr \<leftarrow> (if scnDefault (objSpec cr) \<and> \<not> hscIsDefault current
                   then SetDefaultScanner S hc (harborScannerID (objStatus cr)) True
                   else State_Monad.return None);
          case derr of
            Some err \<Rightarrow> failWith S K err
          | None \<Rightarrow> readyIfChanged S opts K statusChanged ''Reconciled'' ''Scanner registration reconciled'' }"

definition updateScannerPath :: "'e services \<Rightarrow> 'e operatorOptions \<Rightarrow>
    ('e, scannerRegistrationSpec, scannerRegistrationStatus) kind \<Rightarrow> harborClient \<Rightarrow> scannerReq \<Rightarrow> string \<Rightarrow>
    (scannerRegistration, 'e, outcome) go" where
  "updateScannerPath S opts K hc req credentialHash =
     do { cr \<leftarrow> getObj;
          r \<leftarrow> GetScanner S hc (harborScannerID (objStatus cr));
          case r of
            Inl err \<Rightarrow>
              (if IsNotFound (Some err)
               then do { generation \<leftarrow> crGeneration;
                         requeueOnRemoteNotFound S K generation (Some (\<lambda>st. st\<lparr>harborScannerID := []\<rparr>))
                           ''Scanner registration not found in Harbor'' }
               else failWith S K err)
          | Inr current \<Rightarrow>
              let newHash = (credentialHash \<noteq> [] \<and> credentialHash \<noteq> scnCredentialHash (objStatus cr)) in
              if scannerNeedsUpdate req (Some current) \<or> newHash
              then do {
                uerr \<leftarrow> UpdateScanner S hc (harborScannerID (objStatus cr)) req;
                case uerr of
                  Some err \<Rightarrow> failWith S K err
                | None \<Rightarrow>
                    if newHash then do { _ \<leftarrow> modObj (setScannerHash credentialHash);
                                         finishScanner S opts K hc current True }
                    else finishScanner S opts K hc current False }
              else finishScanner S opts K hc current False }"

definition scannerBody :: "'e services \<Rightarrow> 'e operatorOptions \<Rightarrow>
    ('e, scannerRegistrationSpec, scannerRegistrationStatus) kind \<Rightarrow> harborClient \<Rightarrow>
    (scannerRegistration, 'e, outcome) go" where
  "scannerBody S opts K hc =
     do { cr \<leftarrow> getObj;
          c \<leftarrow> resolveScannerCredential S opts cr;
          case c of
            Inl err \<Rightarrow> failWith S K err
          | Inr (credential, credentialHash) \<Rightarrow>
              let req = buildScannerReq cr credential in
              do { (adopted, aerr) \<leftarrow>
                     (if harborScannerID (objStatus cr) = [] \<and> allowsAdoption opts (creationPolicy (objSpec cr))
                      then adoptExistingScanner S K hc
                      else State_Monad.return (False, None));
                   case aerr of
                     Some err \<Rightarrow> failWith S K err
                   | None \<Rightarrow>
                       if adopted then State_Monad.return (emptyResult\<lparr>requeue := True\<rparr>, None)
                       else if harborScannerID (objStatus cr) = []
                       then createScannerPath S opts K hc req credentialHash
                       else updateScannerPath S opts K hc req credentialHash } }"

definition reconcileScannerRegistration :: "'e services \<Rightarrow> 'e operatorOptions \<Rightarrow>
    ('e, scannerRegistration) kclient \<Rightarrow> nsName \<Rightarrow> (scannerRegistration, 'e, outcome) go" where
  "reconcileScannerRegistration S opts c =
     harborBacked S opts (scannerKind c) True (Some (deleteScannerFn S)) (scannerBody S opts (scannerKind c))"

section \<open>The contract of the frame\<close>

lemma quietly_scannerCredential: "quietly (resolveScannerCredential S opts cr)"
  unfolding resolveScannerCredential_def by (intro emits_intros)

lemma untouched_scannerCredential [triple_intros]: "untouched (resolveScannerCredential S opts cr)"
  unfolding resolveScannerCredential_def by (intro triple_intros)

lemma guards_scannerCredential [guard_intros]:
  "admitsLocal C \<Longrightarrow> guards P C (resolveScannerCredential S opts cr)"
  by (rule guards_plain [OF untouched_scannerCredential]) (erule admitsLocal_quiet, rule quietly_scannerCredential)

lemma scannerBody_events: "emits bodyEvent (scannerBody S opts K hc)"
  unfolding scannerBody_def adoptExistingScanner_def createScannerPath_def updateScannerPath_def finishScanner_def
  by (intro emits_intros body_quiet quietly_body [OF quietly_scannerCredential]
      quietly_body [OF quietly_readyIfChanged] emits_ScannerCalls(1-5) [OF clientCalls_body]) simp_all

lemma deleteScanner_events: "emits (\<lambda>ev. \<not> dropsFinalizer ev) (deleteScannerFn S hc)"
  unfolding deleteScannerFn_def by (intro emits_intros emits_ScannerCalls(6) [OF clientCalls_noDrop]) simp

abbreviation owesScanner :: "string \<Rightarrow> scannerRegistration \<Rightarrow> bool" where
  "owesScanner n \<equiv> owesRemote harborScannerID [] n"

lemma deleteScanner_gone:
  "triple (\<lambda>s. owesScanner n (stObj s)) (deleteScannerFn S hc)
     (\<lambda>r s. r = None \<longrightarrow> list_ex (remoteGone (scannerURL n)) (stTrace s))"
  unfolding deleteScannerFn_def DeleteScanner_def by (rule delete_by_id_plain) (rule owesRemote_ident)

lemmas scanner_notPost = emits_ScannerCalls(1-4,6) [OF clientCalls_notPost]

lemma guards_scanner_calls [guard_intros]:
  "guards P (\<lambda>ev. \<not> isPost ev) (ListScanners S hc)"
  "guards P (\<lambda>ev. \<not> isPost ev) (GetScanner S hc n)"
  "guards P (\<lambda>ev. \<not> isPost ev) (UpdateScanner S hc n req)"
  "guards P (\<lambda>ev. \<not> isPost ev) (SetDefaultScanner S hc n b)"
  by (rule guards_plain, rule untouched_scanner_calls, rule scanner_notPost, simp)+

lemma deleteScanner_notPost: "emits (\<lambda>ev. \<not> isPost ev) (deleteScannerFn S hc)"
  unfolding deleteScannerFn_def by (intro emits_intros scanner_notPost) simp

lemma scanner_body_guarded:
  assumes "stays K (mayNotCreate opts)"
  shows "guards (mayNotCreate opts) (\<lambda>ev. \<not> isPost ev) (scannerBody S opts K hc)"
proof -
  have no: "guards (mayNotCreate opts) (\<lambda>ev. \<not> isPost ev) (createScannerPath S opts K hc req h)" for req h
    unfolding createScannerPath_def
    by (rule guards_getObj, erule mayNotCreateE) (simp add: guards_failWith [OF assms])
  show ?thesis
    unfolding scannerBody_def adoptExistingScanner_def updateScannerPath_def finishScanner_def
    by (intro guard_intros no assms) (auto simp: mayNotCreate_def setScannerID_def setScannerHash_def)
qed

lemma deleteScanner_only:
  "triple (objTrace (hasRemote harborScannerID n) (deletesOnly (scannerURL n))) (deleteScannerFn S hc)
     (\<lambda>_ s. list_all (deletesOnly (scannerURL n)) (stTrace s))"
  unfolding deleteScannerFn_def DeleteScanner_def
  by (rule delete_by_id_only [where relURL = scannerURL])
    (auto intro!: emits_intros emits_delete_own dest: hasRemote_ident)

interpretation scanner: harbor_backed S opts "scannerKind c" True "Some (deleteScannerFn S)"
    "scannerBody S opts (scannerKind c)" for S opts c
  by unfold_locales (auto intro: scannerBody_events deleteScanner_events)

interpretation owned_scanner: owned_remote S opts "scannerKind c" True "Some (deleteScannerFn S)"
    "scannerBody S opts (scannerKind c)" "owesScanner n" "remoteGone (scannerURL n)" "deleteScannerFn S"
    for S opts c n
  by unfold_locales (auto intro: deleteScanner_gone dest: owesRemoteD)

interpretation guarded_scanner: guarded_body S opts "scannerKind c" True "Some (deleteScannerFn S)"
    "scannerBody S opts (scannerKind c)" "mayNotCreate opts" "\<lambda>ev. \<not> isPost ev" for S opts c
  by unfold_locales (auto intro!: guards_post [OF scanner_body_guarded] emits_post [OF deleteScanner_notPost])

interpretation own_scanner: guarded_body S opts "scannerKind c" True "Some (deleteScannerFn S)"
    "scannerBody S opts (scannerKind c)" "hasRemote harborScannerID n" "deletesOnly (scannerURL n)" for S opts c n
  by unfold_locales (auto intro!: emits_post bodyEvent_deletesOnly scannerBody_events deleteScanner_only)

end
