(* ===== verification/Quotas.thy ===== *)
theory Quotas
  imports OwnedRemote ReferenceRules GoFloat
begin

text \<open>
  Quotas: the calls of \<^verbatim>\<open>internal/harborclient/quotas.go\<close> and the reconciler of
  \<^verbatim>\<open>internal/controller/quota_controller.go\<close>. Harbor makes a quota for every
  project; the operator only looks its id up and updates its limits.
\<close>

section \<open>The Harbor client\<close>

record hQuota =
  hqID :: int
  hqRef :: "(string \<times> json) list option"
  hqHard :: "(string \<times> int) list option"
  hqUsed :: "(string \<times> int) list option"
  hqCreationTime :: string
  hqUpdateTime :: string

definition decQuota :: "hQuota decoder" where
  "decQuota = decObj (\<lambda>kvs.
     do { n \<leftarrow> decInt (jget ''id'' kvs);
          r \<leftarrow> decMap decAny (jget ''ref'' kvs);
          h \<leftarrow> decMap decInt (jget ''hard'' kvs);
          u \<leftarrow> decMap decInt (jget ''used'' kvs);
          ct \<leftarrow> decStr (jget ''creation_time'' kvs);
          ut \<leftarrow> decStr (jget ''update_time'' kvs);
          Some \<lparr>hqID = n, hqRef = r, hqHard = h, hqUsed = u, hqCreationTime = ct, hqUpdateTime = ut\<rparr> })"

definition quotasURL :: string where
  "quotasURL = ''/api/v2.0/quotas''"

definition quotaURL :: "int \<Rightarrow> string" where
  "quotaURL n = ''/api/v2.0/quotas/'' @ goItoa n"

definition ListQuotas :: "'e services \<Rightarrow> harborClient \<Rightarrow> string \<Rightarrow> string \<Rightarrow> ('o, 'e, gerror + hQuota list) go" where
  "ListQuotas S c reference referenceID =
     (let v1 = (if reference \<noteq> [] then valuesSet ''reference'' reference [] else []);
          v2 = (if referenceID \<noteq> [] then valuesSet ''reference_id'' referenceID v1 else v1)
      in getPaged S c decQuota quotasURL v2)"

definition GetQuota :: "'e services \<Rightarrow> harborClient \<Rightarrow> int \<Rightarrow> ('o, 'e, gerror + hQuota) go" where
  "GetQuota S c n = clientGet S c (quotaURL n) decQuota"

definition quotaUpdateFields :: "(string \<times> int) list option \<Rightarrow> (string \<times> json) list" where
  "quotaUpdateFields hard = omitMap ''hard'' jInt hard"

definition UpdateQuota :: "'e services \<Rightarrow> harborClient \<Rightarrow> int \<Rightarrow> (string \<times> int) list option \<Rightarrow>
    ('o, 'e, gerror option) go" where
  "UpdateQuota S c n hard = clientPut S c (quotaURL n) (JObj (quotaUpdateFields hard))"

lemma emits_QuotaCalls:
  "clientCalls c M C \<Longrightarrow> (\<And>relURL. M ''GET'' relURL) \<Longrightarrow> emits C (ListQuotas S c r i)"
  "clientCalls c M C \<Longrightarrow> M ''GET'' (quotaURL n) \<Longrightarrow> emits C (GetQuota S c n)"
  "clientCalls c M C \<Longrightarrow> M ''PUT'' (quotaURL n) \<Longrightarrow> emits C (UpdateQuota S c n hard)"
  unfolding ListQuotas_def GetQuota_def UpdateQuota_def Let_def
  by (intro client_emits; (assumption | simp))+

section \<open>The reconciler\<close>

definition quotaKind :: "('e, quota) kclient \<Rightarrow> ('e, quotaSpec, quotaStatus) kind" where
  "quotaKind c = \<lparr>kdKind = KQuota, kdSanitize = sanitizeRef, kdClient = c\<rparr>"

definition setQuotaID :: "int \<Rightarrow> quota \<Rightarrow> quota" where
  "setQuotaID n cr = cr\<lparr>objStatus := (objStatus cr)\<lparr>harborQuotaID := n\<rparr>\<rparr>"

definition findQuotaID :: "'e services \<Rightarrow> harborClient \<Rightarrow> int \<Rightarrow> ('o, 'e, gerror + int) go" where
  "findQuotaID S hc projectID =
     do { r \<leftarrow> ListQuotas S hc ''project'' (goItoa projectID);
          State_Monad.return
            (case r of
               Inl err \<Rightarrow> Inl err
             | Inr quotas \<Rightarrow>
                 (case quotas of
                    [] \<Rightarrow> Inl (ErrMsg (''no quota found for project '' @ goItoa projectID))
                  | q # qs \<Rightarrow> Inr (hqID q))) }"

text \<open>\<^verbatim>\<open>reflect.DeepEqual\<close> of two maps; a nil map differs from an empty one.\<close>

definition quotaNeedsUpdate :: "(string \<times> int) list option \<Rightarrow> hQuota option \<Rightarrow> bool" where
  "quotaNeedsUpdate desired current =
     (case current of None \<Rightarrow> True
      | Some q \<Rightarrow> (case desired of None \<Rightarrow> False | Some hard \<Rightarrow> Some (canonMap hard) \<noteq> hqHard q))"

definition updateQuotaPath :: "'e services \<Rightarrow> 'e operatorOptions \<Rightarrow> ('e, quotaSpec, quotaStatus) kind \<Rightarrow>
    harborClient \<Rightarrow> (quota, 'e, outcome) go" where
  "updateQuotaPath S opts K hc =
     do { cr \<leftarrow> getObj;
          r \<leftarrow> GetQuota S hc (harborQuotaID (objStatus cr));
          case r of
            Inl err \<Rightarrow>
              (if IsNotFound (Some err)
               then do { generation \<leftarrow> crGeneration;
                         requeueOnRemoteNotFound S K generation (Some (\<lambda>st. st\<lparr>harborQuotaID := 0\<rparr>))
                           ''Quota not found in Harbor'' }
               else failWith S K err)
          | Inr current \<Rightarrow>
              do { uerr \<leftarrow> (if quotaNeedsUpdate (quoHard (objSpec cr)) (Some current)
                           then UpdateQuota S hc (harborQuotaID (objStatus cr)) (quoHard (objSpec cr))
                           else State_Monad.return None);
                   case uerr of
                     Some err \<Rightarrow> failWith S K err
                   | None \<Rightarrow> readyWithDrift S opts K ''Reconciled'' ''Quota reconciled'' } }"

definition quotaBody :: "'e services \<Rightarrow> 'e operatorOptions \<Rightarrow> ('e, quotaSpec, quotaStatus) kind \<Rightarrow>
    harborClient \<Rightarrow> (quota, 'e, outcome) go" where
  "quotaBody S opts K hc =
     do { cr \<leftarrow> getObj;
          p \<leftarrow> resolveProject S opts (metaNamespace (objMeta cr)) (quoProjectRef (objSpec cr));
          case p of
            Inl err \<Rightarrow> failWith S K err
          | Inr (key, projectID) \<Rightarrow>
              if projectID = 0 then failWith S K (ErrMsg ''unable to resolve project ID for quota'')
              else if harborQuotaID (objStatus cr) \<noteq> 0 then updateQuotaPath S opts K hc
              else do {
                q \<leftarrow> findQuotaID S hc projectID;
                case q of
                  Inl err \<Rightarrow> failWith S K err
                | Inr quotaID \<Rightarrow>
                    do { _ \<leftarrow> modObj (setQuotaID quotaID);
                         err \<leftarrow> kubeStatusUpdate K;
                         if err \<noteq> None then finish err else updateQuotaPath S opts K hc } } }"

definition reconcileQuota :: "'e services \<Rightarrow> 'e operatorOptions \<Rightarrow> ('e, quota) kclient \<Rightarrow> nsName \<Rightarrow>
    (quota, 'e, outcome) go" where
  "reconcileQuota S opts c = harborBacked S opts (quotaKind c) False None (quotaBody S opts (quotaKind c))"

section \<open>Facts\<close>

lemmas quota_call_events = emits_QuotaCalls [OF clientCalls_body]

lemma quotaBody_events: "emits bodyEvent (quotaBody S opts K hc)"
  unfolding quotaBody_def findQuotaID_def updateQuotaPath_def
  by (intro emits_intros body_quiet body_resolve quota_call_events) simp_all

interpretation quota: harbor_backed S opts "quotaKind c" False None "quotaBody S opts (quotaKind c)" for S opts c
  by unfold_locales (auto intro: quotaBody_events)

abbreviation readsOrPuts :: "event \<Rightarrow> bool" where
  "readsOrPuts \<equiv> methodsIn [''GET'', ''PUT'']"

lemma quotaBody_methods: "emits readsOrPuts (quotaBody S opts K hc)"
  unfolding quotaBody_def findQuotaID_def updateQuotaPath_def
  by (intro emits_intros methodsIn_quiet [OF quietly_resolve(2)] methodsIn_steps
      emits_QuotaCalls [OF clientCalls_methodsIn]) simp_all

lemma quota_methods: "emits readsOrPuts (reconcileQuota S opts c key)"
  unfolding reconcileQuota_def by (rule emits_harborBacked) (simp_all add: quotaBody_methods)

end
