(* ===== verification/AnyValues.thy ===== *)
theory AnyValues
  imports GoFloat World
begin

text \<open>
  Go values of type \<^verbatim>\<open>any\<close> as the policies hold them: read from the raw JSON of
  a spec, printed and read again to bring the two sides of a comparison into one form
  (\<^verbatim>\<open>normalizeAny\<close>), compared by \<^verbatim>\<open>reflect.DeepEqual\<close>;
  and slices of which it matters whether they are nil.
\<close>

section \<open>Reading raw JSON\<close>

text \<open>
  Unmarshalling the entries of a map one by one; entries without text are skipped. Go visits a map
  in no fixed order: the list stands for any order, and only the choice of the reported error
  depends on it.
\<close>

fun readJSONMap :: "string \<Rightarrow> (string \<times> string) list \<Rightarrow> gerror + (string \<times> json) list" where
  "readJSONMap what [] = Inr []"
| "readJSONMap what ((key, raw) # rest) =
     (if raw = [] then readJSONMap what rest
      else case unmarshalAny raw of
             None \<Rightarrow> Inl (ErrWrap (what @ key @ '': '') JSONError)
           | Some v \<Rightarrow> (case readJSONMap what rest of
                          Inl err \<Rightarrow> Inl err | Inr out \<Rightarrow> Inr ((key, v) # out)))"

text \<open>The whole map; a nil map stays nil.\<close>

definition jsonMapToAny :: "string \<Rightarrow> (string \<times> string) list option \<Rightarrow>
    gerror + (string \<times> json) list option" where
  "jsonMapToAny what m =
     (case m of
        None \<Rightarrow> Inr None
      | Some kvs \<Rightarrow> (case readJSONMap what kvs of Inl err \<Rightarrow> Inl err | Inr out \<Rightarrow> Inr (Some (canonMap out))))"

section \<open>Printing and reading again\<close>

definition normalizeAny :: "json \<Rightarrow> json" where
  "normalizeAny v = (case unmarshalAny (jsonPrint v) of None \<Rightarrow> v | Some w \<Rightarrow> w)"

definition normalizeAnyMap :: "(string \<times> json) list option \<Rightarrow> (string \<times> json) list option" where
  "normalizeAnyMap = map_option (map (\<lambda>(k, v). (k, normalizeAny v)))"

section \<open>Comparison\<close>

text \<open>
  \<^verbatim>\<open>reflect.DeepEqual\<close> on two values read by
  \<^verbatim>\<open>Unmarshal\<close>: the two zeros of \<^verbatim>\<open>float64\<close> are equal.
\<close>

fun plusZero :: "json \<Rightarrow> json" where
  "plusZero (JNum l) = (if l = ''-0'' then JNum ''0'' else JNum l)"
| "plusZero (JArr xs) = JArr (map plusZero xs)"
| "plusZero (JObj kvs) = JObj (map (\<lambda>(k, v). (k, plusZero v)) kvs)"
| "plusZero v = v"

definition plusZeroMap :: "(string \<times> json) list option \<Rightarrow> (string \<times> json) list option" where
  "plusZeroMap = map_option (map (\<lambda>(k, v). (k, plusZero v)))"

section \<open>Slices\<close>

text \<open>A slice as \<^verbatim>\<open>encoding/json\<close> decodes it: nil without a value, else the elements.\<close>

definition decSlice :: "'a decoder \<Rightarrow> 'a list option decoder" where
  "decSlice d j = (case j of JNull \<Rightarrow> Some None | JArr xs \<Rightarrow> map_option Some (decAll d xs) | _ \<Rightarrow> None)"

definition sliceElems :: "'a list option \<Rightarrow> 'a list" where
  "sliceElems s = (case s of None \<Rightarrow> [] | Some xs \<Rightarrow> xs)"

definition omitSlice :: "string \<Rightarrow> ('a \<Rightarrow> json) \<Rightarrow> 'a list option \<Rightarrow> (string \<times> json) list" where
  "omitSlice name enc s = omitList name enc (sliceElems s)"

definition encSlice :: "('a \<Rightarrow> json) \<Rightarrow> 'a list option \<Rightarrow> json" where
  "encSlice enc s = (case s of None \<Rightarrow> JNull | Some xs \<Rightarrow> JArr (map enc xs))"

end
