(* ===== verification/Schedules.thy ===== *)
theory Schedules
  imports Singletons AnyValues
begin

text \<open>
  The three schedules of a Harbor instance: garbage collection, purging of the audit log and
  scanning (\<^verbatim>\<open>internal/harborclient/schedules.go\<close> and the controllers
  \<^verbatim>\<open>gc\<close>, \<^verbatim>\<open>purgeaudit\<close> and
  \<^verbatim>\<open>scanallschedule\<close>). The first two never read Harbor's schedule: a hash
  of the spec in the status says what was last sent. The third compares with Harbor's.
\<close>

section \<open>The Harbor client\<close>

record hSchedule =
  hsType :: string
  hsCron :: string
  hsParameters :: "(string \<times> json) list option"

definition decSchedule :: "hSchedule decoder" where
  "decSchedule = decObj (\<lambda>kvs.
     do { s \<leftarrow> decObj (\<lambda>fs. do { t \<leftarrow> decStr (jget ''type'' fs); c \<leftarrow> decStr (jget ''cron'' fs); Some (t, c) })
                (jget ''schedule'' kvs);
          p \<leftarrow> decMap decAny (jget ''parameters'' kvs);
          Some \<lparr>hsType = fst s, hsCron = snd s, hsParameters = p\<rparr> })"

definition encSchedule :: "hSchedule \<Rightarrow> json" where
  "encSchedule s = JObj
     ([(''schedule'', JObj (omitStr ''type'' (hsType s) @ omitStr ''cron'' (hsCron s)))] @
      omitMap ''parameters'' (\<lambda>v. v) (hsParameters s))"

definition gcScheduleURL :: string where
  "gcScheduleURL = ''/api/v2.0/system/gc/schedule''"

definition purgeScheduleURL :: string where
  "purgeScheduleURL = ''/api/v2.0/system/purgeaudit/schedule''"

definition scanAllScheduleURL :: string where
  "scanAllScheduleURL = ''/api/v2.0/system/scanAll/schedule''"

definition GetGCSchedule :: "'e services \<Rightarrow> harborClient \<Rightarrow> ('o, 'e, gerror + hSchedule) go" where
  "GetGCSchedule S c = clientGet S c gcScheduleURL decSchedule"

definition GetPurgeSchedule :: "'e services \<Rightarrow> harborClient \<Rightarrow> ('o, 'e, gerror + hSchedule) go" where
  "GetPurgeSchedule S c = clientGet S c purgeScheduleURL decSchedule"

definition CreateGCSchedule :: "'e services \<Rightarrow> harborClient \<Rightarrow> hSchedule \<Rightarrow> ('o, 'e, gerror option) go" where
  "CreateGCSchedule S c s = clientPost S c gcScheduleURL (encSchedule s)"

definition UpdateGCSchedule :: "'e services \<Rightarrow> harborClient \<Rightarrow> hSchedule \<Rightarrow> ('o, 'e, gerror option) go" where
  "UpdateGCSchedule S c s = clientPut S c gcScheduleURL (encSchedule s)"

definition CreatePurgeSchedule :: "'e services \<Rightarrow> harborClient \<Rightarrow> hSchedule \<Rightarrow> ('o, 'e, gerror option) go" where
  "CreatePurgeSchedule S c s = clientPost S c purgeScheduleURL (encSchedule s)"

definition UpdatePurgeSchedule :: "'e services \<Rightarrow> harborClient \<Rightarrow> hSchedule \<Rightarrow> ('o, 'e, gerror option) go" where
  "UpdatePurgeSchedule S c s = clientPut S c purgeScheduleURL (encSchedule s)"

definition GetScanAllSchedule :: "'e services \<Rightarrow> harborClient \<Rightarrow> ('o, 'e, gerror + hSchedule) go" where
  "GetScanAllSchedule S c = clientGet S c scanAllScheduleURL decSchedule"

definition CreateScanAllSchedule :: "'e services \<Rightarrow> harborClient \<Rightarrow> hSchedule \<Rightarrow> ('o, 'e, gerror option) go" where
  "CreateScanAllSchedule S c s = clientPost S c scanAllScheduleURL (encSchedule s)"

definition UpdateScanAllSchedule :: "'e services \<Rightarrow> harborClient \<Rightarrow> hSchedule \<Rightarrow> ('o, 'e, gerror option) go" where
  "UpdateScanAllSchedule S c s = clientPut S c scanAllScheduleURL (encSchedule s)"

lemma emits_ScheduleCalls:
  "clientCalls c M C \<Longrightarrow> M ''POST'' gcScheduleURL \<Longrightarrow> emits C (CreateGCSchedule S c s)"
  "clientCalls c M C \<Longrightarrow> M ''PUT'' gcScheduleURL \<Longrightarrow> emits C (UpdateGCSchedule S c s)"
  "clientCalls c M C \<Longrightarrow> M ''POST'' purgeScheduleURL \<Longrightarrow> emits C (CreatePurgeSchedule S c s)"
  "clientCalls c M C \<Longrightarrow> M ''PUT'' purgeScheduleURL \<Longrightarrow> emits C (UpdatePurgeSchedule S c s)"
  "clientCalls c M C \<Longrightarrow> M ''GET'' scanAllScheduleURL \<Longrightarrow> emits C (GetScanAllSchedule S c)"
  "clientCalls c M C \<Longrightarrow> M ''POST'' scanAllScheduleURL \<Longrightarrow> emits C (CreateScanAllSchedule S c s)"
  "clientCalls c M C \<Longrightarrow> M ''PUT'' scanAllScheduleURL \<Longrightarrow> emits C (UpdateScanAllSchedule S c s)"
  unfolding CreateGCSchedule_def UpdateGCSchedule_def CreatePurgeSchedule_def UpdatePurgeSchedule_def
    GetScanAllSchedule_def CreateScanAllSchedule_def UpdateScanAllSchedule_def
  by (intro client_emits; (assumption | simp))+

section \<open>Parameters\<close>

definition parameterText :: "(string \<times> rawJSON) list \<Rightarrow> string" where
  "parameterText params =
     goJoin ''&'' (map (\<lambda>(key, raw). key @ ''='' @ goTrimSpace raw)
       (sortSlice (\<lambda>a b. fst a < fst b) (filter (\<lambda>(key, raw). raw \<noteq> []) params)))"

definition scheduleParameters :: "(string \<times> rawJSON) list option \<Rightarrow> string \<Rightarrow>
    gerror + (string \<times> json) list option \<times> string" where
  "scheduleParameters params kind =
     (case params of
        None \<Rightarrow> Inr (None, [])
      | Some kvs \<Rightarrow>
          (case readJSONMap (''invalid '' @ kind @ '' parameters for '') kvs of
             Inl err \<Rightarrow> Inl err
           | Inr out \<Rightarrow> Inr (Some (canonMap out), parameterText kvs)))"

definition scheduleNeedsCron :: "hSchedule \<Rightarrow> bool" where
  "scheduleNeedsCron s \<longleftrightarrow>
     hsType s \<noteq> scheduleTypeManual \<and> hsType s \<noteq> scheduleTypeNone \<and> hsCron s = []"

definition cronRequired :: "hSchedule \<Rightarrow> gerror" where
  "cronRequired s = ErrMsg (''schedule.cron is required for schedule type '' @ goQuote (hsType s))"

definition setScheduleHash :: "string \<Rightarrow> ('s, scheduleStatus) resource \<Rightarrow> ('s, scheduleStatus) resource" where
  "setScheduleHash h cr = cr\<lparr>objStatus := (objStatus cr)\<lparr>lastAppliedScheduleHash := h\<rparr>\<rparr>"

section \<open>Garbage collection\<close>

definition gcKind :: "('e, gcScheduleResource) kclient \<Rightarrow> ('e, gcScheduleSpec, scheduleStatus) kind" where
  "gcKind c = \<lparr>kdKind = KGCSchedule, kdSanitize = sanitizeRef, kdClient = c\<rparr>"

definition gcHash :: "scheduleSpec \<Rightarrow> string \<Rightarrow> string" where
  "gcHash sch paramsHash =
     hashParts [''type='' @ schType sch, ''cron='' @ schCron sch, ''params='' @ paramsHash]"

definition applyGCSchedule :: "'e services \<Rightarrow> 'e operatorOptions \<Rightarrow> ('e, gcScheduleSpec, scheduleStatus) kind \<Rightarrow>
    harborClient \<Rightarrow> hSchedule \<Rightarrow> string \<Rightarrow> (gcScheduleResource, 'e, outcome) go" where
  "applyGCSchedule S opts K hc sched hash =
     do { cr \<leftarrow> getObj;
          if lastAppliedScheduleHash (objStatus cr) = []
          then do {
            cerr \<leftarrow> CreateGCSchedule S hc sched;
            case cerr of
              Some err \<Rightarrow> failWith S K err
            | None \<Rightarrow> do { _ \<leftarrow> modObj (setScheduleHash hash);
                         readyWithDrift S opts K ''Created'' ''GC schedule created'' } }
          else if lastAppliedScheduleHash (objStatus cr) \<noteq> hash
          then do {
            uerr \<leftarrow> UpdateGCSchedule S hc sched;
            case uerr of
              Some err \<Rightarrow> failWith S K err
            | None \<Rightarrow> do { _ \<leftarrow> modObj (setScheduleHash hash);
                         readyIfChanged S opts K True ''Reconciled'' ''GC schedule reconciled'' } }
          else readyIfChanged S opts K False ''Reconciled'' ''GC schedule reconciled'' }"

definition gcBody :: "'e services \<Rightarrow> 'e operatorOptions \<Rightarrow> ('e, gcScheduleSpec, scheduleStatus) kind \<Rightarrow>
    harborClient \<Rightarrow> (gcScheduleResource, 'e, outcome) go" where
  "gcBody S opts K hc =
     do { owner \<leftarrow> ensureGCScheduleSingletonOwner S opts K;
          case owner of
            Some err \<Rightarrow> failWith S K err
          | None \<Rightarrow>
              do { cr \<leftarrow> getObj;
                   case scheduleParameters (gcParameters (objSpec cr)) ''gc'' of
                     Inl err \<Rightarrow> failWith S K err
                   | Inr (params, paramsHash) \<Rightarrow>
                       let sch = gcSchedule (objSpec cr);
                           sched = \<lparr>hsType = schType sch, hsCron = schCron sch, hsParameters = params\<rparr>
                       in if scheduleNeedsCron sched then failWith S K (cronRequired sched)
                          else applyGCSchedule S opts K hc sched (gcHash sch paramsHash) } }"

definition reconcileGCSchedule :: "'e services \<Rightarrow> 'e operatorOptions \<Rightarrow> ('e, gcScheduleResource) kclient \<Rightarrow>
    nsName \<Rightarrow> (gcScheduleResource, 'e, outcome) go" where
  "reconcileGCSchedule S opts c = harborBacked S opts (gcKind c) False None (gcBody S opts (gcKind c))"

section \<open>Purging the audit log\<close>

definition purgeKind :: "('e, purgeAuditSchedule) kclient \<Rightarrow> ('e, purgeAuditScheduleSpec, scheduleStatus) kind" where
  "purgeKind c = \<lparr>kdKind = KPurgeAuditSchedule, kdSanitize = sanitizeRef, kdClient = c\<rparr>"

definition purgeParameters :: "purgeAuditParameters \<Rightarrow> (string \<times> json) list" where
  "purgeParameters p =
     omitInt ''audit_retention_hour'' (papAuditRetentionHour p) @
     omitStr ''include_event_types'' (papIncludeEventTypes p) @ omitBool ''dry_run'' (papDryRun p)"

definition purgeHash :: "scheduleSpec \<Rightarrow> purgeAuditParameters \<Rightarrow> string" where
  "purgeHash sch p =
     hashParts [''type='' @ schType sch, ''cron='' @ schCron sch,
       ''retention='' @ goItoa (papAuditRetentionHour p), ''include='' @ papIncludeEventTypes p,
       ''dry='' @ goBool (papDryRun p)]"

definition applyPurgeSchedule :: "'e services \<Rightarrow> 'e operatorOptions \<Rightarrow>
    ('e, purgeAuditScheduleSpec, scheduleStatus) kind \<Rightarrow> harborClient \<Rightarrow> hSchedule \<Rightarrow> string \<Rightarrow>
    (purgeAuditSchedule, 'e, outcome) go" where
  "applyPurgeSchedule S opts K hc sched hash =
     do { cr \<leftarrow> getObj;
          if lastAppliedScheduleHash (objStatus cr) = []
          then do {
            cerr \<leftarrow> CreatePurgeSchedule S hc sched;
            case cerr of
              Some err \<Rightarrow> failWith S K err
            | None \<Rightarrow> do { _ \<leftarrow> modObj (setScheduleHash hash);
                         readyWithDrift S opts K ''Created'' ''Purge audit schedule created'' } }
          else if lastAppliedScheduleHash (objStatus cr) \<noteq> hash
          then do {
            uerr \<leftarrow> UpdatePurgeSchedule S hc sched;
            case uerr of
              Some err \<Rightarrow> failWith S K err
            | None \<Rightarrow> do { _ \<leftarrow> modObj (setScheduleHash hash);
                         readyIfChanged S opts K True ''Reconciled'' ''Purge audit schedule reconciled'' } }
          else readyIfChanged S opts K False ''Reconciled'' ''Purge audit schedule reconciled'' }"

definition purgeBody :: "'e services \<Rightarrow> 'e operatorOptions \<Rightarrow> ('e, purgeAuditScheduleSpec, scheduleStatus) kind \<Rightarrow>
    harborClient \<Rightarrow> (purgeAuditSchedule, 'e, outcome) go" where
  "purgeBody S opts K hc =
     do { owner \<leftarrow> ensurePurgeAuditScheduleSingletonOwner S opts K;
          case owner of
            Some err \<Rightarrow> failWith S K err
          | None \<Rightarrow>
              do { cr \<leftarrow> getObj;
                   let sch = paSchedule (objSpec cr);
                       sched = \<lparr>hsType = schType sch, hsCron = schCron sch,
                                hsParameters = Some (purgeParameters (paParameters (objSpec cr)))\<rparr>
                   in if scheduleNeedsCron sched then failWith S K (cronRequired sched)
                      else applyPurgeSchedule S opts K hc sched (purgeHash sch (paParameters (objSpec cr))) } }"

definition reconcilePurgeAuditSchedule :: "'e services \<Rightarrow> 'e operatorOptions \<Rightarrow> ('e, purgeAuditSchedule) kclient \<Rightarrow>
    nsName \<Rightarrow> (purgeAuditSchedule, 'e, outcome) go" where
  "reconcilePurgeAuditSchedule S opts c =
     harborBacked S opts (purgeKind c) False None (purgeBody S opts (purgeKind c))"

section \<open>Scanning\<close>

definition scanAllKind :: "('e, scanAllSchedule) kclient \<Rightarrow> ('e, scanAllScheduleSpec, scheduleStatus) kind" where
  "scanAllKind c = \<lparr>kdKind = KScanAllSchedule, kdSanitize = sanitizeRef, kdClient = c\<rparr>"

text \<open>What \<^verbatim>\<open>Marshal\<close> prints for a \<^verbatim>\<open>map[string]any\<close>.\<close>

definition marshalMap :: "(string \<times> json) list option \<Rightarrow> string" where
  "marshalMap m = (case m of None \<Rightarrow> jsonPrint JNull | Some kvs \<Rightarrow> jsonPrint (JObj (canonMap kvs)))"

definition scanAllSchedulesEqual :: "hSchedule option \<Rightarrow> hSchedule option \<Rightarrow> bool" where
  "scanAllSchedulesEqual current desired =
     (case current of None \<Rightarrow> False
      | Some c \<Rightarrow>
          (case desired of None \<Rightarrow> False
           | Some d \<Rightarrow> hsType c = hsType d \<and> hsCron c = hsCron d \<and>
                       marshalMap (hsParameters c) = marshalMap (hsParameters d)))"

definition applyScanAllSchedule :: "'e services \<Rightarrow> 'e operatorOptions \<Rightarrow>
    ('e, scanAllScheduleSpec, scheduleStatus) kind \<Rightarrow> harborClient \<Rightarrow> hSchedule \<Rightarrow> string \<Rightarrow>
    (scanAllSchedule, 'e, outcome) go" where
  "applyScanAllSchedule S opts K hc sched hash =
     do { r \<leftarrow> GetScanAllSchedule S hc;
          case r of
            Inl err \<Rightarrow>
              if \<not> IsNotFound (Some err) then failWith S K err
              else do {
                cerr \<leftarrow> CreateScanAllSchedule S hc sched;
                case cerr of
                  Some err \<Rightarrow> failWith S K err
                | None \<Rightarrow> do { _ \<leftarrow> modObj (setScheduleHash hash);
                             readyIfChanged S opts K True ''Created'' ''Scan all schedule created'' } }
          | Inr current \<Rightarrow>
              if \<not> scanAllSchedulesEqual (Some current) (Some sched)
              then do {
                uerr \<leftarrow> UpdateScanAllSchedule S hc sched;
                case uerr of
                  Some err \<Rightarrow> failWith S K err
                | None \<Rightarrow> do { _ \<leftarrow> modObj (setScheduleHash hash);
                             readyIfChanged S opts K True ''Reconciled'' ''Scan all schedule reconciled'' } }
              else do {
                cr \<leftarrow> getObj;
                if lastAppliedScheduleHash (objStatus cr) \<noteq> hash
                then do { _ \<leftarrow> modObj (setScheduleHash hash);
                          readyIfChanged S opts K True ''Reconciled'' ''Scan all schedule reconciled'' }
                else readyIfChanged S opts K False ''Reconciled'' ''Scan all schedule reconciled'' } }"

definition scanAllBody :: "'e services \<Rightarrow> 'e operatorOptions \<Rightarrow> ('e, scanAllScheduleSpec, scheduleStatus) kind \<Rightarrow>
    harborClient \<Rightarrow> (scanAllSchedule, 'e, outcome) go" where
  "scanAllBody S opts K hc =
     do { owner \<leftarrow> ensureScanAllScheduleSingletonOwner S opts K;
          case owner of
            Some err \<Rightarrow> failWith S K err
          | None \<Rightarrow>
              do { cr \<leftarrow> getObj;
                   case scheduleParameters (saParameters (objSpec cr)) ''scan all'' of
                     Inl err \<Rightarrow> failWith S K err
                   | Inr (params, paramsHash) \<Rightarrow>
                       let sch = saSchedule (objSpec cr);
                           sched = \<lparr>hsType = schType sch, hsCron = schCron sch, hsParameters = params\<rparr>
                       in if scheduleNeedsCron sched then failWith S K (cronRequired sched)
                          else applyScanAllSchedule S opts K hc sched (gcHash sch paramsHash) } }"

definition reconcileScanAllSchedule :: "'e services \<Rightarrow> 'e operatorOptions \<Rightarrow> ('e, scanAllSchedule) kclient \<Rightarrow>
    nsName \<Rightarrow> (scanAllSchedule, 'e, outcome) go" where
  "reconcileScanAllSchedule S opts c =
     harborBacked S opts (scanAllKind c) False None (scanAllBody S opts (scanAllKind c))"

section \<open>The contract of the frame\<close>

lemma quietly_singletonPeers: "quietly (singletonPeers S opts cn url items)"
  by (induction items) (auto intro!: emits_intros)

lemma quietly_ensureSingletonOwner: "quietly (ensureSingletonOwner S opts K k)"
  unfolding ensureSingletonOwner_def kubeList_def by (intro emits_intros quietly_singletonPeers) simp

lemmas ensureOwner_defs = ensureGCScheduleSingletonOwner_def ensurePurgeAuditScheduleSingletonOwner_def
  ensureScanAllScheduleSingletonOwner_def ensureConfigurationSingletonOwner_def

lemmas body_singleton = quietly_ensureSingletonOwner [THEN quietly_body]

lemma schedule_bodies:
  "emits bodyEvent (gcBody S opts Kg hc)" "emits bodyEvent (purgeBody S opts Kp hc)"
  "emits bodyEvent (scanAllBody S opts Ks hc)"
  unfolding gcBody_def applyGCSchedule_def purgeBody_def applyPurgeSchedule_def scanAllBody_def
    applyScanAllSchedule_def ensureOwner_defs
  by ((intro emits_intros body_quiet body_singleton quietly_body [OF quietly_readyIfChanged]
      emits_ScheduleCalls [OF clientCalls_body]; simp?)+)[3]

interpretation gc: harbor_backed S opts "gcKind c" False None "gcBody S opts (gcKind c)" for S opts c
  by unfold_locales (auto intro: schedule_bodies)

interpretation purge: harbor_backed S opts "purgeKind c" False None "purgeBody S opts (purgeKind c)" for S opts c
  by unfold_locales (auto intro: schedule_bodies)

interpretation scan_all: harbor_backed S opts "scanAllKind c" False None "scanAllBody S opts (scanAllKind c)" for S opts c
  by unfold_locales (auto intro: schedule_bodies)

end
