(* ===== verification/Configurations.thy ===== *)
theory Configurations
  imports Schedules
begin

text \<open>
  The configuration of a Harbor instance: the calls of
  \<^verbatim>\<open>internal/harborclient/configurations.go\<close> and the reconciler of
  \<^verbatim>\<open>internal/controller/configuration_controller.go\<close>. Settings are JSON values of
  the spec or texts of Secrets; only those the spec names are compared and sent.
\<close>

section \<open>The Harbor client\<close>

text \<open>
  \<open>Value\<close> is a \<^verbatim>\<open>json.RawMessage\<close>: a missing field is an empty
  message, \<^verbatim>\<open>null\<close> is a message of its own.
\<close>

record hConfigurationItem =
  hciValue :: "json option"
  hciEditable :: bool

definition jgetRaw :: "string \<Rightarrow> (string \<times> json) list \<Rightarrow> json option" where
  "jgetRaw name kvs =
     (case filter (\<lambda>(k, v). equalFold k name) kvs of [] \<Rightarrow> None | es \<Rightarrow> Some (snd (last es)))"

definition decConfigurationItem :: "hConfigurationItem decoder" where
  "decConfigurationItem = decObj (\<lambda>kvs.
     do { e \<leftarrow> decBool (jget ''editable'' kvs);
          Some \<lparr>hciValue = jgetRaw ''value'' kvs, hciEditable = e\<rparr> })"

definition configurationsURL :: string where
  "configurationsURL = ''/api/v2.0/configurations''"

definition GetConfigurations :: "'e services \<Rightarrow> harborClient \<Rightarrow>
    ('o, 'e, gerror + (string \<times> hConfigurationItem) list option) go" where
  "GetConfigurations S c = clientGet S c configurationsURL (decMap decConfigurationItem)"

definition UpdateConfigurations :: "'e services \<Rightarrow> harborClient \<Rightarrow> (string \<times> json) list \<Rightarrow>
    ('o, 'e, gerror option) go" where
  "UpdateConfigurations S c settings = clientPut S c configurationsURL (JObj (canonMap settings))"

section \<open>The desired settings\<close>

definition resolveConfigurationValue :: "'e services \<Rightarrow> 'e operatorOptions \<Rightarrow> string \<Rightarrow> string \<Rightarrow>
    configurationValue \<Rightarrow> ('o, 'e, gerror + json) go" where
  "resolveConfigurationValue S opts namespace key setting =
     (case cfvValue setting of
        Some raw \<Rightarrow>
          State_Monad.return
            (case unmarshalAny raw of
               None \<Rightarrow> Inl (ErrWrap (''invalid settings value for '' @ goQuote key @ '': '') JSONError)
             | Some v \<Rightarrow> Inr v)
      | None \<Rightarrow>
          (case cfvValueFrom setting of
             None \<Rightarrow> State_Monad.return
               (Inl (ErrMsg (''setting '' @ goQuote key @ '' must define value or valueFrom'')))
           | Some ref \<Rightarrow>
               do { r \<leftarrow> readSecretValue S opts ref namespace ''value'';
                    State_Monad.return
                      (case r of
                         Inl err \<Rightarrow> Inl (ErrWrap (''failed to read secret for '' @ goQuote key @ '': '') err)
                       | Inr sv \<Rightarrow> Inr (case unmarshalAny sv of None \<Rightarrow> JStr sv | Some v \<Rightarrow> v)) }))"

text \<open>The loop over the settings; the list stands for the order in which Go visits the map.\<close>

fun buildDesiredSettings :: "'e services \<Rightarrow> 'e operatorOptions \<Rightarrow> string \<Rightarrow>
    (string \<times> configurationValue) list \<Rightarrow> ('o, 'e, gerror + (string \<times> json) list) go" where
  "buildDesiredSettings S opts namespace [] = State_Monad.return (Inr [])"
| "buildDesiredSettings S opts namespace (kv # kvs) =
     do { r \<leftarrow> resolveConfigurationValue S opts namespace (fst kv) (snd kv);
          case r of
            Inl err \<Rightarrow> State_Monad.return (Inl err)
          | Inr v \<Rightarrow>
              do { rest \<leftarrow> buildDesiredSettings S opts namespace kvs;
                   State_Monad.return
                     (case rest of Inl err \<Rightarrow> Inl err | Inr out \<Rightarrow> Inr ((fst kv, v) # out)) } }"

text \<open>Go reads a nil map like an empty one.\<close>

definition itemOf :: "(string \<times> hConfigurationItem) list option \<Rightarrow> string \<Rightarrow> hConfigurationItem option" where
  "itemOf current key = (case current of None \<Rightarrow> None | Some kvs \<Rightarrow> map_of kvs key)"

fun ensureEditableSettings :: "(string \<times> json) list \<Rightarrow> (string \<times> hConfigurationItem) list option \<Rightarrow>
    gerror option" where
  "ensureEditableSettings [] current = None"
| "ensureEditableSettings ((key, v) # rest) current =
     (case itemOf current key of
        None \<Rightarrow> ensureEditableSettings rest current
      | Some item \<Rightarrow>
          if \<not> hciEditable item then Some (ErrMsg (''configuration '' @ goQuote key @ '' is not editable''))
          else ensureEditableSettings rest current)"

definition jsonValuesEqual :: "json \<Rightarrow> json option \<Rightarrow> bool" where
  "jsonValuesEqual desired current =
     (case unmarshalAny (jsonPrint desired) of
        None \<Rightarrow> False
      | Some dv \<Rightarrow>
          (case current of None \<Rightarrow> False
           | Some raw \<Rightarrow>
               (case jcanon raw of None \<Rightarrow> False | Some cv \<Rightarrow> plusZero dv = plusZero cv)))"

definition configurationNeedsUpdate :: "(string \<times> json) list \<Rightarrow>
    (string \<times> hConfigurationItem) list option \<Rightarrow> bool" where
  "configurationNeedsUpdate desired current =
     list_ex (\<lambda>(key, v). case itemOf current key of None \<Rightarrow> True
       | Some item \<Rightarrow> \<not> jsonValuesEqual v (hciValue item)) desired"

section \<open>The reconciler\<close>

definition configurationKind :: "('e, configuration) kclient \<Rightarrow> ('e, configurationSpec, harborStatusBase) kind" where
  "configurationKind c = \<lparr>kdKind = KConfiguration, kdSanitize = sanitizeRef, kdClient = c\<rparr>"

definition configurationBody :: "'e services \<Rightarrow> 'e operatorOptions \<Rightarrow>
    ('e, configurationSpec, harborStatusBase) kind \<Rightarrow> harborClient \<Rightarrow> (configuration, 'e, outcome) go" where
  "configurationBody S opts K hc =
     do { owner \<leftarrow> ensureConfigurationSingletonOwner S opts K;
          case owner of
            Some err \<Rightarrow> failWith S K err
          | None \<Rightarrow>
              do { cr \<leftarrow> getObj;
                   d \<leftarrow> buildDesiredSettings S opts (metaNamespace (objMeta cr)) (cfgSettings (objSpec cr));
                   case d of
                     Inl err \<Rightarrow> failWith S K err
                   | Inr desired \<Rightarrow>
                       if desired = [] then readyWithDrift S opts K ''Noop'' ''No configuration changes to apply''
                       else do {
                         r \<leftarrow> GetConfigurations S hc;
                         case r of
                           Inl err \<Rightarrow> failWith S K err
                         | Inr current \<Rightarrow>
                             (case ensureEditableSettings desired current of
                                Some err \<Rightarrow> failWith S K err
                              | None \<Rightarrow>
                                  do { uerr \<leftarrow> (if configurationNeedsUpdate desired current
                                               then UpdateConfigurations S hc desired
                                               else State_Monad.return None);
                                       case uerr of
                                         Some err \<Rightarrow> failWith S K err
                                       | None \<Rightarrow> readyWithDrift S opts K ''Reconciled''
                                                   ''Configuration reconciled'' }) } } }"

definition reconcileConfiguration :: "'e services \<Rightarrow> 'e operatorOptions \<Rightarrow> ('e, configuration) kclient \<Rightarrow>
    nsName \<Rightarrow> (configuration, 'e, outcome) go" where
  "reconcileConfiguration S opts c =
     harborBacked S opts (configurationKind c) False None (configurationBody S opts (configurationKind c))"

section \<open>The contract of the frame\<close>

lemma emits_ConfigurationCalls:
  "clientCalls c M C \<Longrightarrow> M ''GET'' configurationsURL \<Longrightarrow> emits C (GetConfigurations S c)"
  "clientCalls c M C \<Longrightarrow> M ''PUT'' configurationsURL \<Longrightarrow> emits C (UpdateConfigurations S c kvs)"
  unfolding GetConfigurations_def UpdateConfigurations_def by (intro client_emits; (assumption | simp))+

lemma quietly_buildDesiredSettings: "quietly (buildDesiredSettings S opts ns kvs)"
  by (induction kvs) (auto simp: resolveConfigurationValue_def intro!: emits_intros)

lemma configurationBody_events: "emits bodyEvent (configurationBody S opts K hc)"
  unfolding configurationBody_def ensureOwner_defs
  by (intro emits_intros body_quiet body_singleton quietly_body [OF quietly_buildDesiredSettings]
      emits_ConfigurationCalls [OF clientCalls_body]) simp_all

interpretation configuration: harbor_backed S opts "configurationKind c" False None
    "configurationBody S opts (configurationKind c)" for S opts c
  by unfold_locales (auto intro: configurationBody_events)

lemma configurationBody_methods: "emits (methodsIn [''GET'', ''PUT'']) (configurationBody S opts K hc)"
  unfolding configurationBody_def ensureOwner_defs
  by (intro emits_intros methodsIn_steps methodsIn_quiet [OF quietly_ensureSingletonOwner]
      methodsIn_quiet [OF quietly_buildDesiredSettings] emits_ConfigurationCalls [OF clientCalls_methodsIn])
    simp_all

lemma configuration_methods: "emits (methodsIn [''GET'', ''PUT'']) (reconcileConfiguration S opts c key)"
  unfolding reconcileConfiguration_def by (rule emits_harborBacked) (simp_all add: configurationBody_methods)

end
