(* ===== verification/UserGroups.thy ===== *)
theory UserGroups
  imports OwnedRemote
begin

text \<open>
  Claims on user groups: \<^verbatim>\<open>internal/harborclient/usergroups.go\<close> and the
  reconciler of \<^verbatim>\<open>internal/controller/usergroup_controller.go\<close>. A group is
  shared: several claims may find the same one, and the operator never deletes it. A claim that is
  being deleted waits for the members that name it. The reconciler has a frame of its own: the
  finalizer comes before the connection, and a deletion needs no connection at all.
\<close>

section \<open>The Harbor client\<close>

record hUserGroup =
  hugID :: int
  hugGroupName :: string
  hugGroupType :: int
  hugLDAPGroupDN :: string

definition decUserGroup :: "hUserGroup decoder" where
  "decUserGroup = decObj (\<lambda>kvs.
     do { n \<leftarrow> decInt (jget ''id'' kvs);
          nm \<leftarrow> decStr (jget ''group_name'' kvs);
          t \<leftarrow> decInt (jget ''group_type'' kvs);
          dn \<leftarrow> decStr (jget ''ldap_group_dn'' kvs);
          Some \<lparr>hugID = n, hugGroupName = nm, hugGroupType = t, hugLDAPGroupDN = dn\<rparr> })"

definition userGroupFields :: "hUserGroup \<Rightarrow> (string \<times> json) list" where
  "userGroupFields g =
     omitInt ''id'' (hugID g) @ omitStr ''group_name'' (hugGroupName g) @
     omitInt ''group_type'' (hugGroupType g) @ omitStr ''ldap_group_dn'' (hugLDAPGroupDN g)"

definition userGroupsURL :: string where
  "userGroupsURL = ''/api/v2.0/usergroups''"

definition ListUserGroups :: "'e services \<Rightarrow> harborClient \<Rightarrow> ('o, 'e, gerror + hUserGroup list) go" where
  "ListUserGroups S c = getPaged S c decUserGroup userGroupsURL []"

definition CreateUserGroup :: "'e services \<Rightarrow> harborClient \<Rightarrow> hUserGroup \<Rightarrow> ('o, 'e, gerror + int) go" where
  "CreateUserGroup S c g = createWithNumericLocationID S c userGroupsURL (JObj (userGroupFields g))"

section \<open>The reconciler\<close>

definition userGroupKind :: "('e, userGroupClaim) kclient \<Rightarrow> ('e, userGroupClaimSpec, userGroupClaimStatus) kind" where
  "userGroupKind c = \<lparr>kdKind = KUserGroupClaim, kdSanitize = sanitizeRef, kdClient = c\<rparr>"

text \<open>The first group of that name decides; Go compares names and DNs with \<^verbatim>\<open>EqualFold\<close>.\<close>

definition sameUserGroup :: "hUserGroup \<Rightarrow> hUserGroup \<Rightarrow> bool" where
  "sameUserGroup desired g \<longleftrightarrow>
     hugGroupType g = hugGroupType desired \<and> equalFold (hugLDAPGroupDN g) (hugLDAPGroupDN desired)"

definition chooseUserGroup :: "hUserGroup \<Rightarrow> hUserGroup list \<Rightarrow> gerror + hUserGroup option" where
  "chooseUserGroup desired groups =
     (case find (\<lambda>g. equalFold (hugGroupName g) (hugGroupName desired)) groups of
        None \<Rightarrow> Inr None
      | Some g \<Rightarrow>
          if \<not> sameUserGroup desired g
          then Inl (ErrMsg (''harbor UserGroup '' @ goQuote (hugGroupName desired) @
                 '' exists with incompatible type or LDAP group DN''))
          else Inr (Some g))"

definition findUserGroup :: "'e services \<Rightarrow> harborClient \<Rightarrow> hUserGroup \<Rightarrow> ('o, 'e, gerror + hUserGroup option) go" where
  "findUserGroup S hc desired =
     do { r \<leftarrow> ListUserGroups S hc;
          State_Monad.return (case r of Inl err \<Rightarrow> Inl err | Inr groups \<Rightarrow> chooseUserGroup desired groups) }"

text \<open>The member belongs to the group of the claim.\<close>

definition namesClaim :: "objectMeta \<Rightarrow> member \<Rightarrow> bool" where
  "namesClaim claim m =
     (case memMemberGroup (objSpec m) of
        None \<Rightarrow> False
      | Some ref \<Rightarrow>
          (if nrNamespace ref = [] then metaNamespace (objMeta m) else nrNamespace ref) = metaNamespace claim \<and>
          nrName ref = metaName claim)"

definition hasActiveMembers :: "'e services \<Rightarrow> (userGroupClaim, 'e, gerror + bool) go" where
  "hasActiveMembers S =
     do { claim \<leftarrow> getObj;
          r \<leftarrow> envCall (svcListMembers S);
          _ \<leftarrow> emit (EvList KMember (\<not> isl r));
          State_Monad.return
            (case r of Inl err \<Rightarrow> Inl err | Inr members \<Rightarrow> Inr (list_ex (namesClaim (objMeta claim)) members)) }"

definition desiredUserGroup :: "userGroupClaim \<Rightarrow> hUserGroup" where
  "desiredUserGroup claim =
     \<lparr>hugID = 0, hugGroupName = ugGroupName (objSpec claim), hugGroupType = ugGroupType (objSpec claim),
      hugLDAPGroupDN = ugLDAPGroupDN (objSpec claim)\<rparr>"

text \<open>The id of the group, found or created; a conflict means that somebody else has created it.\<close>

definition obtainUserGroup :: "'e services \<Rightarrow> harborClient \<Rightarrow> hUserGroup \<Rightarrow> ('o, 'e, gerror + int) go" where
  "obtainUserGroup S hc desired =
     do { f \<leftarrow> findUserGroup S hc desired;
          case f of
            Inl err \<Rightarrow> State_Monad.return (Inl err)
          | Inr (Some g) \<Rightarrow> State_Monad.return (Inr (hugID g))
          | Inr None \<Rightarrow>
              do { c \<leftarrow> CreateUserGroup S hc desired;
                   case c of
                     Inr n \<Rightarrow> State_Monad.return (Inr n)
                   | Inl createErr \<Rightarrow>
                       if \<not> IsConflict (Some createErr) then State_Monad.return (Inl createErr)
                       else do {
                         f2 \<leftarrow> findUserGroup S hc desired;
                         State_Monad.return
                           (case f2 of
                              Inl err \<Rightarrow> Inl err
                            | Inr None \<Rightarrow> Inl (ErrMsg (''harbor reported a conflicting UserGroup for '' @
                                goQuote (hugGroupName desired) @ '', but no compatible group could be found''))
                            | Inr (Some g) \<Rightarrow> Inr (hugID g)) } } }"

definition setGroupID :: "int \<Rightarrow> userGroupClaim \<Rightarrow> userGroupClaim" where
  "setGroupID n cr = cr\<lparr>objStatus := (objStatus cr)\<lparr>harborGroupID := n\<rparr>\<rparr>"

definition userGroupBody :: "'e services \<Rightarrow> 'e operatorOptions \<Rightarrow>
    ('e, userGroupClaimSpec, userGroupClaimStatus) kind \<Rightarrow> harborClient \<Rightarrow> (userGroupClaim, 'e, outcome) go" where
  "userGroupBody S opts K hc =
     do { claim \<leftarrow> getObj;
          r \<leftarrow> obtainUserGroup S hc (desiredUserGroup claim);
          case r of
            Inl err \<Rightarrow> failWith S K err
          | Inr n \<Rightarrow>
              if n = 0
              then failWith S K (ErrMsg (''harbor returned no UserGroup ID for '' @
                     goQuote (ugGroupName (objSpec claim))))
              else do { _ \<leftarrow> modObj (setGroupID n);
                        readyWithDrift S opts K ''Reconciled'' ''External group claim reconciled'' } }"

definition deleteUserGroupClaim :: "'e services \<Rightarrow> ('e, userGroupClaimSpec, userGroupClaimStatus) kind \<Rightarrow>
    (userGroupClaim, 'e, outcome) go" where
  "deleteUserGroupClaim S K =
     do { claim \<leftarrow> getObj;
          m \<leftarrow> hasActiveMembers S;
          case m of
            Inl err \<Rightarrow> failWith S K err
          | Inr referenced \<Rightarrow>
              if referenced
              then failWith S K (ErrMsg (''UserGroupClaim '' @ metaNamespace (objMeta claim) @ ''/'' @
                     metaName (objMeta claim) @ '' is still referenced by an active Member''))
              else do { err \<leftarrow> removeFinalizer S K; finish err } }"

definition reconcileUserGroupClaim :: "'e services \<Rightarrow> 'e operatorOptions \<Rightarrow> ('e, userGroupClaim) kclient \<Rightarrow>
    nsName \<Rightarrow> (userGroupClaim, 'e, outcome) go" where
  "reconcileUserGroupClaim S opts c key =
     (let K = userGroupKind c in
      do { (found, err) \<leftarrow> loadResource K key;
           if err \<noteq> None then finish err
           else if \<not> found then finish None
           else do {
             generation \<leftarrow> crGeneration;
             merr \<leftarrow> markReconcilingIfNeeded S K generation;
             if merr \<noteq> None then finish merr
             else do {
               claim \<leftarrow> getObj;
               if metaDeletionTimestamp (objMeta claim) \<noteq> None then deleteUserGroupClaim S K
               else do {
                 ferr \<leftarrow> ensureFinalizer S K;
                 if ferr \<noteq> None then finish ferr
                 else do {
                   cr \<leftarrow> getObj;
                   r \<leftarrow> getHarborClientForObject S opts K (metaNamespace (objMeta cr))
                          (harborConnectionRef (objSpec cr));
                   case r of
                     Inl e \<Rightarrow> failWith S K e
                   | Inr hc \<Rightarrow> userGroupBody S opts K hc } } } } })"

end
