(* ===== verification/UserGroupFacts.thy ===== *)
theory UserGroupFacts
  imports UserGroups
begin

text \<open>
  What holds of the claims of external user groups. They have a frame of their own: the finalizer
  comes before the connection, and a deletion never asks Harbor.
\<close>

section \<open>The binding\<close>

lemma boundInv_ensureFinalizer: "keeps boundInv (ensureFinalizer S K)"
  unfolding ensureFinalizer_def
  by (intro triple_intros bound.keeps_sanitize keeps_modObj keeps_kubeUpdate)
    (auto simp: boundInv_def precededFrom_append shownObj_def)

lemma emits_obtainUserGroup:
  assumes "clientCalls hc M C" and "\<And>relURL. M ''GET'' relURL" and "M ''POST'' userGroupsURL"
  shows "emits C (obtainUserGroup S hc desired)"
  unfolding obtainUserGroup_def findUserGroup_def ListUserGroups_def CreateUserGroup_def
  by (intro emits_intros client_emits [OF assms(1)] assms(2,3))

lemma userGroupBody_calls: "emits (methodsIn [''GET'', ''POST'']) (userGroupBody S opts K hc)"
  unfolding userGroupBody_def
  by (intro emits_intros methodsIn_steps emits_obtainUserGroup [OF clientCalls_methodsIn]) simp_all

lemma userGroup_bound:
  "triple (\<lambda>s. stTrace s = []) (reconcileUserGroupClaim S opts c key) (\<lambda>_ s. preceded binds isHttp (stTrace s))"
proof -
  let ?K = "userGroupKind c" and ?B = "\<lambda>s. boundInv (stObj s) (stTrace s)"
    and ?P = "\<lambda>s. preceded binds isHttp (stTrace s)"
  have quiet: "triple ?B m (\<lambda>_. ?P)" if "noHttp m" for m
    by (rule triple_pre [OF triple_preceded_before [OF that]]) (simp add: boundInv_def)
  have del: "noHttp (deleteUserGroupClaim S ?K)"
    unfolding deleteUserGroupClaim_def hasActiveMembers_def by (intro emits_intros) simp_all
  have body: "triple (\<lambda>s. ?P s \<and> list_ex binds (stTrace s)) (userGroupBody S opts ?K hc) (\<lambda>_. ?P)" for hc
    by (rule triple_post [OF triple_preceded_after [OF emits_mono [OF userGroupBody_calls]]]) simp_all
  show ?thesis
    unfolding reconcileUserGroupClaim_def Let_def
    apply (rule triple_bind [OF load_any], rule triple_prod, rule triple_if)
     apply (rule triple_pre [OF triple_preceded_before [OF emits_finish]], simp)
    apply (rule triple_if)
     apply (rule triple_pre [OF triple_preceded_before [OF emits_finish]], simp)
    apply (rule triple_pre [where P = ?B])
     apply (rule triple_bind [OF keeps_triple [OF bound.keeps_crGeneration]])
     apply (rule triple_bind [OF keeps_triple [OF bound.keeps_markReconcilingIfNeeded]])
     apply (rule triple_if, rule quiet [OF emits_finish])
     apply (rule triple_bind [OF keeps_triple [OF keeps_getObj]])
     apply (rule triple_if, rule quiet [OF del])
     apply (rule triple_bind [OF keeps_triple [OF boundInv_ensureFinalizer]])
     apply (rule triple_if, rule quiet [OF emits_finish])
     apply (rule triple_bind [OF keeps_triple [OF keeps_getObj]])
     apply (rule triple_bind [OF getHarborClient_bound], rule triple_sum)
      apply (rule triple_pre [OF triple_preceded_before], intro emits_intros, simp)
     apply (rule triple_pre [OF body], simp)
    apply simp
    done
qed

section \<open>Harbor's groups are shared\<close>

lemma userGroup_calls: "emits (methodsIn [''GET'', ''POST'']) (reconcileUserGroupClaim S opts c key)"
proof -
  have loc: "emits (methodsIn [''GET'', ''POST'']) m" if "noHttp m" for m :: "('o, 'f, 'x) go"
    using that by (rule emits_mono) (use methodsIn_local in \<open>auto simp: admitsLocal_def\<close>)
  show ?thesis
    unfolding reconcileUserGroupClaim_def deleteUserGroupClaim_def hasActiveMembers_def Let_def
    by (intro emits_intros methodsIn_steps loc [OF noHttp_finalizer(1)] loc [OF noHttp_finalizer(2)]
        userGroupBody_calls) (simp_all add: methodsIn_def)
qed

section \<open>A claim in use\<close>

text \<open>The claim is being deleted, and one of the members names it.\<close>

definition deletedInUse :: "member list \<Rightarrow> userGroupClaim \<Rightarrow> bool" where
  "deletedInUse members claim \<longleftrightarrow>
     metaDeletionTimestamp (objMeta claim) \<noteq> None \<and> list_ex (namesClaim (objMeta claim)) members"

lemma hasActiveMembers_in_use:
  assumes "\<forall>e. fst (svcListMembers S e) = Inr members"
  shows "triple (objTrace (deletedInUse members) quietEvent) (hasActiveMembers S)
     (\<lambda>r s. r = Inr True \<and> objTrace (deletedInUse members) quietEvent s)"
  using assms
  by (auto simp: triple_def hasActiveMembers_def deletedInUse_def run_simps split: prod.split sum.split)
    (metis fst_conv sum.sel(2) sum.distinct(1))+

lemma namesClaim_key: "objectKey obj = objectKey sent \<Longrightarrow> namesClaim (objMeta obj) = namesClaim (objMeta sent)"
  by (auto simp: fun_eq_iff namesClaim_def objectKey_def split: option.split)

lemma stays_deletedInUse: "faithful (userGroupKind c) \<Longrightarrow> stays (userGroupKind c) (deletedInUse members)"
  unfolding stays_def
proof (intro conjI allI impI)
  fix sent obj
  assume faithful: "faithful (userGroupKind c)" and sent: "deletedInUse members sent"
    and stored: "stores (userGroupKind c) sent obj"
  show "deletedInUse members obj"
    using sent faithfulD(2) [OF faithful stored]
    unfolding deletedInUse_def namesClaim_key [OF faithfulD(1) [OF faithful stored]] by blast
qed (simp_all add: deletedInUse_def)

text \<open>
  C32. A claim that is being deleted waits for the members that name it: as long as one of them does,
  its reconcile asks Harbor nothing and does not update the object, so the finalizer stays.
\<close>

theorem claim_waits_for_members:
  assumes "faithful (userGroupKind c)" and "shown (userGroupKind c) key e (deletedInUse members)"
    and "\<forall>e. fst (svcListMembers S e) = Inr members"
  shows "list_all quietEvent (traceOf (reconcileUserGroupClaim S opts c key) (startState obj e))"
proof -
  let ?K = "userGroupKind c" and ?P = "objTrace (deletedInUse members) quietEvent"
    and ?Q = "\<lambda>_ s. list_all quietEvent (stTrace s)"
  note get = guards_plain [OF untouched_basic(2) emits_getObj, of "deletedInUse members" quietEvent]
  have quiet: "triple ?P m ?Q" if "quietly m" for m :: "(userGroupClaim, 'a, 'x) go"
    by (rule triple_pre [OF triple_events [OF that]]) simp
  have del: "triple ?P (deleteUserGroupClaim S ?K) ?Q"
    unfolding deleteUserGroupClaim_def
    by (rule triple_bind [OF get], rule triple_bind [OF hasActiveMembers_in_use [OF assms(3)]])
      (auto intro!: triple_pre [OF triple_events [OF quietly_lifecycle(4)]] simp: triple_False split: sum.split)
  have claim: "triple (\<lambda>s. ?P s \<and> cr = stObj s)
      (if metaDeletionTimestamp (objMeta cr) \<noteq> None then deleteUserGroupClaim S ?K else rest) ?Q" for cr rest
  proof (cases "metaDeletionTimestamp (objMeta cr) = None")
    case True
    show ?thesis by (rule triple_pre [OF triple_False]) (use True in \<open>auto simp: deletedInUse_def\<close>)
  next
    case False
    then show ?thesis using triple_pre [OF del, of "\<lambda>s. ?P s \<and> cr = stObj s"] by simp
  qed
  have frame: "triple (fresh ?K key (deletedInUse members)) (reconcileUserGroupClaim S opts c key) ?Q"
    unfolding reconcileUserGroupClaim_def Let_def
    apply (rule triple_bind [OF triple_load_stays], assumption)
    apply (rule triple_prod, intro triple_if)
      apply (rule triple_pre [OF triple_events [OF emits_finish]], simp)
     apply (rule triple_pre [OF triple_events [OF emits_finish]], simp)
    apply (rule triple_pre [where P = ?P])
     apply (rule triple_bind [OF guards_crGeneration])
     apply (rule triple_bind [OF triple_objTrace [OF stays_keeps [OF stays_deletedInUse [OF assms(1)] staying.keeps_markReconcilingIfNeeded]
             quietly_lifecycle(2)]])
     apply (rule triple_if, rule quiet [OF emits_finish])
     apply (rule triple_bind [OF triple_getObj], rule claim)
    apply simp
    done
  then show ?thesis using assms(2) by (simp add: triple_def traceOf_def startState_def)
qed

definition exClaim :: userGroupClaim where
  "exClaim =
     \<lparr>objMeta = (exMeta ''team'' ''devs'')\<lparr>metaDeletionTimestamp := Some 7, metaFinalizers := [finalizerName]\<rparr>,
      objSpec = \<lparr>harborConnectionRef = exRef, driftDetectionInterval = None, reconcileNonce = [],
        ugGroupName = ''devs'', ugGroupType = 2, ugLDAPGroupDN = []\<rparr>,
      objStatus = harborStatusBase.extend exStatusBase \<lparr>harborGroupID = 3\<rparr>\<rparr>"

definition exGroupMember :: member where
  "exGroupMember =
     \<lparr>objMeta = exMeta ''web'' ''devs-in-web'',
      objSpec = \<lparr>harborConnectionRef = exRef, driftDetectionInterval = None, reconcileNonce = [],
        deletionPolicy = [], creationPolicy = [],
        memProjectRef = \<lparr>nrName = ''web'', nrNamespace = []\<rparr>, memRole = ''guest'',
        memMemberUser = None, memMemberGroup = Some \<lparr>nrName = ''devs'', nrNamespace = ''team''\<rparr>\<rparr>,
      objStatus = harborStatusBase.extend exStatusBase \<lparr>memHarborProjectID = 0, memHarborMemberID = 0\<rparr>\<rparr>"

lemma claim_waits_for_members_witness:
  "let S = exCluster\<lparr>svcListMembers := \<lambda>e. (Inr [exGroupMember], e)\<rparr>;
       c = exStore [exClaim];
       run = run_state (reconcileUserGroupClaim S exOptions c (''team'', ''devs'')) (startState exClaim ())
   in list_all quietEvent (stTrace (snd run)) \<and>
      snd (fst run) = Some (ErrMsg ''UserGroupClaim team/devs is still referenced by an active Member'')"
proof -
  let ?S = "exCluster\<lparr>svcListMembers := \<lambda>e. (Inr [exGroupMember], e)\<rparr> :: unit services"
    and ?c = "exStore [exClaim] :: (unit, userGroupClaim) kclient"
  have client: "kdClient (userGroupKind ?c) = ?c"
    by (simp add: userGroupKind_def)
  have "deletedInUse [exGroupMember] exClaim"
    by code_simp
  then have "list_all quietEvent
      (traceOf (reconcileUserGroupClaim ?S exOptions ?c (''team'', ''devs'')) (startState exClaim ()))"
    by (intro claim_waits_for_members [OF faithful_store [OF client] shown_only [OF client]]) simp_all
  moreover have "snd (fst (run_state (reconcileUserGroupClaim ?S exOptions ?c (''team'', ''devs'')) (startState exClaim ()))) =
      Some (ErrMsg ''UserGroupClaim team/devs is still referenced by an active Member'')"
    by code_simp
  ultimately show ?thesis by (simp add: Let_def traceOf_def)
qed

end
