(* ===== verification/Members.thy ===== *)
theory Members
  imports OwnedRemote ReferenceRules
begin

text \<open>
  Members of projects: \<^verbatim>\<open>internal/harborclient/members.go\<close> and the reconciler
  of \<^verbatim>\<open>internal/controller/member_controller.go\<close>. A membership has no name:
  it is found by listing the project's members and comparing the kind and name of the entity.
\<close>

section \<open>The Harbor client\<close>

record createMemberRequest =
  cmrRoleID :: int
  cmrMemberUser :: "string option"
  cmrMemberGroup :: "memberGroup option"

record hProjectMember =
  hpmbID :: int
  hpmbProjectID :: int
  hpmbEntityName :: string
  hpmbEntityType :: string
  hpmbEntityID :: int
  hpmbRoleID :: int
  hpmbRoleName :: string

definition encCreateMember :: "createMemberRequest \<Rightarrow> json" where
  "encCreateMember r = JObj
     ([(''role_id'', jInt (cmrRoleID r))] @
      omitPtr ''member_user'' (\<lambda>u. JObj (omitStr ''username'' u)) (cmrMemberUser r) @
      omitPtr ''member_group'' (\<lambda>g. JObj (omitStr ''group_name'' (mgGroupName g) @
        omitInt ''group_type'' (mgGroupType g) @ omitStr ''ldap_group_dn'' (mgLDAPGroupDN g)))
        (cmrMemberGroup r))"

definition decProjectMember :: "hProjectMember decoder" where
  "decProjectMember = decObj (\<lambda>kvs.
     do { n \<leftarrow> decInt (jget ''id'' kvs);
          p \<leftarrow> decInt (jget ''project_id'' kvs);
          en \<leftarrow> decStr (jget ''entity_name'' kvs);
          et \<leftarrow> decStr (jget ''entity_type'' kvs);
          ei \<leftarrow> decInt (jget ''entity_id'' kvs);
          ri \<leftarrow> decInt (jget ''role_id'' kvs);
          rn \<leftarrow> decStr (jget ''role_name'' kvs);
          Some \<lparr>hpmbID = n, hpmbProjectID = p, hpmbEntityName = en, hpmbEntityType = et, hpmbEntityID = ei,
                hpmbRoleID = ri, hpmbRoleName = rn\<rparr> })"

definition membersURL :: "string \<Rightarrow> string" where
  "membersURL projectRef = ''/api/v2.0/projects/'' @ projectRef @ ''/members''"

definition memberURL :: "string \<Rightarrow> int \<Rightarrow> string" where
  "memberURL projectRef n = ''/api/v2.0/projects/'' @ projectRef @ ''/members/'' @ goItoa n"

definition ListProjectMembers :: "'e services \<Rightarrow> harborClient \<Rightarrow> string \<Rightarrow> ('o, 'e, gerror + hProjectMember list) go" where
  "ListProjectMembers S c projectRef = getPaged S c decProjectMember (membersURL projectRef) []"

definition CreateProjectMember :: "'e services \<Rightarrow> harborClient \<Rightarrow> string \<Rightarrow> createMemberRequest \<Rightarrow>
    ('o, 'e, gerror + int) go" where
  "CreateProjectMember S c projectRef req =
     createWithNumericLocationID S c (membersURL projectRef) (encCreateMember req)"

definition GetProjectMember :: "'e services \<Rightarrow> harborClient \<Rightarrow> string \<Rightarrow> int \<Rightarrow> ('o, 'e, gerror + hProjectMember) go" where
  "GetProjectMember S c projectRef n = clientGet S c (memberURL projectRef n) decProjectMember"

definition UpdateProjectMemberRole :: "'e services \<Rightarrow> harborClient \<Rightarrow> string \<Rightarrow> int \<Rightarrow> int \<Rightarrow>
    ('o, 'e, gerror option) go" where
  "UpdateProjectMemberRole S c projectRef n roleID =
     clientPut S c (memberURL projectRef n) (JObj [(''role_id'', jInt roleID)])"

definition DeleteProjectMember :: "'e services \<Rightarrow> harborClient \<Rightarrow> string \<Rightarrow> int \<Rightarrow> ('o, 'e, gerror option) go" where
  "DeleteProjectMember S c projectRef n = deleteIgnoringNotFound S c (memberURL projectRef n) []"

lemma emits_MemberCalls:
  "clientCalls c M C \<Longrightarrow> (\<And>relURL. M ''GET'' relURL) \<Longrightarrow> emits C (ListProjectMembers S c p)"
  "clientCalls c M C \<Longrightarrow> M ''POST'' (membersURL p) \<Longrightarrow> emits C (CreateProjectMember S c p req)"
  "clientCalls c M C \<Longrightarrow> M ''PUT'' (memberURL p n) \<Longrightarrow> emits C (UpdateProjectMemberRole S c p n r)"
  "clientCalls c M C \<Longrightarrow> M ''DELETE'' (memberURL p n) \<Longrightarrow> emits C (DeleteProjectMember S c p n)"
  unfolding ListProjectMembers_def CreateProjectMember_def UpdateProjectMemberRole_def DeleteProjectMember_def
  by (intro client_emits; (assumption | simp))+

lemma untouched_member_calls [triple_intros]:
  "untouched (ListProjectMembers S hc p)" "untouched (CreateProjectMember S hc p req)"
  "untouched (UpdateProjectMemberRole S hc p n r)" "untouched (DeleteProjectMember S hc p n)"
  unfolding ListProjectMembers_def CreateProjectMember_def UpdateProjectMemberRole_def DeleteProjectMember_def
  by (intro triple_intros)+

section \<open>Roles and entities\<close>

definition memberKind :: "('e, member) kclient \<Rightarrow> ('e, memberSpec, memberStatus) kind" where
  "memberKind c = \<lparr>kdKind = KMember, kdSanitize = sanitizeRef, kdClient = c\<rparr>"

definition convertRoleNameToID :: "string \<Rightarrow> gerror + int" where
  "convertRoleNameToID role =
     (let r = goToLower role in
      if r = ''admin'' then Inr 1 else if r = ''developer'' then Inr 2 else if r = ''guest'' then Inr 3
      else if r = ''maintainer'' then Inr 4 else Inl (ErrMsg (''unsupported role: '' @ role)))"

definition desiredEntityFromSpec :: "'e services \<Rightarrow> 'e operatorOptions \<Rightarrow> member \<Rightarrow> int \<Rightarrow>
    (member, 'e, gerror + string \<times> string \<times> createMemberRequest) go" where
  "desiredEntityFromSpec S opts cr roleID =
     (case memMemberUser (objSpec cr) of
        None \<Rightarrow>
          (case memMemberGroup (objSpec cr) of
             None \<Rightarrow> State_Monad.return
               (Inl (ErrMsg ''exactly one of memberUser or memberGroup must be set (found none)''))
           | Some g \<Rightarrow>
               do { r \<leftarrow> resolveUserGroup S opts (metaNamespace (objMeta cr)) g
                           (resolvedHarborConnection (objStatus cr));
                    State_Monad.return
                      (case r of
                         Inl err \<Rightarrow> Inl err
                       | Inr grp \<Rightarrow>
                           let entityName = (if mgGroupName grp = [] then mgLDAPGroupDN grp else mgGroupName grp)
                           in if entityName = []
                              then Inl (ErrMsg (''resolved UserGroupClaim '' @ goQuote (nrName g) @
                                     '' has no Harbor identity''))
                              else Inr (''g'', entityName,
                                     \<lparr>cmrRoleID = roleID, cmrMemberUser = None, cmrMemberGroup = Some grp\<rparr>)) })
      | Some u \<Rightarrow>
          if memMemberGroup (objSpec cr) \<noteq> None
          then State_Monad.return (Inl (ErrMsg ''exactly one of memberUser or memberGroup must be set (found both)''))
          else do { r \<leftarrow> resolveUserName S opts (metaNamespace (objMeta cr)) u;
                    State_Monad.return
                      (case r of
                         Inl err \<Rightarrow> Inl err
                       | Inr username \<Rightarrow>
                           Inr (''u'', username,
                             \<lparr>cmrRoleID = roleID, cmrMemberUser = Some username, cmrMemberGroup = None\<rparr>)) })"

definition isEntity :: "string \<Rightarrow> string \<Rightarrow> hProjectMember \<Rightarrow> bool" where
  "isEntity entityType entityName m \<longleftrightarrow>
     equalFold (hpmbEntityType m) entityType \<and> equalFold (hpmbEntityName m) entityName"

section \<open>Present\<close>

text \<open>A creation whose answer has no id is followed by another look at the list.\<close>

definition createMember :: "'e services \<Rightarrow> harborClient \<Rightarrow> string \<Rightarrow> string \<Rightarrow> string \<Rightarrow> createMemberRequest \<Rightarrow>
    ('o, 'e, gerror + int) go" where
  "createMember S hc projectKey entityType entityName req =
     do { c \<leftarrow> CreateProjectMember S hc projectKey req;
          case c of
            Inl err \<Rightarrow> State_Monad.return (Inl err)
          | Inr n \<Rightarrow>
              if n \<noteq> 0 then State_Monad.return (Inr n)
              else do {
                l \<leftarrow> ListProjectMembers S hc projectKey;
                State_Monad.return
                  (case l of
                     Inl err \<Rightarrow> Inl err
                   | Inr ms \<Rightarrow>
                       (let newID = (case find (isEntity entityType entityName) ms of
                                       None \<Rightarrow> 0 | Some m \<Rightarrow> hpmbID m)
                        in if newID = 0
                           then Inl (ErrMsg ''created Harbor project member but could not discover its ID'')
                           else Inr newID)) } }"

text \<open>The recorded ids, or a Ready condition, show that the membership is the object's own.\<close>

definition ownsMember :: "'e services \<Rightarrow> member \<Rightarrow> int \<Rightarrow> hProjectMember \<Rightarrow> bool" where
  "ownsMember S cr projectID existing \<longleftrightarrow>
     (memHarborProjectID (objStatus cr) = projectID \<and> memHarborMemberID (objStatus cr) = hpmbID existing) \<or>
     (case amFindStatusCondition (svcMachinery S) (conditions (objStatus cr)) conditionReady of
        None \<Rightarrow> False | Some cond \<Rightarrow> condStatus cond = ''True'')"

definition ensureMemberPresent :: "'e services \<Rightarrow> 'e operatorOptions \<Rightarrow> harborClient \<Rightarrow> int \<Rightarrow>
    (member, 'e, gerror + int \<times> int) go" where
  "ensureMemberPresent S opts hc roleID =
     do { cr \<leftarrow> getObj;
          p \<leftarrow> resolveProject S opts (metaNamespace (objMeta cr)) (Some (memProjectRef (objSpec cr)));
          case p of
            Inl err \<Rightarrow> State_Monad.return (Inl err)
          | Inr (projectKey, projectID) \<Rightarrow>
              do { d \<leftarrow> desiredEntityFromSpec S opts cr roleID;
                   case d of
                     Inl err \<Rightarrow> State_Monad.return (Inl err)
                   | Inr (entityType, entityName, payload) \<Rightarrow>
                       do { l \<leftarrow> ListProjectMembers S hc projectKey;
                            case l of
                              Inl err \<Rightarrow> State_Monad.return (Inl err)
                            | Inr members \<Rightarrow>
                                (case find (isEntity entityType entityName) members of
                                   None \<Rightarrow>
                                     (case requireCreationAllowed opts (creationPolicy (objSpec cr)) of
                                        Some err \<Rightarrow> State_Monad.return (Inl err)
                                      | None \<Rightarrow>
                                          do { c \<leftarrow> createMember S hc projectKey entityType entityName payload;
                                               State_Monad.return
                                                 (case c of Inl err \<Rightarrow> Inl err | Inr n \<Rightarrow> Inr (projectID, n)) })
                                 | Some existing \<Rightarrow>
                                     if \<not> allowsAdoption opts (creationPolicy (objSpec cr)) \<and>
                                        \<not> ownsMember S cr projectID existing
                                     then State_Monad.return (Inl (ErrMsg
                                       (''member already exists in Harbor and creationPolicy '' @
                                        goQuote (effectiveCreationPolicy opts (creationPolicy (objSpec cr))) @
                                        '' does not allow adoption'')))
                                     else do {
                                       uerr \<leftarrow> (if hpmbRoleID existing \<noteq> roleID
                                                then UpdateProjectMemberRole S hc projectKey (hpmbID existing) roleID
                                                else State_Monad.return None);
                                       State_Monad.return
                                         (case uerr of Some err \<Rightarrow> Inl err
                                          | None \<Rightarrow> Inr (projectID, hpmbID existing)) }) } } }"

section \<open>Absent\<close>

fun deleteMatchingMembers :: "'e services \<Rightarrow> harborClient \<Rightarrow> string \<Rightarrow> string \<Rightarrow> string \<Rightarrow> hProjectMember list \<Rightarrow>
    ('o, 'e, gerror option) go" where
  "deleteMatchingMembers S hc projectKey et en [] = State_Monad.return None"
| "deleteMatchingMembers S hc projectKey et en (pm # pms) =
     (if isEntity et en pm
      then do {
        derr \<leftarrow> DeleteProjectMember S hc projectKey (hpmbID pm);
        if derr \<noteq> None \<and> \<not> IsNotFound derr then State_Monad.return derr
        else deleteMatchingMembers S hc projectKey et en pms }
      else deleteMatchingMembers S hc projectKey et en pms)"

definition ensureMemberAbsent :: "'e services \<Rightarrow> 'e operatorOptions \<Rightarrow> harborClient \<Rightarrow> (member, 'e, gerror option) go" where
  "ensureMemberAbsent S opts hc =
     do { cr \<leftarrow> getObj;
          if memHarborProjectID (objStatus cr) \<noteq> 0 \<and> memHarborMemberID (objStatus cr) \<noteq> 0
          then do { err \<leftarrow> DeleteProjectMember S hc (goItoa (memHarborProjectID (objStatus cr)))
                             (memHarborMemberID (objStatus cr));
                    State_Monad.return (if IsNotFound err then None else err) }
          else if memHarborProjectID (objStatus cr) \<noteq> 0 \<or> memHarborMemberID (objStatus cr) \<noteq> 0
          then State_Monad.return (Some (ErrMsg ''member status contains incomplete Harbor identity''))
          else do {
            p \<leftarrow> resolveProject S opts (metaNamespace (objMeta cr)) (Some (memProjectRef (objSpec cr)));
            case p of
              Inl err \<Rightarrow> State_Monad.return None
            | Inr (projectKey, projectID) \<Rightarrow>
                do { d \<leftarrow> desiredEntityFromSpec S opts cr 0;
                     case d of
                       Inl err \<Rightarrow> State_Monad.return (Some err)
                     | Inr (et, en, payload) \<Rightarrow>
                         do { l \<leftarrow> ListProjectMembers S hc projectKey;
                              case l of
                                Inl err \<Rightarrow> State_Monad.return (if IsNotFound (Some err) then None else Some err)
                              | Inr members \<Rightarrow> deleteMatchingMembers S hc projectKey et en members } } } }"

section \<open>The reconciler\<close>

definition setMemberIDs :: "int \<Rightarrow> int \<Rightarrow> member \<Rightarrow> member" where
  "setMemberIDs p n cr = cr\<lparr>objStatus := (objStatus cr)\<lparr>memHarborProjectID := p, memHarborMemberID := n\<rparr>\<rparr>"

definition finishMember :: "'e services \<Rightarrow> 'e operatorOptions \<Rightarrow> ('e, memberSpec, memberStatus) kind \<Rightarrow>
    int \<Rightarrow> int \<Rightarrow> (member, 'e, outcome) go" where
  "finishMember S opts K projectID memberID =
     do { cr \<leftarrow> getObj;
          _ \<leftarrow> modObj (setMemberIDs projectID memberID);
          generation \<leftarrow> crGeneration;
          conditionChanged \<leftarrow> markStatus S (\<lambda>now. markReady (svcMachinery S) now generation ''Reconciled''
                                 ''Member reconciled'');
          err \<leftarrow> (if memHarborProjectID (objStatus cr) \<noteq> projectID \<or> memHarborMemberID (objStatus cr) \<noteq> memberID \<or>
                     conditionChanged
                  then do { _ \<leftarrow> sanitizeOptionalHarborConnectionRef K; kubeStatusUpdate K }
                  else State_Monad.return None);
          if err \<noteq> None then finish err
          else do { cr2 \<leftarrow> getObj; State_Monad.return (returnWithDriftDetection opts (objSpec cr2)) } }"

definition memberBody :: "'e services \<Rightarrow> 'e operatorOptions \<Rightarrow> ('e, memberSpec, memberStatus) kind \<Rightarrow>
    harborClient \<Rightarrow> (member, 'e, outcome) go" where
  "memberBody S opts K hc =
     do { cr \<leftarrow> getObj;
          case convertRoleNameToID (memRole (objSpec cr)) of
            Inl err \<Rightarrow> failWith S K err
          | Inr roleID \<Rightarrow>
              do { r \<leftarrow> ensureMemberPresent S opts hc roleID;
                   case r of
                     Inl err \<Rightarrow> failWith S K err
                   | Inr (projectID, memberID) \<Rightarrow>
                       if projectID = 0 \<or> memberID = 0
                       then failWith S K (ErrMsg ''member reconciliation completed without resolved Harbor IDs'')
                       else finishMember S opts K projectID memberID } }"

definition reconcileMember :: "'e services \<Rightarrow> 'e operatorOptions \<Rightarrow> ('e, member) kclient \<Rightarrow> nsName \<Rightarrow>
    (member, 'e, outcome) go" where
  "reconcileMember S opts c =
     harborBacked S opts (memberKind c) True (Some (ensureMemberAbsent S opts)) (memberBody S opts (memberKind c))"

end
