(* ===== verification/MemberFacts.thy ===== *)
theory MemberFacts
  imports Members
begin

text \<open>
  The member reconciler keeps the frame's promises. What it deletes is not always its own.
\<close>

section \<open>The contract of the frame\<close>

lemma quietly_desiredEntity: "quietly (desiredEntityFromSpec S opts cr r)"
  unfolding desiredEntityFromSpec_def by (intro emits_intros quietly_resolve)

lemma untouched_desiredEntity [triple_intros]: "untouched (desiredEntityFromSpec S opts cr r)"
  unfolding desiredEntityFromSpec_def by (intro triple_intros)

lemma guards_desiredEntity [guard_intros]: "admitsLocal C \<Longrightarrow> guards P C (desiredEntityFromSpec S opts cr r)"
  by (rule guards_plain [OF untouched_desiredEntity]) (erule admitsLocal_quiet, rule quietly_desiredEntity)

lemma quietly_finishMember: "quietly (finishMember S opts K p n)"
  unfolding finishMember_def by (intro emits_intros)

lemmas member_call_events = emits_MemberCalls(1-3) [OF clientCalls_body]

lemma memberBody_events: "emits bodyEvent (memberBody S opts K hc)"
  unfolding memberBody_def ensureMemberPresent_def createMember_def
  by (intro emits_intros body_quiet body_resolve quietly_body [OF quietly_desiredEntity]
      quietly_body [OF quietly_finishMember] member_call_events) simp_all

lemma emits_deleteMatchingMembers:
  "clientCalls hc M C \<Longrightarrow> (\<And>relURL. M ''DELETE'' relURL) \<Longrightarrow> emits C (deleteMatchingMembers S hc p et en pms)"
  by (induction pms) (auto intro!: emits_intros emits_MemberCalls(4))

lemma deleteMember_events: "emits (\<lambda>ev. \<not> dropsFinalizer ev) (ensureMemberAbsent S opts hc)"
  unfolding ensureMemberAbsent_def
  by (intro emits_intros emits_deleteMatchingMembers [OF clientCalls_noDrop] quietly_noDrop [OF quietly_desiredEntity]
      quietly_noDrop [OF quietly_resolve(2)] emits_MemberCalls [OF clientCalls_noDrop]) simp_all

text \<open>The object has recorded the ids of its membership and is not orphaned.\<close>

definition owesMember :: "int \<Rightarrow> int \<Rightarrow> member \<Rightarrow> bool" where
  "owesMember p n obj \<longleftrightarrow>
     GetDeletionPolicy (objSpec obj) \<noteq> deletionPolicyOrphan \<and>
     memHarborProjectID (objStatus obj) = p \<and> memHarborMemberID (objStatus obj) = n \<and> p \<noteq> 0 \<and> n \<noteq> 0"

lemma same_memberIDs:
  assumes "harborStatusBase.more sb' = harborStatusBase.more sb"
  shows "memHarborProjectID sb' = memHarborProjectID sb" "memHarborMemberID sb' = memHarborMemberID sb"
  using assms by (cases sb; cases sb'; simp)+

lemma memberKind_sanitize: "kdSanitize (memberKind c) = sanitizeRef"
  and memberKind_client: "kdClient (memberKind c) = c"
  by (simp_all add: memberKind_def)

lemma stays_owesMember: "faithful (memberKind c) \<Longrightarrow> stays (memberKind c) (owesMember p n)"
  by (erule stays_faithful [OF _ memberKind_sanitize], frule GetDeletionPolicy_more, frule same_memberIDs(1),
      frule same_memberIDs(2)) (simp add: owesMember_def)

lemma owesMember_meta [simp]: "owesMember p n (obj\<lparr>objMeta := m\<rparr>) = owesMember p n obj"
  by (simp add: owesMember_def)

lemma owesMemberD: "owesMember p n obj \<Longrightarrow> GetDeletionPolicy (objSpec obj) \<noteq> deletionPolicyOrphan"
  by (simp add: owesMember_def)

lemma deleteMember_gone:
  "triple (\<lambda>s. owesMember p n (stObj s)) (ensureMemberAbsent S opts hc)
     (\<lambda>r s. r = None \<longrightarrow> list_ex (remoteGone (memberURL (goItoa p) n)) (stTrace s))"
  unfolding ensureMemberAbsent_def
proof (rule triple_bind [OF triple_getObj])
  fix cr :: member
  let ?del = "\<lambda>q m. do { err \<leftarrow> DeleteProjectMember S hc (goItoa q) m;
      State_Monad.return (if IsNotFound err then None else err) }"
  have del: "triple (\<lambda>_. True) (?del p n)
      (\<lambda>r s. r = None \<longrightarrow> list_ex (remoteGone (memberURL (goItoa p) n)) (stTrace s))"
    unfolding DeleteProjectMember_def by (intro triple_bind [OF delete_reports_gone] triple_return) auto
  have known: "memHarborProjectID (objStatus cr) = p \<and> memHarborMemberID (objStatus cr) = n \<and> p \<noteq> 0 \<and> n \<noteq> 0"
    if "owesMember p n cr"
    using that by (simp add: owesMember_def)
  show "triple (\<lambda>s. owesMember p n (stObj s) \<and> cr = stObj s)
      (if memHarborProjectID (objStatus cr) \<noteq> 0 \<and> memHarborMemberID (objStatus cr) \<noteq> 0
       then ?del (memHarborProjectID (objStatus cr)) (memHarborMemberID (objStatus cr)) else rest)
      (\<lambda>r s. r = None \<longrightarrow> list_ex (remoteGone (memberURL (goItoa p) n)) (stTrace s))" for rest
  proof (cases "owesMember p n cr")
    case True
    with known show ?thesis by (simp only: if_P simp_thms) (rule triple_pre [OF del], simp)
  qed (auto simp: triple_def)
qed

lemmas member_notPost = emits_MemberCalls(1,3,4) [OF clientCalls_notPost]

lemma guards_member_calls [guard_intros]:
  "guards P (\<lambda>ev. \<not> isPost ev) (ListProjectMembers S hc p)"
  "guards P (\<lambda>ev. \<not> isPost ev) (UpdateProjectMemberRole S hc p n r)"
  "guards P (\<lambda>ev. \<not> isPost ev) (DeleteProjectMember S hc p n)"
  by (rule guards_plain, rule untouched_member_calls, rule member_notPost, simp)+

lemma guards_finishMember: "stays K (mayNotCreate opts) \<Longrightarrow>
    guards (mayNotCreate opts) (\<lambda>ev. \<not> isPost ev) (finishMember S opts K p n)"
proof (rule guards_local [OF _ _ _ quietly_finishMember])
  show "keeps (staysInv K (mayNotCreate opts)) (finishMember S opts K p n)"
    unfolding finishMember_def finish_def
    by (intro triple_intros keeps_modObj staying.keeps_crGeneration staying.keeps_markStatus staying.keeps_status
        staying.keeps_sanitize mark_keeps)
      (auto simp: staysInv_def mayNotCreate_def setMemberIDs_def)
qed simp_all

lemma member_body_guarded:
  assumes "stays K (mayNotCreate opts)"
  shows "guards (mayNotCreate opts) (\<lambda>ev. \<not> isPost ev) (memberBody S opts K hc)"
proof -
  have "guards (mayNotCreate opts) (\<lambda>ev. \<not> isPost ev) (ensureMemberPresent S opts hc roleID)" for roleID
    unfolding ensureMemberPresent_def
    by (rule guards_getObj, erule mayNotCreateE, intro guard_intros) simp_all
  then show ?thesis
    unfolding memberBody_def by (intro guard_intros guards_finishMember assms) simp_all
qed

interpretation member: harbor_backed S opts "memberKind c" True "Some (ensureMemberAbsent S opts)"
    "memberBody S opts (memberKind c)" for S opts c
  by unfold_locales (auto intro: memberBody_events deleteMember_events)

interpretation owned_member: owned_remote S opts "memberKind c" True "Some (ensureMemberAbsent S opts)"
    "memberBody S opts (memberKind c)" "owesMember p n" "remoteGone (memberURL (goItoa p) n)"
    "ensureMemberAbsent S opts" for S opts c p n
  by unfold_locales (simp_all add: deleteMember_gone owesMemberD)

lemma deleteMember_notPost: "emits (\<lambda>ev. \<not> isPost ev) (ensureMemberAbsent S opts hc)"
  unfolding ensureMemberAbsent_def
  by (intro emits_intros emits_deleteMatchingMembers [OF clientCalls_notPost] member_notPost
      admitsLocal_quiet [OF notPost_admitsLocal quietly_desiredEntity]
      admitsLocal_quiet [OF notPost_admitsLocal quietly_resolve(2)]) simp_all

interpretation guarded_member: guarded_body S opts "memberKind c" True "Some (ensureMemberAbsent S opts)"
    "memberBody S opts (memberKind c)" "mayNotCreate opts" "\<lambda>ev. \<not> isPost ev" for S opts c
  by unfold_locales (auto intro!: guards_post [OF member_body_guarded] emits_post [OF deleteMember_notPost])

lemma deleteMember_only:
  "triple (objTrace (owesMember p n) (deletesOnly (memberURL (goItoa p) n))) (ensureMemberAbsent S opts hc)
     (\<lambda>_ s. list_all (deletesOnly (memberURL (goItoa p) n)) (stTrace s))"
  unfolding ensureMemberAbsent_def
proof (rule triple_bind [OF triple_getObj])
  fix cr :: member
  let ?C = "deletesOnly (memberURL (goItoa p) n)"
  let ?del = "\<lambda>q m. do { err \<leftarrow> DeleteProjectMember S hc (goItoa q) m;
      State_Monad.return (if IsNotFound err then None else err) }"
  have del: "emits ?C (?del p n)"
    unfolding DeleteProjectMember_def by (intro emits_intros emits_delete_own)
  show "triple (\<lambda>s. objTrace (owesMember p n) ?C s \<and> cr = stObj s)
      (if memHarborProjectID (objStatus cr) \<noteq> 0 \<and> memHarborMemberID (objStatus cr) \<noteq> 0
       then ?del (memHarborProjectID (objStatus cr)) (memHarborMemberID (objStatus cr)) else rest)
      (\<lambda>_ s. list_all ?C (stTrace s))" for rest
  proof (cases "owesMember p n cr")
    case True
    then have "memHarborProjectID (objStatus cr) = p" "memHarborMemberID (objStatus cr) = n" "p \<noteq> 0" "n \<noteq> 0"
      by (simp_all add: owesMember_def)
    then show ?thesis by (simp only: if_P simp_thms) (rule triple_pre [OF triple_events [OF del]], simp)
  qed (auto simp: triple_def)
qed

interpretation own_member: guarded_body S opts "memberKind c" True "Some (ensureMemberAbsent S opts)"
    "memberBody S opts (memberKind c)" "owesMember p n" "deletesOnly (memberURL (goItoa p) n)" for S opts c p n
  by unfold_locales (auto intro!: emits_post bodyEvent_deletesOnly memberBody_events deleteMember_only)

section \<open>A membership that is not the object's own\<close>

definition exUser :: user where
  "exUser =
     \<lparr>objMeta = exMeta ''team'' ''alice'',
      objSpec = \<lparr>harborConnectionRef = exRef, driftDetectionInterval = None, reconcileNonce = [],
        deletionPolicy = [], creationPolicy = [], userEmail = ''a@b.c'', userRealname = [], userComment = [],
        userPasswordSecretName = ''creds'', userPasswordSecretKey = ''access_secret''\<rparr>,
      objStatus = harborStatusBase.extend exStatusBase \<lparr>harborUserID = 4\<rparr>\<rparr>"

definition exProjectCR :: project where
  "exProjectCR =
     \<lparr>objMeta = exMeta ''team'' ''web'',
      objSpec = \<lparr>harborConnectionRef = exRef, driftDetectionInterval = None, reconcileNonce = [],
        deletionPolicy = [], creationPolicy = [], projPublic = False, projOwner = [], projMetadata = None,
        projCVEAllowlist = None, projStorageLimit = 0, projRegistryRef = None\<rparr>,
      objStatus = harborStatusBase.extend exStatusBase \<lparr>harborProjectID = 3\<rparr>\<rparr>"

text \<open>A Harbor with one member of project 3, and the Kubernetes objects that name it.\<close>

definition exMembership :: json where
  "exMembership = JObj [(''id'', jInt 9), (''project_id'', jInt 3), (''entity_name'', JStr ''alice''),
     (''entity_type'', JStr ''u''), (''role_id'', jInt 1)]"

definition exMemberCluster :: "unit services" where
  "exMemberCluster = exCluster
     \<lparr>svcPageFuel := 2, svcGetUser := \<lambda>key e. (Inr exUser, e), svcGetProject := \<lambda>key e. (Inr exProjectCR, e),
      svcHTTP := \<lambda>hc req e. (Inr (jsonResponse 200 [] (JArr [exMembership])), e)\<rparr>"

definition exMember :: "int option \<Rightarrow> string \<Rightarrow> int \<Rightarrow> member" where
  "exMember deleted creation memberID =
     \<lparr>objMeta = (exMeta ''team'' ''web-alice'')\<lparr>metaDeletionTimestamp := deleted, metaFinalizers := [finalizerName]\<rparr>,
      objSpec = \<lparr>harborConnectionRef = exRef, driftDetectionInterval = None, reconcileNonce = [],
        deletionPolicy = [], creationPolicy = creation,
        memProjectRef = \<lparr>nrName = ''web'', nrNamespace = []\<rparr>, memRole = ''guest'',
        memMemberUser = Some \<lparr>nrName = ''alice'', nrNamespace = []\<rparr>, memMemberGroup = None\<rparr>,
      objStatus = harborStatusBase.extend exStatusBase
        \<lparr>memHarborProjectID = if memberID = 0 then 0 else 3, memHarborMemberID = memberID\<rparr>\<rparr>"

definition runMember :: "member \<Rightarrow> event list" where
  "runMember obj =
     traceOf (reconcileMember exMemberCluster exOptions (exStore [obj]) (''team'', ''web-alice''))
       (startState obj ())"


text \<open>
  C16. A member that has recorded its ids never deletes another membership, and its finalizer is
  dropped only after Harbor has confirmed the deletion.
\<close>

theorem member_deletes_own:
  assumes "faithful (memberKind c)" and "shown (memberKind c) key e (owesMember p n)"
    and "lawfulFinalizers (svcMachinery S)"
  shows "list_all (deletesOnly (memberURL (goItoa p) n))
       (traceOf (reconcileMember S opts c key) (startState obj e)) \<and>
     preceded (remoteGone (memberURL (goItoa p) n)) dropsFinalizer
       (traceOf (reconcileMember S opts c key) (startState obj e))"
  unfolding traceOf_def reconcileMember_def
  by (intro conjI own_member.reconcile_guarded [OF stays_owesMember [OF assms(1)]]
      owned_member.cleaned_before_finalizer [OF stays_owesMember [OF assms(1)] _ assms(3)])
    (simp_all add: assms(2))

lemma member_deletes_own_witness:
  "let tr = runMember (exMember (Some 7) ''Create'' 9)
   in list_all (deletesOnly (memberURL (goItoa 3) 9)) tr \<and>
      preceded (remoteGone (memberURL (goItoa 3) 9)) dropsFinalizer tr \<and> list_ex dropsFinalizer tr"
proof -
  let ?obj = "exMember (Some 7) ''Create'' 9"
  have "shown (memberKind (exStore [?obj])) key e (owesMember 3 9)" for key :: nsName and e :: unit
    by (rule shown_only [OF memberKind_client]) code_simp
  then have "list_all (deletesOnly (memberURL (goItoa 3) 9)) (runMember ?obj) \<and>
      preceded (remoteGone (memberURL (goItoa 3) 9)) dropsFinalizer (runMember ?obj)"
    unfolding runMember_def
    by (intro member_deletes_own [OF faithful_store [OF memberKind_client]])
      (simp_all add: exMemberCluster_def lawful_exMachinery)
  moreover have "list_ex dropsFinalizer (runMember ?obj)"
    by code_simp
  ultimately show ?thesis by (simp only: Let_def simp_thms)
qed

end
