(* ===== verification/ProjectOwned.thy ===== *)
theory ProjectOwned
  imports OwnedRemote ReferenceRules
begin

text \<open>
  Resources that live under a project in Harbor (immutable tag rules, webhook policies). Their delete
  functions resolve the project first, so the URL depends on the project the Kubernetes API shows at
  that moment: what holds of the URL is its end, with the id of the resource.
\<close>

lemma goHasSuffix_trans: "goHasSuffix u (p @ s) \<Longrightarrow> goHasSuffix u s"
  by (drule goHasSuffixD) (metis append.assoc goHasSuffix_append)

lemma remoteGone_suffix: "remoteGone (p @ s) ev \<Longrightarrow> remoteGone s ev"
  by (auto simp: remoteGone_def split: event.splits option.splits dest: goHasSuffix_trans)

lemma deletesOnly_suffix: "deletesOnly (p @ s) ev \<Longrightarrow> deletesOnly s ev"
  by (auto simp: deletesOnly_def split: event.splits dest: goHasSuffix_trans)

text \<open>The shape of the delete functions.\<close>

definition deleteInProject :: "'e services \<Rightarrow> 'e operatorOptions \<Rightarrow>
    ('s \<Rightarrow> projectReference option) \<Rightarrow> ('t \<Rightarrow> int) \<Rightarrow>
    (string \<Rightarrow> int \<Rightarrow> (('s, 't) resource, 'e, gerror option) go) \<Rightarrow> (('s, 't) resource, 'e, gerror option) go" where
  "deleteInProject S opts refOf ident del =
     do { cr \<leftarrow> getObj;
          if ident (objStatus cr) = 0 then State_Monad.return None
          else do {
            p \<leftarrow> resolveProject S opts (metaNamespace (objMeta cr)) (refOf (objSpec cr));
            case p of
              Inl resolveErr \<Rightarrow> State_Monad.return (Some resolveErr)
            | Inr (projectKey, projectID) \<Rightarrow> del projectKey (ident (objStatus cr)) } }"

lemma delete_in_project_gone:
  assumes "\<And>obj. owes obj \<Longrightarrow> ident (objStatus obj) = n \<and> n \<noteq> 0"
    and "\<And>key m. del key m = deleteIgnoringNotFound S hc (pre key @ end m) []"
  shows "triple (\<lambda>s. owes (stObj s)) (deleteInProject S opts refOf ident del)
     (\<lambda>r s. r = None \<longrightarrow> list_ex (remoteGone (end n)) (stTrace s))"
  unfolding deleteInProject_def
proof (rule triple_bind [OF triple_getObj])
  show "triple (\<lambda>s. owes (stObj s) \<and> cr = stObj s)
      (if ident (objStatus cr) = 0 then State_Monad.return None
       else do { p \<leftarrow> resolveProject S opts (metaNamespace (objMeta cr)) (refOf (objSpec cr));
                 case p of Inl resolveErr \<Rightarrow> State_Monad.return (Some resolveErr)
                 | Inr (projectKey, projectID) \<Rightarrow> del projectKey (ident (objStatus cr)) })
      (\<lambda>r s. r = None \<longrightarrow> list_ex (remoteGone (end n)) (stTrace s))" for cr
  proof (cases "owes cr")
    case True
    then have n: "ident (objStatus cr) = n" "n \<noteq> 0" using assms(1) by auto
    have gone: "triple (\<lambda>_. True) (del key n) (\<lambda>r s. r = None \<longrightarrow> list_ex (remoteGone (end n)) (stTrace s))" for key
      unfolding assms(2)
      by (rule triple_post [OF delete_reports_gone]) (auto simp: list_ex_iff dest: remoteGone_suffix)
    show ?thesis
      unfolding n(1) if_not_P [OF n(2)]
      by (rule triple_bind [where Q = "\<lambda>_ _. True"], simp add: triple_def, rule triple_sum)
        (auto intro: triple_return triple_pre [OF gone])
  qed (auto simp: triple_def)
qed

lemma delete_in_project_events:
  assumes "\<And>key n. emits C (del key n)" and "\<And>ev. quietEvent ev \<Longrightarrow> C ev"
  shows "emits C (deleteInProject S opts refOf ident del)"
  unfolding deleteInProject_def
  by (intro emits_intros assms(1) emits_mono [OF quietly_resolve(2) assms(2)])

lemma delete_in_project_only:
  assumes "\<And>key m. del key m = deleteIgnoringNotFound S hc (pre key @ end m) []"
  shows "triple (objTrace (hasRemote ident n) (deletesOnly (end n))) (deleteInProject S opts refOf ident del)
     (\<lambda>_ s. list_all (deletesOnly (end n)) (stTrace s))"
  unfolding deleteInProject_def
proof (rule triple_bind [OF triple_getObj], rule triple_if)
  have "emits (deletesOnly (end m)) (del key m)" for key m
    unfolding assms by (rule emits_mono [OF emits_delete_own]) (erule deletesOnly_suffix)
  then have "emits (deletesOnly (end m))
      (do { p \<leftarrow> resolveProject S opts ns ref;
            case p of Inl resolveErr \<Rightarrow> State_Monad.return (Some resolveErr)
            | Inr (projectKey, projectID) \<Rightarrow> del projectKey m })" for ns ref m
    by (intro emits_intros admitsLocal_quiet [OF deletesOnly_local quietly_resolve(2)])
  then have "triple (\<lambda>s. list_all (deletesOnly (end m)) (stTrace s))
      (do { p \<leftarrow> resolveProject S opts ns ref;
            case p of Inl resolveErr \<Rightarrow> State_Monad.return (Some resolveErr)
            | Inr (projectKey, projectID) \<Rightarrow> del projectKey m })
      (\<lambda>_ s. list_all (deletesOnly (end m)) (stTrace s))" for ns ref m
    by (rule triple_events)
  note steps = this
  show "triple (\<lambda>s. objTrace (hasRemote ident n) (deletesOnly (end n)) s \<and> cr = stObj s)
      (do { p \<leftarrow> resolveProject S opts (metaNamespace (objMeta cr)) (refOf (objSpec cr));
            case p of Inl resolveErr \<Rightarrow> State_Monad.return (Some resolveErr)
            | Inr (projectKey, projectID) \<Rightarrow> del projectKey (ident (objStatus cr)) })
      (\<lambda>_ s. list_all (deletesOnly (end n)) (stTrace s))" for cr
  proof (cases "ident (objStatus cr) = n")
    case True
    show ?thesis unfolding True by (rule triple_pre [OF steps]) simp
  next
    case False
    then show ?thesis unfolding triple_def hasRemote_def by blast
  qed
qed (auto intro: triple_return)

end
