(* ===== verification/Selectors.thy ===== *)
theory Selectors
  imports AnyValues ApiPolicyTypes
begin

text \<open>
  The selectors of immutable tag rules and of retention rules. The client and the public API have a
  type for each, all four with the same fields; one record stands for the client's two.
\<close>

record hSelector =
  hsKind :: string
  hsDecoration :: string
  hsPattern :: string
  hsExtras :: string

definition decSelector :: "hSelector decoder" where
  "decSelector = decObj (\<lambda>kvs.
     do { k \<leftarrow> decStr (jget ''kind'' kvs);
          d \<leftarrow> decStr (jget ''decoration'' kvs);
          p \<leftarrow> decStr (jget ''pattern'' kvs);
          e \<leftarrow> decStr (jget ''extras'' kvs);
          Some \<lparr>hsKind = k, hsDecoration = d, hsPattern = p, hsExtras = e\<rparr> })"

definition encSelector :: "hSelector \<Rightarrow> json" where
  "encSelector s = JObj
     (omitStr ''kind'' (hsKind s) @ omitStr ''decoration'' (hsDecoration s) @
      omitStr ''pattern'' (hsPattern s) @ omitStr ''extras'' (hsExtras s))"

type_synonym scopeSelectors = "(string \<times> hSelector list option) list option"

definition toSelector :: "selectorSpec \<Rightarrow> hSelector" where
  "toSelector sel =
     \<lparr>hsKind = selKind sel, hsDecoration = selDecoration sel, hsPattern = selPattern sel,
      hsExtras = selExtras sel\<rparr>"

text \<open>The result is never nil.\<close>

definition toImmutableSelectors :: "selectorSpec list \<Rightarrow> hSelector list option" where
  "toImmutableSelectors sels = Some (map toSelector sels)"

definition toImmutableScopeSelectors :: "(string \<times> selectorSpec list) list option \<Rightarrow> scopeSelectors" where
  "toImmutableScopeSelectors m =
     map_option (\<lambda>kvs. canonMap (map (\<lambda>(key, sels). (key, toImmutableSelectors sels)) kvs)) m"

definition toRetentionSelectors :: "selectorSpec list \<Rightarrow> hSelector list option" where
  "toRetentionSelectors sels = Some (map toSelector sels)"

definition toRetentionScopeSelectors :: "(string \<times> selectorSpec list) list option \<Rightarrow> scopeSelectors" where
  "toRetentionScopeSelectors m =
     map_option (\<lambda>kvs. canonMap (map (\<lambda>(key, sels). (key, toRetentionSelectors sels)) kvs)) m"

end
