(* ===== verification/ImmutableTagRules.thy ===== *)
theory ImmutableTagRules
  imports ProjectOwned Selectors
begin

text \<open>
  Immutable tag rules: the calls of \<^verbatim>\<open>internal/harborclient/immutable.go\<close> and
  the reconciler of \<^verbatim>\<open>internal/controller/immutabletagrule_controller.go\<close>.
  Harbor answers the creation of a rule without its id, so the reconciler finds a rule by its
  content: it compares rules in a normal form. Building the normal form sorts the selectors of the
  desired rule in place, and what is sent afterwards is sorted.
\<close>

section \<open>The Harbor client\<close>

record hImmutableRule =
  hirID :: int
  hirPriority :: int
  hirDisabled :: bool
  hirAction :: string
  hirTemplate :: string
  hirParams :: "(string \<times> json) list option"
  hirTagSelectors :: "hSelector list option"
  hirScopeSelectors :: scopeSelectors

definition decImmutableRule :: "hImmutableRule decoder" where
  "decImmutableRule = decObj (\<lambda>kvs.
     do { n \<leftarrow> decInt (jget ''id'' kvs);
          p \<leftarrow> decInt (jget ''priority'' kvs);
          d \<leftarrow> decBool (jget ''disabled'' kvs);
          a \<leftarrow> decStr (jget ''action'' kvs);
          t \<leftarrow> decStr (jget ''template'' kvs);
          ps \<leftarrow> decMap decAny (jget ''params'' kvs);
          ts \<leftarrow> decSlice decSelector (jget ''tag_selectors'' kvs);
          ss \<leftarrow> decMap (decSlice decSelector) (jget ''scope_selectors'' kvs);
          Some \<lparr>hirID = n, hirPriority = p, hirDisabled = d, hirAction = a, hirTemplate = t, hirParams = ps,
                hirTagSelectors = ts, hirScopeSelectors = ss\<rparr> })"

definition encImmutableRule :: "hImmutableRule \<Rightarrow> json" where
  "encImmutableRule r = JObj
     (omitInt ''id'' (hirID r) @ omitInt ''priority'' (hirPriority r) @ omitBool ''disabled'' (hirDisabled r) @
      omitStr ''action'' (hirAction r) @ omitStr ''template'' (hirTemplate r) @
      omitMap ''params'' id (hirParams r) @ omitSlice ''tag_selectors'' encSelector (hirTagSelectors r) @
      omitMap ''scope_selectors'' (encSlice encSelector) (hirScopeSelectors r))"

definition rulesURL :: "string \<Rightarrow> string" where
  "rulesURL projectRef = ''/api/v2.0/projects/'' @ projectRef @ ''/immutabletagrules''"

definition ruleEnd :: "int \<Rightarrow> string" where
  "ruleEnd n = ''/immutabletagrules/'' @ goItoa n"

definition ruleURL :: "string \<Rightarrow> int \<Rightarrow> string" where
  "ruleURL projectRef n = (''/api/v2.0/projects/'' @ projectRef) @ ruleEnd n"

definition ListImmutableRules :: "'e services \<Rightarrow> harborClient \<Rightarrow> string \<Rightarrow> ('o, 'e, gerror + hImmutableRule list) go" where
  "ListImmutableRules S c projectRef = getPaged S c decImmutableRule (rulesURL projectRef) []"

definition CreateImmutableRule :: "'e services \<Rightarrow> harborClient \<Rightarrow> string \<Rightarrow> hImmutableRule \<Rightarrow> ('o, 'e, gerror option) go" where
  "CreateImmutableRule S c projectRef r = clientPost S c (rulesURL projectRef) (encImmutableRule r)"

definition UpdateImmutableRule :: "'e services \<Rightarrow> harborClient \<Rightarrow> string \<Rightarrow> int \<Rightarrow> hImmutableRule \<Rightarrow>
    ('o, 'e, gerror option) go" where
  "UpdateImmutableRule S c projectRef n r = clientPut S c (ruleURL projectRef n) (encImmutableRule r)"

definition DeleteImmutableRule :: "'e services \<Rightarrow> harborClient \<Rightarrow> string \<Rightarrow> int \<Rightarrow> ('o, 'e, gerror option) go" where
  "DeleteImmutableRule S c projectRef n = deleteIgnoringNotFound S c (ruleURL projectRef n) []"

lemma emits_ImmutableCalls:
  "clientCalls c M C \<Longrightarrow> (\<And>relURL. M ''GET'' relURL) \<Longrightarrow> emits C (ListImmutableRules S c p)"
  "clientCalls c M C \<Longrightarrow> M ''POST'' (rulesURL p) \<Longrightarrow> emits C (CreateImmutableRule S c p r)"
  "clientCalls c M C \<Longrightarrow> M ''PUT'' (ruleURL p n) \<Longrightarrow> emits C (UpdateImmutableRule S c p n r)"
  "clientCalls c M C \<Longrightarrow> M ''DELETE'' (ruleURL p n) \<Longrightarrow> emits C (DeleteImmutableRule S c p n)"
  unfolding ListImmutableRules_def CreateImmutableRule_def UpdateImmutableRule_def DeleteImmutableRule_def
  by (intro client_emits; (assumption | simp))+

lemma untouched_immutable_calls [triple_intros]:
  "untouched (ListImmutableRules S hc p)" "untouched (CreateImmutableRule S hc p r)"
  "untouched (UpdateImmutableRule S hc p n r)" "untouched (DeleteImmutableRule S hc p n)"
  unfolding ListImmutableRules_def CreateImmutableRule_def UpdateImmutableRule_def DeleteImmutableRule_def
  by (intro triple_intros)+

section \<open>Rules in normal form\<close>

definition immutableSelectorKey :: "hSelector \<Rightarrow> string" where
  "immutableSelectorKey s =
     hsKind s @ ''|'' @ hsDecoration s @ ''|'' @ hsPattern s @ ''|'' @ hsExtras s"

definition sortSelectors :: "hSelector list option \<Rightarrow> hSelector list option" where
  "sortSelectors = map_option (sortSlice (\<lambda>a b. immutableSelectorKey a < immutableSelectorKey b))"

text \<open>
  What building the normal form does to the rule it is built from: the slices are sorted where they
  are, and the caller's rule shares them.
\<close>

definition sortImmutableRule :: "hImmutableRule \<Rightarrow> hImmutableRule" where
  "sortImmutableRule r = r\<lparr>
     hirTagSelectors := sortSelectors (hirTagSelectors r),
     hirScopeSelectors := map_option (map (\<lambda>(key, sels). (key, sortSelectors sels))) (hirScopeSelectors r)\<rparr>"

definition nilIfEmpty :: "'a list option \<Rightarrow> 'a list option" where
  "nilIfEmpty s = (if s = Some [] then None else s)"

definition normalizeImmutableRule :: "hImmutableRule \<Rightarrow> hImmutableRule" where
  "normalizeImmutableRule r =
     (let sorted = sortImmutableRule r
      in sorted\<lparr>
        hirID := 0,
        hirParams := normalizeAnyMap (hirParams r),
        hirTagSelectors := nilIfEmpty (hirTagSelectors sorted),
        hirScopeSelectors := nilIfEmpty (hirScopeSelectors sorted)\<rparr>)"

text \<open>\<^verbatim>\<open>reflect.DeepEqual\<close> of the normal forms.\<close>

definition immutableRuleMatches :: "hImmutableRule \<Rightarrow> hImmutableRule \<Rightarrow> bool" where
  "immutableRuleMatches desired current =
     (let d = normalizeImmutableRule desired; c = normalizeImmutableRule current
      in d\<lparr>hirParams := plusZeroMap (hirParams d)\<rparr> = c\<lparr>hirParams := plusZeroMap (hirParams c)\<rparr>)"

definition immutableRuleNeedsUpdate :: "hImmutableRule \<Rightarrow> hImmutableRule option \<Rightarrow> bool" where
  "immutableRuleNeedsUpdate desired current =
     (case current of None \<Rightarrow> True | Some c \<Rightarrow> \<not> immutableRuleMatches desired c)"

section \<open>Finding a rule\<close>

text \<open>
  The id, 0 if no rule matches, and the desired rule as the search leaves it: sorted if it was
  compared at all.
\<close>

definition findMatchingRuleID :: "'e services \<Rightarrow> harborClient \<Rightarrow> string \<Rightarrow> hImmutableRule \<Rightarrow>
    ('o, 'e, gerror + int \<times> hImmutableRule) go" where
  "findMatchingRuleID S hc projectKey desired =
     do { r \<leftarrow> ListImmutableRules S hc projectKey;
          State_Monad.return
            (case r of
               Inl err \<Rightarrow> Inl err
             | Inr rules \<Rightarrow>
                 Inr (case find (immutableRuleMatches desired) rules of None \<Rightarrow> 0 | Some rule \<Rightarrow> hirID rule,
                      if rules = [] then desired else sortImmutableRule desired)) }"

definition getImmutableRule :: "'e services \<Rightarrow> harborClient \<Rightarrow> string \<Rightarrow> int \<Rightarrow>
    ('o, 'e, gerror + hImmutableRule) go" where
  "getImmutableRule S hc projectKey n =
     do { r \<leftarrow> ListImmutableRules S hc projectKey;
          State_Monad.return
            (case r of
               Inl err \<Rightarrow> Inl err
             | Inr rules \<Rightarrow>
                 (case find (\<lambda>rule. hirID rule = n) rules of
                    None \<Rightarrow> Inl (HTTPError 404 ''rule not found'')
                  | Some rule \<Rightarrow> Inr rule)) }"

section \<open>The reconciler\<close>

definition immutableKind :: "('e, immutableTagRule) kclient \<Rightarrow>
    ('e, immutableTagRuleSpec, immutableTagRuleStatus) kind" where
  "immutableKind c = \<lparr>kdKind = KImmutableTagRule, kdSanitize = sanitizeRef, kdClient = c\<rparr>"

definition setRuleID :: "int \<Rightarrow> immutableTagRule \<Rightarrow> immutableTagRule" where
  "setRuleID n cr = cr\<lparr>objStatus := (objStatus cr)\<lparr>harborImmutableRuleID := n\<rparr>\<rparr>"

definition deleteImmutableFn :: "'e services \<Rightarrow> 'e operatorOptions \<Rightarrow> harborClient \<Rightarrow>
    (immutableTagRule, 'e, gerror option) go" where
  "deleteImmutableFn S opts hc =
     deleteInProject S opts imrProjectRef harborImmutableRuleID (DeleteImmutableRule S hc)"

definition jsonMapToAnyImmutable :: "(string \<times> string) list option \<Rightarrow> gerror + (string \<times> json) list option" where
  [simp]: "jsonMapToAnyImmutable m = jsonMapToAny ''invalid params for '' m"

definition desiredImmutableRule :: "immutableTagRuleSpec \<Rightarrow> gerror + hImmutableRule" where
  "desiredImmutableRule sp =
     (case jsonMapToAnyImmutable (imrParams sp) of
        Inl err \<Rightarrow> Inl err
      | Inr params \<Rightarrow>
          Inr \<lparr>hirID = 0, hirPriority = imrPriority sp, hirDisabled = imrDisabled sp, hirAction = imrAction sp,
               hirTemplate = imrTemplate sp, hirParams = params,
               hirTagSelectors = toImmutableSelectors (imrTagSelectors sp),
               hirScopeSelectors = toImmutableScopeSelectors (imrScopeSelectors sp)\<rparr>)"

text \<open>Whether a rule was adopted, an error, and the desired rule afterwards.\<close>

definition adoptExistingRule :: "'e services \<Rightarrow> ('e, immutableTagRuleSpec, immutableTagRuleStatus) kind \<Rightarrow>
    harborClient \<Rightarrow> string \<Rightarrow> hImmutableRule \<Rightarrow> (immutableTagRule, 'e, bool \<times> gerror option \<times> hImmutableRule) go" where
  "adoptExistingRule S K hc projectKey desired =
     do { r \<leftarrow> findMatchingRuleID S hc projectKey desired;
          case r of
            Inl err \<Rightarrow> State_Monad.return (False, Some err, desired)
          | Inr (ruleID, desired') \<Rightarrow>
              if ruleID = 0 then State_Monad.return (False, None, desired')
              else do { _ \<leftarrow> modObj (setRuleID ruleID);
                        err \<leftarrow> kubeStatusUpdate K;
                        State_Monad.return (True, err, desired') } }"

definition createRulePath :: "'e services \<Rightarrow> 'e operatorOptions \<Rightarrow>
    ('e, immutableTagRuleSpec, immutableTagRuleStatus) kind \<Rightarrow> harborClient \<Rightarrow> string \<Rightarrow> hImmutableRule \<Rightarrow>
    (immutableTagRule, 'e, outcome) go" where
  "createRulePath S opts K hc projectKey desired =
     do { cr \<leftarrow> getObj;
          case requireCreationAllowed opts (creationPolicy (objSpec cr)) of
            Some err \<Rightarrow> failWith S K err
          | None \<Rightarrow>
              do { cerr \<leftarrow> CreateImmutableRule S hc projectKey desired;
                   case cerr of
                     Some err \<Rightarrow> failWith S K err
                   | None \<Rightarrow>
                       do { r \<leftarrow> findMatchingRuleID S hc projectKey desired;
                            case r of
                              Inl err \<Rightarrow> failWith S K err
                            | Inr (ruleID, desired') \<Rightarrow>
                                do { _ \<leftarrow> modObj (setRuleID ruleID);
                                     readyWithDrift S opts K ''Created'' ''Immutable tag rule created'' } } } }"

definition updateRulePath :: "'e services \<Rightarrow> 'e operatorOptions \<Rightarrow>
    ('e, immutableTagRuleSpec, immutableTagRuleStatus) kind \<Rightarrow> harborClient \<Rightarrow> string \<Rightarrow> hImmutableRule \<Rightarrow>
    (immutableTagRule, 'e, outcome) go" where
  "updateRulePath S opts K hc projectKey desired =
     do { cr \<leftarrow> getObj;
          r \<leftarrow> getImmutableRule S hc projectKey (harborImmutableRuleID (objStatus cr));
          case r of
            Inl err \<Rightarrow>
              (if IsNotFound (Some err)
               then do { generation \<leftarrow> crGeneration;
                         requeueOnRemoteNotFound S K generation (Some (\<lambda>st. st\<lparr>harborImmutableRuleID := 0\<rparr>))
                           ''Immutable tag rule not found in Harbor'' }
               else failWith S K err)
          | Inr current \<Rightarrow>
              do { uerr \<leftarrow> (if immutableRuleNeedsUpdate desired (Some current)
                           then UpdateImmutableRule S hc projectKey (harborImmutableRuleID (objStatus cr))
                                  (sortImmutableRule desired)
                           else State_Monad.return None);
                   case uerr of
                     Some err \<Rightarrow> failWith S K err
                   | None \<Rightarrow> readyWithDrift S opts K ''Reconciled'' ''Immutable tag rule reconciled'' } }"

definition immutableBody :: "'e services \<Rightarrow> 'e operatorOptions \<Rightarrow>
    ('e, immutableTagRuleSpec, immutableTagRuleStatus) kind \<Rightarrow> harborClient \<Rightarrow> (immutableTagRule, 'e, outcome) go" where
  "immutableBody S opts K hc =
     do { cr \<leftarrow> getObj;
          p \<leftarrow> resolveProject S opts (metaNamespace (objMeta cr)) (imrProjectRef (objSpec cr));
          case p of
            Inl err \<Rightarrow> failWith S K err
          | Inr (projectKey, projectID) \<Rightarrow>
              (case desiredImmutableRule (objSpec cr) of
                 Inl err \<Rightarrow> failWith S K err
               | Inr desired \<Rightarrow>
                   do { (adopted, aerr, desired') \<leftarrow>
                          (if harborImmutableRuleID (objStatus cr) = 0 \<and>
                              allowsAdoption opts (creationPolicy (objSpec cr))
                           then adoptExistingRule S K hc projectKey desired
                           else State_Monad.return (False, None, desired));
                        case aerr of
                          Some err \<Rightarrow> failWith S K err
                        | None \<Rightarrow>
                            if adopted then State_Monad.return (emptyResult\<lparr>requeue := True\<rparr>, None)
                            else if harborImmutableRuleID (objStatus cr) = 0
                            then createRulePath S opts K hc projectKey desired'
                            else updateRulePath S opts K hc projectKey desired' }) }"

definition reconcileImmutableTagRule :: "'e services \<Rightarrow> 'e operatorOptions \<Rightarrow> ('e, immutableTagRule) kclient \<Rightarrow>
    nsName \<Rightarrow> (immutableTagRule, 'e, outcome) go" where
  "reconcileImmutableTagRule S opts c =
     harborBacked S opts (immutableKind c) True (Some (deleteImmutableFn S opts))
       (immutableBody S opts (immutableKind c))"

section \<open>The contract of the frame\<close>

lemmas immutable_call_events = emits_ImmutableCalls(1-3) [OF clientCalls_body]
lemmas immutable_notPost = emits_ImmutableCalls(1,3,4) [OF clientCalls_notPost]

lemmas rule_search_defs = findMatchingRuleID_def getImmutableRule_def adoptExistingRule_def

lemma immutableBody_events: "emits bodyEvent (immutableBody S opts K hc)"
  unfolding immutableBody_def rule_search_defs createRulePath_def updateRulePath_def
  by (intro emits_intros body_quiet immutable_call_events body_resolve) simp_all

lemma deleteImmutable_events: "emits (\<lambda>ev. \<not> dropsFinalizer ev) (deleteImmutableFn S opts hc)"
  unfolding deleteImmutableFn_def
  by (rule delete_in_project_events [OF emits_ImmutableCalls(4) [OF clientCalls_noDrop]])
    (auto dest: quietEvent_imp)

abbreviation owesRule :: "int \<Rightarrow> immutableTagRule \<Rightarrow> bool" where
  "owesRule n \<equiv> owesRemote harborImmutableRuleID 0 n"

lemma deleteImmutable_gone:
  "triple (\<lambda>s. owesRule n (stObj s)) (deleteImmutableFn S opts hc)
     (\<lambda>r s. r = None \<longrightarrow> list_ex (remoteGone (ruleEnd n)) (stTrace s))"
  unfolding deleteImmutableFn_def
  by (rule delete_in_project_gone [OF owesRemote_ident])
    (simp_all only: DeleteImmutableRule_def ruleURL_def)

lemma guards_immutable_calls [guard_intros]:
  "guards P (\<lambda>ev. \<not> isPost ev) (ListImmutableRules S hc p)"
  "guards P (\<lambda>ev. \<not> isPost ev) (UpdateImmutableRule S hc p n r)"
  "guards P (\<lambda>ev. \<not> isPost ev) (DeleteImmutableRule S hc p n)"
  by (rule guards_plain, rule untouched_immutable_calls, rule immutable_notPost, simp)+

lemma immutable_body_guarded:
  assumes "stays K (mayNotCreate opts)"
  shows "guards (mayNotCreate opts) (\<lambda>ev. \<not> isPost ev) (immutableBody S opts K hc)"
proof -
  have no: "guards (mayNotCreate opts) (\<lambda>ev. \<not> isPost ev) (createRulePath S opts K hc p r)" for p r
    unfolding createRulePath_def
    by (rule guards_getObj, erule mayNotCreateE) (simp add: guards_failWith [OF assms])
  show ?thesis
    unfolding immutableBody_def rule_search_defs updateRulePath_def
    by (intro guard_intros no assms) (auto simp: mayNotCreate_def setRuleID_def)
qed

lemma deleteImmutable_notPost: "emits (\<lambda>ev. \<not> isPost ev) (deleteImmutableFn S opts hc)"
  unfolding deleteImmutableFn_def
  by (rule delete_in_project_events [OF immutable_notPost(3)]) (auto dest: quietEvent_imp simp: isPost_def isHttp_def split: event.splits)

lemma deleteImmutable_only:
  "triple (objTrace (hasRemote harborImmutableRuleID n) (deletesOnly (ruleEnd n))) (deleteImmutableFn S opts hc)
     (\<lambda>_ s. list_all (deletesOnly (ruleEnd n)) (stTrace s))"
  unfolding deleteImmutableFn_def
  by (rule delete_in_project_only) (simp only: DeleteImmutableRule_def ruleURL_def)

interpretation immutable_rule: harbor_backed S opts "immutableKind c" True "Some (deleteImmutableFn S opts)"
    "immutableBody S opts (immutableKind c)" for S opts c
  by unfold_locales (auto intro: immutableBody_events deleteImmutable_events)

interpretation owned_rule: owned_remote S opts "immutableKind c" True "Some (deleteImmutableFn S opts)"
    "immutableBody S opts (immutableKind c)" "owesRule n" "remoteGone (ruleEnd n)" "deleteImmutableFn S opts"
  for S opts c n
  by unfold_locales (auto intro: deleteImmutable_gone dest: owesRemoteD)

interpretation guarded_rule: guarded_body S opts "immutableKind c" True "Some (deleteImmutableFn S opts)"
    "immutableBody S opts (immutableKind c)" "mayNotCreate opts" "\<lambda>ev. \<not> isPost ev" for S opts c
  by unfold_locales (auto intro!: guards_post [OF immutable_body_guarded] emits_post [OF deleteImmutable_notPost])

interpretation own_rule: guarded_body S opts "immutableKind c" True "Some (deleteImmutableFn S opts)"
    "immutableBody S opts (immutableKind c)" "hasRemote harborImmutableRuleID n" "deletesOnly (ruleEnd n)"
  for S opts c n
  by unfold_locales (auto intro!: emits_post bodyEvent_deletesOnly immutableBody_events deleteImmutable_only)

end
