(* ===== verification/WebhookPolicies.thy ===== *)
theory WebhookPolicies
  imports ProjectOwned ApiPolicyTypes
begin

text \<open>
  Webhook policies: the calls of \<^verbatim>\<open>internal/harborclient/webhook.go\<close> and the
  reconciler of \<^verbatim>\<open>internal/controller/webhookpolicy_controller.go\<close>. The
  comparison with Harbor's policy builds a normal form in place: it clears the authorization headers
  and sorts targets and event types of the very slices that the desired policy, and the object's
  spec, hold. The API server admits no policy without targets or event types, so nil and empty
  slices need not be told apart.
\<close>

section \<open>The Harbor client\<close>

record hWebhookTarget =
  hwtType :: string
  hwtAddress :: string
  hwtAuthHeader :: string
  hwtPayloadFormat :: string
  hwtSkipCertVerify :: bool

record hWebhookPolicy =
  hwpID :: int
  hwpName :: string
  hwpDescription :: string
  hwpProjectID :: int
  hwpTargets :: "hWebhookTarget list"
  hwpEventTypes :: "string list"
  hwpCreator :: string
  hwpCreationTime :: string
  hwpUpdateTime :: string
  hwpEnabled :: bool

definition decWebhookTarget :: "hWebhookTarget decoder" where
  "decWebhookTarget = decObj (\<lambda>kvs.
     do { t \<leftarrow> decStr (jget ''type'' kvs);
          a \<leftarrow> decStr (jget ''address'' kvs);
          h \<leftarrow> decStr (jget ''auth_header'' kvs);
          f \<leftarrow> decStr (jget ''payload_format'' kvs);
          s \<leftarrow> decBool (jget ''skip_cert_verify'' kvs);
          Some \<lparr>hwtType = t, hwtAddress = a, hwtAuthHeader = h, hwtPayloadFormat = f, hwtSkipCertVerify = s\<rparr> })"

definition encWebhookTarget :: "hWebhookTarget \<Rightarrow> json" where
  "encWebhookTarget t = JObj
     (omitStr ''type'' (hwtType t) @ omitStr ''address'' (hwtAddress t) @
      omitStr ''auth_header'' (hwtAuthHeader t) @ omitStr ''payload_format'' (hwtPayloadFormat t) @
      omitBool ''skip_cert_verify'' (hwtSkipCertVerify t))"

definition decWebhookPolicy :: "hWebhookPolicy decoder" where
  "decWebhookPolicy = decObj (\<lambda>kvs.
     do { n \<leftarrow> decInt (jget ''id'' kvs);
          nm \<leftarrow> decStr (jget ''name'' kvs);
          d \<leftarrow> decStr (jget ''description'' kvs);
          p \<leftarrow> decInt (jget ''project_id'' kvs);
          ts \<leftarrow> decList decWebhookTarget (jget ''targets'' kvs);
          es \<leftarrow> decList decStr (jget ''event_types'' kvs);
          c \<leftarrow> decStr (jget ''creator'' kvs);
          ct \<leftarrow> decStr (jget ''creation_time'' kvs);
          ut \<leftarrow> decStr (jget ''update_time'' kvs);
          e \<leftarrow> decBool (jget ''enabled'' kvs);
          Some \<lparr>hwpID = n, hwpName = nm, hwpDescription = d, hwpProjectID = p, hwpTargets = ts,
                hwpEventTypes = es, hwpCreator = c, hwpCreationTime = ct, hwpUpdateTime = ut, hwpEnabled = e\<rparr> })"

definition encWebhookPolicy :: "hWebhookPolicy \<Rightarrow> json" where
  "encWebhookPolicy p = JObj
     (omitInt ''id'' (hwpID p) @ omitStr ''name'' (hwpName p) @ omitStr ''description'' (hwpDescription p) @
      omitInt ''project_id'' (hwpProjectID p) @ omitList ''targets'' encWebhookTarget (hwpTargets p) @
      omitList ''event_types'' JStr (hwpEventTypes p) @ omitStr ''creator'' (hwpCreator p) @
      omitStr ''creation_time'' (hwpCreationTime p) @ omitStr ''update_time'' (hwpUpdateTime p) @
      omitBool ''enabled'' (hwpEnabled p))"

definition webhooksURL :: "string \<Rightarrow> string" where
  "webhooksURL projectRef = ''/api/v2.0/projects/'' @ projectRef @ ''/webhook/policies''"

definition webhookEnd :: "int \<Rightarrow> string" where
  "webhookEnd n = ''/webhook/policies/'' @ goItoa n"

definition webhookURL :: "string \<Rightarrow> int \<Rightarrow> string" where
  "webhookURL projectRef n = (''/api/v2.0/projects/'' @ projectRef) @ webhookEnd n"

definition ListWebhookPolicies :: "'e services \<Rightarrow> harborClient \<Rightarrow> string \<Rightarrow> ('o, 'e, gerror + hWebhookPolicy list) go" where
  "ListWebhookPolicies S c projectRef = getPaged S c decWebhookPolicy (webhooksURL projectRef) []"

definition GetWebhookPolicy :: "'e services \<Rightarrow> harborClient \<Rightarrow> string \<Rightarrow> int \<Rightarrow> ('o, 'e, gerror + hWebhookPolicy) go" where
  "GetWebhookPolicy S c projectRef n = clientGet S c (webhookURL projectRef n) decWebhookPolicy"

definition CreateWebhookPolicy :: "'e services \<Rightarrow> harborClient \<Rightarrow> string \<Rightarrow> hWebhookPolicy \<Rightarrow> ('o, 'e, gerror + int) go" where
  "CreateWebhookPolicy S c projectRef p =
     createWithNumericLocationID S c (webhooksURL projectRef) (encWebhookPolicy p)"

definition UpdateWebhookPolicy :: "'e services \<Rightarrow> harborClient \<Rightarrow> string \<Rightarrow> int \<Rightarrow> hWebhookPolicy \<Rightarrow>
    ('o, 'e, gerror option) go" where
  "UpdateWebhookPolicy S c projectRef n p = clientPut S c (webhookURL projectRef n) (encWebhookPolicy p)"

definition DeleteWebhookPolicy :: "'e services \<Rightarrow> harborClient \<Rightarrow> string \<Rightarrow> int \<Rightarrow> ('o, 'e, gerror option) go" where
  "DeleteWebhookPolicy S c projectRef n = deleteIgnoringNotFound S c (webhookURL projectRef n) []"

lemma emits_WebhookCalls:
  "clientCalls c M C \<Longrightarrow> (\<And>relURL. M ''GET'' relURL) \<Longrightarrow> emits C (ListWebhookPolicies S c p)"
  "clientCalls c M C \<Longrightarrow> M ''GET'' (webhookURL p n) \<Longrightarrow> emits C (GetWebhookPolicy S c p n)"
  "clientCalls c M C \<Longrightarrow> M ''POST'' (webhooksURL p) \<Longrightarrow> emits C (CreateWebhookPolicy S c p w)"
  "clientCalls c M C \<Longrightarrow> M ''PUT'' (webhookURL p n) \<Longrightarrow> emits C (UpdateWebhookPolicy S c p n w)"
  "clientCalls c M C \<Longrightarrow> M ''DELETE'' (webhookURL p n) \<Longrightarrow> emits C (DeleteWebhookPolicy S c p n)"
  unfolding ListWebhookPolicies_def GetWebhookPolicy_def CreateWebhookPolicy_def UpdateWebhookPolicy_def
    DeleteWebhookPolicy_def
  by (intro client_emits; (assumption | simp))+

lemma untouched_webhook_calls [triple_intros]:
  "untouched (ListWebhookPolicies S hc p)" "untouched (GetWebhookPolicy S hc p n)"
  "untouched (CreateWebhookPolicy S hc p w)" "untouched (UpdateWebhookPolicy S hc p n w)"
  "untouched (DeleteWebhookPolicy S hc p n)"
  unfolding ListWebhookPolicies_def GetWebhookPolicy_def CreateWebhookPolicy_def UpdateWebhookPolicy_def
    DeleteWebhookPolicy_def
  by (intro triple_intros)+

section \<open>Targets\<close>

definition targetText :: "webhookTargetSpec \<Rightarrow> string \<Rightarrow> string" where
  "targetText t authHeader =
     ''type='' @ wtsType t @ ''|addr='' @ wtsAddress t @ ''|auth='' @ authHeader @
     ''|format='' @ wtsPayloadFormat t @ ''|skip='' @ goBool (wtsSkipCertVerify t)"

definition toWebhookTarget :: "webhookTargetSpec \<Rightarrow> string \<Rightarrow> hWebhookTarget" where
  "toWebhookTarget t authHeader =
     \<lparr>hwtType = wtsType t, hwtAddress = wtsAddress t, hwtAuthHeader = authHeader,
      hwtPayloadFormat = wtsPayloadFormat t, hwtSkipCertVerify = wtsSkipCertVerify t\<rparr>"

text \<open>The loop over the targets from number \<open>i\<close> on: the targets and the texts to hash.\<close>

fun buildTargetsFrom :: "'e services \<Rightarrow> 'e operatorOptions \<Rightarrow> string \<Rightarrow> nat \<Rightarrow> webhookTargetSpec list \<Rightarrow>
    ('o, 'e, gerror + hWebhookTarget list \<times> string list) go" where
  "buildTargetsFrom S opts ns i [] = State_Monad.return (Inr ([], []))"
| "buildTargetsFrom S opts ns i (t # ts) =
     do { h \<leftarrow> (case wtsAuthHeaderSecretRef t of
                 None \<Rightarrow> State_Monad.return (Inr (wtsAuthHeader t))
               | Some ref \<Rightarrow>
                   if wtsAuthHeader t \<noteq> []
                   then State_Monad.return (Inl (ErrMsg (''spec.targets['' @ goItoa (int i) @
                          '']: authHeader and authHeaderSecretRef are mutually exclusive'')))
                   else do { r \<leftarrow> readSecretValue S opts ref ns ''authHeader'';
                             State_Monad.return
                               (case r of
                                  Inl err \<Rightarrow> Inl (ErrWrap (''spec.targets['' @ goItoa (int i) @
                                               '']: failed to read authHeaderSecretRef: '') err)
                                | Inr v \<Rightarrow> Inr v) });
          case h of
            Inl err \<Rightarrow> State_Monad.return (Inl err)
          | Inr authHeader \<Rightarrow>
              do { r \<leftarrow> buildTargetsFrom S opts ns (Suc i) ts;
                   State_Monad.return
                     (case r of
                        Inl err \<Rightarrow> Inl err
                      | Inr (out, parts) \<Rightarrow>
                          Inr (toWebhookTarget t authHeader # out, targetText t authHeader # parts)) } }"

definition buildTargets :: "'e services \<Rightarrow> 'e operatorOptions \<Rightarrow> webhookPolicy \<Rightarrow>
    ('o, 'e, gerror + hWebhookTarget list \<times> string) go" where
  "buildTargets S opts cr =
     (if whpTargets (objSpec cr) = [] then State_Monad.return (Inl (ErrMsg ''spec.targets must not be empty''))
      else do { r \<leftarrow> buildTargetsFrom S opts (metaNamespace (objMeta cr)) 0 (whpTargets (objSpec cr));
                State_Monad.return
                  (case r of Inl err \<Rightarrow> Inl err | Inr (out, parts) \<Rightarrow> Inr (out, hashParts parts)) })"

section \<open>Policies in normal form\<close>

definition webhookTargetKey :: "hWebhookTarget \<Rightarrow> string" where
  "webhookTargetKey t =
     hwtType t @ ''|'' @ hwtAddress t @ ''|'' @ hwtPayloadFormat t @ ''|'' @ goBool (hwtSkipCertVerify t)"

text \<open>What the comparison does to the slices of a policy that somebody else holds.\<close>

definition clearWebhookPolicy :: "hWebhookPolicy \<Rightarrow> hWebhookPolicy" where
  "clearWebhookPolicy p = p\<lparr>
     hwpTargets := sortSlice (\<lambda>a b. webhookTargetKey a < webhookTargetKey b)
       (map (\<lambda>t. t\<lparr>hwtAuthHeader := []\<rparr>) (hwpTargets p)),
     hwpEventTypes := sortSlice (<) (hwpEventTypes p)\<rparr>"

definition normalizeWebhookPolicy :: "hWebhookPolicy \<Rightarrow> hWebhookPolicy" where
  "normalizeWebhookPolicy p = (clearWebhookPolicy p)\<lparr>
     hwpID := 0, hwpProjectID := 0, hwpCreator := [], hwpCreationTime := [], hwpUpdateTime := []\<rparr>"

definition webhookPolicyNeedsUpdate :: "hWebhookPolicy \<Rightarrow> hWebhookPolicy option \<Rightarrow> bool" where
  "webhookPolicyNeedsUpdate desired current =
     (case current of None \<Rightarrow> True | Some c \<Rightarrow> normalizeWebhookPolicy desired \<noteq> normalizeWebhookPolicy c)"

section \<open>The reconciler\<close>

definition webhookKind :: "('e, webhookPolicy) kclient \<Rightarrow> ('e, webhookPolicySpec, webhookPolicyStatus) kind" where
  "webhookKind c = \<lparr>kdKind = KWebhookPolicy, kdSanitize = sanitizeRef, kdClient = c\<rparr>"

definition setWebhookID :: "int \<Rightarrow> webhookPolicy \<Rightarrow> webhookPolicy" where
  "setWebhookID n cr = cr\<lparr>objStatus := (objStatus cr)\<lparr>harborWebhookPolicyID := n\<rparr>\<rparr>"

definition setTargetsHash :: "string \<Rightarrow> webhookPolicy \<Rightarrow> webhookPolicy" where
  "setTargetsHash h cr = cr\<lparr>objStatus := (objStatus cr)\<lparr>whpTargetsHash := h\<rparr>\<rparr>"

text \<open>The event types of the spec are the slice that the comparison sorts.\<close>

definition sortEventTypes :: "webhookPolicy \<Rightarrow> webhookPolicy" where
  "sortEventTypes cr = cr\<lparr>objSpec := (objSpec cr)\<lparr>whpEventTypes := sortSlice (<) (whpEventTypes (objSpec cr))\<rparr>\<rparr>"

definition deleteWebhookFn :: "'e services \<Rightarrow> 'e operatorOptions \<Rightarrow> harborClient \<Rightarrow>
    (webhookPolicy, 'e, gerror option) go" where
  "deleteWebhookFn S opts hc =
     deleteInProject S opts whpProjectRef harborWebhookPolicyID (DeleteWebhookPolicy S hc)"

definition desiredWebhookPolicy :: "webhookPolicy \<Rightarrow> hWebhookTarget list \<Rightarrow> int \<Rightarrow> hWebhookPolicy" where
  "desiredWebhookPolicy cr targets projectID =
     \<lparr>hwpID = 0, hwpName = metaName (objMeta cr), hwpDescription = whpDescription (objSpec cr),
      hwpProjectID = projectID, hwpTargets = targets, hwpEventTypes = whpEventTypes (objSpec cr),
      hwpCreator = [], hwpCreationTime = [], hwpUpdateTime = [],
      hwpEnabled = (whpEnabled (objSpec cr) = Some True)\<rparr>"

definition adoptExistingWebhook :: "'e services \<Rightarrow> ('e, webhookPolicySpec, webhookPolicyStatus) kind \<Rightarrow>
    harborClient \<Rightarrow> string \<Rightarrow> (webhookPolicy, 'e, bool \<times> gerror option) go" where
  "adoptExistingWebhook S K hc projectKey =
     do { cr \<leftarrow> getObj;
          r \<leftarrow> ListWebhookPolicies S hc projectKey;
          case r of
            Inl err \<Rightarrow> State_Monad.return (False, Some err)
          | Inr ps \<Rightarrow>
              (case find (\<lambda>p. equalFold (hwpName p) (metaName (objMeta cr))) ps of
                 None \<Rightarrow> State_Monad.return (False, None)
               | Some p \<Rightarrow>
                   do { _ \<leftarrow> modObj (setWebhookID (hwpID p));
                        err \<leftarrow> kubeStatusUpdate K;
                        State_Monad.return (True, err) }) }"

definition createWebhookPath :: "'e services \<Rightarrow> 'e operatorOptions \<Rightarrow>
    ('e, webhookPolicySpec, webhookPolicyStatus) kind \<Rightarrow> harborClient \<Rightarrow> string \<Rightarrow> hWebhookPolicy \<Rightarrow> string \<Rightarrow>
    (webhookPolicy, 'e, outcome) go" where
  "createWebhookPath S opts K hc projectKey policy targetsHash =
     do { cr \<leftarrow> getObj;
          case requireCreationAllowed opts (creationPolicy (objSpec cr)) of
            Some err \<Rightarrow> failWith S K err
          | None \<Rightarrow>
              do { r \<leftarrow> CreateWebhookPolicy S hc projectKey policy;
                   case r of
                     Inl err \<Rightarrow> failWith S K err
                   | Inr n \<Rightarrow>
                       do { _ \<leftarrow> modObj (setWebhookID n);
                            _ \<leftarrow> modObj (setTargetsHash targetsHash);
                            readyWithDrift S opts K ''Created'' ''Webhook policy created'' } } }"

text \<open>The policy that is sent is the one that the comparison has gone through.\<close>

definition updateWebhookPath :: "'e services \<Rightarrow> 'e operatorOptions \<Rightarrow>
    ('e, webhookPolicySpec, webhookPolicyStatus) kind \<Rightarrow> harborClient \<Rightarrow> string \<Rightarrow> hWebhookPolicy \<Rightarrow> string \<Rightarrow>
    (webhookPolicy, 'e, outcome) go" where
  "updateWebhookPath S opts K hc projectKey policy targetsHash =
     do { cr \<leftarrow> getObj;
          r \<leftarrow> GetWebhookPolicy S hc projectKey (harborWebhookPolicyID (objStatus cr));
          case r of
            Inl err \<Rightarrow>
              (if IsNotFound (Some err)
               then do { generation \<leftarrow> crGeneration;
                         requeueOnRemoteNotFound S K generation (Some (\<lambda>st. st\<lparr>harborWebhookPolicyID := 0\<rparr>))
                           ''Webhook policy not found in Harbor'' }
               else failWith S K err)
          | Inr current \<Rightarrow>
              do { _ \<leftarrow> modObj sortEventTypes;
                   let newHash = (targetsHash \<noteq> [] \<and> targetsHash \<noteq> whpTargetsHash (objStatus cr));
                   let update = (webhookPolicyNeedsUpdate policy (Some current) \<or> newHash);
                   uerr \<leftarrow> (if update
                           then UpdateWebhookPolicy S hc projectKey (harborWebhookPolicyID (objStatus cr))
                                  (clearWebhookPolicy policy)
                           else State_Monad.return None);
                   case uerr of
                     Some err \<Rightarrow> failWith S K err
                   | None \<Rightarrow>
                       do { _ \<leftarrow> (if newHash then modObj (setTargetsHash targetsHash) else State_Monad.return ());
                            readyIfChanged S opts K newHash ''Reconciled'' ''Webhook policy reconciled'' } } }"

definition webhookBody :: "'e services \<Rightarrow> 'e operatorOptions \<Rightarrow>
    ('e, webhookPolicySpec, webhookPolicyStatus) kind \<Rightarrow> harborClient \<Rightarrow> (webhookPolicy, 'e, outcome) go" where
  "webhookBody S opts K hc =
     do { cr \<leftarrow> getObj;
          p \<leftarrow> resolveProject S opts (metaNamespace (objMeta cr)) (whpProjectRef (objSpec cr));
          case p of
            Inl err \<Rightarrow> failWith S K err
          | Inr (projectKey, projectID) \<Rightarrow>
              do { t \<leftarrow> buildTargets S opts cr;
                   case t of
                     Inl err \<Rightarrow> failWith S K err
                   | Inr (targets, targetsHash) \<Rightarrow>
                       do { let policy = desiredWebhookPolicy cr targets projectID;
                            (adopted, aerr) \<leftarrow>
                              (if harborWebhookPolicyID (objStatus cr) = 0 \<and>
                                  allowsAdoption opts (creationPolicy (objSpec cr))
                               then adoptExistingWebhook S K hc projectKey
                               else State_Monad.return (False, None));
                            case aerr of
                              Some err \<Rightarrow> failWith S K err
                            | None \<Rightarrow>
                                if adopted then State_Monad.return (emptyResult\<lparr>requeue := True\<rparr>, None)
                                else if harborWebhookPolicyID (objStatus cr) = 0
                                then createWebhookPath S opts K hc projectKey policy targetsHash
                                else updateWebhookPath S opts K hc projectKey policy targetsHash } } }"

definition reconcileWebhookPolicy :: "'e services \<Rightarrow> 'e operatorOptions \<Rightarrow> ('e, webhookPolicy) kclient \<Rightarrow>
    nsName \<Rightarrow> (webhookPolicy, 'e, outcome) go" where
  "reconcileWebhookPolicy S opts c =
     harborBacked S opts (webhookKind c) True (Some (deleteWebhookFn S opts))
       (webhookBody S opts (webhookKind c))"

section \<open>The contract of the frame\<close>

lemma quietly_buildTargetsFrom: "quietly (buildTargetsFrom S opts ns i ts)"
proof (induction ts arbitrary: i)
  case Nil
  then show ?case by (simp add: emits_return)
next
  case (Cons t ts)
  show ?case
    unfolding buildTargetsFrom.simps(2) by (intro emits_intros Cons.IH)
qed

lemma quietly_buildTargets: "quietly (buildTargets S opts cr)"
  unfolding buildTargets_def by (intro emits_intros quietly_buildTargetsFrom)

lemma untouched_buildTargetsFrom: "untouched (buildTargetsFrom S opts ns i ts)"
proof (induction ts arbitrary: i)
  case Nil
  show ?case unfolding buildTargetsFrom.simps(1) by (intro triple_intros)
next
  case (Cons t ts)
  show ?case
    unfolding buildTargetsFrom.simps(2) by (intro triple_intros Cons.IH)
qed

lemma untouched_buildTargets [triple_intros]: "untouched (buildTargets S opts cr)"
  unfolding buildTargets_def by (intro triple_intros untouched_buildTargetsFrom)

lemma guards_buildTargets [guard_intros]:
  "admitsLocal C \<Longrightarrow> guards P C (buildTargets S opts cr)"
  by (rule guards_plain [OF untouched_buildTargets]) (erule admitsLocal_quiet, rule quietly_buildTargets)

lemmas webhook_call_events = emits_WebhookCalls(1-4) [OF clientCalls_body]
lemmas webhook_notPost = emits_WebhookCalls(1,2,4,5) [OF clientCalls_notPost]

lemma webhookBody_events: "emits bodyEvent (webhookBody S opts K hc)"
  unfolding webhookBody_def adoptExistingWebhook_def createWebhookPath_def updateWebhookPath_def Let_def
  by (intro emits_intros body_quiet webhook_call_events body_resolve quietly_body [OF quietly_buildTargets]
      quietly_body [OF quietly_readyIfChanged]) simp_all

lemma deleteWebhook_events: "emits (\<lambda>ev. \<not> dropsFinalizer ev) (deleteWebhookFn S opts hc)"
  unfolding deleteWebhookFn_def
  by (rule delete_in_project_events [OF emits_WebhookCalls(5) [OF clientCalls_noDrop]])
    (auto dest: quietEvent_imp)

abbreviation owesWebhook :: "int \<Rightarrow> webhookPolicy \<Rightarrow> bool" where
  "owesWebhook n \<equiv> owesRemote harborWebhookPolicyID 0 n"

lemma deleteWebhook_gone:
  "triple (\<lambda>s. owesWebhook n (stObj s)) (deleteWebhookFn S opts hc)
     (\<lambda>r s. r = None \<longrightarrow> list_ex (remoteGone (webhookEnd n)) (stTrace s))"
  unfolding deleteWebhookFn_def
  by (rule delete_in_project_gone [OF owesRemote_ident])
    (simp_all only: DeleteWebhookPolicy_def webhookURL_def)

lemma guards_webhook_calls [guard_intros]:
  "guards P (\<lambda>ev. \<not> isPost ev) (ListWebhookPolicies S hc p)"
  "guards P (\<lambda>ev. \<not> isPost ev) (GetWebhookPolicy S hc p n)"
  "guards P (\<lambda>ev. \<not> isPost ev) (UpdateWebhookPolicy S hc p n w)"
  "guards P (\<lambda>ev. \<not> isPost ev) (DeleteWebhookPolicy S hc p n)"
  by (rule guards_plain, rule untouched_webhook_calls, rule webhook_notPost, simp)+

lemma webhook_body_guarded:
  assumes "stays K (mayNotCreate opts)"
  shows "guards (mayNotCreate opts) (\<lambda>ev. \<not> isPost ev) (webhookBody S opts K hc)"
proof -
  have no: "guards (mayNotCreate opts) (\<lambda>ev. \<not> isPost ev) (createWebhookPath S opts K hc p w h)" for p w h
    unfolding createWebhookPath_def
    by (rule guards_getObj, erule mayNotCreateE) (simp add: guards_failWith [OF assms])
  show ?thesis
    unfolding webhookBody_def adoptExistingWebhook_def updateWebhookPath_def Let_def
    by (intro guard_intros no assms)
      (auto simp: mayNotCreate_def setWebhookID_def setTargetsHash_def sortEventTypes_def)
qed

lemma deleteWebhook_notPost: "emits (\<lambda>ev. \<not> isPost ev) (deleteWebhookFn S opts hc)"
  unfolding deleteWebhookFn_def
  by (rule delete_in_project_events [OF webhook_notPost(4)])
    (auto dest: quietEvent_imp simp: isPost_def isHttp_def split: event.splits)

lemma deleteWebhook_only:
  "triple (objTrace (hasRemote harborWebhookPolicyID n) (deletesOnly (webhookEnd n))) (deleteWebhookFn S opts hc)
     (\<lambda>_ s. list_all (deletesOnly (webhookEnd n)) (stTrace s))"
  unfolding deleteWebhookFn_def
  by (rule delete_in_project_only) (simp only: DeleteWebhookPolicy_def webhookURL_def)

interpretation webhook: harbor_backed S opts "webhookKind c" True "Some (deleteWebhookFn S opts)"
    "webhookBody S opts (webhookKind c)" for S opts c
  by unfold_locales (auto intro: webhookBody_events deleteWebhook_events)

interpretation owned_webhook: owned_remote S opts "webhookKind c" True "Some (deleteWebhookFn S opts)"
    "webhookBody S opts (webhookKind c)" "owesWebhook n" "remoteGone (webhookEnd n)" "deleteWebhookFn S opts"
  for S opts c n
  by unfold_locales (auto intro: deleteWebhook_gone dest: owesRemoteD)

interpretation guarded_webhook: guarded_body S opts "webhookKind c" True "Some (deleteWebhookFn S opts)"
    "webhookBody S opts (webhookKind c)" "mayNotCreate opts" "\<lambda>ev. \<not> isPost ev" for S opts c
  by unfold_locales (auto intro!: guards_post [OF webhook_body_guarded] emits_post [OF deleteWebhook_notPost])

interpretation own_webhook: guarded_body S opts "webhookKind c" True "Some (deleteWebhookFn S opts)"
    "webhookBody S opts (webhookKind c)" "hasRemote harborWebhookPolicyID n" "deletesOnly (webhookEnd n)"
  for S opts c n
  by unfold_locales (auto intro!: emits_post bodyEvent_deletesOnly webhookBody_events deleteWebhook_only)

section \<open>What updates send\<close>

text \<open>A \<^verbatim>\<open>PUT\<close> request carries a policy without any authorization header.\<close>

definition putsNoHeader :: "event \<Rightarrow> bool" where
  "putsNoHeader ev =
     (case ev of
        EvHttp hc req st \<Rightarrow> reqMethod req = ''PUT'' \<longrightarrow>
          (\<exists>p. reqBody req = Some (jsonPrint (encWebhookPolicy p)) \<and>
               list_all (\<lambda>t. hwtAuthHeader t = []) (hwpTargets p))
      | _ \<Rightarrow> True)"

lemma putsNoHeader_local [simp]: "admitsLocal putsNoHeader"
  by (auto simp: admitsLocal_def putsNoHeader_def isHttp_def split: event.splits)

lemma clientCalls_putsNoHeader: "clientCalls hc (\<lambda>method relURL. method \<noteq> ''PUT'') putsNoHeader"
  by (auto simp: clientCalls_def putsNoHeader_def isRequest_def)

lemma clearWebhookPolicy_headers: "list_all (\<lambda>t. hwtAuthHeader t = []) (hwpTargets (clearWebhookPolicy p))"
  by (simp add: clearWebhookPolicy_def list_all_iff)

lemma update_putsNoHeader: "emits putsNoHeader (UpdateWebhookPolicy S hc key n (clearWebhookPolicy p))"
proof -
  have "putsNoHeader (EvHttp hc' req st)"
    if "reqBody req = Some (jsonPrint (encWebhookPolicy (clearWebhookPolicy p)))" for hc' req st
    using that clearWebhookPolicy_headers by (auto simp: putsNoHeader_def)
  then show ?thesis
    unfolding UpdateWebhookPolicy_def clientPut_def
    by (intro emits_intros emits_clientDo_body) (auto simp: putsNoHeader_def)
qed

lemma webhookBody_putsNoHeader: "emits putsNoHeader (webhookBody S opts K hc)"
proof -
  note quiet = admitsLocal_quiet [OF putsNoHeader_local]
  note calls = emits_WebhookCalls(1-3) [OF clientCalls_putsNoHeader]
  show ?thesis
    unfolding webhookBody_def adoptExistingWebhook_def createWebhookPath_def updateWebhookPath_def Let_def
    by (intro emits_intros quietly_all [THEN quiet] calls quietly_resolve [THEN quiet]
        quietly_buildTargets [THEN quiet] quietly_readyIfChanged [THEN quiet] update_putsNoHeader) simp_all
qed

lemma clearWebhookPolicy_idem: "clearWebhookPolicy (clearWebhookPolicy p) = clearWebhookPolicy p"
proof -
  have "map (\<lambda>t. t\<lparr>hwtAuthHeader := []\<rparr>) ts = ts" if "list_all (\<lambda>t. hwtAuthHeader t = []) ts" for ts
    using that by (induction ts) auto
  note this [OF clearWebhookPolicy_headers [of p]]
  moreover have "sortSlice (\<lambda>a b. webhookTargetKey a < webhookTargetKey b) (hwpTargets (clearWebhookPolicy p)) =
      hwpTargets (clearWebhookPolicy p)"
    unfolding clearWebhookPolicy_def by (simp add: key_less.sortSlice_idem)
  moreover have "sortSlice (<) (hwpEventTypes (clearWebhookPolicy p)) = hwpEventTypes (clearWebhookPolicy p)"
    unfolding clearWebhookPolicy_def by (simp add: strings_less.sortSlice_idem)
  ultimately show ?thesis
    unfolding clearWebhookPolicy_def [of "clearWebhookPolicy p"] by simp
qed

text \<open>
  C35. No update of a webhook policy carries an authorization header: the comparison has cleared them
  in the policy that is then sent. And Harbor's policy without them counts as up to date afterwards,
  so the loss is not repaired.
\<close>

theorem webhook_update_drops_auth:
  "emits putsNoHeader (reconcileWebhookPolicy S opts c key) \<and>
   \<not> webhookPolicyNeedsUpdate policy (Some (clearWebhookPolicy policy))"
proof
  show "emits putsNoHeader (reconcileWebhookPolicy S opts c key)"
    unfolding reconcileWebhookPolicy_def
  proof (rule emits_harborBacked)
    show "emits putsNoHeader (d hc)" if "Some (deleteWebhookFn S opts) = Some d" for d hc
      using that by (auto simp: deleteWebhookFn_def intro!: delete_in_project_events
          emits_WebhookCalls(5) [OF clientCalls_putsNoHeader])
        (auto dest: quietEvent_imp simp: putsNoHeader_def isHttp_def split: event.splits)
  qed (simp_all add: webhookBody_putsNoHeader)
qed (simp add: webhookPolicyNeedsUpdate_def normalizeWebhookPolicy_def clearWebhookPolicy_idem)

end
