(* ===== verification/RetentionPolicies.thy ===== *)
theory RetentionPolicies
  imports OwnedRemote ReferenceRules Selectors HarborProjects
begin

text \<open>
  Retention policies: the retention part of \<^verbatim>\<open>internal/harborclient/schedules.go\<close>
  and the reconciler of \<^verbatim>\<open>internal/controller/retention_controller.go\<close>. It
  differs from the others in three ways: there is no creation policy, a project that already has a
  retention policy makes the reconciler adopt that one, and an error of the deletion is written to
  the status.
\<close>

section \<open>The Harbor client\<close>

text \<open>
  The parameters of a rule are an \<^verbatim>\<open>any\<close>. The reconciler stores a
  \<^verbatim>\<open>map[string]any\<close> in it, which may be nil: then the interface is not nil, and
  \<^verbatim>\<open>omitempty\<close> prints it as \<^verbatim>\<open>null\<close>.
\<close>

datatype anyParams = NilInterface | NilMap | AnyValue json

record hRetentionRule =
  hrrID :: int
  hrrPriority :: int
  hrrDisabled :: bool
  hrrAction :: string
  hrrTemplate :: string
  hrrParams :: anyParams
  hrrTagSelectors :: "hSelector list option"
  hrrScopeSelectors :: scopeSelectors

record hRetentionTrigger =
  hrtKind :: string
  hrtSettings :: "(string \<times> json) list option"
  hrtReferences :: "(string \<times> json) list option"

record hRetentionScope =
  hrsLevel :: string
  hrsRef :: int

record hRetentionPolicy =
  hrpID :: int
  hrpAlgorithm :: string
  hrpRules :: "hRetentionRule list option"
  hrpTrigger :: "hRetentionTrigger option"
  hrpScope :: "hRetentionScope option"

definition decAnyParams :: "anyParams decoder" where
  "decAnyParams j = (if j = JNull then Some NilInterface else map_option AnyValue (decAny j))"

definition decRetentionRule :: "hRetentionRule decoder" where
  "decRetentionRule = decObj (\<lambda>kvs.
     do { n \<leftarrow> decInt (jget ''id'' kvs);
          p \<leftarrow> decInt (jget ''priority'' kvs);
          d \<leftarrow> decBool (jget ''disabled'' kvs);
          a \<leftarrow> decStr (jget ''action'' kvs);
          t \<leftarrow> decStr (jget ''template'' kvs);
          ps \<leftarrow> decAnyParams (jget ''params'' kvs);
          ts \<leftarrow> decSlice decSelector (jget ''tag_selectors'' kvs);
          ss \<leftarrow> decMap (decSlice decSelector) (jget ''scope_selectors'' kvs);
          Some \<lparr>hrrID = n, hrrPriority = p, hrrDisabled = d, hrrAction = a, hrrTemplate = t, hrrParams = ps,
                hrrTagSelectors = ts, hrrScopeSelectors = ss\<rparr> })"

definition encAnyParams :: "anyParams \<Rightarrow> (string \<times> json) list" where
  "encAnyParams p =
     (case p of NilInterface \<Rightarrow> [] | NilMap \<Rightarrow> [(''params'', JNull)] | AnyValue v \<Rightarrow> [(''params'', v)])"

definition encRetentionRule :: "hRetentionRule \<Rightarrow> json" where
  "encRetentionRule r = JObj
     (omitInt ''id'' (hrrID r) @ omitInt ''priority'' (hrrPriority r) @ omitBool ''disabled'' (hrrDisabled r) @
      omitStr ''action'' (hrrAction r) @ omitStr ''template'' (hrrTemplate r) @ encAnyParams (hrrParams r) @
      omitSlice ''tag_selectors'' encSelector (hrrTagSelectors r) @
      omitMap ''scope_selectors'' (encSlice encSelector) (hrrScopeSelectors r))"

definition decRetentionTrigger :: "hRetentionTrigger decoder" where
  "decRetentionTrigger = decObj (\<lambda>kvs.
     do { k \<leftarrow> decStr (jget ''kind'' kvs);
          s \<leftarrow> decMap decAny (jget ''settings'' kvs);
          r \<leftarrow> decMap decAny (jget ''references'' kvs);
          Some \<lparr>hrtKind = k, hrtSettings = s, hrtReferences = r\<rparr> })"

definition encRetentionTrigger :: "hRetentionTrigger \<Rightarrow> json" where
  "encRetentionTrigger t = JObj
     (omitStr ''kind'' (hrtKind t) @ omitMap ''settings'' id (hrtSettings t) @
      omitMap ''references'' id (hrtReferences t))"

definition decRetentionScope :: "hRetentionScope decoder" where
  "decRetentionScope = decObj (\<lambda>kvs.
     do { l \<leftarrow> decStr (jget ''level'' kvs);
          r \<leftarrow> decInt (jget ''ref'' kvs);
          Some \<lparr>hrsLevel = l, hrsRef = r\<rparr> })"

definition encRetentionScope :: "hRetentionScope \<Rightarrow> json" where
  "encRetentionScope s = JObj (omitStr ''level'' (hrsLevel s) @ omitInt ''ref'' (hrsRef s))"

definition decRetentionPolicy :: "hRetentionPolicy decoder" where
  "decRetentionPolicy = decObj (\<lambda>kvs.
     do { n \<leftarrow> decInt (jget ''id'' kvs);
          a \<leftarrow> decStr (jget ''algorithm'' kvs);
          rs \<leftarrow> decSlice decRetentionRule (jget ''rules'' kvs);
          t \<leftarrow> decPtr decRetentionTrigger (jget ''trigger'' kvs);
          s \<leftarrow> decPtr decRetentionScope (jget ''scope'' kvs);
          Some \<lparr>hrpID = n, hrpAlgorithm = a, hrpRules = rs, hrpTrigger = t, hrpScope = s\<rparr> })"

definition encRetentionPolicy :: "hRetentionPolicy \<Rightarrow> json" where
  "encRetentionPolicy p = JObj
     (omitInt ''id'' (hrpID p) @ omitStr ''algorithm'' (hrpAlgorithm p) @
      omitSlice ''rules'' encRetentionRule (hrpRules p) @
      omitPtr ''trigger'' encRetentionTrigger (hrpTrigger p) @ omitPtr ''scope'' encRetentionScope (hrpScope p))"

definition retentionsURL :: string where
  "retentionsURL = ''/api/v2.0/retentions''"

definition retentionURL :: "int \<Rightarrow> string" where
  "retentionURL n = ''/api/v2.0/retentions/'' @ goItoa n"

definition isRetentionGone :: "gerror option \<Rightarrow> bool" where
  "isRetentionGone err =
     (case err of Some (HTTPError code msg) \<Rightarrow> code = 400 \<and> goContains msg ''no such Retention policy'' | _ \<Rightarrow> False)"

definition GetRetentionByID :: "'e services \<Rightarrow> harborClient \<Rightarrow> int \<Rightarrow> ('o, 'e, gerror + hRetentionPolicy) go" where
  "GetRetentionByID S c n = clientGet S c (retentionURL n) decRetentionPolicy"

definition CreateRetention :: "'e services \<Rightarrow> harborClient \<Rightarrow> hRetentionPolicy \<Rightarrow> ('o, 'e, gerror + int) go" where
  "CreateRetention S c p = createWithNumericLocationID S c retentionsURL (encRetentionPolicy p)"

definition UpdateRetention :: "'e services \<Rightarrow> harborClient \<Rightarrow> int \<Rightarrow> hRetentionPolicy \<Rightarrow> ('o, 'e, gerror option) go" where
  "UpdateRetention S c n p = clientPut S c (retentionURL n) (encRetentionPolicy p)"

definition DeleteRetention :: "'e services \<Rightarrow> harborClient \<Rightarrow> int \<Rightarrow> ('o, 'e, gerror option) go" where
  "DeleteRetention S c n = deleteIgnoringNotFound S c (retentionURL n) [Some isRetentionGone]"

lemma emits_RetentionCalls:
  "clientCalls c M C \<Longrightarrow> M ''GET'' (retentionURL n) \<Longrightarrow> emits C (GetRetentionByID S c n)"
  "clientCalls c M C \<Longrightarrow> M ''POST'' retentionsURL \<Longrightarrow> emits C (CreateRetention S c p)"
  "clientCalls c M C \<Longrightarrow> M ''PUT'' (retentionURL n) \<Longrightarrow> emits C (UpdateRetention S c n p)"
  "clientCalls c M C \<Longrightarrow> M ''DELETE'' (retentionURL n) \<Longrightarrow> emits C (DeleteRetention S c n)"
  unfolding GetRetentionByID_def CreateRetention_def UpdateRetention_def DeleteRetention_def
  by (intro client_emits; (assumption | simp))+

section \<open>The desired policy\<close>

text \<open>A parameter wrapped as \<^verbatim>\<open>{"value": v}\<close> is unwrapped.\<close>

definition unwrapParam :: "json \<Rightarrow> json" where
  "unwrapParam v = (case v of JObj [(key, w)] \<Rightarrow> if key = ''value'' then w else v | _ \<Rightarrow> v)"

definition normalizeRetentionParamsMap :: "(string \<times> json) list option \<Rightarrow> (string \<times> json) list option" where
  "normalizeRetentionParamsMap = map_option (map (\<lambda>(key, v). (key, unwrapParam v)))"

definition paramsOfMap :: "(string \<times> json) list option \<Rightarrow> anyParams" where
  "paramsOfMap m = (case m of None \<Rightarrow> NilMap | Some kvs \<Rightarrow> AnyValue (JObj kvs))"

definition normalizeRetentionParamsAny :: "anyParams \<Rightarrow> anyParams" where
  "normalizeRetentionParamsAny p =
     (case p of
        AnyValue (JObj kvs) \<Rightarrow> paramsOfMap (normalizeRetentionParamsMap (Some kvs))
      | _ \<Rightarrow> p)"

definition invalidJSONFor :: string where
  "invalidJSONFor = ''invalid json for ''"

fun toRetentionRules :: "nat \<Rightarrow> retentionRuleSpec list \<Rightarrow> gerror + hRetentionRule list" where
  "toRetentionRules i [] = Inr []"
| "toRetentionRules i (rule # rest) =
     (case jsonMapToAny invalidJSONFor (rrsParams rule) of
        Inl err \<Rightarrow> Inl (ErrWrap (''invalid params for rule '' @ goItoa (int i) @ '': '') err)
      | Inr params \<Rightarrow>
          (case toRetentionRules (Suc i) rest of
             Inl err \<Rightarrow> Inl err
           | Inr out \<Rightarrow> Inr
               (\<lparr>hrrID = 0, hrrPriority = int i + 1, hrrDisabled = rrsDisabled rule, hrrAction = rrsAction rule,
                 hrrTemplate = rrsTemplate rule, hrrParams = paramsOfMap (normalizeRetentionParamsMap params),
                 hrrTagSelectors = toRetentionSelectors (rrsTagSelectors rule),
                 hrrScopeSelectors = toRetentionScopeSelectors (rrsScopeSelectors rule)\<rparr> # out)))"

definition toRetentionTrigger :: "retentionTriggerSpec option \<Rightarrow> gerror + hRetentionTrigger option" where
  "toRetentionTrigger trigger =
     (case trigger of
        None \<Rightarrow> Inr None
      | Some t \<Rightarrow>
          (case jsonMapToAny invalidJSONFor (rtsSettings t) of
             Inl err \<Rightarrow> Inl (ErrWrap ''invalid trigger settings: '' err)
           | Inr settings \<Rightarrow>
               (case jsonMapToAny invalidJSONFor (rtsReferences t) of
                  Inl err \<Rightarrow> Inl (ErrWrap ''invalid trigger references: '' err)
                | Inr refs \<Rightarrow>
                    Inr (Some \<lparr>hrtKind = rtsKind t, hrtSettings = settings, hrtReferences = refs\<rparr>))))"

definition toRetentionScope :: "retentionScopeSpec option \<Rightarrow> hRetentionScope option" where
  "toRetentionScope = map_option (\<lambda>s. \<lparr>hrsLevel = rssLevel s, hrsRef = rssRef s\<rparr>)"

text \<open>The policy for a spec and the resolved scope.\<close>

definition toRetentionPolicy :: "retentionPolicySpec \<Rightarrow> retentionScopeSpec option \<Rightarrow> gerror + hRetentionPolicy" where
  "toRetentionPolicy sp scope =
     (case toRetentionRules 0 (retRules sp) of
        Inl err \<Rightarrow> Inl err
      | Inr rules \<Rightarrow>
          (case toRetentionTrigger (retTrigger sp) of
             Inl err \<Rightarrow> Inl err
           | Inr trigger \<Rightarrow>
               Inr \<lparr>hrpID = 0, hrpAlgorithm = ''or'', hrpRules = Some rules, hrpTrigger = trigger,
                    hrpScope = toRetentionScope scope\<rparr>))"

text \<open>Refused before anything is built.\<close>

definition retentionSpecError :: "retentionPolicySpec \<Rightarrow> gerror option" where
  "retentionSpecError sp =
     (case retTrigger sp of
        None \<Rightarrow> Some (ErrMsg ''spec.trigger is required'')
      | Some t \<Rightarrow>
          if rtsKind t = ''Schedule'' \<and>
             (case rtsSettings t of None \<Rightarrow> True
              | Some kvs \<Rightarrow> (case map_of kvs ''cron'' of None \<Rightarrow> True | Some raw \<Rightarrow> raw = []))
          then Some (ErrMsg ''spec.trigger.settings.cron is required for Schedule trigger'')
          else None)"

section \<open>Comparison\<close>

definition normalizeRetentionRule :: "hRetentionRule \<Rightarrow> hRetentionRule" where
  "normalizeRetentionRule r = r\<lparr>hrrID := 0, hrrParams := normalizeRetentionParamsAny (hrrParams r)\<rparr>"

text \<open>The rules are replaced in the slice that the caller's policy holds, too.\<close>

definition touchRetentionPolicy :: "hRetentionPolicy \<Rightarrow> hRetentionPolicy" where
  "touchRetentionPolicy p = p\<lparr>hrpRules := map_option (map normalizeRetentionRule) (hrpRules p)\<rparr>"

definition normalizeRetentionPolicy :: "hRetentionPolicy \<Rightarrow> hRetentionPolicy" where
  "normalizeRetentionPolicy p = (touchRetentionPolicy p)\<lparr>hrpID := 0\<rparr>"

text \<open>\<^verbatim>\<open>reflect.DeepEqual\<close> looks through the floats of the parameters.\<close>

definition plusZeroParams :: "anyParams \<Rightarrow> anyParams" where
  "plusZeroParams p = (case p of AnyValue v \<Rightarrow> AnyValue (plusZero v) | _ \<Rightarrow> p)"

definition plusZeroRetention :: "hRetentionPolicy \<Rightarrow> hRetentionPolicy" where
  "plusZeroRetention p = p\<lparr>
     hrpRules := map_option (map (\<lambda>r. r\<lparr>hrrParams := plusZeroParams (hrrParams r)\<rparr>)) (hrpRules p),
     hrpTrigger := map_option (\<lambda>t. t\<lparr>hrtSettings := plusZeroMap (hrtSettings t),
       hrtReferences := plusZeroMap (hrtReferences t)\<rparr>) (hrpTrigger p)\<rparr>"

definition retentionNeedsUpdate :: "hRetentionPolicy \<Rightarrow> hRetentionPolicy option \<Rightarrow> bool" where
  "retentionNeedsUpdate desired current =
     (case current of
        None \<Rightarrow> True
      | Some c \<Rightarrow> plusZeroRetention (normalizeRetentionPolicy desired) \<noteq> plusZeroRetention (normalizeRetentionPolicy c))"

section \<open>Scope and existing policies\<close>

definition resolveRetentionScope :: "'e services \<Rightarrow> 'e operatorOptions \<Rightarrow> retentionPolicy \<Rightarrow>
    ('o, 'e, gerror + retentionScopeSpec option) go" where
  "resolveRetentionScope S opts cr =
     (case retProjectRef (objSpec cr) of
        None \<Rightarrow> State_Monad.return (Inr (retScope (objSpec cr)))
      | Some ref \<Rightarrow>
          if nrName ref = [] then State_Monad.return (Inl (ErrMsg ''spec.projectRef.name must not be empty''))
          else if (case retScope (objSpec cr) of None \<Rightarrow> False | Some s \<Rightarrow> rssRef s \<noteq> 0)
          then State_Monad.return
                 (Inl (ErrMsg ''spec.scope.ref must not be set when spec.projectRef is provided''))
          else if (case retScope (objSpec cr) of None \<Rightarrow> False
                   | Some s \<Rightarrow> rssLevel s \<noteq> [] \<and> rssLevel s \<noteq> ''project'')
          then State_Monad.return (Inl (ErrMsg (''spec.scope.level must be '' @ goQuote ''project'' @
                 '' when spec.projectRef is provided'')))
          else
            let ns = refNamespace (metaNamespace (objMeta cr)) ref
            in case validateReferenceNamespace opts (metaNamespace (objMeta cr)) ns ''Project'' of
                 Some err \<Rightarrow> State_Monad.return (Inl err)
               | None \<Rightarrow>
                   do { r \<leftarrow> kubeGet KProject (svcGetProject S) (ns, nrName ref);
                        State_Monad.return
                          (case r of
                             Inl err \<Rightarrow> Inl err
                           | Inr p \<Rightarrow>
                               if harborProjectID (objStatus p) = 0
                               then Inl (ErrMsg (''referenced Project '' @ ns @ ''/'' @ nrName ref @
                                      '' does not have harborProjectID yet''))
                               else Inr (Some \<lparr>rssLevel = ''project'', rssRef = harborProjectID (objStatus p)\<rparr>)) })"

definition isRetentionAlreadyBound :: "gerror \<Rightarrow> bool" where
  "isRetentionAlreadyBound err =
     (case err of HTTPError code msg \<Rightarrow> code = 400 \<and> goContains msg ''already has retention policy'' | _ \<Rightarrow> False)"

definition findExistingRetentionID :: "'e services \<Rightarrow> harborClient \<Rightarrow> retentionScopeSpec option \<Rightarrow>
    ('o, 'e, gerror + int) go" where
  "findExistingRetentionID S hc scope =
     (let none = State_Monad.return
        (Inl (ErrMsg ''cannot resolve existing retention policy without project scope''))
      in case scope of
           None \<Rightarrow> none
         | Some s \<Rightarrow>
             if rssLevel s \<noteq> ''project'' \<or> rssRef s = 0 then none
             else do {
               r \<leftarrow> GetProjectByID S hc (rssRef s);
               State_Monad.return
                 (case r of
                    Inl err \<Rightarrow> Inl err
                  | Inr p \<Rightarrow>
                      let rid = hpmRetentionID (hpMetadata p)
                      in if rid = []
                         then Inl (ErrMsg (''project '' @ goItoa (rssRef s) @ '' has no retention_id metadata''))
                         else case goAtoi rid of
                                None \<Rightarrow> Inl (ErrWrap (''parse retention_id '' @ goQuote rid @ '': '')
                                               (ErrMsg (goAtoiError rid)))
                              | Some n \<Rightarrow> Inr n) })"

section \<open>The reconciler\<close>

definition retentionKind :: "('e, retentionPolicy) kclient \<Rightarrow>
    ('e, retentionPolicySpec, retentionPolicyStatus) kind" where
  "retentionKind c = \<lparr>kdKind = KRetentionPolicy, kdSanitize = sanitizeRef, kdClient = c\<rparr>"

definition setRetentionID :: "int \<Rightarrow> retentionPolicy \<Rightarrow> retentionPolicy" where
  "setRetentionID n cr = cr\<lparr>objStatus := (objStatus cr)\<lparr>harborRetentionID := n\<rparr>\<rparr>"

definition deleteRetentionFn :: "'e services \<Rightarrow> harborClient \<Rightarrow> (retentionPolicy, 'e, gerror option) go" where
  "deleteRetentionFn S hc =
     do { cr \<leftarrow> getObj;
          if harborRetentionID (objStatus cr) = 0 then State_Monad.return None
          else DeleteRetention S hc (harborRetentionID (objStatus cr)) }"

definition createRetentionPath :: "'e services \<Rightarrow> 'e operatorOptions \<Rightarrow>
    ('e, retentionPolicySpec, retentionPolicyStatus) kind \<Rightarrow> harborClient \<Rightarrow> retentionScopeSpec option \<Rightarrow>
    hRetentionPolicy \<Rightarrow> (retentionPolicy, 'e, outcome) go" where
  "createRetentionPath S opts K hc scope policy =
     do { r \<leftarrow> CreateRetention S hc policy;
          case r of
            Inl err \<Rightarrow>
              (if isRetentionAlreadyBound err
               then do { l \<leftarrow> findExistingRetentionID S hc scope;
                         case l of
                           Inl lookupErr \<Rightarrow> failWith S K lookupErr
                         | Inr existingID \<Rightarrow>
                             do { _ \<leftarrow> modObj (setRetentionID existingID);
                                  uerr \<leftarrow> kubeStatusUpdate K;
                                  if uerr \<noteq> None then finish uerr
                                  else State_Monad.return (emptyResult\<lparr>requeue := True\<rparr>, None) } }
               else failWith S K err)
          | Inr newID \<Rightarrow>
              do { _ \<leftarrow> modObj (setRetentionID newID);
                   readyWithDrift S opts K ''Created'' ''Retention policy created'' } }"

definition updateRetentionPath :: "'e services \<Rightarrow> 'e operatorOptions \<Rightarrow>
    ('e, retentionPolicySpec, retentionPolicyStatus) kind \<Rightarrow> harborClient \<Rightarrow> hRetentionPolicy \<Rightarrow>
    (retentionPolicy, 'e, outcome) go" where
  "updateRetentionPath S opts K hc policy =
     do { cr \<leftarrow> getObj;
          r \<leftarrow> GetRetentionByID S hc (harborRetentionID (objStatus cr));
          case r of
            Inl err \<Rightarrow>
              (if IsNotFound (Some err)
               then do { generation \<leftarrow> crGeneration;
                         requeueOnRemoteNotFound S K generation (Some (\<lambda>st. st\<lparr>harborRetentionID := 0\<rparr>))
                           ''Retention policy not found in Harbor'' }
               else failWith S K err)
          | Inr current \<Rightarrow>
              do { uerr \<leftarrow> (if retentionNeedsUpdate policy (Some current)
                           then UpdateRetention S hc (harborRetentionID (objStatus cr)) (touchRetentionPolicy policy)
                           else State_Monad.return None);
                   case uerr of
                     Some err \<Rightarrow> failWith S K err
                   | None \<Rightarrow> readyWithDrift S opts K ''Reconciled'' ''Retention policy reconciled'' } }"

definition retentionBody :: "'e services \<Rightarrow> 'e operatorOptions \<Rightarrow>
    ('e, retentionPolicySpec, retentionPolicyStatus) kind \<Rightarrow> harborClient \<Rightarrow> (retentionPolicy, 'e, outcome) go" where
  "retentionBody S opts K hc =
     do { cr \<leftarrow> getObj;
          case retentionSpecError (objSpec cr) of
            Some err \<Rightarrow> failWith S K err
          | None \<Rightarrow>
              do { sc \<leftarrow> resolveRetentionScope S opts cr;
                   case sc of
                     Inl err \<Rightarrow> failWith S K err
                   | Inr scope \<Rightarrow>
                       (case toRetentionPolicy (objSpec cr) scope of
                          Inl err \<Rightarrow> failWith S K err
                        | Inr policy \<Rightarrow>
                            if harborRetentionID (objStatus cr) = 0
                            then createRetentionPath S opts K hc scope policy
                            else updateRetentionPath S opts K hc policy) } }"

text \<open>After the connection: an error of the deletion becomes the status of the object.\<close>

definition retentionRest :: "'e services \<Rightarrow> 'e operatorOptions \<Rightarrow>
    ('e, retentionPolicySpec, retentionPolicyStatus) kind \<Rightarrow> harborClient \<Rightarrow> (retentionPolicy, 'e, outcome) go" where
  "retentionRest S opts K hc =
     do { cr \<leftarrow> getObj;
          (done, derr) \<leftarrow> finalizeIfDeleting S K (GetDeletionPolicy (objSpec cr)) (Some (deleteRetentionFn S hc));
          if done then (case derr of Some err \<Rightarrow> failWith S K err | None \<Rightarrow> finish None)
          else do {
            err \<leftarrow> ensureFinalizer S K;
            if err \<noteq> None then finish err else retentionBody S opts K hc } }"

definition reconcileRetentionPolicy :: "'e services \<Rightarrow> 'e operatorOptions \<Rightarrow> ('e, retentionPolicy) kclient \<Rightarrow>
    nsName \<Rightarrow> (retentionPolicy, 'e, outcome) go" where
  "reconcileRetentionPolicy S opts c =
     withHarborClient S opts (retentionKind c) True (retentionRest S opts (retentionKind c))"

end
