(* ===== verification/RetentionFacts.thy ===== *)
theory RetentionFacts
  imports RetentionPolicies
begin

text \<open>
  What holds of the retention reconciler. Its frame is the common one except that an error of the
  deletion is also written to the status: its trace is the trace of the common frame with at most
  quiet events behind it, and so the guarantees of the common frame carry over. And what the
  comparison of policies makes of rules without parameters.
\<close>

section \<open>A run with quiet events behind another's\<close>

definition quietlyExtends :: "('o, 'e, 'a) go \<Rightarrow> ('o, 'e, 'b) go \<Rightarrow> bool" where
  "quietlyExtends m m' \<longleftrightarrow>
     (\<forall>s. \<exists>evs. stTrace (snd (run_state m s)) = stTrace (snd (run_state m' s)) @ evs \<and> list_all quietEvent evs)"

lemma quietlyExtends_refl [simp, intro]: "quietlyExtends m m"
  by (simp add: quietlyExtends_def)

lemma quietlyExtends_bind: "(\<And>x. quietlyExtends (f x) (g x)) \<Longrightarrow> quietlyExtends (m \<bind> f) (m \<bind> g)"
  by (simp add: quietlyExtends_def run_simps split: prod.split)

lemma quietlyExtends_quiet:
  assumes "quietly m"
  shows "quietlyExtends m (State_Monad.return x)"
  using emitsD [OF assms] by (simp add: quietlyExtends_def run_simps)

lemma quietlyExtends_if: "quietlyExtends a a' \<Longrightarrow> quietlyExtends b b' \<Longrightarrow> quietlyExtends (if p then a else b) (if p then a' else b')"
  by simp

lemma quietlyExtends_sum:
  "(\<And>x. quietlyExtends (f x) (f' x)) \<Longrightarrow> (\<And>x. quietlyExtends (g x) (g' x)) \<Longrightarrow>
     quietlyExtends (case_sum f g r) (case_sum f' g' r)"
  by (simp split: sum.split)

lemma quietlyExtends_prod:
  "(\<And>x y. quietlyExtends (f x y) (f' x y)) \<Longrightarrow> quietlyExtends (case_prod f r) (case_prod f' r)"
  by (simp split: prod.split)

lemmas quietlyExtends_intros = quietlyExtends_bind quietlyExtends_if quietlyExtends_sum quietlyExtends_prod
  quietlyExtends_refl

lemma quietlyExtends_withHarborClient:
  "(\<And>hc. quietlyExtends (f hc) (g hc)) \<Longrightarrow>
     quietlyExtends (withHarborClient S opts K cleanup f key) (withHarborClient S opts K cleanup g key)"
  unfolding withHarborClient_def markAndResolve_def by (intro quietlyExtends_intros)

lemma quietlyExtends_preceded:
  assumes "quietlyExtends m m'" and "preceded P Q (traceOf m' s)" and "\<And>ev. quietEvent ev \<Longrightarrow> \<not> Q ev"
  shows "preceded P Q (traceOf m s)"
proof -
  obtain evs where evs: "traceOf m s = traceOf m' s @ evs" "list_all quietEvent evs"
    using assms(1) by (auto simp: quietlyExtends_def traceOf_def)
  then have "list_all (\<lambda>ev. \<not> Q ev) evs" using assms(3) by (simp add: list_all_iff)
  then show ?thesis using assms(2) evs(1) by (simp add: precededFrom_append precededFrom_none)
qed

lemma quietlyExtends_all:
  assumes "quietlyExtends m m'" and "list_all C (traceOf m' s)" and "\<And>ev. quietEvent ev \<Longrightarrow> C ev"
  shows "list_all C (traceOf m s)"
proof -
  obtain evs where "traceOf m s = traceOf m' s @ evs" "list_all quietEvent evs"
    using assms(1) by (auto simp: quietlyExtends_def traceOf_def)
  then show ?thesis using assms(2,3) by (auto simp: list_all_iff)
qed

section \<open>The contract of the frame\<close>

lemmas retention_call_events = emits_RetentionCalls(1-3) [OF clientCalls_body]

lemma quietly_resolveRetentionScope: "quietly (resolveRetentionScope S opts cr)"
  unfolding resolveRetentionScope_def Let_def by (intro emits_intros)

lemma retentionBody_events: "emits bodyEvent (retentionBody S opts K hc)"
  unfolding retentionBody_def createRetentionPath_def updateRetentionPath_def findExistingRetentionID_def Let_def
  by (intro emits_intros body_quiet retention_call_events quietly_body [OF quietly_resolveRetentionScope]
      emits_ProjectCalls [OF clientCalls_body]) simp_all

lemma deleteRetention_events: "emits (\<lambda>ev. \<not> dropsFinalizer ev) (deleteRetentionFn S hc)"
  unfolding deleteRetentionFn_def by (intro emits_intros emits_RetentionCalls(4) [OF clientCalls_noDrop]) simp

abbreviation owesRetention :: "int \<Rightarrow> retentionPolicy \<Rightarrow> bool" where
  "owesRetention n \<equiv> owesRemote harborRetentionID 0 n"

text \<open>Harbor answers 400 as well for a retention policy that it does not have.\<close>

definition retentionGone :: "int \<Rightarrow> event \<Rightarrow> bool" where
  "retentionGone n ev =
     (case ev of
        EvHttp hc req (Some st) \<Rightarrow>
          reqMethod req = ''DELETE'' \<and> goHasSuffix (reqURL req) (retentionURL n) \<and>
          (200 \<le> st \<and> st < 300 \<or> st = 404 \<or> st = 400)
      | _ \<Rightarrow> False)"

lemma retentionGone_response:
  assumes "list_ex (isResponse c ''DELETE'' (retentionURL n) p) tr"
    and "\<And>st. p st \<Longrightarrow> 200 \<le> st \<and> st < 300 \<or> st = 404 \<or> st = 400"
  shows "list_ex (retentionGone n) tr"
proof -
  have "isResponse c ''DELETE'' (retentionURL n) p ev \<Longrightarrow> retentionGone n ev" for ev
    using assms(2) by (cases ev) (auto simp: isResponse_def retentionGone_def isRequest_def goHasSuffix_append
        split: option.splits)
  then show ?thesis using assms(1) unfolding list_ex_iff by blast
qed

lemma DeleteRetention_gone:
  "triple (\<lambda>_. True) (DeleteRetention S hc n) (\<lambda>r s. r = None \<longrightarrow> list_ex (retentionGone n) (stTrace s))"
  unfolding DeleteRetention_def deleteIgnoringNotFound_def
proof (rule triple_bind [OF clientDo_response], intro triple_let triple_return impI)
  fix r :: "gerror + httpResponse \<times> unit option" and s :: "('o, 'e) rstate"
  assume r: "responseFact hc ''DELETE'' (retentionURL n) r (stTrace s)"
    and none: "(if IsNotFound (errOf r) then None
       else if list_ex (\<lambda>fn. case fn of None \<Rightarrow> False | Some ignoreFn \<Rightarrow> ignoreFn (errOf r)) [Some isRetentionGone]
       then None else errOf r) = None"
  show "list_ex (retentionGone n) (stTrace s)"
  proof (cases r)
    case (Inr rv)
    then have "list_ex (isResponse hc ''DELETE'' (retentionURL n) ok2xx) (stTrace s)"
      using r by (simp add: responseFact_def)
    then show ?thesis by (rule retentionGone_response) (simp add: ok2xx_def)
  next
    case (Inl err)
    then obtain code msg where err: "err = HTTPError code msg" "code = 404 \<or> code = 400"
      using none by (auto simp: errOf_def IsNotFound_def isStatus_def isRetentionGone_def
          split: if_splits gerror.splits)
    then have "list_ex (isResponse hc ''DELETE'' (retentionURL n) (\<lambda>st. st = code)) (stTrace s)"
      using r Inl by (simp add: responseFact_def)
    then show ?thesis by (rule retentionGone_response) (use err(2) in auto)
  qed
qed

lemma deleteRetention_gone:
  "triple (\<lambda>s. owesRetention n (stObj s)) (deleteRetentionFn S hc)
     (\<lambda>r s. r = None \<longrightarrow> list_ex (retentionGone n) (stTrace s))"
  unfolding deleteRetentionFn_def
proof (rule triple_bind [OF triple_getObj])
  show "triple (\<lambda>s. owesRetention n (stObj s) \<and> cr = stObj s)
      (if harborRetentionID (objStatus cr) = 0 then State_Monad.return None
       else DeleteRetention S hc (harborRetentionID (objStatus cr)))
      (\<lambda>r s. r = None \<longrightarrow> list_ex (retentionGone n) (stTrace s))" for cr
  proof (cases "owesRetention n cr")
    case True
    then have n: "harborRetentionID (objStatus cr) = n" "n \<noteq> 0" by (simp_all add: owesRemote_def)
    show ?thesis unfolding n(1) if_not_P [OF n(2)] by (rule triple_pre [OF DeleteRetention_gone]) simp
  qed (auto simp: triple_def)
qed

lemma deleteRetention_only:
  "triple (objTrace (hasRemote harborRetentionID n) (deletesOnly (retentionURL n))) (deleteRetentionFn S hc)
     (\<lambda>_ s. list_all (deletesOnly (retentionURL n)) (stTrace s))"
  unfolding deleteRetentionFn_def DeleteRetention_def
  by (rule delete_by_id_only [where relURL = retentionURL])
    (auto intro!: emits_intros emits_delete_own dest: hasRemote_ident)

interpretation retention: harbor_backed S opts "retentionKind c" True "Some (deleteRetentionFn S)"
    "retentionBody S opts (retentionKind c)" for S opts c
  by unfold_locales (auto intro: retentionBody_events deleteRetention_events)

interpretation owned_retention: owned_remote S opts "retentionKind c" True "Some (deleteRetentionFn S)"
    "retentionBody S opts (retentionKind c)" "owesRetention n" "retentionGone n" "deleteRetentionFn S" for S opts c n
  by unfold_locales (auto intro: deleteRetention_gone dest: owesRemoteD)

interpretation own_retention: guarded_body S opts "retentionKind c" True "Some (deleteRetentionFn S)"
    "retentionBody S opts (retentionKind c)" "hasRemote harborRetentionID n" "deletesOnly (retentionURL n)"
  for S opts c n
  by unfold_locales (auto intro!: emits_post bodyEvent_deletesOnly retentionBody_events deleteRetention_only)

lemma retention_extends_frame:
  "quietlyExtends (reconcileRetentionPolicy S opts c key)
     (harborBacked S opts (retentionKind c) True (Some (deleteRetentionFn S))
        (retentionBody S opts (retentionKind c)) key)"
proof -
  have err: "quietlyExtends (case derr of None \<Rightarrow> finish None | Some err \<Rightarrow> failWith S K err) (finish derr)"
    for derr and K :: "('e, retentionPolicySpec, retentionPolicyStatus) kind" and S :: "'e services"
    unfolding finish_def by (cases derr) (auto intro!: quietlyExtends_quiet emits_intros)
  show ?thesis
    unfolding reconcileRetentionPolicy_def harborBacked_def option.map
    by (intro quietlyExtends_withHarborClient)
      (unfold retentionRest_def withFinalizer_def, intro quietlyExtends_intros err)
qed

section \<open>Rules without parameters\<close>

lemma decAll_elem: "decAll d xs = Some ys \<Longrightarrow> y \<in> set ys \<Longrightarrow> \<exists>x. d x = Some y"
  by (induction xs arbitrary: ys) (auto split: option.splits)

lemma decoded_params: "decRetentionRule j = Some r \<Longrightarrow> hrrParams r \<noteq> NilMap"
  by (auto simp: decRetentionRule_def decObj_def decAnyParams_def bind_eq_Some_conv split: json.splits if_splits)

lemma decoded_rules:
  assumes "decRetentionPolicy doc = Some current" and "hrpRules current = Some rs" and "r \<in> set rs"
  shows "hrrParams r \<noteq> NilMap"
proof -
  obtain j where "decSlice decRetentionRule j = Some (Some rs)"
    using assms(1,2) by (auto simp: decRetentionPolicy_def decObj_def bind_eq_Some_conv split: json.splits)
  then obtain xs where "decAll decRetentionRule xs = Some rs"
    by (auto simp: decSlice_def split: json.splits)
  from decAll_elem [OF this assms(3)] decoded_params show ?thesis by blast
qed

lemma toRetentionRules_nil:
  "toRetentionRules i rules = Inr out \<Longrightarrow> rule \<in> set rules \<Longrightarrow> rrsParams rule = None \<Longrightarrow>
     \<exists>r \<in> set out. hrrParams r = NilMap"
  by (induction i rules arbitrary: out rule rule: toRetentionRules.induct)
    (auto simp: jsonMapToAny_def normalizeRetentionParamsMap_def paramsOfMap_def split: sum.splits)

text \<open>What the comparison sees of the parameters.\<close>

lemma compared_params:
  "plusZeroParams (normalizeRetentionParamsAny p) = NilMap \<longleftrightarrow> p = NilMap"
  by (auto simp: plusZeroParams_def normalizeRetentionParamsAny_def paramsOfMap_def normalizeRetentionParamsMap_def
      split: anyParams.splits json.splits)

definition comparedParams :: "hRetentionPolicy \<Rightarrow> anyParams list option" where
  "comparedParams p = map_option (map hrrParams) (hrpRules (plusZeroRetention (normalizeRetentionPolicy p)))"

lemma comparedParams_eq:
  "comparedParams p = map_option (map (\<lambda>r. plusZeroParams (normalizeRetentionParamsAny (hrrParams r)))) (hrpRules p)"
  by (cases "hrpRules p") (simp_all add: comparedParams_def plusZeroRetention_def normalizeRetentionPolicy_def
      touchRetentionPolicy_def normalizeRetentionRule_def)

text \<open>
  C36. A retention policy with a rule without parameters never settles: whatever document Harbor
  answers with, the comparison asks for an update. The parameters of the desired rule are a nil map
  inside an interface, and no document is decoded to that.
\<close>

theorem retention_without_params_never_settles:
  assumes "toRetentionPolicy sp scope = Inr desired" and "rule \<in> set (retRules sp)" and "rrsParams rule = None"
    and "decRetentionPolicy doc = Some current"
  shows "retentionNeedsUpdate desired (Some current)"
proof -
  obtain rules where rules: "toRetentionRules 0 (retRules sp) = Inr rules" "hrpRules desired = Some rules"
    using assms(1) by (auto simp: toRetentionPolicy_def split: sum.splits)
  then obtain r where r: "r \<in> set rules" "hrrParams r = NilMap"
    using toRetentionRules_nil assms(2,3) by blast
  have "comparedParams desired \<noteq> comparedParams current"
  proof
    assume "comparedParams desired = comparedParams current"
    then obtain rs where rs: "hrpRules current = Some rs"
        "map (\<lambda>r. plusZeroParams (normalizeRetentionParamsAny (hrrParams r))) rules =
         map (\<lambda>r. plusZeroParams (normalizeRetentionParamsAny (hrrParams r))) rs"
      unfolding comparedParams_eq rules(2) by (cases "hrpRules current") auto
    have f: "plusZeroParams (normalizeRetentionParamsAny (hrrParams r)) = NilMap"
      using r(2) compared_params by blast
    have "plusZeroParams (normalizeRetentionParamsAny (hrrParams r)) \<in>
        set (map (\<lambda>r. plusZeroParams (normalizeRetentionParamsAny (hrrParams r))) rs)"
      unfolding rs(2) [symmetric] set_map using r(1) by (rule imageI)
    then obtain r' where "r' \<in> set rs" "plusZeroParams (normalizeRetentionParamsAny (hrrParams r')) = NilMap"
      unfolding f set_map by (auto simp: eq_commute)
    then have "r' \<in> set rs" "hrrParams r' = NilMap" using compared_params by blast+
    with decoded_rules [OF assms(4) rs(1)] show False by blast
  qed
  then show ?thesis by (auto simp: retentionNeedsUpdate_def comparedParams_def)
qed

definition exRetentionRule :: "(string \<times> rawJSON) list option \<Rightarrow> retentionRuleSpec" where
  "exRetentionRule params =
     \<lparr>rrsDisabled = False, rrsAction = ''retain'', rrsTemplate = ''always'', rrsParams = params,
      rrsTagSelectors = [\<lparr>selKind = ''doublestar'', selDecoration = ''matches'', selPattern = ''**'', selExtras = []\<rparr>],
      rrsScopeSelectors = None\<rparr>"

definition exRetentionSpec :: "(string \<times> rawJSON) list option \<Rightarrow> retentionPolicySpec" where
  "exRetentionSpec params =
     \<lparr>harborConnectionRef = exRef, driftDetectionInterval = None, reconcileNonce = [], deletionPolicy = [],
      retProjectRef = None, retRules = [exRetentionRule params],
      retTrigger = Some \<lparr>rtsKind = ''Manual'', rtsSettings = None, rtsReferences = None\<rparr>,
      retScope = Some \<lparr>rssLevel = ''project'', rssRef = 3\<rparr>\<rparr>"

definition exRetentionPolicy :: "(string \<times> rawJSON) list option \<Rightarrow> hRetentionPolicy" where
  "exRetentionPolicy params =
     (case toRetentionPolicy (exRetentionSpec params) (Some \<lparr>rssLevel = ''project'', rssRef = 3\<rparr>) of
        Inr p \<Rightarrow> p | Inl _ \<Rightarrow> undefined)"

text \<open>
  With parameters the same policy settles once Harbor has stored it; without, the stored policy
  itself asks for the next update.
\<close>

lemma retention_without_params_witness:
  "(case decRetentionPolicy (encRetentionPolicy (exRetentionPolicy (Some [(''n'', ''3'')]))) of
      None \<Rightarrow> False | Some c \<Rightarrow> \<not> retentionNeedsUpdate (exRetentionPolicy (Some [(''n'', ''3'')])) (Some c)) \<and>
   (case decRetentionPolicy (encRetentionPolicy (exRetentionPolicy None)) of
      None \<Rightarrow> False | Some c \<Rightarrow> retentionNeedsUpdate (exRetentionPolicy None) (Some c))"
proof
  show "case decRetentionPolicy (encRetentionPolicy (exRetentionPolicy (Some [(''n'', ''3'')]))) of
      None \<Rightarrow> False | Some c \<Rightarrow> \<not> retentionNeedsUpdate (exRetentionPolicy (Some [(''n'', ''3'')])) (Some c)"
    by code_simp
  have "decRetentionPolicy (encRetentionPolicy (exRetentionPolicy None)) \<noteq> None" by code_simp
  moreover have "toRetentionPolicy (exRetentionSpec None) (Some \<lparr>rssLevel = ''project'', rssRef = 3\<rparr>) =
      Inr (exRetentionPolicy None)"
    by code_simp
  ultimately show "case decRetentionPolicy (encRetentionPolicy (exRetentionPolicy None)) of
      None \<Rightarrow> False | Some c \<Rightarrow> retentionNeedsUpdate (exRetentionPolicy None) (Some c)"
    by (auto simp: exRetentionSpec_def exRetentionRule_def
        intro!: retention_without_params_never_settles [where rule = "exRetentionRule None"] split: option.split)
qed

end
