(* ===== verification/ReplicationPolicies.thy ===== *)
theory ReplicationPolicies
  imports OwnedRemote ReferenceRules AnyValues HarborRegistries
begin

text \<open>
  Replication policies: the calls of \<^verbatim>\<open>internal/harborclient/replication.go\<close>
  and the reconciler of \<^verbatim>\<open>internal/controller/replicationpolicy_controller.go\<close>.
  Most settings are pointers: a spec that leaves one out sends none. The filters of the desired
  policy are brought into their normal form and order where they are when policies are compared.
\<close>

section \<open>The Harbor client\<close>

record hReplicationTrigger =
  htrType :: string
  htrSettingsCron :: "string option"

record hReplicationFilter =
  hrfType :: string
  hrfValue :: json
  hrfDecoration :: string

record hReplicationPolicy =
  hrplID :: int
  hrplName :: string
  hrplDescription :: string
  hrplSrcRegistry :: "hRegistry option"
  hrplDestRegistry :: "hRegistry option"
  hrplDestNamespace :: string
  hrplDestNamespaceReplaceCount :: "int option"
  hrplTrigger :: "hReplicationTrigger option"
  hrplFilters :: "hReplicationFilter list option"
  hrplReplicateDeletion :: "bool option"
  hrplDeletion :: "bool option"
  hrplOverride :: "bool option"
  hrplEnabled :: "bool option"
  hrplCreationTime :: string
  hrplUpdateTime :: string
  hrplSpeed :: "int option"
  hrplCopyByChunk :: "bool option"
  hrplSingleActiveReplication :: "bool option"

definition decTriggerCron :: "string decoder" where
  "decTriggerCron = decObj (\<lambda>kvs. decStr (jget ''cron'' kvs))"

definition decReplicationTrigger :: "hReplicationTrigger decoder" where
  "decReplicationTrigger = decObj (\<lambda>kvs.
     do { t \<leftarrow> decStr (jget ''type'' kvs);
          s \<leftarrow> decPtr decTriggerCron (jget ''trigger_settings'' kvs);
          Some \<lparr>htrType = t, htrSettingsCron = s\<rparr> })"

definition encReplicationTrigger :: "hReplicationTrigger \<Rightarrow> json" where
  "encReplicationTrigger t = JObj
     (omitStr ''type'' (htrType t) @
      omitPtr ''trigger_settings'' (\<lambda>c. JObj (omitStr ''cron'' c)) (htrSettingsCron t))"

text \<open>A value that is \<^verbatim>\<open>null\<close> is a nil interface and is left out.\<close>

definition decReplicationFilter :: "hReplicationFilter decoder" where
  "decReplicationFilter = decObj (\<lambda>kvs.
     do { t \<leftarrow> decStr (jget ''type'' kvs);
          v \<leftarrow> decAny (jget ''value'' kvs);
          d \<leftarrow> decStr (jget ''decoration'' kvs);
          Some \<lparr>hrfType = t, hrfValue = v, hrfDecoration = d\<rparr> })"

definition encReplicationFilter :: "hReplicationFilter \<Rightarrow> json" where
  "encReplicationFilter f = JObj
     (omitStr ''type'' (hrfType f) @ (if hrfValue f = JNull then [] else [(''value'', hrfValue f)]) @
      omitStr ''decoration'' (hrfDecoration f))"

definition encRegistry :: "hRegistry \<Rightarrow> json" where
  "encRegistry r = JObj
     ([(''id'', jInt (hrID r)), (''url'', JStr (hrURL r)), (''name'', JStr (hrName r)),
       (''description'', JStr (hrDescription r)), (''type'', JStr (hrType r)), (''insecure'', JBool (hrInsecure r))] @
      omitStr ''ca_certificate'' (hrCACertificate r) @ omitPtr ''credential'' encRegistryCredential (hrCredential r))"

definition decReplicationPolicy :: "hReplicationPolicy decoder" where
  "decReplicationPolicy = decObj (\<lambda>kvs.
     do { n \<leftarrow> decInt (jget ''id'' kvs);
          nm \<leftarrow> decStr (jget ''name'' kvs);
          d \<leftarrow> decStr (jget ''description'' kvs);
          src \<leftarrow> decPtr decRegistry (jget ''src_registry'' kvs);
          dst \<leftarrow> decPtr decRegistry (jget ''dest_registry'' kvs);
          dns \<leftarrow> decStr (jget ''dest_namespace'' kvs);
          cnt \<leftarrow> decPtr decInt (jget ''dest_namespace_replace_count'' kvs);
          t \<leftarrow> decPtr decReplicationTrigger (jget ''trigger'' kvs);
          fs \<leftarrow> decSlice decReplicationFilter (jget ''filters'' kvs);
          rd \<leftarrow> decPtr decBool (jget ''replicate_deletion'' kvs);
          dl \<leftarrow> decPtr decBool (jget ''deletion'' kvs);
          ov \<leftarrow> decPtr decBool (jget ''override'' kvs);
          en \<leftarrow> decPtr decBool (jget ''enabled'' kvs);
          ct \<leftarrow> decStr (jget ''creation_time'' kvs);
          ut \<leftarrow> decStr (jget ''update_time'' kvs);
          sp \<leftarrow> decPtr decInt (jget ''speed'' kvs);
          cc \<leftarrow> decPtr decBool (jget ''copy_by_chunk'' kvs);
          sa \<leftarrow> decPtr decBool (jget ''single_active_replication'' kvs);
          Some \<lparr>hrplID = n, hrplName = nm, hrplDescription = d, hrplSrcRegistry = src, hrplDestRegistry = dst,
                hrplDestNamespace = dns, hrplDestNamespaceReplaceCount = cnt, hrplTrigger = t, hrplFilters = fs,
                hrplReplicateDeletion = rd, hrplDeletion = dl, hrplOverride = ov, hrplEnabled = en,
                hrplCreationTime = ct, hrplUpdateTime = ut, hrplSpeed = sp, hrplCopyByChunk = cc,
                hrplSingleActiveReplication = sa\<rparr> })"

definition encReplicationPolicy :: "hReplicationPolicy \<Rightarrow> json" where
  "encReplicationPolicy p = JObj
     (omitInt ''id'' (hrplID p) @ omitStr ''name'' (hrplName p) @ omitStr ''description'' (hrplDescription p) @
      omitPtr ''src_registry'' encRegistry (hrplSrcRegistry p) @
      omitPtr ''dest_registry'' encRegistry (hrplDestRegistry p) @
      omitStr ''dest_namespace'' (hrplDestNamespace p) @
      omitPtr ''dest_namespace_replace_count'' jInt (hrplDestNamespaceReplaceCount p) @
      omitPtr ''trigger'' encReplicationTrigger (hrplTrigger p) @
      omitSlice ''filters'' encReplicationFilter (hrplFilters p) @
      omitPtr ''replicate_deletion'' JBool (hrplReplicateDeletion p) @
      omitPtr ''deletion'' JBool (hrplDeletion p) @ omitPtr ''override'' JBool (hrplOverride p) @
      omitPtr ''enabled'' JBool (hrplEnabled p) @ omitStr ''creation_time'' (hrplCreationTime p) @
      omitStr ''update_time'' (hrplUpdateTime p) @ omitPtr ''speed'' jInt (hrplSpeed p) @
      omitPtr ''copy_by_chunk'' JBool (hrplCopyByChunk p) @
      omitPtr ''single_active_replication'' JBool (hrplSingleActiveReplication p))"

definition replicationsURL :: string where
  "replicationsURL = ''/api/v2.0/replication/policies''"

definition replicationURL :: "int \<Rightarrow> string" where
  "replicationURL n = ''/api/v2.0/replication/policies/'' @ goItoa n"

definition ListReplicationPolicies :: "'e services \<Rightarrow> harborClient \<Rightarrow> string \<Rightarrow>
    ('o, 'e, gerror + hReplicationPolicy list) go" where
  "ListReplicationPolicies S c name =
     getPaged S c decReplicationPolicy replicationsURL (if name \<noteq> [] then valuesSet ''name'' name [] else [])"

definition GetReplicationPolicy :: "'e services \<Rightarrow> harborClient \<Rightarrow> int \<Rightarrow> ('o, 'e, gerror + hReplicationPolicy) go" where
  "GetReplicationPolicy S c n = clientGet S c (replicationURL n) decReplicationPolicy"

definition CreateReplicationPolicy :: "'e services \<Rightarrow> harborClient \<Rightarrow> hReplicationPolicy \<Rightarrow> ('o, 'e, gerror + int) go" where
  "CreateReplicationPolicy S c p = createWithNumericLocationID S c replicationsURL (encReplicationPolicy p)"

definition UpdateReplicationPolicy :: "'e services \<Rightarrow> harborClient \<Rightarrow> int \<Rightarrow> hReplicationPolicy \<Rightarrow>
    ('o, 'e, gerror option) go" where
  "UpdateReplicationPolicy S c n p = clientPut S c (replicationURL n) (encReplicationPolicy p)"

definition DeleteReplicationPolicy :: "'e services \<Rightarrow> harborClient \<Rightarrow> int \<Rightarrow> ('o, 'e, gerror option) go" where
  "DeleteReplicationPolicy S c n = deleteIgnoringNotFound S c (replicationURL n) []"

lemma emits_ReplicationCalls:
  "clientCalls c M C \<Longrightarrow> (\<And>relURL. M ''GET'' relURL) \<Longrightarrow> emits C (ListReplicationPolicies S c nm)"
  "clientCalls c M C \<Longrightarrow> M ''GET'' (replicationURL n) \<Longrightarrow> emits C (GetReplicationPolicy S c n)"
  "clientCalls c M C \<Longrightarrow> M ''POST'' replicationsURL \<Longrightarrow> emits C (CreateReplicationPolicy S c p)"
  "clientCalls c M C \<Longrightarrow> M ''PUT'' (replicationURL n) \<Longrightarrow> emits C (UpdateReplicationPolicy S c n p)"
  "clientCalls c M C \<Longrightarrow> M ''DELETE'' (replicationURL n) \<Longrightarrow> emits C (DeleteReplicationPolicy S c n)"
  unfolding ListReplicationPolicies_def GetReplicationPolicy_def CreateReplicationPolicy_def
    UpdateReplicationPolicy_def DeleteReplicationPolicy_def
  by (intro client_emits; (assumption | simp))+

lemma untouched_replication_calls [triple_intros]:
  "untouched (ListReplicationPolicies S hc nm)" "untouched (GetReplicationPolicy S hc n)"
  "untouched (CreateReplicationPolicy S hc p)" "untouched (UpdateReplicationPolicy S hc n p)"
  "untouched (DeleteReplicationPolicy S hc n)"
  unfolding ListReplicationPolicies_def GetReplicationPolicy_def CreateReplicationPolicy_def
    UpdateReplicationPolicy_def DeleteReplicationPolicy_def
  by (intro triple_intros)+

section \<open>The desired policy\<close>

definition replicationTriggerFromSpec :: "replicationTriggerSpec option \<Rightarrow> hReplicationTrigger option" where
  "replicationTriggerFromSpec = map_option (\<lambda>t. \<lparr>htrType = rptType t, htrSettingsCron = rptSettingsCron t\<rparr>)"

fun filtersFrom :: "nat \<Rightarrow> replicationFilterSpec list \<Rightarrow> gerror + hReplicationFilter list" where
  "filtersFrom i [] = Inr []"
| "filtersFrom i (f # fs) =
     (case (if rpfValue f = [] then Some JNull else unmarshalAny (rpfValue f)) of
        None \<Rightarrow> Inl (ErrWrap (''invalid replication filter value at index '' @ goItoa (int i) @ '': '') JSONError)
      | Some v \<Rightarrow>
          (case filtersFrom (Suc i) fs of
             Inl err \<Rightarrow> Inl err
           | Inr out \<Rightarrow>
               Inr (\<lparr>hrfType = rpfType f, hrfValue = v, hrfDecoration = rpfDecoration f\<rparr> # out)))"

definition replicationFiltersFromSpec :: "replicationFilterSpec list \<Rightarrow> gerror + hReplicationFilter list option" where
  "replicationFiltersFromSpec fs =
     (if fs = [] then Inr None else case filtersFrom 0 fs of Inl err \<Rightarrow> Inl err | Inr out \<Rightarrow> Inr (Some out))"

text \<open>A registry of which only the id is known.\<close>

definition registryWithID :: "int \<Rightarrow> hRegistry" where
  "registryWithID n =
     \<lparr>hrID = n, hrURL = [], hrName = [], hrDescription = [], hrType = [], hrInsecure = False,
      hrCACertificate = [], hrCredential = None\<rparr>"

definition desiredReplicationPolicy :: "replicationPolicy \<Rightarrow> int \<Rightarrow> int \<Rightarrow> hReplicationFilter list option \<Rightarrow>
    hReplicationPolicy" where
  "desiredReplicationPolicy cr srcID destID filters =
     \<lparr>hrplID = 0, hrplName = metaName (objMeta cr), hrplDescription = repDescription (objSpec cr),
      hrplSrcRegistry = Some (registryWithID srcID), hrplDestRegistry = Some (registryWithID destID),
      hrplDestNamespace = repDestNamespace (objSpec cr),
      hrplDestNamespaceReplaceCount = repDestNamespaceReplaceCount (objSpec cr),
      hrplTrigger = replicationTriggerFromSpec (repTrigger (objSpec cr)), hrplFilters = filters,
      hrplReplicateDeletion = repReplicateDeletion (objSpec cr), hrplDeletion = None,
      hrplOverride = repOverride (objSpec cr), hrplEnabled = repEnabled (objSpec cr),
      hrplCreationTime = [], hrplUpdateTime = [], hrplSpeed = repSpeed (objSpec cr),
      hrplCopyByChunk = repCopyByChunk (objSpec cr),
      hrplSingleActiveReplication = repSingleActiveReplication (objSpec cr)\<rparr>"

section \<open>Comparison\<close>

definition replicationFilterKey :: "hReplicationFilter \<Rightarrow> string" where
  "replicationFilterKey f =
     hrfType f @ ''|'' @ hrfDecoration f @ ''|'' @ jsonPrint (normalizeAny (hrfValue f))"

text \<open>What the comparison does to the filters where they are.\<close>

definition normalizeFilters :: "hReplicationFilter list \<Rightarrow> hReplicationFilter list" where
  "normalizeFilters fs =
     sortSlice (\<lambda>a b. replicationFilterKey a < replicationFilterKey b)
       (map (\<lambda>f. f\<lparr>hrfValue := normalizeAny (hrfValue f)\<rparr>) fs)"

definition touchReplicationPolicy :: "hReplicationPolicy \<Rightarrow> hReplicationPolicy" where
  "touchReplicationPolicy p = p\<lparr>hrplFilters := map_option normalizeFilters (hrplFilters p)\<rparr>"

definition normalizeReplicationPolicy :: "hReplicationPolicy \<Rightarrow> hReplicationPolicy" where
  "normalizeReplicationPolicy p = (touchReplicationPolicy p)\<lparr>
     hrplID := 0, hrplCreationTime := [], hrplUpdateTime := [],
     hrplSrcRegistry := map_option (\<lambda>r. registryWithID (hrID r)) (hrplSrcRegistry p),
     hrplDestRegistry := map_option (\<lambda>r. registryWithID (hrID r)) (hrplDestRegistry p)\<rparr>"

definition plusZeroReplication :: "hReplicationPolicy \<Rightarrow> hReplicationPolicy" where
  "plusZeroReplication p = p\<lparr>
     hrplFilters := map_option (map (\<lambda>f. f\<lparr>hrfValue := plusZero (hrfValue f)\<rparr>)) (hrplFilters p)\<rparr>"

definition replicationPolicyNeedsUpdate :: "hReplicationPolicy \<Rightarrow> hReplicationPolicy option \<Rightarrow> bool" where
  "replicationPolicyNeedsUpdate desired current =
     (case current of
        None \<Rightarrow> True
      | Some c \<Rightarrow> plusZeroReplication (normalizeReplicationPolicy desired) \<noteq>
                  plusZeroReplication (normalizeReplicationPolicy c))"

section \<open>The reconciler\<close>

definition replicationKind :: "('e, replicationPolicy) kclient \<Rightarrow>
    ('e, replicationPolicySpec, replicationPolicyStatus) kind" where
  "replicationKind c = \<lparr>kdKind = KReplicationPolicy, kdSanitize = sanitizeRef, kdClient = c\<rparr>"

definition setReplicationID :: "int \<Rightarrow> replicationPolicy \<Rightarrow> replicationPolicy" where
  "setReplicationID n cr = cr\<lparr>objStatus := (objStatus cr)\<lparr>harborReplicationPolicyID := n\<rparr>\<rparr>"

definition deleteReplicationFn :: "'e services \<Rightarrow> harborClient \<Rightarrow> (replicationPolicy, 'e, gerror option) go" where
  "deleteReplicationFn S hc =
     do { cr \<leftarrow> getObj;
          if harborReplicationPolicyID (objStatus cr) = 0 then State_Monad.return None
          else DeleteReplicationPolicy S hc (harborReplicationPolicyID (objStatus cr)) }"

definition adoptExistingReplication :: "'e services \<Rightarrow>
    ('e, replicationPolicySpec, replicationPolicyStatus) kind \<Rightarrow> harborClient \<Rightarrow>
    (replicationPolicy, 'e, bool \<times> gerror option) go" where
  "adoptExistingReplication S K hc =
     do { cr \<leftarrow> getObj;
          r \<leftarrow> ListReplicationPolicies S hc (metaName (objMeta cr));
          case r of
            Inl err \<Rightarrow> State_Monad.return (False, Some err)
          | Inr ps \<Rightarrow>
              (case find (\<lambda>p. equalFold (hrplName p) (metaName (objMeta cr))) ps of
                 None \<Rightarrow> State_Monad.return (False, None)
               | Some p \<Rightarrow>
                   do { _ \<leftarrow> modObj (setReplicationID (hrplID p));
                        err \<leftarrow> kubeStatusUpdate K;
                        State_Monad.return (True, err) }) }"

definition createReplicationPath :: "'e services \<Rightarrow> 'e operatorOptions \<Rightarrow>
    ('e, replicationPolicySpec, replicationPolicyStatus) kind \<Rightarrow> harborClient \<Rightarrow> hReplicationPolicy \<Rightarrow>
    (replicationPolicy, 'e, outcome) go" where
  "createReplicationPath S opts K hc policy =
     do { cr \<leftarrow> getObj;
          case requireCreationAllowed opts (creationPolicy (objSpec cr)) of
            Some err \<Rightarrow> failWith S K err
          | None \<Rightarrow>
              do { r \<leftarrow> CreateReplicationPolicy S hc policy;
                   case r of
                     Inl err \<Rightarrow> failWith S K err
                   | Inr n \<Rightarrow>
                       do { _ \<leftarrow> modObj (setReplicationID n);
                            readyWithDrift S opts K ''Created'' ''Replication policy created'' } } }"

definition updateReplicationPath :: "'e services \<Rightarrow> 'e operatorOptions \<Rightarrow>
    ('e, replicationPolicySpec, replicationPolicyStatus) kind \<Rightarrow> harborClient \<Rightarrow> hReplicationPolicy \<Rightarrow>
    (replicationPolicy, 'e, outcome) go" where
  "updateReplicationPath S opts K hc policy =
     do { cr \<leftarrow> getObj;
          r \<leftarrow> GetReplicationPolicy S hc (harborReplicationPolicyID (objStatus cr));
          case r of
            Inl err \<Rightarrow>
              (if IsNotFound (Some err)
               then do { generation \<leftarrow> crGeneration;
                         requeueOnRemoteNotFound S K generation (Some (\<lambda>st. st\<lparr>harborReplicationPolicyID := 0\<rparr>))
                           ''Replication policy not found in Harbor'' }
               else failWith S K err)
          | Inr current \<Rightarrow>
              do { uerr \<leftarrow> (if replicationPolicyNeedsUpdate policy (Some current)
                           then UpdateReplicationPolicy S hc (harborReplicationPolicyID (objStatus cr))
                                  (touchReplicationPolicy policy)
                           else State_Monad.return None);
                   case uerr of
                     Some err \<Rightarrow> failWith S K err
                   | None \<Rightarrow> readyWithDrift S opts K ''Reconciled'' ''Replication policy reconciled'' } }"

definition replicationBody :: "'e services \<Rightarrow> 'e operatorOptions \<Rightarrow>
    ('e, replicationPolicySpec, replicationPolicyStatus) kind \<Rightarrow> harborClient \<Rightarrow> (replicationPolicy, 'e, outcome) go" where
  "replicationBody S opts K hc =
     do { cr \<leftarrow> getObj;
          src \<leftarrow> resolveRegistryID S opts (metaNamespace (objMeta cr)) (repSourceRegistryRef (objSpec cr));
          case src of
            Inl err \<Rightarrow> failWith S K err
          | Inr srcID \<Rightarrow>
              do { dst \<leftarrow> resolveRegistryID S opts (metaNamespace (objMeta cr)) (repDestinationRegistryRef (objSpec cr));
                   case dst of
                     Inl err \<Rightarrow> failWith S K err
                   | Inr destID \<Rightarrow>
                       (case replicationFiltersFromSpec (repFilters (objSpec cr)) of
                          Inl err \<Rightarrow> failWith S K err
                        | Inr filters \<Rightarrow>
                            let policy = desiredReplicationPolicy cr srcID destID filters in
                            do { (adopted, aerr) \<leftarrow>
                                   (if harborReplicationPolicyID (objStatus cr) = 0 \<and>
                                       allowsAdoption opts (creationPolicy (objSpec cr))
                                    then adoptExistingReplication S K hc
                                    else State_Monad.return (False, None));
                                 case aerr of
                                   Some err \<Rightarrow> failWith S K err
                                 | None \<Rightarrow>
                                     if adopted then State_Monad.return (emptyResult\<lparr>requeue := True\<rparr>, None)
                                     else if harborReplicationPolicyID (objStatus cr) = 0
                                     then createReplicationPath S opts K hc policy
                                     else updateReplicationPath S opts K hc policy }) } }"

definition reconcileReplicationPolicy :: "'e services \<Rightarrow> 'e operatorOptions \<Rightarrow> ('e, replicationPolicy) kclient \<Rightarrow>
    nsName \<Rightarrow> (replicationPolicy, 'e, outcome) go" where
  "reconcileReplicationPolicy S opts c =
     harborBacked S opts (replicationKind c) True (Some (deleteReplicationFn S))
       (replicationBody S opts (replicationKind c))"

section \<open>The contract of the frame\<close>

lemmas replication_call_events = emits_ReplicationCalls(1-4) [OF clientCalls_body]
lemmas replication_notPost = emits_ReplicationCalls(1,2,4,5) [OF clientCalls_notPost]

lemma replicationBody_events: "emits bodyEvent (replicationBody S opts K hc)"
  unfolding replicationBody_def adoptExistingReplication_def createReplicationPath_def updateReplicationPath_def Let_def
  by (intro emits_intros body_quiet replication_call_events body_resolve) simp_all

lemma deleteReplication_events: "emits (\<lambda>ev. \<not> dropsFinalizer ev) (deleteReplicationFn S hc)"
  unfolding deleteReplicationFn_def
  by (intro emits_intros emits_ReplicationCalls(5) [OF clientCalls_noDrop]) simp

abbreviation owesReplication :: "int \<Rightarrow> replicationPolicy \<Rightarrow> bool" where
  "owesReplication n \<equiv> owesRemote harborReplicationPolicyID 0 n"

lemma deleteReplication_gone:
  "triple (\<lambda>s. owesReplication n (stObj s)) (deleteReplicationFn S hc)
     (\<lambda>r s. r = None \<longrightarrow> list_ex (remoteGone (replicationURL n)) (stTrace s))"
  unfolding deleteReplicationFn_def DeleteReplicationPolicy_def
  by (rule delete_by_id_plain) (rule owesRemote_ident)

lemma guards_replication_calls [guard_intros]:
  "guards P (\<lambda>ev. \<not> isPost ev) (ListReplicationPolicies S hc nm)"
  "guards P (\<lambda>ev. \<not> isPost ev) (GetReplicationPolicy S hc n)"
  "guards P (\<lambda>ev. \<not> isPost ev) (UpdateReplicationPolicy S hc n p)"
  "guards P (\<lambda>ev. \<not> isPost ev) (DeleteReplicationPolicy S hc n)"
  by (rule guards_plain, rule untouched_replication_calls, rule replication_notPost, simp)+

lemma replication_body_guarded:
  assumes "stays K (mayNotCreate opts)"
  shows "guards (mayNotCreate opts) (\<lambda>ev. \<not> isPost ev) (replicationBody S opts K hc)"
proof -
  have no: "guards (mayNotCreate opts) (\<lambda>ev. \<not> isPost ev) (createReplicationPath S opts K hc p)" for p
    unfolding createReplicationPath_def
    by (rule guards_getObj, erule mayNotCreateE) (simp add: guards_failWith [OF assms])
  show ?thesis
    unfolding replicationBody_def adoptExistingReplication_def updateReplicationPath_def Let_def
    by (intro guard_intros no assms) (auto simp: mayNotCreate_def setReplicationID_def)
qed

lemma deleteReplication_notPost: "emits (\<lambda>ev. \<not> isPost ev) (deleteReplicationFn S hc)"
  unfolding deleteReplicationFn_def by (intro emits_intros replication_notPost) simp

lemma deleteReplication_only:
  "triple (objTrace (hasRemote harborReplicationPolicyID n) (deletesOnly (replicationURL n))) (deleteReplicationFn S hc)
     (\<lambda>_ s. list_all (deletesOnly (replicationURL n)) (stTrace s))"
  unfolding deleteReplicationFn_def DeleteReplicationPolicy_def
  by (rule delete_by_id_only [where relURL = replicationURL])
    (auto intro!: emits_intros emits_delete_own dest: hasRemote_ident)

interpretation replication: harbor_backed S opts "replicationKind c" True "Some (deleteReplicationFn S)"
    "replicationBody S opts (replicationKind c)" for S opts c
  by unfold_locales (auto intro: replicationBody_events deleteReplication_events)

interpretation owned_replication: owned_remote S opts "replicationKind c" True "Some (deleteReplicationFn S)"
    "replicationBody S opts (replicationKind c)" "owesReplication n" "remoteGone (replicationURL n)"
    "deleteReplicationFn S" for S opts c n
  by unfold_locales (auto intro: deleteReplication_gone dest: owesRemoteD)

interpretation guarded_replication: guarded_body S opts "replicationKind c" True "Some (deleteReplicationFn S)"
    "replicationBody S opts (replicationKind c)" "mayNotCreate opts" "\<lambda>ev. \<not> isPost ev" for S opts c
  by unfold_locales (auto intro!: guards_post [OF replication_body_guarded] emits_post [OF deleteReplication_notPost])

interpretation own_replication: guarded_body S opts "replicationKind c" True "Some (deleteReplicationFn S)"
    "replicationBody S opts (replicationKind c)" "hasRemote harborReplicationPolicyID n" "deletesOnly (replicationURL n)"
  for S opts c n
  by unfold_locales (auto intro!: emits_post bodyEvent_deletesOnly replicationBody_events deleteReplication_only)

section \<open>Settings that the spec leaves out\<close>

definition orElse :: "'a option \<Rightarrow> 'a option \<Rightarrow> 'a option" where
  "orElse x y = (case x of None \<Rightarrow> y | Some v \<Rightarrow> Some v)"

lemma orElse_same: "orElse x y = x \<longleftrightarrow> \<not> (x = None \<and> y \<noteq> None)"
  by (cases x) (auto simp: orElse_def)

text \<open>
  Harbor's answer for a policy that it has stored as sent: with its id and times, and with the
  settings of \<open>h\<close> where the policy has none.
\<close>

definition filledIn :: "hReplicationPolicy \<Rightarrow> hReplicationPolicy \<Rightarrow> hReplicationPolicy" where
  "filledIn p h = p\<lparr>
     hrplID := hrplID h, hrplCreationTime := hrplCreationTime h, hrplUpdateTime := hrplUpdateTime h,
     hrplDestNamespaceReplaceCount := orElse (hrplDestNamespaceReplaceCount p) (hrplDestNamespaceReplaceCount h),
     hrplReplicateDeletion := orElse (hrplReplicateDeletion p) (hrplReplicateDeletion h),
     hrplDeletion := orElse (hrplDeletion p) (hrplDeletion h),
     hrplOverride := orElse (hrplOverride p) (hrplOverride h),
     hrplEnabled := orElse (hrplEnabled p) (hrplEnabled h),
     hrplSpeed := orElse (hrplSpeed p) (hrplSpeed h),
     hrplCopyByChunk := orElse (hrplCopyByChunk p) (hrplCopyByChunk h),
     hrplSingleActiveReplication := orElse (hrplSingleActiveReplication p) (hrplSingleActiveReplication h)\<rparr>"

definition missing :: "'a option \<Rightarrow> 'a option \<Rightarrow> bool" where
  "missing x y \<longleftrightarrow> x = None \<and> y \<noteq> None"

text \<open>
  C37. A replication policy that Harbor has stored as sent settles exactly if Harbor's answer has no
  value for a setting that the spec leaves out, and none for the deprecated
  \<^verbatim>\<open>deletion\<close>, which the reconciler never sends. Otherwise every reconcile
  sends the same update again.
\<close>

theorem replication_settles_iff:
  "replicationPolicyNeedsUpdate (desiredReplicationPolicy cr srcID destID filters)
       (Some (filledIn (desiredReplicationPolicy cr srcID destID filters) h)) =
   (missing (repDestNamespaceReplaceCount (objSpec cr)) (hrplDestNamespaceReplaceCount h) \<or>
    missing (repReplicateDeletion (objSpec cr)) (hrplReplicateDeletion h) \<or> missing None (hrplDeletion h) \<or>
    missing (repOverride (objSpec cr)) (hrplOverride h) \<or> missing (repEnabled (objSpec cr)) (hrplEnabled h) \<or>
    missing (repSpeed (objSpec cr)) (hrplSpeed h) \<or> missing (repCopyByChunk (objSpec cr)) (hrplCopyByChunk h) \<or>
    missing (repSingleActiveReplication (objSpec cr)) (hrplSingleActiveReplication h))"
proof -
  have same: "x = orElse x y \<longleftrightarrow> \<not> missing x y" for x y :: "'b option"
    using orElse_same [of x y] by (auto simp: missing_def eq_commute)
  show ?thesis
    by (auto simp add: replicationPolicyNeedsUpdate_def plusZeroReplication_def normalizeReplicationPolicy_def
        touchReplicationPolicy_def filledIn_def desiredReplicationPolicy_def same)
qed

end
