(* ===== verification/Robots.thy ===== *)
theory Robots
  imports OwnedRemote ReferenceRules
begin

text \<open>
  Robot accounts: the calls of \<^verbatim>\<open>internal/harborclient/robots.go\<close> and the
  reconciler of \<^verbatim>\<open>internal/controller/robot_controller.go\<close>. Harbor shows
  the token of a robot once, when it is created or refreshed; the reconciler stores it in a Secret
  that it owns. The clock counts nanoseconds.
\<close>

section \<open>The Harbor client\<close>

record hAccess =
  haResource :: string
  haAction :: string
  haEffect :: string

record hRobotPermission =
  hrbpKind :: string
  hrbpNamespace :: string
  hrbpAccess :: "hAccess list"

record hRobot =
  hrbID :: int
  hrbName :: string
  hrbDescription :: string
  hrbSecret :: string
  hrbLevel :: string
  hrbDuration :: "int option"
  hrbEditable :: bool
  hrbDisable :: bool
  hrbExpiresAt :: int
  hrbPermissions :: "hRobotPermission list"

record robotCreateRequest =
  rcqName :: string
  rcqDescription :: string
  rcqSecret :: string
  rcqLevel :: string
  rcqDisable :: "bool option"
  rcqDuration :: "int option"
  rcqPermissions :: "hRobotPermission list"

record robotCreated =
  rbcID :: int
  rbcName :: string
  rbcSecret :: string
  rbcExpiresAt :: int
  rbcCreateTime :: string

definition decAccess :: "hAccess decoder" where
  "decAccess = decObj (\<lambda>kvs.
     do { r \<leftarrow> decStr (jget ''resource'' kvs);
          a \<leftarrow> decStr (jget ''action'' kvs);
          e \<leftarrow> decStr (jget ''effect'' kvs);
          Some \<lparr>haResource = r, haAction = a, haEffect = e\<rparr> })"

definition encAccess :: "hAccess \<Rightarrow> json" where
  "encAccess a = JObj
     (omitStr ''resource'' (haResource a) @ omitStr ''action'' (haAction a) @ omitStr ''effect'' (haEffect a))"

definition decRobotPermission :: "hRobotPermission decoder" where
  "decRobotPermission = decObj (\<lambda>kvs.
     do { k \<leftarrow> decStr (jget ''kind'' kvs);
          n \<leftarrow> decStr (jget ''namespace'' kvs);
          a \<leftarrow> decList decAccess (jget ''access'' kvs);
          Some \<lparr>hrbpKind = k, hrbpNamespace = n, hrbpAccess = a\<rparr> })"

definition encRobotPermission :: "hRobotPermission \<Rightarrow> json" where
  "encRobotPermission p = JObj
     (omitStr ''kind'' (hrbpKind p) @ omitStr ''namespace'' (hrbpNamespace p) @
      omitList ''access'' encAccess (hrbpAccess p))"

definition decRobot :: "hRobot decoder" where
  "decRobot = decObj (\<lambda>kvs.
     do { n \<leftarrow> decInt (jget ''id'' kvs);
          nm \<leftarrow> decStr (jget ''name'' kvs);
          d \<leftarrow> decStr (jget ''description'' kvs);
          s \<leftarrow> decStr (jget ''secret'' kvs);
          l \<leftarrow> decStr (jget ''level'' kvs);
          du \<leftarrow> decPtr decInt (jget ''duration'' kvs);
          e \<leftarrow> decBool (jget ''editable'' kvs);
          di \<leftarrow> decBool (jget ''disable'' kvs);
          x \<leftarrow> decInt (jget ''expires_at'' kvs);
          ps \<leftarrow> decList decRobotPermission (jget ''permissions'' kvs);
          Some \<lparr>hrbID = n, hrbName = nm, hrbDescription = d, hrbSecret = s, hrbLevel = l, hrbDuration = du,
                hrbEditable = e, hrbDisable = di, hrbExpiresAt = x, hrbPermissions = ps\<rparr> })"

definition encRobot :: "hRobot \<Rightarrow> json" where
  "encRobot r = JObj
     (omitInt ''id'' (hrbID r) @ omitStr ''name'' (hrbName r) @ omitStr ''description'' (hrbDescription r) @
      omitStr ''secret'' (hrbSecret r) @ omitStr ''level'' (hrbLevel r) @ omitPtr ''duration'' jInt (hrbDuration r) @
      omitBool ''editable'' (hrbEditable r) @ omitBool ''disable'' (hrbDisable r) @
      omitInt ''expires_at'' (hrbExpiresAt r) @ omitList ''permissions'' encRobotPermission (hrbPermissions r))"

definition encRobotCreateRequest :: "robotCreateRequest \<Rightarrow> json" where
  "encRobotCreateRequest r = JObj
     (omitStr ''name'' (rcqName r) @ omitStr ''description'' (rcqDescription r) @
      omitStr ''secret'' (rcqSecret r) @ omitStr ''level'' (rcqLevel r) @
      omitPtr ''disable'' JBool (rcqDisable r) @ omitPtr ''duration'' jInt (rcqDuration r) @
      omitList ''permissions'' encRobotPermission (rcqPermissions r))"

definition decRobotCreated :: "robotCreated decoder" where
  "decRobotCreated = decObj (\<lambda>kvs.
     do { n \<leftarrow> decInt (jget ''id'' kvs);
          nm \<leftarrow> decStr (jget ''name'' kvs);
          s \<leftarrow> decStr (jget ''secret'' kvs);
          x \<leftarrow> decInt (jget ''expires_at'' kvs);
          t \<leftarrow> decStr (jget ''creation_time'' kvs);
          Some \<lparr>rbcID = n, rbcName = nm, rbcSecret = s, rbcExpiresAt = x, rbcCreateTime = t\<rparr> })"

definition decRobotSec :: "string decoder" where
  "decRobotSec = decObj (\<lambda>kvs. decStr (jget ''secret'' kvs))"

definition encRobotSec :: "string \<Rightarrow> json" where
  "encRobotSec s = JObj (omitStr ''secret'' s)"

text \<open>
  A request with a document whose result variable keeps its zero value when the response has none.
\<close>

definition clientOut :: "'e services \<Rightarrow> harborClient \<Rightarrow> string \<Rightarrow> string \<Rightarrow> json \<Rightarrow> 'a decoder \<Rightarrow>
    ('o, 'e, gerror + 'a) go" where
  "clientOut S c method relURL body out =
     do { r \<leftarrow> clientDo S c method relURL (Some body) (Some out);
          State_Monad.return
            (case r of
               Inl e \<Rightarrow> Inl e
             | Inr (resp, v) \<Rightarrow>
                 (case (case v of Some x \<Rightarrow> Some x | None \<Rightarrow> out JNull) of
                    Some x \<Rightarrow> Inr x | None \<Rightarrow> Inl JSONError)) }"

definition robotsURL :: string where
  "robotsURL = ''/api/v2.0/robots''"

definition robotURL :: "int \<Rightarrow> string" where
  "robotURL n = ''/api/v2.0/robots/'' @ goItoa n"

definition ListRobots :: "'e services \<Rightarrow> harborClient \<Rightarrow> string \<Rightarrow> ('o, 'e, gerror + hRobot list) go" where
  "ListRobots S c query = getPaged S c decRobot robotsURL (if query \<noteq> [] then valuesSet ''q'' query [] else [])"

definition GetRobotByID :: "'e services \<Rightarrow> harborClient \<Rightarrow> int \<Rightarrow> ('o, 'e, gerror + hRobot) go" where
  "GetRobotByID S c n = clientGet S c (robotURL n) decRobot"

definition CreateRobot :: "'e services \<Rightarrow> harborClient \<Rightarrow> robotCreateRequest \<Rightarrow> ('o, 'e, gerror + robotCreated) go" where
  "CreateRobot S c r = clientOut S c ''POST'' robotsURL (encRobotCreateRequest r) decRobotCreated"

definition UpdateRobot :: "'e services \<Rightarrow> harborClient \<Rightarrow> int \<Rightarrow> hRobot \<Rightarrow> ('o, 'e, gerror option) go" where
  "UpdateRobot S c n r = clientPut S c (robotURL n) (encRobot r)"

definition RefreshRobotSecret :: "'e services \<Rightarrow> harborClient \<Rightarrow> int \<Rightarrow> string \<Rightarrow> ('o, 'e, gerror + string) go" where
  "RefreshRobotSecret S c n secret = clientOut S c ''PATCH'' (robotURL n) (encRobotSec secret) decRobotSec"

definition DeleteRobot :: "'e services \<Rightarrow> harborClient \<Rightarrow> int \<Rightarrow> ('o, 'e, gerror option) go" where
  "DeleteRobot S c n = deleteIgnoringNotFound S c (robotURL n) []"

lemma emits_clientOut: "clientCalls c M C \<Longrightarrow> M m relURL \<Longrightarrow> emits C (clientOut S c m relURL body out)"
  unfolding clientOut_def by (intro emits_intros clientCallsD)

lemma emits_RobotCalls:
  "clientCalls c M C \<Longrightarrow> (\<And>relURL. M ''GET'' relURL) \<Longrightarrow> emits C (ListRobots S c q)"
  "clientCalls c M C \<Longrightarrow> M ''GET'' (robotURL n) \<Longrightarrow> emits C (GetRobotByID S c n)"
  "clientCalls c M C \<Longrightarrow> M ''POST'' robotsURL \<Longrightarrow> emits C (CreateRobot S c r)"
  "clientCalls c M C \<Longrightarrow> M ''PUT'' (robotURL n) \<Longrightarrow> emits C (UpdateRobot S c n rb)"
  "clientCalls c M C \<Longrightarrow> M ''PATCH'' (robotURL n) \<Longrightarrow> emits C (RefreshRobotSecret S c n s)"
  "clientCalls c M C \<Longrightarrow> M ''DELETE'' (robotURL n) \<Longrightarrow> emits C (DeleteRobot S c n)"
  unfolding ListRobots_def GetRobotByID_def CreateRobot_def UpdateRobot_def RefreshRobotSecret_def DeleteRobot_def
  by (intro client_emits emits_clientOut; (assumption | simp))+

section \<open>The spec\<close>

definition robotKind :: "('e, robot) kclient \<Rightarrow> ('e, robotSpec, robotStatus) kind" where
  "robotKind c = \<lparr>kdKind = KRobot, kdSanitize = sanitizeRef, kdClient = c\<rparr>"

definition validateRobotSpec :: "robotSpec \<Rightarrow> gerror option" where
  "validateRobotSpec sp =
     (if robLevel sp = [] then Some (ErrMsg ''spec.level is required'')
      else if robPermissions sp = [] then Some (ErrMsg ''spec.permissions must contain at least one permission'')
      else if robDuration sp = 0 then Some (ErrMsg ''spec.duration must be either -1 or a positive integer'')
      else None)"

definition resolveRobotSecretRef :: "robot \<Rightarrow> gerror + secretReference" where
  "resolveRobotSecretRef cr =
     (case robSecretRef (objSpec cr) of
        None \<Rightarrow> Inr \<lparr>srName = metaName (objMeta cr) @ ''-secret'', srKey = ''secret'',
                     srNamespace = metaNamespace (objMeta cr)\<rparr>
      | Some ref \<Rightarrow>
          if srName ref = [] then Inl (ErrMsg ''spec.secretRef.name is required when secretRef is set'')
          else
            let ref1 = (if srNamespace ref = [] then ref\<lparr>srNamespace := metaNamespace (objMeta cr)\<rparr> else ref);
                ref2 = (if srKey ref1 = [] then ref1\<lparr>srKey := ''secret''\<rparr> else ref1)
            in if srKey ref2 = ''username''
               then Inl (ErrMsg (''spec.secretRef.key '' @ goQuote (srKey ref2) @
                      '' is reserved for the canonical Harbor username''))
               else Inr ref2)"

definition robotLevelMatches :: "string \<Rightarrow> string \<Rightarrow> bool" where
  "robotLevelMatches desired current = equalFold desired current"

definition robotNameMatches :: "string \<Rightarrow> string \<Rightarrow> bool" where
  "robotNameMatches desired current \<longleftrightarrow>
     equalFold desired current \<or> goHasSuffix (goToLower current) (''$'' @ goToLower desired) \<or>
     goHasSuffix (goToLower current) (''+'' @ goToLower desired)"

section \<open>Permissions\<close>

definition toAccess :: "robotAccess \<Rightarrow> hAccess" where
  "toAccess rule =
     \<lparr>haResource = raResource rule, haAction = raAction rule,
      haEffect = (if raEffect rule = [] then ''allow'' else raEffect rule)\<rparr>"

definition permissionNamespace :: "'e services \<Rightarrow> 'e operatorOptions \<Rightarrow> string \<Rightarrow> robotPermission \<Rightarrow>
    ('o, 'e, gerror + string) go" where
  "permissionNamespace S opts ns perm =
     (let misplaced = Inl (ErrMsg ''projectRef is only valid for project-scoped robot permissions'')
      in if equalFold (rpKind perm) ''project''
         then (case rpProjectRef perm of
                 None \<Rightarrow> State_Monad.return (Inr ''*'')
               | Some ref \<Rightarrow> resolveProjectName S opts ns (Some ref))
         else if equalFold (rpKind perm) ''system''
         then State_Monad.return (if rpProjectRef perm \<noteq> None then misplaced else Inr ''/'')
         else State_Monad.return (if rpProjectRef perm \<noteq> None then misplaced else Inr []))"

fun buildPermissions :: "'e services \<Rightarrow> 'e operatorOptions \<Rightarrow> string \<Rightarrow> robotPermission list \<Rightarrow>
    ('o, 'e, gerror + hRobotPermission list) go" where
  "buildPermissions S opts ns [] = State_Monad.return (Inr [])"
| "buildPermissions S opts ns (perm # perms) =
     do { n \<leftarrow> permissionNamespace S opts ns perm;
          case n of
            Inl err \<Rightarrow> State_Monad.return (Inl err)
          | Inr namespace \<Rightarrow>
              do { r \<leftarrow> buildPermissions S opts ns perms;
                   State_Monad.return
                     (case r of
                        Inl err \<Rightarrow> Inl err
                      | Inr out \<Rightarrow>
                          Inr (\<lparr>hrbpKind = rpKind perm, hrbpNamespace = namespace,
                                hrbpAccess = map toAccess (rpAccess perm)\<rparr> # out)) } }"

definition buildRobotPermissions :: "'e services \<Rightarrow> 'e operatorOptions \<Rightarrow> robot \<Rightarrow>
    ('o, 'e, gerror + hRobotPermission list) go" where
  "buildRobotPermissions S opts cr =
     buildPermissions S opts (metaNamespace (objMeta cr)) (robPermissions (objSpec cr))"

text \<open>
  The comparison sorts copies. \<^verbatim>\<open>sort.Slice\<close> sorts up to twelve elements by
  insertion, which keeps equal ones in order; in a longer list of permissions the order of two with
  one kind and namespace is not specified, and here they keep their order as well.
\<close>

definition accessLess :: "hAccess \<Rightarrow> hAccess \<Rightarrow> bool" where
  "accessLess a b =
     (if haResource a \<noteq> haResource b then haResource a < haResource b
      else if haAction a \<noteq> haAction b then haAction a < haAction b
      else haEffect a < haEffect b)"

definition permissionLess :: "hRobotPermission \<Rightarrow> hRobotPermission \<Rightarrow> bool" where
  "permissionLess a b =
     (if hrbpKind a \<noteq> hrbpKind b then hrbpKind a < hrbpKind b else hrbpNamespace a < hrbpNamespace b)"

definition normalizeRobotPermissions :: "hRobotPermission list \<Rightarrow> hRobotPermission list" where
  "normalizeRobotPermissions perms =
     sortSlice permissionLess (map (\<lambda>p. p\<lparr>hrbpAccess := sortSlice accessLess (hrbpAccess p)\<rparr>) perms)"

definition robotPermissionsEqual :: "hRobotPermission list \<Rightarrow> hRobotPermission list \<Rightarrow> bool" where
  "robotPermissionsEqual a b \<longleftrightarrow> normalizeRobotPermissions a = normalizeRobotPermissions b"

section \<open>Requests\<close>

definition buildRobotCreateRequest :: "'e services \<Rightarrow> 'e operatorOptions \<Rightarrow> robot \<Rightarrow>
    ('o, 'e, gerror + robotCreateRequest) go" where
  "buildRobotCreateRequest S opts cr =
     do { r \<leftarrow> buildRobotPermissions S opts cr;
          State_Monad.return
            (case r of
               Inl err \<Rightarrow> Inl err
             | Inr perms \<Rightarrow>
                 Inr \<lparr>rcqName = metaName (objMeta cr), rcqDescription = robDescription (objSpec cr), rcqSecret = [],
                      rcqLevel = robLevel (objSpec cr), rcqDisable = robDisable (objSpec cr),
                      rcqDuration = Some (robDuration (objSpec cr)), rcqPermissions = perms\<rparr>) }"

definition buildRobotUpdateRequest :: "'e services \<Rightarrow> 'e operatorOptions \<Rightarrow> robot \<Rightarrow> hRobot \<Rightarrow>
    ('o, 'e, gerror + hRobot) go" where
  "buildRobotUpdateRequest S opts cr current =
     do { r \<leftarrow> buildRobotPermissions S opts cr;
          State_Monad.return
            (case r of
               Inl err \<Rightarrow> Inl err
             | Inr perms \<Rightarrow>
                 Inr \<lparr>hrbID = hrbID current, hrbName = hrbName current, hrbDescription = robDescription (objSpec cr),
                      hrbSecret = [], hrbLevel = hrbLevel current,
                      hrbDuration = Some (if robDuration (objSpec cr) = 0 then - 1 else robDuration (objSpec cr)),
                      hrbEditable = False,
                      hrbDisable = (case robDisable (objSpec cr) of None \<Rightarrow> hrbDisable current | Some b \<Rightarrow> b),
                      hrbExpiresAt = 0, hrbPermissions = perms\<rparr>) }"

definition robotNeedsUpdate :: "hRobot \<Rightarrow> hRobot \<Rightarrow> bool" where
  "robotNeedsUpdate desired current \<longleftrightarrow>
     hrbDescription desired \<noteq> hrbDescription current \<or> hrbDisable desired \<noteq> hrbDisable current \<or>
     hrbDuration desired \<noteq> hrbDuration current \<or>
     \<not> robotPermissionsEqual (hrbPermissions desired) (hrbPermissions current)"

section \<open>The Secret\<close>

definition upsertRobotSecret :: "'e services \<Rightarrow> robot \<Rightarrow> secretReference \<Rightarrow> string \<Rightarrow> string \<Rightarrow>
    ('o, 'e, gerror option) go" where
  "upsertRobotSecret S cr ref username token =
     (if username = [] then State_Monad.return (Some (ErrMsg ''harbor returned an empty robot username''))
      else upsertOwnedSecretValues S (objMeta cr) ''Robot'' (srNamespace ref) (srName ref)
             [(srKey ref, token), (''username'', username)])"

definition syncRobotUsernameSecret :: "'e services \<Rightarrow> robot \<Rightarrow> secretReference \<Rightarrow> string \<Rightarrow>
    ('o, 'e, gerror option) go" where
  "syncRobotUsernameSecret S cr ref username =
     do { r \<leftarrow> kubeGet KSecret (svcGetSecret S) (srNamespace ref, srName ref);
          case r of
            Inl err \<Rightarrow> State_Monad.return (if kubeIsNotFound err then None else Some err)
          | Inr sec \<Rightarrow>
              if \<not> secretOwnedBy sec (objMeta cr) ''Robot''
              then State_Monad.return (Some (ErrMsg (''secret '' @ srNamespace ref @ ''/'' @ srName ref @
                     '' already exists and is not managed by Robot '' @ metaNamespace (objMeta cr) @ ''/'' @
                     metaName (objMeta cr))))
              else upsertOwnedSecretValues S (objMeta cr) ''Robot'' (srNamespace ref) (srName ref)
                     [(''username'', username)] }"

definition rotateRobotSecret :: "'e services \<Rightarrow> harborClient \<Rightarrow> int \<Rightarrow> ('o, 'e, gerror + string) go" where
  "rotateRobotSecret S hc n =
     do { r \<leftarrow> RefreshRobotSecret S hc n [];
          State_Monad.return
            (case r of
               Inl err \<Rightarrow> Inl err
             | Inr sec \<Rightarrow> if sec = [] then Inl (ErrMsg ''harbor did not return a robot secret'') else Inr sec) }"

section \<open>The status\<close>

definition setRobotID :: "int \<Rightarrow> robot \<Rightarrow> robot" where
  "setRobotID n cr = cr\<lparr>objStatus := (objStatus cr)\<lparr>harborRobotID := n\<rparr>\<rparr>"

definition setRobotUsername :: "string \<Rightarrow> robot \<Rightarrow> robot" where
  "setRobotUsername u cr = cr\<lparr>objStatus := (objStatus cr)\<lparr>robUsername := u\<rparr>\<rparr>"

definition setLastRotatedAt :: "int \<Rightarrow> robot \<Rightarrow> robot" where
  "setLastRotatedAt t cr = cr\<lparr>objStatus := (objStatus cr)\<lparr>robLastRotatedAt := Some t\<rparr>\<rparr>"

definition setRobotUsernameStatus :: "string \<Rightarrow> robot \<Rightarrow> bool \<times> robot" where
  "setRobotUsernameStatus username cr =
     (if robUsername (objStatus cr) = username then (False, cr) else (True, setRobotUsername username cr))"

definition unixTime :: "int \<Rightarrow> int" where
  "unixTime sec = sec * 1000000000"

definition updateRobotExpiryStatus :: "int \<Rightarrow> robot \<Rightarrow> bool \<times> robot" where
  "updateRobotExpiryStatus expiresAt cr =
     (let st = objStatus cr
      in if 0 < expiresAt
         then (if robExpiresAt st \<noteq> Some (unixTime expiresAt)
               then (True, cr\<lparr>objStatus := st\<lparr>robExpiresAt := Some (unixTime expiresAt)\<rparr>\<rparr>) else (False, cr))
         else if robExpiresAt st \<noteq> None then (True, cr\<lparr>objStatus := st\<lparr>robExpiresAt := None\<rparr>\<rparr>)
         else (False, cr))"

definition shouldRotateRobot :: "'e services \<Rightarrow> robot \<Rightarrow> ('o, 'e, bool) go" where
  "shouldRotateRobot S cr =
     (case robExpiresAt (objStatus cr) of
        None \<Rightarrow> State_Monad.return False
      | Some t \<Rightarrow> do { now \<leftarrow> metav1Now S; State_Monad.return (t < now) })"

text \<open>Change the object and tell whether it changed.\<close>

definition changeStatus :: "('o \<Rightarrow> bool \<times> 'o) \<Rightarrow> ('o, 'e, bool) go" where
  "changeStatus f =
     do { obj \<leftarrow> getObj; _ \<leftarrow> modObj (\<lambda>o1. snd (f o1)); State_Monad.return (fst (f obj)) }"

section \<open>The reconciler\<close>

definition deleteRobotFn :: "'e services \<Rightarrow> harborClient \<Rightarrow> (robot, 'e, gerror option) go" where
  "deleteRobotFn S hc =
     do { cr \<leftarrow> getObj;
          if harborRobotID (objStatus cr) = 0 then State_Monad.return None
          else DeleteRobot S hc (harborRobotID (objStatus cr)) }"

definition findAndAdoptRobot :: "('e, robotSpec, robotStatus) kind \<Rightarrow> hRobot list \<Rightarrow>
    (robot, 'e, bool \<times> gerror option) go" where
  "findAndAdoptRobot K robots =
     do { cr \<leftarrow> getObj;
          case find (\<lambda>r. robotNameMatches (metaName (objMeta cr)) (hrbName r) \<and>
                         robotLevelMatches (robLevel (objSpec cr)) (hrbLevel r)) robots of
            None \<Rightarrow> State_Monad.return (False, None)
          | Some r \<Rightarrow>
              do { _ \<leftarrow> modObj (setRobotID (hrbID r));
                   err \<leftarrow> kubeStatusUpdate K;
                   State_Monad.return (True, err) } }"

definition adoptExistingRobot :: "'e services \<Rightarrow> ('e, robotSpec, robotStatus) kind \<Rightarrow> harborClient \<Rightarrow>
    (robot, 'e, bool \<times> gerror option) go" where
  "adoptExistingRobot S K hc =
     do { cr \<leftarrow> getObj;
          l1 \<leftarrow> ListRobots S hc (''name='' @ metaName (objMeta cr));
          case l1 of
            Inl err \<Rightarrow> State_Monad.return (False, Some err)
          | Inr robots1 \<Rightarrow>
              do { (ok, err) \<leftarrow> findAndAdoptRobot K robots1;
                   if ok \<or> err \<noteq> None then State_Monad.return (ok, err)
                   else do {
                     l2 \<leftarrow> ListRobots S hc [];
                     case l2 of
                       Inl err \<Rightarrow> State_Monad.return (False, Some err)
                     | Inr robots2 \<Rightarrow> findAndAdoptRobot K robots2 } } }"

text \<open>The token Harbor has answered with, or a fresh one.\<close>

definition createdSecret :: "'e services \<Rightarrow> harborClient \<Rightarrow> robotCreated \<Rightarrow> ('o, 'e, gerror + string) go" where
  "createdSecret S hc created =
     (if rbcSecret created \<noteq> [] then State_Monad.return (Inr (rbcSecret created))
      else rotateRobotSecret S hc (rbcID created))"

definition createRobotPath :: "'e services \<Rightarrow> 'e operatorOptions \<Rightarrow> ('e, robotSpec, robotStatus) kind \<Rightarrow>
    harborClient \<Rightarrow> secretReference \<Rightarrow> (robot, 'e, outcome) go" where
  "createRobotPath S opts K hc ref =
     do { cr \<leftarrow> getObj;
          b \<leftarrow> buildRobotCreateRequest S opts cr;
          case b of
            Inl err \<Rightarrow> failWith S K err
          | Inr createReq \<Rightarrow>
              do { r \<leftarrow> CreateRobot S hc createReq;
                   case r of
                     Inl err \<Rightarrow> failWith S K err
                   | Inr created \<Rightarrow>
                       do { _ \<leftarrow> modObj (setRobotID (rbcID created));
                            _ \<leftarrow> modObj (setRobotUsername (rbcName created));
                            t \<leftarrow> createdSecret S hc created;
                            case t of
                              Inl err \<Rightarrow> failWith S K err
                            | Inr storedSecret \<Rightarrow>
                                do { serr \<leftarrow> upsertRobotSecret S cr ref (rbcName created) storedSecret;
                                     case serr of
                                       Some err \<Rightarrow> failWith S K err
                                     | None \<Rightarrow>
                                         do { now \<leftarrow> metav1Now S;
                                              _ \<leftarrow> modObj (setLastRotatedAt now);
                                              readyWithDrift S opts K ''Created'' ''Robot created'' } } } } }"

text \<open>The rotation of an expired token; whether it took place, or an error.\<close>

definition rotateIfExpired :: "'e services \<Rightarrow> harborClient \<Rightarrow> secretReference \<Rightarrow> hRobot \<Rightarrow>
    (robot, 'e, gerror + bool) go" where
  "rotateIfExpired S hc ref current =
     do { cr \<leftarrow> getObj;
          expired \<leftarrow> shouldRotateRobot S cr;
          if \<not> expired then State_Monad.return (Inr False)
          else do {
            t \<leftarrow> rotateRobotSecret S hc (hrbID current);
            case t of
              Inl err \<Rightarrow> State_Monad.return (Inl err)
            | Inr rotated \<Rightarrow>
                do { serr \<leftarrow> upsertRobotSecret S cr ref (hrbName current) rotated;
                     case serr of
                       Some err \<Rightarrow> State_Monad.return (Inl err)
                     | None \<Rightarrow>
                         do { now \<leftarrow> metav1Now S;
                              _ \<leftarrow> modObj (setLastRotatedAt now);
                              f \<leftarrow> GetRobotByID S hc (hrbID current);
                              _ \<leftarrow> (case f of
                                     Inl _ \<Rightarrow> State_Monad.return False
                                   | Inr refreshed \<Rightarrow> changeStatus (updateRobotExpiryStatus (hrbExpiresAt refreshed)));
                              State_Monad.return (Inr True) } } } }"

text \<open>What is done with the robot that Harbor has shown.\<close>

definition applyRobot :: "'e services \<Rightarrow> 'e operatorOptions \<Rightarrow> ('e, robotSpec, robotStatus) kind \<Rightarrow>
    harborClient \<Rightarrow> secretReference \<Rightarrow> hRobot \<Rightarrow> (robot, 'e, outcome) go" where
  "applyRobot S opts K hc ref current =
     do { nameChanged \<leftarrow> changeStatus (setRobotUsernameStatus (hrbName current));
          cr \<leftarrow> getObj;
          serr \<leftarrow> syncRobotUsernameSecret S cr ref (hrbName current);
          case serr of
            Some err \<Rightarrow> failWith S K err
          | None \<Rightarrow>
              do { d \<leftarrow> buildRobotUpdateRequest S opts cr current;
                   case d of
                     Inl err \<Rightarrow> failWith S K err
                   | Inr desired \<Rightarrow>
                       do { uerr \<leftarrow> (if robotNeedsUpdate desired current
                                    then UpdateRobot S hc (hrbID current) desired
                                    else State_Monad.return None);
                            case uerr of
                              Some err \<Rightarrow> failWith S K err
                            | None \<Rightarrow>
                                do { expiryChanged \<leftarrow> changeStatus (updateRobotExpiryStatus (hrbExpiresAt current));
                                     rot \<leftarrow> rotateIfExpired S hc ref current;
                                     case rot of
                                       Inl err \<Rightarrow> failWith S K err
                                     | Inr rotated \<Rightarrow>
                                         readyIfChanged S opts K (nameChanged \<or> expiryChanged \<or> rotated)
                                           ''Reconciled'' ''Robot reconciled'' } } } }"

definition reconcileExistingRobot :: "'e services \<Rightarrow> 'e operatorOptions \<Rightarrow> ('e, robotSpec, robotStatus) kind \<Rightarrow>
    harborClient \<Rightarrow> secretReference \<Rightarrow> (robot, 'e, outcome) go" where
  "reconcileExistingRobot S opts K hc ref =
     do { cr \<leftarrow> getObj;
          r \<leftarrow> GetRobotByID S hc (harborRobotID (objStatus cr));
          case r of
            Inl err \<Rightarrow>
              (if IsNotFound (Some err)
               then do { generation \<leftarrow> crGeneration;
                         requeueOnRemoteNotFound S K generation (Some (\<lambda>st. st\<lparr>harborRobotID := 0\<rparr>))
                           ''Robot not found in Harbor'' }
               else failWith S K err)
          | Inr current \<Rightarrow>
              if \<not> robotLevelMatches (robLevel (objSpec cr)) (hrbLevel current)
              then failWith S K (ErrMsg (''robot level mismatch: desired '' @ goQuote (robLevel (objSpec cr)) @
                     '', current '' @ goQuote (hrbLevel current)))
              else if hrbName current = []
              then failWith S K (ErrMsg ''harbor returned an empty robot username'')
              else applyRobot S opts K hc ref current }"

definition createRobotIfAllowed :: "'e services \<Rightarrow> 'e operatorOptions \<Rightarrow> ('e, robotSpec, robotStatus) kind \<Rightarrow>
    harborClient \<Rightarrow> secretReference \<Rightarrow> (robot, 'e, outcome) go" where
  "createRobotIfAllowed S opts K hc ref =
     do { cr \<leftarrow> getObj;
          case requireCreationAllowed opts (creationPolicy (objSpec cr)) of
            Some err \<Rightarrow> failWith S K err
          | None \<Rightarrow> createRobotPath S opts K hc ref }"

definition robotBody :: "'e services \<Rightarrow> 'e operatorOptions \<Rightarrow> ('e, robotSpec, robotStatus) kind \<Rightarrow>
    harborClient \<Rightarrow> (robot, 'e, outcome) go" where
  "robotBody S opts K hc =
     do { cr \<leftarrow> getObj;
          case validateRobotSpec (objSpec cr) of
            Some err \<Rightarrow> failWith S K err
          | None \<Rightarrow>
              (case resolveRobotSecretRef cr of
                 Inl err \<Rightarrow> failWith S K err
               | Inr ref \<Rightarrow>
                   do { (adopted, aerr) \<leftarrow>
                          (if harborRobotID (objStatus cr) = 0 \<and> allowsAdoption opts (creationPolicy (objSpec cr))
                           then adoptExistingRobot S K hc
                           else State_Monad.return (False, None));
                        case aerr of
                          Some err \<Rightarrow> failWith S K err
                        | None \<Rightarrow>
                            do { cr2 \<leftarrow> getObj;
                                 if harborRobotID (objStatus cr2) = 0
                                 then createRobotIfAllowed S opts K hc ref
                                 else reconcileExistingRobot S opts K hc ref } }) }"

definition reconcileRobot :: "'e services \<Rightarrow> 'e operatorOptions \<Rightarrow> ('e, robot) kclient \<Rightarrow> nsName \<Rightarrow>
    (robot, 'e, outcome) go" where
  "reconcileRobot S opts c =
     harborBacked S opts (robotKind c) True (Some (deleteRobotFn S)) (robotBody S opts (robotKind c))"

end
