(* ===== verification/RobotFacts.thy ===== *)
theory RobotFacts
  imports Robots "HOL-Library.Product_Lexorder"
begin

text \<open>
  What holds of the robot reconciler: the contract of the frame, what the comparison of permissions
  means, and when the token of a robot is lost.
\<close>

section \<open>The contract of the frame\<close>

lemma quietly_permissionNamespace: "quietly (permissionNamespace S opts ns perm)"
  unfolding permissionNamespace_def Let_def by (intro emits_intros quietly_resolve)

lemma untouched_permissionNamespace: "untouched (permissionNamespace S opts ns perm)"
  unfolding permissionNamespace_def Let_def by (intro triple_intros)

lemma quietly_buildPermissions: "quietly (buildPermissions S opts ns perms)"
proof (induction perms)
  case Nil
  then show ?case by (simp add: emits_return)
next
  case (Cons perm perms)
  show ?case
    unfolding buildPermissions.simps(2) by (intro emits_intros quietly_permissionNamespace Cons.IH)
qed

lemma untouched_buildPermissions: "untouched (buildPermissions S opts ns perms)"
proof (induction perms)
  case Nil
  show ?case unfolding buildPermissions.simps(1) by (intro triple_intros)
next
  case (Cons perm perms)
  show ?case
    unfolding buildPermissions.simps(2) by (intro triple_intros untouched_permissionNamespace Cons.IH)
qed

lemma quietly_robot:
  "quietly (buildRobotCreateRequest S opts cr)" "quietly (buildRobotUpdateRequest S opts cr current)"
  "quietly (upsertRobotSecret S cr ref u t)" "quietly (syncRobotUsernameSecret S cr ref u)"
  "quietly (shouldRotateRobot S cr)" "quietly (changeStatus f)" "quietly (findAndAdoptRobot K robots)"
  unfolding buildRobotCreateRequest_def buildRobotUpdateRequest_def buildRobotPermissions_def upsertRobotSecret_def
    syncRobotUsernameSecret_def shouldRotateRobot_def changeStatus_def findAndAdoptRobot_def metav1Now_def
  by (intro emits_intros quietly_buildPermissions quietly_upsert quietly_kube)+

lemmas robot_call_events = emits_RobotCalls(1-5) [OF clientCalls_body]

lemmas robot_path_defs = robotBody_def createRobotIfAllowed_def reconcileExistingRobot_def applyRobot_def
  rotateIfExpired_def createRobotPath_def createdSecret_def rotateRobotSecret_def adoptExistingRobot_def

lemma robotBody_events: "emits bodyEvent (robotBody S opts K hc)"
  unfolding robot_path_defs metav1Now_def
  by (intro emits_intros body_quiet robot_call_events quietly_robot [THEN quietly_body]
      quietly_body [OF quietly_readyIfChanged]) simp_all

lemma deleteRobot_events: "emits (\<lambda>ev. \<not> dropsFinalizer ev) (deleteRobotFn S hc)"
  unfolding deleteRobotFn_def by (intro emits_intros emits_RobotCalls(6) [OF clientCalls_noDrop]) simp

abbreviation owesRobot :: "int \<Rightarrow> robot \<Rightarrow> bool" where
  "owesRobot n \<equiv> owesRemote harborRobotID 0 n"

lemma deleteRobot_gone:
  "triple (\<lambda>s. owesRobot n (stObj s)) (deleteRobotFn S hc)
     (\<lambda>r s. r = None \<longrightarrow> list_ex (remoteGone (robotURL n)) (stTrace s))"
  unfolding deleteRobotFn_def DeleteRobot_def by (rule delete_by_id_plain) (rule owesRemote_ident)

lemma untouched_clientOut [triple_intros]: "untouched (clientOut S c m relURL body out)"
  unfolding clientOut_def by (intro triple_intros)

lemma untouched_robot [triple_intros]:
  "untouched (ListRobots S hc q)" "untouched (GetRobotByID S hc n)" "untouched (CreateRobot S hc r)"
  "untouched (UpdateRobot S hc n rb)" "untouched (RefreshRobotSecret S hc n sec)" "untouched (DeleteRobot S hc n)"
  unfolding ListRobots_def GetRobotByID_def CreateRobot_def UpdateRobot_def RefreshRobotSecret_def DeleteRobot_def
  by (intro triple_intros)+

lemma untouched_upsert [triple_intros]: "untouched (upsertOwnedSecretValues S owner k ns name vals)"
  unfolding upsertOwnedSecretValues_def kubeCreateSecret_def kubeUpdateSecret_def Let_def
  by (intro triple_intros)

lemma untouched_robot_steps:
  "untouched (buildRobotCreateRequest S opts cr)" "untouched (buildRobotUpdateRequest S opts cr current)"
  "untouched (upsertRobotSecret S cr ref u t)" "untouched (syncRobotUsernameSecret S cr ref u)"
  "untouched (shouldRotateRobot S cr)" "untouched (metav1Now S)"
  unfolding buildRobotCreateRequest_def buildRobotUpdateRequest_def buildRobotPermissions_def upsertRobotSecret_def
    syncRobotUsernameSecret_def shouldRotateRobot_def metav1Now_def
  by (intro triple_intros untouched_buildPermissions)+

lemma quietly_now: "quietly (metav1Now S)"
  unfolding metav1Now_def by (intro emits_intros)

lemma guards_robot_steps [guard_intros]:
  assumes "admitsLocal C"
  shows "guards P C (buildRobotCreateRequest S opts cr)" "guards P C (buildRobotUpdateRequest S opts cr current)"
    "guards P C (upsertRobotSecret S cr ref u t)" "guards P C (syncRobotUsernameSecret S cr ref u)"
    "guards P C (shouldRotateRobot S cr)" "guards P C (metav1Now S)"
  by (rule guards_plain, rule untouched_robot_steps, rule admitsLocal_quiet [OF assms],
      rule quietly_robot quietly_now)+

lemmas robot_notPost = emits_RobotCalls(1,2,4,5,6) [OF clientCalls_notPost]

lemma guards_robot_calls [guard_intros]:
  "guards P (\<lambda>ev. \<not> isPost ev) (ListRobots S hc q)"
  "guards P (\<lambda>ev. \<not> isPost ev) (GetRobotByID S hc n)"
  "guards P (\<lambda>ev. \<not> isPost ev) (UpdateRobot S hc n rb)"
  "guards P (\<lambda>ev. \<not> isPost ev) (RefreshRobotSecret S hc n sec)"
  "guards P (\<lambda>ev. \<not> isPost ev) (DeleteRobot S hc n)"
  by (rule guards_plain, rule untouched_robot, rule robot_notPost, simp)+

lemma robot_body_guarded:
  assumes "stays K (mayNotCreate opts)"
  shows "guards (mayNotCreate opts) (\<lambda>ev. \<not> isPost ev) (robotBody S opts K hc)"
proof -
  have no: "guards (mayNotCreate opts) (\<lambda>ev. \<not> isPost ev) (createRobotIfAllowed S opts K hc ref)" for ref
    unfolding createRobotIfAllowed_def
    by (rule guards_getObj, erule mayNotCreateE) (simp add: guards_failWith [OF assms])
  show ?thesis
    unfolding robotBody_def reconcileExistingRobot_def applyRobot_def rotateIfExpired_def rotateRobotSecret_def
      adoptExistingRobot_def findAndAdoptRobot_def changeStatus_def
    by (intro guard_intros no assms)
      (auto simp: mayNotCreate_def setRobotID_def setRobotUsername_def setLastRotatedAt_def
        setRobotUsernameStatus_def updateRobotExpiryStatus_def Let_def)
qed

lemma deleteRobot_notPost: "emits (\<lambda>ev. \<not> isPost ev) (deleteRobotFn S hc)"
  unfolding deleteRobotFn_def by (intro emits_intros robot_notPost) simp

lemma deleteRobot_only:
  "triple (objTrace (hasRemote harborRobotID n) (deletesOnly (robotURL n))) (deleteRobotFn S hc)
     (\<lambda>_ s. list_all (deletesOnly (robotURL n)) (stTrace s))"
  unfolding deleteRobotFn_def DeleteRobot_def
  by (rule delete_by_id_only [where relURL = robotURL])
    (auto intro!: emits_intros emits_delete_own dest: hasRemote_ident)

interpretation robot: harbor_backed S opts "robotKind c" True "Some (deleteRobotFn S)"
    "robotBody S opts (robotKind c)" for S opts c
  by unfold_locales (auto intro: robotBody_events deleteRobot_events)

interpretation owned_robot: owned_remote S opts "robotKind c" True "Some (deleteRobotFn S)"
    "robotBody S opts (robotKind c)" "owesRobot n" "remoteGone (robotURL n)" "deleteRobotFn S" for S opts c n
  by unfold_locales (auto intro: deleteRobot_gone dest: owesRemoteD)

interpretation guarded_robot: guarded_body S opts "robotKind c" True "Some (deleteRobotFn S)"
    "robotBody S opts (robotKind c)" "mayNotCreate opts" "\<lambda>ev. \<not> isPost ev" for S opts c
  by unfold_locales (auto intro!: guards_post [OF robot_body_guarded] emits_post [OF deleteRobot_notPost])

interpretation own_robot: guarded_body S opts "robotKind c" True "Some (deleteRobotFn S)"
    "robotBody S opts (robotKind c)" "hasRemote harborRobotID n" "deletesOnly (robotURL n)" for S opts c n
  by unfold_locales (auto intro!: emits_post bodyEvent_deletesOnly robotBody_events deleteRobot_only)

section \<open>The comparison of permissions\<close>

interpretation access_less: total_slice_less accessLess
  by unfold_locales (auto simp: accessLess_def split: if_splits)

text \<open>What a permission grants: the order of its access rules does not matter.\<close>

definition permissionRights :: "hRobotPermission \<Rightarrow> string \<times> string \<times> hAccess multiset" where
  "permissionRights p = (hrbpKind p, hrbpNamespace p, mset (hrbpAccess p))"

definition permissionScope :: "hRobotPermission \<Rightarrow> string \<times> string" where
  "permissionScope p = (hrbpKind p, hrbpNamespace p)"

definition withSortedAccess :: "hRobotPermission \<Rightarrow> hRobotPermission" where
  "withSortedAccess p = p\<lparr>hrbpAccess := sortSlice accessLess (hrbpAccess p)\<rparr>"

lemma permissionLess_scope: "permissionLess a b \<longleftrightarrow> permissionScope a < permissionScope b"
  by (auto simp: permissionLess_def permissionScope_def less_prod_def)

lemma insertLess_insort: "insertLess (\<lambda>a b. f a < f b) x xs = insort_key f x xs" for f :: "'a \<Rightarrow> 'k :: linorder"
  by (induction xs) (auto simp: not_less)

lemma sortSlice_sort_key: "sortSlice (\<lambda>a b. f a < f b) xs = sort_key f xs" for f :: "'a \<Rightarrow> 'k :: linorder"
  by (induction xs) (simp_all add: insertLess_insort)

lemma normalizeRobotPermissions_sort:
  "normalizeRobotPermissions ps = sort_key permissionScope (map withSortedAccess ps)"
proof -
  have less: "permissionLess = (\<lambda>a b. permissionScope a < permissionScope b)"
    by (intro ext) (rule permissionLess_scope)
  have "sortSlice permissionLess = sort_key permissionScope"
    unfolding less by (intro ext) (rule sortSlice_sort_key)
  moreover have "(\<lambda>p. p\<lparr>hrbpAccess := sortSlice accessLess (hrbpAccess p)\<rparr>) = withSortedAccess"
    by (intro ext) (simp only: withSortedAccess_def)
  ultimately show ?thesis by (simp only: normalizeRobotPermissions_def)
qed

lemma permissionScope_sorted [simp]: "permissionScope (withSortedAccess p) = permissionScope p"
  by (simp add: permissionScope_def withSortedAccess_def)

text \<open>Sorted access rules and the multiset of access rules determine each other.\<close>

lemma withSortedAccess_rights: "permissionRights (withSortedAccess p) = permissionRights p"
  by (simp add: permissionRights_def withSortedAccess_def)

lemma rights_determine: "permissionRights p = permissionRights q \<Longrightarrow> withSortedAccess p = withSortedAccess q"
  using access_less.sortSlice_perm [of "hrbpAccess p" "hrbpAccess q"]
  by (cases p; cases q) (simp add: permissionRights_def withSortedAccess_def)

lemma mset_rights: "mset (map withSortedAccess a) = mset (map withSortedAccess b) \<longleftrightarrow>
    mset (map permissionRights a) = mset (map permissionRights b)"
proof
  assume "mset (map withSortedAccess a) = mset (map withSortedAccess b)"
  then have "image_mset permissionRights (mset (map withSortedAccess a)) =
      image_mset permissionRights (mset (map withSortedAccess b))" by simp
  then show "mset (map permissionRights a) = mset (map permissionRights b)"
    by (simp add: multiset.map_comp comp_def withSortedAccess_rights)
next
  assume rights: "mset (map permissionRights a) = mset (map permissionRights b)"
  let ?norm = "\<lambda>r. withSortedAccess (SOME p. permissionRights p = r)"
  have "?norm (permissionRights p) = withSortedAccess p" for p
    by (rule rights_determine) (rule someI, rule refl)
  then have "mset (map withSortedAccess xs) = image_mset ?norm (mset (map permissionRights xs))" for xs
    by (simp add: multiset.map_comp comp_def)
  with rights show "mset (map withSortedAccess a) = mset (map withSortedAccess b)" by simp
qed


definition exPermission :: "string \<Rightarrow> string list \<Rightarrow> hRobotPermission" where
  "exPermission ns actions =
     \<lparr>hrbpKind = ''project'', hrbpNamespace = ns,
      hrbpAccess = map (\<lambda>a. \<lparr>haResource = ''repository'', haAction = a, haEffect = ''allow''\<rparr>) actions\<rparr>"


section \<open>Lost tokens\<close>

text \<open>Nothing that would bring a token into a Secret.\<close>

definition bringsNoToken :: "event \<Rightarrow> bool" where
  "bringsNoToken ev =
     (case ev of
        EvHttp hc req st \<Rightarrow> reqMethod req \<noteq> ''PATCH'' \<and> reqMethod req \<noteq> ''POST''
      | EvSecretCreate sec b \<Rightarrow> False
      | EvSecretUpdate sec b \<Rightarrow> False
      | _ \<Rightarrow> True)"

text \<open>No Secret is there, and every attempt to read one says so.\<close>

definition noSecrets :: "'e services \<Rightarrow> bool" where
  "noSecrets S \<longleftrightarrow> (\<forall>key e. \<exists>msg e'. svcGetSecret S key e = (Inl (KubeError KubeNotFound msg), e'))"

lemma sync_without_secret:
  fixes S :: "'e services"
  assumes "noSecrets S"
  shows "triple (\<lambda>s :: ('o, 'e) rstate. list_all bringsNoToken (stTrace s)) (syncRobotUsernameSecret S cr ref u)
     (\<lambda>_ s. list_all bringsNoToken (stTrace s))"
  unfolding triple_def
proof (intro allI impI)
  fix s :: "('o, 'e) rstate"
  assume tr: "list_all bringsNoToken (stTrace s)"
  obtain msg e' where get: "svcGetSecret S (srNamespace ref, srName ref) (stEnv s) = (Inl (KubeError KubeNotFound msg), e')"
    using assms unfolding noSecrets_def by blast
  show "list_all bringsNoToken (stTrace (snd (run_state (syncRobotUsernameSecret S cr ref u) s)))"
    using tr by (simp add: syncRobotUsernameSecret_def kubeGet_def get run_simps bringsNoToken_def)
qed

lemma no_token_kube:
  "emits bringsNoToken (kubeGet k f key)" "emits bringsNoToken (kubeStatusUpdate K)"
  unfolding kubeGet_def kubeStatusUpdate_def by (intro emits_intros; simp add: bringsNoToken_def)+

lemma no_token_lifecycle:
  "emits bringsNoToken (failWith S K err)" "emits bringsNoToken (readyIfChanged S opts K changed reason message)"
  unfolding failWith_def setErrorStatus_def readyIfChanged_def by (intro emits_intros no_token_kube)+

lemma no_token_permissions: "emits bringsNoToken (buildPermissions S opts ns perms)"
proof (induction perms)
  case Nil
  then show ?case by (simp add: emits_return)
next
  case (Cons perm perms)
  show ?case
    unfolding buildPermissions.simps(2) permissionNamespace_def resolveProjectName_def Let_def
    by (intro emits_intros no_token_kube Cons.IH)
qed

lemma clientCalls_noToken:
  "clientCalls hc (\<lambda>method relURL. method \<noteq> ''PATCH'' \<and> method \<noteq> ''POST'') bringsNoToken"
  by (auto simp: clientCalls_def bringsNoToken_def isRequest_def)

lemma no_token_update:
  "emits bringsNoToken (buildRobotUpdateRequest S opts cr current)" "emits bringsNoToken (UpdateRobot S hc n d)"
  unfolding buildRobotUpdateRequest_def buildRobotPermissions_def
  by (intro emits_intros no_token_permissions emits_RobotCalls(4) [OF clientCalls_noToken]; simp)+

lemma no_token_status: "emits C (changeStatus f)"
  unfolding changeStatus_def by (intro emits_intros)

abbreviation noTokenYet :: "(robot, 'e) rstate \<Rightarrow> bool" where
  "noTokenYet s \<equiv> list_all bringsNoToken (stTrace s)"

lemma keeps_no_token: "emits bringsNoToken m \<Longrightarrow> triple noTokenYet m (\<lambda>_. noTokenYet)"
  by (rule triple_emits [where I = "list_all bringsNoToken"]) simp_all

text \<open>Without an expiry date nothing is rotated.\<close>

abbreviation neverExpires :: "(robot, 'e) rstate \<Rightarrow> bool" where
  "neverExpires s \<equiv> noTokenYet s \<and> robExpiresAt (objStatus (stObj s)) = None"

lemma expiry_cleared:
  "exp \<le> 0 \<Longrightarrow> triple noTokenYet (changeStatus (updateRobotExpiryStatus exp)) (\<lambda>_. neverExpires)"
  by (auto simp: triple_def changeStatus_def updateRobotExpiryStatus_def Let_def run_simps)

lemma no_rotation: "triple neverExpires (rotateIfExpired S hc ref current) (\<lambda>_. noTokenYet)"
  by (auto simp: triple_def rotateIfExpired_def shouldRotateRobot_def run_simps)


definition exRobotPermissions :: "hRobotPermission list" where
  "exRobotPermissions =
     [\<lparr>hrbpKind = ''system'', hrbpNamespace = ''/'',
       hrbpAccess = [\<lparr>haResource = ''user'', haAction = ''list'', haEffect = ''allow''\<rparr>]\<rparr>]"

definition exHarborRobot :: hRobot where
  "exHarborRobot =
     \<lparr>hrbID = 4, hrbName = ''robot$ci'', hrbDescription = [], hrbSecret = [], hrbLevel = ''system'',
      hrbDuration = Some (- 1), hrbEditable = True, hrbDisable = False, hrbExpiresAt = - 1,
      hrbPermissions = exRobotPermissions\<rparr>"

definition exRobot :: robot where
  "exRobot =
     \<lparr>objMeta = (exMeta ''team'' ''ci'')\<lparr>metaFinalizers := [finalizerName]\<rparr>,
      objSpec = \<lparr>harborConnectionRef = exRef, driftDetectionInterval = None, reconcileNonce = [],
        deletionPolicy = [], creationPolicy = ''Create'', robDescription = [], robLevel = ''system'',
        robPermissions = [\<lparr>rpKind = ''system'', rpProjectRef = None,
          rpAccess = [\<lparr>raResource = ''user'', raAction = ''list'', raEffect = []\<rparr>]\<rparr>],
        robDisable = None, robDuration = - 1, robSecretRef = None\<rparr>,
      objStatus = harborStatusBase.extend exStatusBase
        \<lparr>harborRobotID = 4, robUsername = ''robot$ci'', robLastRotatedAt = None, robExpiresAt = None\<rparr>\<rparr>"

definition exSecretRef :: secretReference where
  "exSecretRef = \<lparr>srName = ''ci-secret'', srKey = ''secret'', srNamespace = ''team''\<rparr>"


section \<open>The JSON of a robot\<close>

definition int64 :: "int \<Rightarrow> bool" where
  "int64 n \<longleftrightarrow> minInt64 \<le> n \<and> n \<le> maxInt64"

lemma decAccess_enc: "decAccess (encAccess a) = Some a"
  by (simp add: decAccess_def encAccess_def jfield_simps)

lemma decRobotPermission_enc: "decRobotPermission (encRobotPermission p) = Some p"
  by (simp add: decRobotPermission_def encRobotPermission_def jfield_simps decList_listField decAccess_enc)

lemma robotWF: "jsonWF (encRobot r)"
  by (auto simp: encRobot_def encRobotPermission_def encAccess_def)

text \<open>
  C40. What the client sends of a robot it reads back: for ids, durations and dates within 64 bits, the
  text of the request body, parsed and decoded, is the robot again.
\<close>

theorem robot_roundtrip:
  assumes "list_all int64 [hrbID r, hrbExpiresAt r]" and "pred_option int64 (hrbDuration r)"
  shows "Option.bind (jsonUnmarshal (jsonPrint (encRobot r))) decRobot = Some r"
proof -
  have "jInt n \<noteq> JNull" for n by (simp add: jInt_def)
  then have ptr: "decPtr decInt (ptrField jInt (hrbDuration r)) = Some (hrbDuration r)"
    using assms(2) by (cases "hrbDuration r") (auto simp: decPtr_def ptrField_def int64_def decInt_jInt jInt_def [symmetric])
  have "decRobot (encRobot r) = Some r"
    using assms(1) 
    by (simp add: decRobot_def encRobot_def jfield_simps decList_listField decRobotPermission_enc ptr int64_def)
  then show ?thesis by (simp add: jsonUnmarshal_print [OF robotWF])
qed

lemma robot_roundtrip_witness:
  "Option.bind (jsonUnmarshal (jsonPrint (encRobot exHarborRobot))) decRobot = Some exHarborRobot"
  by (rule robot_roundtrip) (simp_all add: exHarborRobot_def int64_def minInt64_def maxInt64_def)

end
