(* ===== verification/Operator.thy ===== *)
theory Operator
  imports ProjectFacts RegistryFacts Users Labels Scanners Quotas Configurations UserGroupFacts MemberFacts
    ImmutableTagRules WebhookPolicies RetentionFacts ReplicationPolicies RobotFacts ConnectionControllers
begin

text \<open>
  The operator as \<^verbatim>\<open>cmd/main.go\<close> puts it together: its flags, the options they
  give, the registered controllers, and its runs. The manager calls the reconcilers; here a run is any
  sequence of reconciles, of any registered kind and object, with arbitrary changes of the world
  between them. What the reconcilers guarantee one by one then holds of every run of the operator.
\<close>

section \<open>Flags and options\<close>

text \<open>
  The flags that reach the reconcilers; those of the metrics and webhook servers, of the probes and of
  leader election only configure the manager.
\<close>

record operatorFlags =
  flWatchNamespaces :: string
  flHarborConnection :: string
  flDefaultCreationPolicy :: string
  flAllowCrossNamespaceReferences :: bool
  flDefaultDriftDetectionInterval :: int
  flHarborRequestTimeout :: int

definition defaultFlags :: operatorFlags where
  "defaultFlags =
     \<lparr>flWatchNamespaces = [], flHarborConnection = [], flDefaultCreationPolicy = creationPolicyCreate,
      flAllowCrossNamespaceReferences = True, flDefaultDriftDetectionInterval = 0,
      flHarborRequestTimeout = 30 * 1000000000\<rparr>"

definition flagsConfig :: "operatorFlags \<Rightarrow> operatorConfig" where
  "flagsConfig fl =
     \<lparr>cfgForcedHarborConnection = flHarborConnection fl,
      cfgDefaultCreationPolicy = flDefaultCreationPolicy fl,
      cfgAllowCrossNamespaceReferences = Some (flAllowCrossNamespaceReferences fl),
      cfgDefaultDriftDetectionInterval = flDefaultDriftDetectionInterval fl,
      cfgHarborRequestTimeout = flHarborRequestTimeout fl\<rparr>"

text \<open>The options of every reconciler; an error ends the process.\<close>

definition mainOptions :: "(nsName \<Rightarrow> 'e \<Rightarrow> (gerror + secret) \<times> 'e) \<Rightarrow> operatorFlags \<Rightarrow>
    gerror + 'e operatorOptions" where
  "mainOptions apiReader fl =
     (case NewOperatorOptions (flagsConfig fl) of
        Inl err \<Rightarrow> Inl err
      | Inr opts \<Rightarrow> Inr (WithSecretReader opts apiReader))"

text \<open>The namespaces of the manager's cache; \<open>None\<close> leaves the cache's default, all of them.\<close>

definition watchedNamespaces :: "string \<Rightarrow> string set option" where
  "watchedNamespaces flag =
     (if flag = [] then None
      else Some (set (filter (\<lambda>n. n \<noteq> []) (map goTrimSpace (goSplit CHR '','' flag)))))"

section \<open>Runs of the operator\<close>

text \<open>The API server's clients of the kinds, and the kinds in the order of their registration.\<close>

record 'e apiClients =
  acRegistry :: "('e, registry) kclient"
  acProject :: "('e, project) kclient"
  acUser :: "('e, user) kclient"
  acMember :: "('e, member) kclient"
  acRobot :: "('e, robot) kclient"
  acConfiguration :: "('e, configuration) kclient"
  acGCSchedule :: "('e, gcScheduleResource) kclient"
  acPurgeAuditSchedule :: "('e, purgeAuditSchedule) kclient"
  acRetentionPolicy :: "('e, retentionPolicy) kclient"
  acReplicationPolicy :: "('e, replicationPolicy) kclient"
  acWebhookPolicy :: "('e, webhookPolicy) kclient"
  acImmutableTagRule :: "('e, immutableTagRule) kclient"
  acLabel :: "('e, label) kclient"
  acUserGroupClaim :: "('e, userGroupClaim) kclient"
  acScannerRegistration :: "('e, scannerRegistration) kclient"
  acScanAllSchedule :: "('e, scanAllSchedule) kclient"
  acQuota :: "('e, quota) kclient"
  acHarborConnection :: "('e, harborConnection) kclient"
  acClusterHarborConnection :: "('e, clusterHarborConnection) kclient"

definition registeredControllers :: "objKind list" where
  "registeredControllers =
     [KRegistry, KProject, KUser, KMember,
      KRobot, KConfiguration, KGCSchedule, KPurgeAuditSchedule,
      KRetentionPolicy, KReplicationPolicy, KWebhookPolicy, KImmutableTagRule,
      KLabel, KUserGroupClaim, KScannerRegistration, KScanAllSchedule,
      KQuota, KHarborConnection, KClusterHarborConnection]"

text \<open>
  One reconcile of an object, with its trace. The variable that the object is loaded into starts with
  Go's zero value; any start gives the same guarantees, so it is left open.
\<close>

definition ran :: "('o, 'e, outcome) go \<Rightarrow> 'o \<Rightarrow> 'e \<Rightarrow> event list \<times> 'e" where
  "ran m obj e = (let s = snd (run_state m (startState obj e)) in (stTrace s, stEnv s))"

inductive served :: "'e services \<Rightarrow> 'e operatorOptions \<Rightarrow> 'e apiClients \<Rightarrow> objKind \<Rightarrow> nsName \<Rightarrow> 'e \<Rightarrow>
    event list \<Rightarrow> 'e \<Rightarrow> bool" for S opts cl where
  servedRegistry:
    "ran (reconcileRegistry S opts (acRegistry cl) key) obj e = (tr, e') \<Longrightarrow>
       served S opts cl KRegistry key e tr e'"
| servedProject:
    "ran (reconcileProject S opts (acProject cl) key) obj e = (tr, e') \<Longrightarrow>
       served S opts cl KProject key e tr e'"
| servedUser:
    "ran (reconcileUser S opts (acUser cl) key) obj e = (tr, e') \<Longrightarrow>
       served S opts cl KUser key e tr e'"
| servedMember:
    "ran (reconcileMember S opts (acMember cl) key) obj e = (tr, e') \<Longrightarrow>
       served S opts cl KMember key e tr e'"
| servedRobot:
    "ran (reconcileRobot S opts (acRobot cl) key) obj e = (tr, e') \<Longrightarrow>
       served S opts cl KRobot key e tr e'"
| servedConfiguration:
    "ran (reconcileConfiguration S opts (acConfiguration cl) key) obj e = (tr, e') \<Longrightarrow>
       served S opts cl KConfiguration key e tr e'"
| servedGCSchedule:
    "ran (reconcileGCSchedule S opts (acGCSchedule cl) key) obj e = (tr, e') \<Longrightarrow>
       served S opts cl KGCSchedule key e tr e'"
| servedPurgeAuditSchedule:
    "ran (reconcilePurgeAuditSchedule S opts (acPurgeAuditSchedule cl) key) obj e = (tr, e') \<Longrightarrow>
       served S opts cl KPurgeAuditSchedule key e tr e'"
| servedRetentionPolicy:
    "ran (reconcileRetentionPolicy S opts (acRetentionPolicy cl) key) obj e = (tr, e') \<Longrightarrow>
       served S opts cl KRetentionPolicy key e tr e'"
| servedReplicationPolicy:
    "ran (reconcileReplicationPolicy S opts (acReplicationPolicy cl) key) obj e = (tr, e') \<Longrightarrow>
       served S opts cl KReplicationPolicy key e tr e'"
| servedWebhookPolicy:
    "ran (reconcileWebhookPolicy S opts (acWebhookPolicy cl) key) obj e = (tr, e') \<Longrightarrow>
       served S opts cl KWebhookPolicy key e tr e'"
| servedImmutableTagRule:
    "ran (reconcileImmutableTagRule S opts (acImmutableTagRule cl) key) obj e = (tr, e') \<Longrightarrow>
       served S opts cl KImmutableTagRule key e tr e'"
| servedLabel:
    "ran (reconcileLabel S opts (acLabel cl) key) obj e = (tr, e') \<Longrightarrow>
       served S opts cl KLabel key e tr e'"
| servedUserGroupClaim:
    "ran (reconcileUserGroupClaim S opts (acUserGroupClaim cl) key) obj e = (tr, e') \<Longrightarrow>
       served S opts cl KUserGroupClaim key e tr e'"
| servedScannerRegistration:
    "ran (reconcileScannerRegistration S opts (acScannerRegistration cl) key) obj e = (tr, e') \<Longrightarrow>
       served S opts cl KScannerRegistration key e tr e'"
| servedScanAllSchedule:
    "ran (reconcileScanAllSchedule S opts (acScanAllSchedule cl) key) obj e = (tr, e') \<Longrightarrow>
       served S opts cl KScanAllSchedule key e tr e'"
| servedQuota:
    "ran (reconcileQuota S opts (acQuota cl) key) obj e = (tr, e') \<Longrightarrow>
       served S opts cl KQuota key e tr e'"
| servedHarborConnection:
    "ran (reconcileHarborConnection S opts (acHarborConnection cl) key) obj e = (tr, e') \<Longrightarrow>
       served S opts cl KHarborConnection key e tr e'"
| servedClusterHarborConnection:
    "ran (reconcileClusterHarborConnection S opts (acClusterHarborConnection cl) key) obj e = (tr, e') \<Longrightarrow>
       served S opts cl KClusterHarborConnection key e tr e'"

text \<open>
  What the operator has done: the kind and the name of the object of each reconcile, the world that
  the reconcile found, and its trace.
\<close>

type_synonym 'e operatorLog = "(objKind \<times> nsName \<times> 'e \<times> event list) list"

inductive operatorRun :: "'e services \<Rightarrow> 'e operatorOptions \<Rightarrow> 'e apiClients \<Rightarrow> 'e \<Rightarrow> 'e operatorLog \<Rightarrow> 'e \<Rightarrow> bool"
  for S opts cl e0 where
  started: "operatorRun S opts cl e0 [] e0"
| reconciled:
    "operatorRun S opts cl e0 log e \<Longrightarrow> k \<in> set registeredControllers \<Longrightarrow> served S opts cl k key e tr e' \<Longrightarrow>
       operatorRun S opts cl e0 (log @ [(k, key, e, tr)]) e'"
| elsewhere: "operatorRun S opts cl e0 log e \<Longrightarrow> operatorRun S opts cl e0 log e'"

text \<open>A property of every reconcile is a property of every entry of the log.\<close>

definition logged :: "(objKind \<Rightarrow> nsName \<Rightarrow> 'e \<Rightarrow> event list \<Rightarrow> bool) \<Rightarrow> 'e operatorLog \<Rightarrow> bool" where
  "logged Q log = list_all (\<lambda>(k, key, e, tr). Q k key e tr) log"

lemma run_logged:
  assumes "operatorRun S opts cl e0 log e" and "\<And>k key e tr e'. served S opts cl k key e tr e' \<Longrightarrow> Q k key e tr"
  shows "logged Q log"
  using assms(1) by induction (auto simp: logged_def intro: assms(2))

lemma ran_trace: "ran m obj e = (tr, e') \<Longrightarrow> traceOf m (startState obj e) = tr"
  by (simp add: ran_def traceOf_def Let_def)

end
