(* ===== verification/OperatorFacts.thy ===== *)
theory OperatorFacts
  imports Operator
begin

text \<open>
  What holds of every run of the operator: no Harbor request before the binding, nothing deleted that
  is to be kept, nothing created that must not be, and no object released before Harbor has confirmed
  that its resource is gone.
\<close>

section \<open>Every reconcile binds first\<close>

lemmas reconcile_defs =
  reconcileRegistry_def reconcileProject_def reconcileUser_def reconcileMember_def
  reconcileRobot_def reconcileConfiguration_def reconcileGCSchedule_def
  reconcilePurgeAuditSchedule_def reconcileReplicationPolicy_def reconcileWebhookPolicy_def
  reconcileImmutableTagRule_def reconcileLabel_def reconcileScannerRegistration_def
  reconcileScanAllSchedule_def reconcileQuota_def

lemmas bound_first =
  registry.bound_before_harbor project.bound_before_harbor user.bound_before_harbor
  member.bound_before_harbor robot.bound_before_harbor configuration.bound_before_harbor
  gc.bound_before_harbor purge.bound_before_harbor replication.bound_before_harbor
  webhook.bound_before_harbor immutable_rule.bound_before_harbor label.bound_before_harbor
  scanner.bound_before_harbor scan_all.bound_before_harbor quota.bound_before_harbor

lemmas orphans_kept =
  registry.orphan_never_deletes project.orphan_never_deletes user.orphan_never_deletes
  member.orphan_never_deletes robot.orphan_never_deletes configuration.orphan_never_deletes
  gc.orphan_never_deletes purge.orphan_never_deletes replication.orphan_never_deletes
  webhook.orphan_never_deletes immutable_rule.orphan_never_deletes label.orphan_never_deletes
  scanner.orphan_never_deletes scan_all.orphan_never_deletes quota.orphan_never_deletes

lemma retention_bound_first: "preceded binds isHttp (traceOf (reconcileRetentionPolicy S opts c key) (startState obj e))"
  by (rule quietlyExtends_preceded [OF retention_extends_frame])
    (simp_all add: traceOf_def retention.bound_before_harbor quietEvent_imp)

lemma userGroup_bound_first: "preceded binds isHttp (traceOf (reconcileUserGroupClaim S opts c key) (startState obj e))"
  using userGroup_bound [of S opts c key] by (simp add: triple_def traceOf_def)

text \<open>The reconcilers of the two connection kinds are the only ones without a binding.\<close>

definition bindsFirst :: "objKind \<Rightarrow> event list \<Rightarrow> bool" where
  "bindsFirst k tr \<longleftrightarrow> k \<in> {KHarborConnection, KClusterHarborConnection} \<or> preceded binds isHttp tr"

lemma served_binds: "served S opts cl k key e tr e' \<Longrightarrow> bindsFirst k tr"
  by (erule served.cases; drule ran_trace)
    (auto simp: bindsFirst_def traceOf_def reconcile_defs bound_first retention_bound_first [unfolded traceOf_def]
      userGroup_bound_first [unfolded traceOf_def])


section \<open>The API server\<close>

text \<open>It stores the objects of every kind that owns something in Harbor as it is sent them.\<close>

definition faithfulServer :: "'e apiClients \<Rightarrow> bool" where
  "faithfulServer cl \<longleftrightarrow>
     faithful (registryKind (acRegistry cl)) \<and>
     faithful (projectKind (acProject cl)) \<and>
     faithful (userKind (acUser cl)) \<and>
     faithful (memberKind (acMember cl)) \<and>
     faithful (robotKind (acRobot cl)) \<and>
     faithful (configurationKind (acConfiguration cl)) \<and>
     faithful (gcKind (acGCSchedule cl)) \<and>
     faithful (purgeKind (acPurgeAuditSchedule cl)) \<and>
     faithful (retentionKind (acRetentionPolicy cl)) \<and>
     faithful (replicationKind (acReplicationPolicy cl)) \<and>
     faithful (webhookKind (acWebhookPolicy cl)) \<and>
     faithful (immutableKind (acImmutableTagRule cl)) \<and>
     faithful (labelKind (acLabel cl)) \<and>
     faithful (scannerKind (acScannerRegistration cl)) \<and>
     faithful (scanAllKind (acScanAllSchedule cl)) \<and>
     faithful (quotaKind (acQuota cl))"

lemma kinds_sanitize:
  "kdSanitize (registryKind c0) = sanitizeRef"
  "kdSanitize (projectKind c1) = sanitizeRef"
  "kdSanitize (userKind c2) = sanitizeRef"
  "kdSanitize (memberKind c3) = sanitizeRef"
  "kdSanitize (robotKind c4) = sanitizeRef"
  "kdSanitize (configurationKind c5) = sanitizeRef"
  "kdSanitize (gcKind c6) = sanitizeRef"
  "kdSanitize (purgeKind c7) = sanitizeRef"
  "kdSanitize (retentionKind c8) = sanitizeRef"
  "kdSanitize (replicationKind c9) = sanitizeRef"
  "kdSanitize (webhookKind c10) = sanitizeRef"
  "kdSanitize (immutableKind c11) = sanitizeRef"
  "kdSanitize (labelKind c12) = sanitizeRef"
  "kdSanitize (scannerKind c13) = sanitizeRef"
  "kdSanitize (scanAllKind c14) = sanitizeRef"
  "kdSanitize (quotaKind c15) = sanitizeRef"
  by (simp_all add: registryKind_def projectKind_def userKind_def memberKind_def robotKind_def configurationKind_def gcKind_def purgeKind_def retentionKind_def replicationKind_def webhookKind_def immutableKind_def labelKind_def scannerKind_def scanAllKind_def quotaKind_def)

section \<open>Orphans are kept\<close>

text \<open>
  The object of a reconcile, as the API server shows it when the reconcile starts, has the policy
  \<^verbatim>\<open>Orphan\<close>; the other kinds have no such policy and delete nothing.
\<close>

abbreviation orphan :: "('s harborSpecBase_scheme, 't) resource \<Rightarrow> bool" where
  "orphan obj \<equiv> GetDeletionPolicy (objSpec obj) = deletionPolicyOrphan"

fun orphaned :: "'e apiClients \<Rightarrow> objKind \<Rightarrow> nsName \<Rightarrow> 'e \<Rightarrow> bool" where
  "orphaned cl KRegistry key e = shown (registryKind (acRegistry cl)) key e orphan"
| "orphaned cl KProject key e = shown (projectKind (acProject cl)) key e orphan"
| "orphaned cl KUser key e = shown (userKind (acUser cl)) key e orphan"
| "orphaned cl KMember key e = shown (memberKind (acMember cl)) key e orphan"
| "orphaned cl KRobot key e = shown (robotKind (acRobot cl)) key e orphan"
| "orphaned cl KConfiguration key e = shown (configurationKind (acConfiguration cl)) key e orphan"
| "orphaned cl KGCSchedule key e = shown (gcKind (acGCSchedule cl)) key e orphan"
| "orphaned cl KPurgeAuditSchedule key e = shown (purgeKind (acPurgeAuditSchedule cl)) key e orphan"
| "orphaned cl KRetentionPolicy key e = shown (retentionKind (acRetentionPolicy cl)) key e orphan"
| "orphaned cl KReplicationPolicy key e = shown (replicationKind (acReplicationPolicy cl)) key e orphan"
| "orphaned cl KWebhookPolicy key e = shown (webhookKind (acWebhookPolicy cl)) key e orphan"
| "orphaned cl KImmutableTagRule key e = shown (immutableKind (acImmutableTagRule cl)) key e orphan"
| "orphaned cl KLabel key e = shown (labelKind (acLabel cl)) key e orphan"
| "orphaned cl KScannerRegistration key e = shown (scannerKind (acScannerRegistration cl)) key e orphan"
| "orphaned cl KScanAllSchedule key e = shown (scanAllKind (acScanAllSchedule cl)) key e orphan"
| "orphaned cl KQuota key e = shown (quotaKind (acQuota cl)) key e orphan"
| "orphaned cl k key e = True"

lemma orphans_stay:
  assumes "faithfulServer cl"
  shows "stays (registryKind (acRegistry cl)) orphan"
    and "stays (projectKind (acProject cl)) orphan"
    and "stays (userKind (acUser cl)) orphan"
    and "stays (memberKind (acMember cl)) orphan"
    and "stays (robotKind (acRobot cl)) orphan"
    and "stays (configurationKind (acConfiguration cl)) orphan"
    and "stays (gcKind (acGCSchedule cl)) orphan"
    and "stays (purgeKind (acPurgeAuditSchedule cl)) orphan"
    and "stays (retentionKind (acRetentionPolicy cl)) orphan"
    and "stays (replicationKind (acReplicationPolicy cl)) orphan"
    and "stays (webhookKind (acWebhookPolicy cl)) orphan"
    and "stays (immutableKind (acImmutableTagRule cl)) orphan"
    and "stays (labelKind (acLabel cl)) orphan"
    and "stays (scannerKind (acScannerRegistration cl)) orphan"
    and "stays (scanAllKind (acScanAllSchedule cl)) orphan"
    and "stays (quotaKind (acQuota cl)) orphan"
  using assms by (auto simp: faithfulServer_def kinds_sanitize intro!: stays_orphan)

lemma calls_no_delete:
  assumes "list_all (methodsIn ms) tr" and "''DELETE'' \<notin> set ms"
  shows "list_all (\<lambda>ev. \<not> isDelete ev) tr"
  using assms by (auto simp: list_all_iff methodsIn_def isDelete_def split: event.splits)

lemma checks_no_delete: "list_all isCheck tr \<Longrightarrow> list_all (\<lambda>ev. \<not> isDelete ev) tr"
  by (auto simp: list_all_iff isCheck_def isDelete_def split: event.splits)

lemma emits_trace: "emits C m \<Longrightarrow> list_all C (stTrace (snd (run_state m (startState obj e))))"
  using emitsD [of C m "startState obj e"] by auto

lemma retention_orphan:
  assumes "stays (retentionKind c) orphan" and "shown (retentionKind c) key e orphan"
  shows "list_all (\<lambda>ev. \<not> isDelete ev) (traceOf (reconcileRetentionPolicy S opts c key) (startState obj e))"
  by (rule quietlyExtends_all [OF retention_extends_frame])
    (use quietEvent_imp isDelete_isHttp in \<open>auto simp: traceOf_def intro!: retention.orphan_never_deletes assms\<close>)

lemma userGroup_no_delete:
  "list_all (\<lambda>ev. \<not> isDelete ev) (stTrace (snd (run_state (reconcileUserGroupClaim S opts c key) (startState obj e))))"
  by (rule calls_no_delete [OF emits_trace [OF userGroup_calls]]) simp

lemma connection_no_delete:
  "list_all (\<lambda>ev. \<not> isDelete ev) (stTrace (snd (run_state (reconcileHarborConnection S opts c key) (startState obj e))))"
  "list_all (\<lambda>ev. \<not> isDelete ev)
     (stTrace (snd (run_state (reconcileClusterHarborConnection S opts c key) (startState obj e))))"
  unfolding reconcileHarborConnection_def reconcileClusterHarborConnection_def
  by (rule checks_no_delete [OF emits_trace [OF check_connection]])+

lemma served_orphan:
  assumes "faithfulServer cl"
  shows "served S opts cl k key e tr e' \<Longrightarrow> orphaned cl k key e \<Longrightarrow> list_all (\<lambda>ev. \<not> isDelete ev) tr"
  using orphans_stay [OF assms]
  by (elim served.cases; drule_tac ran_trace)
    (auto simp: traceOf_def reconcile_defs orphans_kept retention_orphan [unfolded traceOf_def]
      userGroup_no_delete connection_no_delete)

text \<open>
  C3. What is orphaned is never deleted. In every run of the operator, the reconcile of an object that
  the API server shows with the deletion policy \<^verbatim>\<open>Orphan\<close> sends no
  \<^verbatim>\<open>DELETE\<close> request, and neither does one of a kind without such a policy.
\<close>

theorem operator_keeps_orphans:
  assumes "operatorRun S opts cl e0 log e" and "faithfulServer cl"
  shows "logged (\<lambda>k key e tr. orphaned cl k key e \<longrightarrow> list_all (\<lambda>ev. \<not> isDelete ev) tr) log"
  by (rule run_logged [OF assms(1)]) (blast dest: served_orphan [OF assms(2)])

section \<open>Nothing is created without leave\<close>

text \<open>
  The object of a reconcile has a creation policy, and that does not let the reconciler create.
\<close>

fun barred :: "'e operatorOptions \<Rightarrow> 'e apiClients \<Rightarrow> objKind \<Rightarrow> nsName \<Rightarrow> 'e \<Rightarrow> bool" where
  "barred opts cl KRegistry key e = shown (registryKind (acRegistry cl)) key e (mayNotCreate opts)"
| "barred opts cl KProject key e = shown (projectKind (acProject cl)) key e (mayNotCreate opts)"
| "barred opts cl KUser key e = shown (userKind (acUser cl)) key e (mayNotCreate opts)"
| "barred opts cl KMember key e = shown (memberKind (acMember cl)) key e (mayNotCreate opts)"
| "barred opts cl KRobot key e = shown (robotKind (acRobot cl)) key e (mayNotCreate opts)"
| "barred opts cl KReplicationPolicy key e = shown (replicationKind (acReplicationPolicy cl)) key e (mayNotCreate opts)"
| "barred opts cl KWebhookPolicy key e = shown (webhookKind (acWebhookPolicy cl)) key e (mayNotCreate opts)"
| "barred opts cl KImmutableTagRule key e = shown (immutableKind (acImmutableTagRule cl)) key e (mayNotCreate opts)"
| "barred opts cl KLabel key e = shown (labelKind (acLabel cl)) key e (mayNotCreate opts)"
| "barred opts cl KScannerRegistration key e = shown (scannerKind (acScannerRegistration cl)) key e (mayNotCreate opts)"
| "barred opts cl k key e = False"

lemma barred_stay:
  assumes "faithfulServer cl"
  shows "stays (registryKind (acRegistry cl)) (mayNotCreate opts)"
    and "stays (projectKind (acProject cl)) (mayNotCreate opts)"
    and "stays (userKind (acUser cl)) (mayNotCreate opts)"
    and "stays (memberKind (acMember cl)) (mayNotCreate opts)"
    and "stays (robotKind (acRobot cl)) (mayNotCreate opts)"
    and "stays (replicationKind (acReplicationPolicy cl)) (mayNotCreate opts)"
    and "stays (webhookKind (acWebhookPolicy cl)) (mayNotCreate opts)"
    and "stays (immutableKind (acImmutableTagRule cl)) (mayNotCreate opts)"
    and "stays (labelKind (acLabel cl)) (mayNotCreate opts)"
    and "stays (scannerKind (acScannerRegistration cl)) (mayNotCreate opts)"
  using assms by (auto simp: faithfulServer_def kinds_sanitize intro!: stays_mayNotCreate)

lemmas guarded_creation =
  guarded_registry.reconcile_guarded guarded_project.reconcile_guarded
  guarded_user.reconcile_guarded guarded_member.reconcile_guarded guarded_robot.reconcile_guarded
  guarded_replication.reconcile_guarded guarded_webhook.reconcile_guarded
  guarded_rule.reconcile_guarded guarded_label.reconcile_guarded guarded_scanner.reconcile_guarded

lemma served_creation:
  assumes "faithfulServer cl"
  shows "served S opts cl k key e tr e' \<Longrightarrow> barred opts cl k key e \<Longrightarrow> list_all (\<lambda>ev. \<not> isPost ev) tr"
  by (elim served.cases; drule_tac ran_trace) (auto simp: traceOf_def reconcile_defs guarded_creation barred_stay [OF assms])

text \<open>
  C4. Nothing is created without leave. In every run of the operator, the reconcile of an object whose
  effective creation policy, as the API server shows the object, does not allow creation sends no
  \<^verbatim>\<open>POST\<close> request.
\<close>

theorem operator_respects_creation_policy:
  assumes "operatorRun S opts cl e0 log e" and "faithfulServer cl"
  shows "logged (\<lambda>k key e tr. barred opts cl k key e \<longrightarrow> list_all (\<lambda>ev. \<not> isPost ev) tr) log"
  by (rule run_logged [OF assms(1)]) (blast dest: served_creation [OF assms(2)])

section \<open>Nothing is released before it is gone\<close>

text \<open>
  Where the resource of a kind with the numeric id \<open>n\<close> is (a membership in the project
  \<open>p\<close>, a scanner with the UUID \<open>u\<close>): the end of its URL.
\<close>

fun remoteEnd :: "int \<Rightarrow> int \<Rightarrow> string \<Rightarrow> objKind \<Rightarrow> string option" where
  "remoteEnd n p u KRegistry = Some (registryURL n)"
| "remoteEnd n p u KProject = Some (projectURL n)"
| "remoteEnd n p u KUser = Some (userURL n)"
| "remoteEnd n p u KMember = Some (memberURL (goItoa p) n)"
| "remoteEnd n p u KRobot = Some (robotURL n)"
| "remoteEnd n p u KRetentionPolicy = Some (retentionURL n)"
| "remoteEnd n p u KReplicationPolicy = Some (replicationURL n)"
| "remoteEnd n p u KWebhookPolicy = Some (webhookEnd n)"
| "remoteEnd n p u KImmutableTagRule = Some (ruleEnd n)"
| "remoteEnd n p u KLabel = Some (labelURL n)"
| "remoteEnd n p u KScannerRegistration = Some (scannerURL u)"
| "remoteEnd n p u k = None"

definition goneInHarbor :: "int \<Rightarrow> objKind \<Rightarrow> string \<Rightarrow> event \<Rightarrow> bool" where
  "goneInHarbor n k relURL = (if k = KRetentionPolicy then retentionGone n else remoteGone relURL)"

text \<open>
  The object of a reconcile, as the API server shows it when the reconcile starts, has recorded that
  id, and it is to be deleted in Harbor.
\<close>

fun owed :: "int \<Rightarrow> int \<Rightarrow> string \<Rightarrow> 'e apiClients \<Rightarrow> objKind \<Rightarrow> nsName \<Rightarrow> 'e \<Rightarrow> bool" where
  "owed n p u cl KRegistry key e = shown (registryKind (acRegistry cl)) key e (owesRegistry n)"
| "owed n p u cl KProject key e = shown (projectKind (acProject cl)) key e (owesProject n)"
| "owed n p u cl KUser key e = shown (userKind (acUser cl)) key e (owesUser n)"
| "owed n p u cl KMember key e = shown (memberKind (acMember cl)) key e (owesMember p n)"
| "owed n p u cl KRobot key e = shown (robotKind (acRobot cl)) key e (owesRobot n)"
| "owed n p u cl KRetentionPolicy key e = shown (retentionKind (acRetentionPolicy cl)) key e (owesRetention n)"
| "owed n p u cl KReplicationPolicy key e = shown (replicationKind (acReplicationPolicy cl)) key e (owesReplication n)"
| "owed n p u cl KWebhookPolicy key e = shown (webhookKind (acWebhookPolicy cl)) key e (owesWebhook n)"
| "owed n p u cl KImmutableTagRule key e = shown (immutableKind (acImmutableTagRule cl)) key e (owesRule n)"
| "owed n p u cl KLabel key e = shown (labelKind (acLabel cl)) key e (owesLabel n)"
| "owed n p u cl KScannerRegistration key e = shown (scannerKind (acScannerRegistration cl)) key e (owesScanner u)"
| "owed n p u cl k key e = False"

lemma same_user_id:
  "harborStatusBase.more sb = harborStatusBase.more sb' \<Longrightarrow> harborUserID sb = harborUserID sb'"
  by (cases sb; cases sb'; simp)

lemma same_robot_id:
  "harborStatusBase.more sb = harborStatusBase.more sb' \<Longrightarrow> harborRobotID sb = harborRobotID sb'"
  by (cases sb; cases sb'; simp)

lemma same_retention_id:
  "harborStatusBase.more sb = harborStatusBase.more sb' \<Longrightarrow> harborRetentionID sb = harborRetentionID sb'"
  by (cases sb; cases sb'; simp)

lemma same_replication_id:
  "harborStatusBase.more sb = harborStatusBase.more sb' \<Longrightarrow> harborReplicationPolicyID sb = harborReplicationPolicyID sb'"
  by (cases sb; cases sb'; simp)

lemma same_webhook_id:
  "harborStatusBase.more sb = harborStatusBase.more sb' \<Longrightarrow> harborWebhookPolicyID sb = harborWebhookPolicyID sb'"
  by (cases sb; cases sb'; simp)

lemma same_rule_id:
  "harborStatusBase.more sb = harborStatusBase.more sb' \<Longrightarrow> harborImmutableRuleID sb = harborImmutableRuleID sb'"
  by (cases sb; cases sb'; simp)

lemma same_label_id:
  "harborStatusBase.more sb = harborStatusBase.more sb' \<Longrightarrow> harborLabelID sb = harborLabelID sb'"
  by (cases sb; cases sb'; simp)

lemma same_scanner_id:
  "harborStatusBase.more sb = harborStatusBase.more sb' \<Longrightarrow> harborScannerID sb = harborScannerID sb'"
  by (cases sb; cases sb'; simp)

lemmas same_ids = same_projectID same_registryID
  same_user_id same_robot_id same_retention_id same_replication_id same_webhook_id
  same_rule_id same_label_id same_scanner_id

lemmas owned_cleaned =
  owned_registry.cleaned_before_finalizer owned_project.cleaned_before_finalizer
  owned_user.cleaned_before_finalizer owned_member.cleaned_before_finalizer
  owned_robot.cleaned_before_finalizer owned_retention.cleaned_before_finalizer
  owned_replication.cleaned_before_finalizer owned_webhook.cleaned_before_finalizer
  owned_rule.cleaned_before_finalizer owned_label.cleaned_before_finalizer
  owned_scanner.cleaned_before_finalizer

lemmas own_deleted =
  own_registry.reconcile_guarded own_project.reconcile_guarded own_user.reconcile_guarded
  own_member.reconcile_guarded own_robot.reconcile_guarded own_retention.reconcile_guarded
  own_replication.reconcile_guarded own_webhook.reconcile_guarded own_rule.reconcile_guarded
  own_label.reconcile_guarded own_scanner.reconcile_guarded

lemma owed_stay:
  assumes "faithfulServer cl"
  shows "stays (registryKind (acRegistry cl)) (owesRegistry n)"
    and "stays (projectKind (acProject cl)) (owesProject n)"
    and "stays (userKind (acUser cl)) (owesUser n)"
    and "stays (memberKind (acMember cl)) (owesMember p n)"
    and "stays (robotKind (acRobot cl)) (owesRobot n)"
    and "stays (retentionKind (acRetentionPolicy cl)) (owesRetention n)"
    and "stays (replicationKind (acReplicationPolicy cl)) (owesReplication n)"
    and "stays (webhookKind (acWebhookPolicy cl)) (owesWebhook n)"
    and "stays (immutableKind (acImmutableTagRule cl)) (owesRule n)"
    and "stays (labelKind (acLabel cl)) (owesLabel n)"
    and "stays (scannerKind (acScannerRegistration cl)) (owesScanner u)"
  using assms
  by (auto simp: faithfulServer_def kinds_sanitize
      intro!: stays_owesRegistry stays_owesProject stays_owesMember stays_owesRemote intro: same_ids)

lemma recorded_stay:
  assumes "faithfulServer cl"
  shows "stays (registryKind (acRegistry cl)) (hasRemote harborRegistryID n)"
    and "stays (projectKind (acProject cl)) (hasRemote harborProjectID n)"
    and "stays (userKind (acUser cl)) (hasRemote harborUserID n)"
    and "stays (robotKind (acRobot cl)) (hasRemote harborRobotID n)"
    and "stays (retentionKind (acRetentionPolicy cl)) (hasRemote harborRetentionID n)"
    and "stays (replicationKind (acReplicationPolicy cl)) (hasRemote harborReplicationPolicyID n)"
    and "stays (webhookKind (acWebhookPolicy cl)) (hasRemote harborWebhookPolicyID n)"
    and "stays (immutableKind (acImmutableTagRule cl)) (hasRemote harborImmutableRuleID n)"
    and "stays (labelKind (acLabel cl)) (hasRemote harborLabelID n)"
    and "stays (scannerKind (acScannerRegistration cl)) (hasRemote harborScannerID u)"
  using assms by (auto simp: faithfulServer_def kinds_sanitize intro!: stays_hasRemote intro: same_ids)

lemma shown_recorded:
  "shown K key e (owesRemote ident none n) \<Longrightarrow> shown K key e (hasRemote ident n)"
  "shown Kp key e (owesProject n') \<Longrightarrow> shown Kp key e (hasRemote harborProjectID n')"
  "shown Kr key e (owesRegistry n') \<Longrightarrow> shown Kr key e (hasRemote harborRegistryID n')"
  unfolding owesProject_remote owesRegistry_remote by (erule shown_mono, erule owesRemote_hasRemote)+

text \<open>What one reconcile may do to the resource: delete no other, and release the object only after it.\<close>

definition releasesGone :: "int \<Rightarrow> int \<Rightarrow> string \<Rightarrow> objKind \<Rightarrow> event list \<Rightarrow> bool" where
  "releasesGone n p u k tr =
     (case remoteEnd n p u k of
        None \<Rightarrow> True
      | Some relURL \<Rightarrow>
          list_all (deletesOnly relURL) tr \<and> preceded (goneInHarbor n k relURL) dropsFinalizer tr)"

lemma retention_releases:
  assumes "stays (retentionKind c) (owesRetention n)" and "shown (retentionKind c) key e (owesRetention n)"
    and "lawfulFinalizers (svcMachinery S)"
  shows "preceded (retentionGone n) dropsFinalizer (traceOf (reconcileRetentionPolicy S opts c key) (startState obj e))"
    and "stays (retentionKind c) (hasRemote harborRetentionID n) \<Longrightarrow>
      list_all (deletesOnly (retentionURL n)) (traceOf (reconcileRetentionPolicy S opts c key) (startState obj e))"
proof -
  show "preceded (retentionGone n) dropsFinalizer (traceOf (reconcileRetentionPolicy S opts c key) (startState obj e))"
    by (rule quietlyExtends_preceded [OF retention_extends_frame])
      (simp_all add: traceOf_def quietEvent_imp assms(2)
        owned_retention.cleaned_before_finalizer [OF assms(1) _ assms(3)])
  show "list_all (deletesOnly (retentionURL n)) (traceOf (reconcileRetentionPolicy S opts c key) (startState obj e))"
    if "stays (retentionKind c) (hasRemote harborRetentionID n)"
    by (rule quietlyExtends_all [OF retention_extends_frame])
      (auto simp: traceOf_def own_retention.reconcile_guarded [OF that] shown_recorded(1) [OF assms(2)] deletesOnly_def quietEvent_def
        split: event.splits)
qed

lemma served_releases:
  assumes "faithfulServer cl" and "lawfulFinalizers (svcMachinery S)"
  shows "served S opts cl k key e tr e' \<Longrightarrow> owed n p u cl k key e \<Longrightarrow> releasesGone n p u k tr"
  by (elim served.cases; drule_tac ran_trace)
    (auto simp: releasesGone_def goneInHarbor_def traceOf_def reconcile_defs own_deleted assms(2) shown_recorded
      retention_releases [unfolded traceOf_def] owed_stay [OF assms(1)] recorded_stay [OF assms(1)]
      intro: owned_cleaned [unfolded projectGone_def registryGone_def])


end
