(* ===== verification/OperatorExamples.thy ===== *)
theory OperatorExamples
  imports OperatorFacts
begin

text \<open>
  A run of the operator on concrete inputs: a cluster with two projects, and nothing of the other
  kinds.
\<close>

definition exClients :: "project list \<Rightarrow> 'e apiClients" where
  "exClients projects =
     \<lparr>acRegistry = exStore [], acProject = exStore projects, acUser = exStore [], acMember = exStore [],
      acRobot = exStore [], acConfiguration = exStore [], acGCSchedule = exStore [],
      acPurgeAuditSchedule = exStore [], acRetentionPolicy = exStore [],
      acReplicationPolicy = exStore [], acWebhookPolicy = exStore [],
      acImmutableTagRule = exStore [], acLabel = exStore [], acUserGroupClaim = exStore [],
      acScannerRegistration = exStore [], acScanAllSchedule = exStore [], acQuota = exStore [],
      acHarborConnection = exStore [], acClusterHarborConnection = exStore []\<rparr>"

lemma faithful_exClients: "faithfulServer (exClients projects)"
  unfolding faithfulServer_def exClients_def apiClients.simps
  by (intro conjI; rule faithful_store; simp add: registryKind_def projectKind_def userKind_def memberKind_def robotKind_def configurationKind_def gcKind_def purgeKind_def
      retentionKind_def replicationKind_def webhookKind_def immutableKind_def labelKind_def scannerKind_def scanAllKind_def quotaKind_def; rule refl)

text \<open>The projects of the team, each already bound to its connection.\<close>

definition teamProject :: "string \<Rightarrow> int option \<Rightarrow> string \<Rightarrow> string \<Rightarrow> int \<Rightarrow> project" where
  "teamProject name deleted deletion creation n =
     (let obj = exProject deleted deletion creation n
      in obj\<lparr>objMeta := (objMeta obj)\<lparr>metaName := name\<rparr>,
             objStatus := (objStatus obj)\<lparr>resolvedHarborConnection := Some (exBinding ''uid-harbor'')\<rparr>\<rparr>)"

text \<open>A reconcile of each of the two projects, and then one of their connection.\<close>

definition projectTrace :: "project list \<Rightarrow> string \<Rightarrow> event list" where
  "projectTrace projects name =
     fst (ran (reconcileProject exCluster exOptions (exStore projects) (''team'', name)) (exProject None [] [] 0) ())"

definition connectionTrace :: "event list" where
  "connectionTrace =
     fst (ran (reconcileHarborConnection exCluster exOptions (exStore []) (''team'', ''harbor''))
        (exConnection ''team'' ''harbor'') ())"

definition exLog :: "project list \<Rightarrow> unit operatorLog" where
  "exLog projects =
     [(KProject, (''team'', ''web''), (), projectTrace projects ''web''),
      (KProject, (''team'', ''shop''), (), projectTrace projects ''shop''),
      (KHarborConnection, (''team'', ''harbor''), (), connectionTrace)]"

lemma exLog_run: "operatorRun exCluster exOptions (exClients projects) () (exLog projects) ()"
proof -
  let ?cl = "exClients projects :: unit apiClients"
  have project: "served exCluster exOptions ?cl KProject (''team'', name) () (projectTrace projects name) ()" for name
    by (rule servedProject [of _ _ _ _ "exProject None [] [] 0"])
      (simp add: exClients_def projectTrace_def prod_eq_iff)
  have connection: "served exCluster exOptions ?cl KHarborConnection (''team'', ''harbor'') () connectionTrace ()"
    by (rule servedHarborConnection [of _ _ _ _ "exConnection ''team'' ''harbor''"])
      (simp add: exClients_def connectionTrace_def prod_eq_iff)
  have "operatorRun exCluster exOptions ?cl ()
      ((([] @ [(KProject, (''team'', ''web''), (), projectTrace projects ''web'')]) @
         [(KProject, (''team'', ''shop''), (), projectTrace projects ''shop'')]) @
         [(KHarborConnection, (''team'', ''harbor''), (), connectionTrace)]) ()"
    by (intro reconciled started project connection) (simp_all add: registeredControllers_def)
  then show ?thesis by (simp add: exLog_def)
qed


text \<open>
  Two projects are being deleted; the first is an orphan, the second is not. Only the second is deleted
  in Harbor.
\<close>

lemma operator_keeps_orphans_witness:
  "let projects = [teamProject ''web'' (Some 7) ''Orphan'' ''Create'' 5, teamProject ''shop'' (Some 7) ''Delete'' ''Create'' 6]
   in list_all (\<lambda>ev. \<not> isDelete ev) (projectTrace projects ''web'') \<and>
      list_ex dropsFinalizer (projectTrace projects ''web'') \<and> list_ex isDelete (projectTrace projects ''shop'')"
proof -
  define projects where
    "projects = [teamProject ''web'' (Some 7) ''Orphan'' ''Create'' 5, teamProject ''shop'' (Some 7) ''Delete'' ''Create'' 6]"
  have "orphaned (exClients projects) KProject (''team'', ''web'') ()"
    unfolding projects_def by code_simp
  then have "list_all (\<lambda>ev. \<not> isDelete ev) (projectTrace projects ''web'')"
    using operator_keeps_orphans [OF exLog_run faithful_exClients, of projects]
    by (simp add: logged_def exLog_def)
  moreover have "list_ex dropsFinalizer (projectTrace projects ''web'')" "list_ex isDelete (projectTrace projects ''shop'')"
    unfolding projects_def by code_simp+
  ultimately show ?thesis by (simp add: Let_def projects_def)
qed

text \<open>Neither project exists in Harbor; the first may only be adopted, the second may be created.\<close>

lemma operator_respects_creation_policy_witness:
  "let projects = [teamProject ''web'' None ''Delete'' ''Adopt'' 0, teamProject ''shop'' None ''Delete'' ''Create'' 0]
   in list_all (\<lambda>ev. \<not> isPost ev) (projectTrace projects ''web'') \<and>
      list_ex isHttp (projectTrace projects ''web'')"
proof -
  define projects where
    "projects = [teamProject ''web'' None ''Delete'' ''Adopt'' 0, teamProject ''shop'' None ''Delete'' ''Create'' 0]"
  have "barred exOptions (exClients projects) KProject (''team'', ''web'') ()"
    unfolding projects_def by code_simp
  then have "list_all (\<lambda>ev. \<not> isPost ev) (projectTrace projects ''web'')"
    using operator_respects_creation_policy [OF exLog_run faithful_exClients, of projects]
    by (simp add: logged_def exLog_def)
  moreover have "list_ex isHttp (projectTrace projects ''web'')"
    unfolding projects_def by code_simp
  ultimately show ?thesis by (simp add: Let_def projects_def)
qed


end
