(* ===== verification/Controllers.thy ===== *)
theory Controllers
  imports Operator Watches
begin

text \<open>
  How the controllers are registered with the manager (\<^verbatim>\<open>SetupWithManager\<close> of every
  reconciler, called by \<^verbatim>\<open>cmd/main.go\<close> one after the other) and which objects a
  change wakes up. controller-runtime keeps the registrations: what it answers to the registration of
  an index or a controller, and the lists of its cache, are arguments.
\<close>

section \<open>The manager and its controllers\<close>

record manager =
  mgrIndexField :: "objKind \<Rightarrow> string \<Rightarrow> gerror option"
  mgrComplete :: "string \<Rightarrow> gerror option"
  mgrRegistry :: "gerror + registry list"
  mgrProject :: "gerror + project list"
  mgrUser :: "gerror + user list"
  mgrMember :: "gerror + member list"
  mgrRobot :: "gerror + robot list"
  mgrConfiguration :: "gerror + configuration list"
  mgrGCSchedule :: "gerror + gcScheduleResource list"
  mgrPurgeAuditSchedule :: "gerror + purgeAuditSchedule list"
  mgrRetentionPolicy :: "gerror + retentionPolicy list"
  mgrReplicationPolicy :: "gerror + replicationPolicy list"
  mgrWebhookPolicy :: "gerror + webhookPolicy list"
  mgrImmutableTagRule :: "gerror + immutableTagRule list"
  mgrLabel :: "gerror + label list"
  mgrUserGroupClaim :: "gerror + userGroupClaim list"
  mgrScannerRegistration :: "gerror + scannerRegistration list"
  mgrScanAllSchedule :: "gerror + scanAllSchedule list"
  mgrQuota :: "gerror + quota list"

text \<open>A changed object; the handlers of members read its spec, the others only name and namespace.\<close>

datatype watchedObject = WatchedMember member | WatchedMeta objKind objectMeta

fun watchedKind :: "watchedObject \<Rightarrow> objKind" where
  "watchedKind (WatchedMember m) = KMember"
| "watchedKind (WatchedMeta k meta) = k"

fun watchedMeta :: "watchedObject \<Rightarrow> objectMeta" where
  "watchedMeta (WatchedMember m) = objMeta m"
| "watchedMeta (WatchedMeta k meta) = meta"

definition watchedKey :: "watchedObject \<Rightarrow> nsName" where
  "watchedKey w = (metaNamespace (watchedMeta w), metaName (watchedMeta w))"

text \<open>
  A controller: its name, the kind it is for, and its further watches with the requests that a changed
  object of the watched kind causes.
\<close>

record controller =
  ctrlName :: string
  ctrlFor :: objKind
  ctrlWatches :: "(objKind \<times> (watchedObject \<Rightarrow> nsName list)) list"

definition requestsFrom :: "controller \<Rightarrow> watchedObject \<Rightarrow> nsName list" where
  "requestsFrom ctrl w =
     (if watchedKind w = ctrlFor ctrl then [watchedKey w] else []) @
     concat (map (\<lambda>(k, handler). if k = watchedKind w then handler w else []) (ctrlWatches ctrl))"

definition harborConnectionRefNamespacedIndex :: string where
  "harborConnectionRefNamespacedIndex = ''harbor.harbor-operator.io/harborConnectionRefNamespaced''"

definition harborConnectionRefClusterIndex :: string where
  "harborConnectionRefClusterIndex = ''harbor.harbor-operator.io/harborConnectionRefCluster''"

text \<open>
  The registration that the kinds share, with the list of the kind's objects in the manager's cache.
  An operator-wide connection needs no index and no watch on the namespaced kind.
\<close>

definition setupHarborBackedController :: "manager \<Rightarrow> 'e operatorOptions \<Rightarrow> objKind \<Rightarrow>
    gerror + ('s harborClaimSpecBase_scheme, 't) resource list \<Rightarrow> string \<Rightarrow> gerror + controller" where
  "setupHarborBackedController mgr opts kind listed name =
     (let clusterWatch = (KClusterHarborConnection,
            \<lambda>w. clusterConnectionRequests opts (metaName (watchedMeta w)) listed);
          namespacedWatch = (KHarborConnection, \<lambda>w. namespacedConnectionRequests opts (watchedKey w) listed)
      in if forcedHarborConnection opts \<noteq> []
         then Inr \<lparr>ctrlName = name, ctrlFor = kind, ctrlWatches = [clusterWatch]\<rparr>
         else case mgrIndexField mgr kind harborConnectionRefNamespacedIndex of
                Some err \<Rightarrow> Inl err
              | None \<Rightarrow>
                  (case mgrIndexField mgr kind harborConnectionRefClusterIndex of
                     Some err \<Rightarrow> Inl err
                   | None \<Rightarrow>
                       Inr \<lparr>ctrlName = name, ctrlFor = kind, ctrlWatches = [namespacedWatch, clusterWatch]\<rparr>))"

definition addWatches :: "(objKind \<times> (watchedObject \<Rightarrow> nsName list)) list \<Rightarrow> controller \<Rightarrow> controller" where
  "addWatches ws ctrl = ctrl\<lparr>ctrlWatches := ctrlWatches ctrl @ ws\<rparr>"

definition completeController :: "manager \<Rightarrow> controller \<Rightarrow> gerror + controller" where
  "completeController mgr ctrl = (case mgrComplete mgr (ctrlName ctrl) of Some err \<Rightarrow> Inl err | None \<Rightarrow> Inr ctrl)"

text \<open>A change of a member wakes up the claim that it names, and one of a claim its members.\<close>

definition claimRequests :: "watchedObject \<Rightarrow> nsName list" where
  "claimRequests w =
     (case w of
        WatchedMember m \<Rightarrow>
          (case memMemberGroup (objSpec m) of
             None \<Rightarrow> []
           | Some ref \<Rightarrow>
               [(if nrNamespace ref = [] then metaNamespace (objMeta m) else nrNamespace ref, nrName ref)])
      | WatchedMeta k meta \<Rightarrow> [])"

definition memberRequests :: "gerror + member list \<Rightarrow> watchedObject \<Rightarrow> nsName list" where
  "memberRequests listed w =
     (case listed of
        Inl err \<Rightarrow> []
      | Inr members \<Rightarrow>
          map objectKey (filter (\<lambda>m.
            case memMemberGroup (objSpec m) of
              None \<Rightarrow> False
            | Some ref \<Rightarrow>
                (let namespace = (if nrNamespace ref = [] then metaNamespace (objMeta m) else nrNamespace ref)
                 in namespace = metaNamespace (watchedMeta w) \<and> nrName ref = metaName (watchedMeta w))) members))"

section \<open>The registrations\<close>

definition setupRegistry :: "manager \<Rightarrow> 'e operatorOptions \<Rightarrow> gerror + controller" where
  "setupRegistry mgr opts =
     (case setupHarborBackedController mgr opts KRegistry (mgrRegistry mgr) ''registry'' of
        Inl err \<Rightarrow> Inl err
      | Inr ctrl \<Rightarrow> completeController mgr ctrl)"

definition setupProject :: "manager \<Rightarrow> 'e operatorOptions \<Rightarrow> gerror + controller" where
  "setupProject mgr opts =
     (case setupHarborBackedController mgr opts KProject (mgrProject mgr) ''project'' of
        Inl err \<Rightarrow> Inl err
      | Inr ctrl \<Rightarrow> completeController mgr ctrl)"

definition setupUser :: "manager \<Rightarrow> 'e operatorOptions \<Rightarrow> gerror + controller" where
  "setupUser mgr opts =
     (case setupHarborBackedController mgr opts KUser (mgrUser mgr) ''user'' of
        Inl err \<Rightarrow> Inl err
      | Inr ctrl \<Rightarrow> completeController mgr ctrl)"

definition setupMember :: "manager \<Rightarrow> 'e operatorOptions \<Rightarrow> gerror + controller" where
  "setupMember mgr opts =
     (case setupHarborBackedController mgr opts KMember (mgrMember mgr) ''member'' of
        Inl err \<Rightarrow> Inl err
      | Inr ctrl \<Rightarrow> completeController mgr (addWatches [(KUserGroupClaim, memberRequests (mgrMember mgr))] ctrl))"

definition setupRobot :: "manager \<Rightarrow> 'e operatorOptions \<Rightarrow> gerror + controller" where
  "setupRobot mgr opts =
     (case setupHarborBackedController mgr opts KRobot (mgrRobot mgr) ''robot'' of
        Inl err \<Rightarrow> Inl err
      | Inr ctrl \<Rightarrow> completeController mgr ctrl)"

definition setupConfiguration :: "manager \<Rightarrow> 'e operatorOptions \<Rightarrow> gerror + controller" where
  "setupConfiguration mgr opts =
     (case setupHarborBackedController mgr opts KConfiguration (mgrConfiguration mgr) ''configuration'' of
        Inl err \<Rightarrow> Inl err
      | Inr ctrl \<Rightarrow> completeController mgr ctrl)"

definition setupGCSchedule :: "manager \<Rightarrow> 'e operatorOptions \<Rightarrow> gerror + controller" where
  "setupGCSchedule mgr opts =
     (case setupHarborBackedController mgr opts KGCSchedule (mgrGCSchedule mgr) ''gcschedule'' of
        Inl err \<Rightarrow> Inl err
      | Inr ctrl \<Rightarrow> completeController mgr ctrl)"

definition setupPurgeAuditSchedule :: "manager \<Rightarrow> 'e operatorOptions \<Rightarrow> gerror + controller" where
  "setupPurgeAuditSchedule mgr opts =
     (case setupHarborBackedController mgr opts KPurgeAuditSchedule (mgrPurgeAuditSchedule mgr) ''purgeaudit'' of
        Inl err \<Rightarrow> Inl err
      | Inr ctrl \<Rightarrow> completeController mgr ctrl)"

definition setupRetentionPolicy :: "manager \<Rightarrow> 'e operatorOptions \<Rightarrow> gerror + controller" where
  "setupRetentionPolicy mgr opts =
     (case setupHarborBackedController mgr opts KRetentionPolicy (mgrRetentionPolicy mgr) ''retentionpolicy'' of
        Inl err \<Rightarrow> Inl err
      | Inr ctrl \<Rightarrow> completeController mgr ctrl)"

definition setupReplicationPolicy :: "manager \<Rightarrow> 'e operatorOptions \<Rightarrow> gerror + controller" where
  "setupReplicationPolicy mgr opts =
     (case setupHarborBackedController mgr opts KReplicationPolicy (mgrReplicationPolicy mgr) ''replicationpolicy'' of
        Inl err \<Rightarrow> Inl err
      | Inr ctrl \<Rightarrow> completeController mgr ctrl)"

definition setupWebhookPolicy :: "manager \<Rightarrow> 'e operatorOptions \<Rightarrow> gerror + controller" where
  "setupWebhookPolicy mgr opts =
     (case setupHarborBackedController mgr opts KWebhookPolicy (mgrWebhookPolicy mgr) ''webhookpolicy'' of
        Inl err \<Rightarrow> Inl err
      | Inr ctrl \<Rightarrow> completeController mgr ctrl)"

definition setupImmutableTagRule :: "manager \<Rightarrow> 'e operatorOptions \<Rightarrow> gerror + controller" where
  "setupImmutableTagRule mgr opts =
     (case setupHarborBackedController mgr opts KImmutableTagRule (mgrImmutableTagRule mgr) ''immutabletagrule'' of
        Inl err \<Rightarrow> Inl err
      | Inr ctrl \<Rightarrow> completeController mgr ctrl)"

definition setupLabel :: "manager \<Rightarrow> 'e operatorOptions \<Rightarrow> gerror + controller" where
  "setupLabel mgr opts =
     (case setupHarborBackedController mgr opts KLabel (mgrLabel mgr) ''label'' of
        Inl err \<Rightarrow> Inl err
      | Inr ctrl \<Rightarrow> completeController mgr ctrl)"

definition setupUserGroupClaim :: "manager \<Rightarrow> 'e operatorOptions \<Rightarrow> gerror + controller" where
  "setupUserGroupClaim mgr opts =
     (case setupHarborBackedController mgr opts KUserGroupClaim (mgrUserGroupClaim mgr) ''usergroupclaim'' of
        Inl err \<Rightarrow> Inl err
      | Inr ctrl \<Rightarrow> completeController mgr (addWatches [(KMember, claimRequests)] ctrl))"

definition setupScannerRegistration :: "manager \<Rightarrow> 'e operatorOptions \<Rightarrow> gerror + controller" where
  "setupScannerRegistration mgr opts =
     (case setupHarborBackedController mgr opts KScannerRegistration (mgrScannerRegistration mgr) ''scannerregistration'' of
        Inl err \<Rightarrow> Inl err
      | Inr ctrl \<Rightarrow> completeController mgr ctrl)"

definition setupScanAllSchedule :: "manager \<Rightarrow> 'e operatorOptions \<Rightarrow> gerror + controller" where
  "setupScanAllSchedule mgr opts =
     (case setupHarborBackedController mgr opts KScanAllSchedule (mgrScanAllSchedule mgr) ''scanallschedule'' of
        Inl err \<Rightarrow> Inl err
      | Inr ctrl \<Rightarrow> completeController mgr ctrl)"

definition setupQuota :: "manager \<Rightarrow> 'e operatorOptions \<Rightarrow> gerror + controller" where
  "setupQuota mgr opts =
     (case setupHarborBackedController mgr opts KQuota (mgrQuota mgr) ''quota'' of
        Inl err \<Rightarrow> Inl err
      | Inr ctrl \<Rightarrow> completeController mgr ctrl)"

definition setupHarborConnection :: "manager \<Rightarrow> gerror + controller" where
  "setupHarborConnection mgr =
     completeController mgr \<lparr>ctrlName = ''harborconnection'', ctrlFor = KHarborConnection, ctrlWatches = []\<rparr>"

definition setupClusterHarborConnection :: "manager \<Rightarrow> gerror + controller" where
  "setupClusterHarborConnection mgr =
     completeController mgr \<lparr>ctrlName = ''clusterharborconnection'', ctrlFor = KClusterHarborConnection, ctrlWatches = []\<rparr>"

text \<open>The process ends at the first registration that fails.\<close>

fun registerAll :: "(gerror + controller) list \<Rightarrow> gerror + controller list" where
  "registerAll [] = Inr []"
| "registerAll (r # rs) =
     (case r of
        Inl err \<Rightarrow> Inl err
      | Inr ctrl \<Rightarrow> (case registerAll rs of Inl err \<Rightarrow> Inl err | Inr ctrls \<Rightarrow> Inr (ctrl # ctrls)))"

definition registerControllers :: "manager \<Rightarrow> 'e operatorOptions \<Rightarrow> gerror + controller list" where
  "registerControllers mgr opts = registerAll
     [setupRegistry mgr opts, setupProject mgr opts, setupUser mgr opts,
      setupMember mgr opts, setupRobot mgr opts, setupConfiguration mgr opts,
      setupGCSchedule mgr opts, setupPurgeAuditSchedule mgr opts, setupRetentionPolicy mgr opts,
      setupReplicationPolicy mgr opts, setupWebhookPolicy mgr opts, setupImmutableTagRule mgr opts,
      setupLabel mgr opts, setupUserGroupClaim mgr opts, setupScannerRegistration mgr opts,
      setupScanAllSchedule mgr opts, setupQuota mgr opts, setupHarborConnection mgr,
      setupClusterHarborConnection mgr]"

section \<open>What wakes up what\<close>


lemma setup_backed_watches:
  "setupHarborBackedController mgr opts kind listed name = Inr ctrl \<Longrightarrow>
     ctrlName ctrl = name \<and> ctrlFor ctrl = kind \<and>
     fst ` set (ctrlWatches ctrl) \<subseteq> {KHarborConnection, KClusterHarborConnection}"
  by (auto simp: setupHarborBackedController_def Let_def split: if_splits option.splits)

lemma requestsFrom_connections:
  "fst ` set ws \<subseteq> {KHarborConnection, KClusterHarborConnection} \<Longrightarrow>
     watchedKind w \<notin> {KHarborConnection, KClusterHarborConnection} \<Longrightarrow>
     concat (map (\<lambda>(k, handler). if k = watchedKind w then handler w else []) ws) = []"
  by (induction ws) auto

lemma requestsFrom_extra:
  assumes "setupHarborBackedController mgr opts kind listed name = Inr ctrl"
    and "watchedKind w \<notin> {KHarborConnection, KClusterHarborConnection}" "watchedKind w = k" "kind \<noteq> k"
  shows "requestsFrom (addWatches [(k, handler)] ctrl) w = handler w"
proof -
  have "concat (map (\<lambda>(k, handler). if k = watchedKind w then handler w else []) (ctrlWatches ctrl)) = []"
    using requestsFrom_connections setup_backed_watches [OF assms(1)] assms(2) by blast
  then show ?thesis
    using assms(3,4) setup_backed_watches [OF assms(1)] by (simp add: requestsFrom_def addWatches_def)
qed

lemma namesClaim_requests:
  "(objectKey claim \<in> set (claimRequests (WatchedMember m))) = namesClaim (objMeta claim) m"
  by (cases "memMemberGroup (objSpec m)") (auto simp: claimRequests_def namesClaim_def objectKey_def)

lemma memberRequests_names:
  "memberRequests (Inr members) w = map objectKey (filter (namesClaim (watchedMeta w)) members)"
proof -
  have "namesClaim (watchedMeta w) = (\<lambda>m. case memMemberGroup (objSpec m) of
      None \<Rightarrow> False
    | Some ref \<Rightarrow>
        (let namespace = (if nrNamespace ref = [] then metaNamespace (objMeta m) else nrNamespace ref)
         in namespace = metaNamespace (watchedMeta w) \<and> nrName ref = metaName (watchedMeta w)))"
    by (rule ext) (simp only: namesClaim_def Let_def)
  then show ?thesis
    by (simp only: memberRequests_def sum.case)
qed

text \<open>
  C33. Claims and the members that name them wake each other up. Whether the deletion of a claim has to
  wait for a member (\<^verbatim>\<open>hasActiveMembers\<close>) is the same question as whether a change
  of some listed member, such as its deletion, asks for a reconcile of this claim; so a claim that
  waits is looked at again when its last member goes. A change of the claim asks for a reconcile of
  exactly these members.
\<close>

theorem waiting_claim_is_woken:
  assumes "setupUserGroupClaim mgr opts = Inr claims" and "setupMember mgr opts = Inr memberCtrl"
    and "mgrMember mgr = Inr members" and "svcListMembers S (stEnv s) = (Inr members, e')"
  shows "fst (run_state (hasActiveMembers S) s) =
      Inr (list_ex (\<lambda>m. objectKey (stObj s) \<in> set (requestsFrom claims (WatchedMember m))) members) \<and>
    requestsFrom memberCtrl (WatchedMeta KUserGroupClaim (objMeta (stObj s))) =
      map objectKey (filter (\<lambda>m. objectKey (stObj s) \<in> set (requestsFrom claims (WatchedMember m))) members)"
proof -
  obtain c where c: "setupHarborBackedController mgr opts KUserGroupClaim (mgrUserGroupClaim mgr) ''usergroupclaim'' = Inr c"
      "claims = addWatches [(KMember, claimRequests)] c"
    using assms(1) by (auto simp: setupUserGroupClaim_def completeController_def split: sum.splits option.splits)
  obtain m where m: "setupHarborBackedController mgr opts KMember (mgrMember mgr) ''member'' = Inr m"
      "memberCtrl = addWatches [(KUserGroupClaim, memberRequests (mgrMember mgr))] m"
    using assms(2) by (auto simp: setupMember_def completeController_def split: sum.splits option.splits)
  have "requestsFrom claims (WatchedMember x) = claimRequests (WatchedMember x)" for x
    using requestsFrom_extra [OF c(1)] by (simp add: c(2))
  moreover have "requestsFrom memberCtrl (WatchedMeta KUserGroupClaim (objMeta (stObj s))) =
      map objectKey (filter (namesClaim (objMeta (stObj s))) members)"
    using requestsFrom_extra [OF m(1)] by (simp add: m(2) assms(3) memberRequests_names)
  ultimately show ?thesis
    using assms(4) by (simp add: namesClaim_requests hasActiveMembers_def run_simps)
qed


lemma completed_backed:
  assumes "(case setupHarborBackedController mgr opts kind listed name of
      Inl err \<Rightarrow> Inl err | Inr ctrl \<Rightarrow> completeController mgr (addWatches ws ctrl)) = Inr c"
  shows "ctrlFor c = kind \<and> ctrlName c = name"
  using assms
  by (auto simp: completeController_def addWatches_def dest: setup_backed_watches split: sum.splits option.splits)

lemma addWatches_nothing: "addWatches [] ctrl = ctrl"
  by (simp add: addWatches_def)

lemmas completed_plain = completed_backed [where ws = "[]", unfolded addWatches_nothing]

lemma registered_as:
  "setupRegistry mgr opts = Inr c \<Longrightarrow> ctrlFor c = KRegistry \<and> ctrlName c = ''registry''"
  "setupProject mgr opts = Inr c \<Longrightarrow> ctrlFor c = KProject \<and> ctrlName c = ''project''"
  "setupUser mgr opts = Inr c \<Longrightarrow> ctrlFor c = KUser \<and> ctrlName c = ''user''"
  "setupMember mgr opts = Inr c \<Longrightarrow> ctrlFor c = KMember \<and> ctrlName c = ''member''"
  "setupRobot mgr opts = Inr c \<Longrightarrow> ctrlFor c = KRobot \<and> ctrlName c = ''robot''"
  "setupConfiguration mgr opts = Inr c \<Longrightarrow> ctrlFor c = KConfiguration \<and> ctrlName c = ''configuration''"
  "setupGCSchedule mgr opts = Inr c \<Longrightarrow> ctrlFor c = KGCSchedule \<and> ctrlName c = ''gcschedule''"
  "setupPurgeAuditSchedule mgr opts = Inr c \<Longrightarrow> ctrlFor c = KPurgeAuditSchedule \<and> ctrlName c = ''purgeaudit''"
  "setupRetentionPolicy mgr opts = Inr c \<Longrightarrow> ctrlFor c = KRetentionPolicy \<and> ctrlName c = ''retentionpolicy''"
  "setupReplicationPolicy mgr opts = Inr c \<Longrightarrow> ctrlFor c = KReplicationPolicy \<and> ctrlName c = ''replicationpolicy''"
  "setupWebhookPolicy mgr opts = Inr c \<Longrightarrow> ctrlFor c = KWebhookPolicy \<and> ctrlName c = ''webhookpolicy''"
  "setupImmutableTagRule mgr opts = Inr c \<Longrightarrow> ctrlFor c = KImmutableTagRule \<and> ctrlName c = ''immutabletagrule''"
  "setupLabel mgr opts = Inr c \<Longrightarrow> ctrlFor c = KLabel \<and> ctrlName c = ''label''"
  "setupUserGroupClaim mgr opts = Inr c \<Longrightarrow> ctrlFor c = KUserGroupClaim \<and> ctrlName c = ''usergroupclaim''"
  "setupScannerRegistration mgr opts = Inr c \<Longrightarrow> ctrlFor c = KScannerRegistration \<and> ctrlName c = ''scannerregistration''"
  "setupScanAllSchedule mgr opts = Inr c \<Longrightarrow> ctrlFor c = KScanAllSchedule \<and> ctrlName c = ''scanallschedule''"
  "setupQuota mgr opts = Inr c \<Longrightarrow> ctrlFor c = KQuota \<and> ctrlName c = ''quota''"
  "setupHarborConnection mgr = Inr c \<Longrightarrow> ctrlFor c = KHarborConnection \<and> ctrlName c = ''harborconnection''"
  "setupClusterHarborConnection mgr = Inr c \<Longrightarrow> ctrlFor c = KClusterHarborConnection \<and> ctrlName c = ''clusterharborconnection''"
  unfolding setupRegistry_def setupProject_def setupUser_def setupMember_def
    setupRobot_def setupConfiguration_def setupGCSchedule_def setupPurgeAuditSchedule_def
    setupRetentionPolicy_def setupReplicationPolicy_def setupWebhookPolicy_def setupImmutableTagRule_def
    setupLabel_def setupUserGroupClaim_def setupScannerRegistration_def setupScanAllSchedule_def
    setupQuota_def
    setupHarborConnection_def setupClusterHarborConnection_def
  by (erule completed_plain completed_backed | force simp: completeController_def split: option.splits)+

lemma registerAll_Inr: "registerAll rs = Inr ctrls \<Longrightarrow> list_all2 (\<lambda>r ctrl. r = Inr ctrl) rs ctrls"
  by (induction rs arbitrary: ctrls) (auto split: sum.splits)

text \<open>
  If the registration of the controllers succeeds, every kind that the operator serves has exactly
  one controller, in the order of \<^verbatim>\<open>cmd/main.go\<close>, and no two controllers share a
  name, which controller-runtime would refuse.
\<close>

lemma controllers_registered:
  assumes "registerControllers mgr opts = Inr ctrls"
  shows "map ctrlFor ctrls = registeredControllers \<and> distinct (map ctrlName ctrls)"
  using registerAll_Inr [OF assms [unfolded registerControllers_def]]
  by (auto simp: list_all2_Cons1 registeredControllers_def dest!: registered_as)

section \<open>Concrete inputs\<close>

definition exManager :: "member list \<Rightarrow> manager" where
  "exManager members =
     \<lparr>mgrIndexField = (\<lambda>k index. None), mgrComplete = (\<lambda>name. None),
      mgrRegistry = Inr [], mgrProject = Inr [], mgrUser = Inr [],
      mgrMember = Inr members, mgrRobot = Inr [], mgrConfiguration = Inr [],
      mgrGCSchedule = Inr [], mgrPurgeAuditSchedule = Inr [], mgrRetentionPolicy = Inr [],
      mgrReplicationPolicy = Inr [], mgrWebhookPolicy = Inr [], mgrImmutableTagRule = Inr [],
      mgrLabel = Inr [], mgrUserGroupClaim = Inr [], mgrScannerRegistration = Inr [],
      mgrScanAllSchedule = Inr [], mgrQuota = Inr []\<rparr>"

lemma exManager_completes [simp]:
  "mgrComplete (exManager members) name = None" "mgrIndexField (exManager members) k index = None"
  by (simp_all add: exManager_def)

lemma exManager_setups:
  "\<exists>ctrl. setupUserGroupClaim (exManager members) (exOptions :: unit operatorOptions) = Inr ctrl"
  "\<exists>ctrl. setupMember (exManager members) (exOptions :: unit operatorOptions) = Inr ctrl"
  by (simp_all add: setupUserGroupClaim_def setupMember_def completeController_def
      setupHarborBackedController_def Let_def)

text \<open>The claim waits for a member of another namespace, and a change of that member asks for the claim.\<close>

theorem waiting_claim_is_woken_witness:
  "\<exists>claims memberCtrl. setupUserGroupClaim (exManager [exGroupMember]) (exOptions :: unit operatorOptions) = Inr claims \<and>
     setupMember (exManager [exGroupMember]) (exOptions :: unit operatorOptions) = Inr memberCtrl \<and>
     (''team'', ''devs'') \<in> set (requestsFrom claims (WatchedMember exGroupMember)) \<and>
     requestsFrom memberCtrl (WatchedMeta KUserGroupClaim (objMeta exClaim)) = [(''web'', ''devs-in-web'')]"
proof -
  let ?M = "exManager [exGroupMember]" and ?S = "exCluster\<lparr>svcListMembers := \<lambda>e. (Inr [exGroupMember], e)\<rparr>"
  obtain claims memberCtrl where ctrls: "setupUserGroupClaim ?M (exOptions :: unit operatorOptions) = Inr claims"
      "setupMember ?M (exOptions :: unit operatorOptions) = Inr memberCtrl"
    using exManager_setups by blast
  note woken = waiting_claim_is_woken [OF ctrls, of "[exGroupMember]" ?S "startState exClaim ()" "()"]
  have "fst (run_state (hasActiveMembers ?S) (startState exClaim ())) = Inr True"
    by code_simp
  moreover have "objectKey exClaim = (''team'', ''devs'')" "objectKey exGroupMember = (''web'', ''devs-in-web'')"
    by (simp_all add: objectKey_def exClaim_def exGroupMember_def exMeta_def)
  ultimately show ?thesis
    using woken ctrls by (auto simp: exManager_def startState_def)
qed

lemma exManager_registers:
  "\<exists>ctrls. registerControllers (exManager []) (opts :: 'e operatorOptions) = Inr ctrls"
  by (simp add: registerControllers_def completeController_def setupHarborConnection_def
      setupClusterHarborConnection_def setupHarborBackedController_def Let_def
      setupRegistry_def setupProject_def setupUser_def setupMember_def
      setupRobot_def setupConfiguration_def setupGCSchedule_def setupPurgeAuditSchedule_def
      setupRetentionPolicy_def setupReplicationPolicy_def setupWebhookPolicy_def setupImmutableTagRule_def
      setupLabel_def setupUserGroupClaim_def setupScannerRegistration_def setupScanAllSchedule_def
      setupQuota_def)

end
