(* ===== verification/ScheduleFacts.thy ===== *)
theory ScheduleFacts
  imports Schedules
begin

text \<open>
  The schedules of garbage collection and of the purging of the audit log are compared with a hash in
  the status only: once applied, a reconcile sends no request to Harbor at all.
\<close>

section \<open>Applied schedules\<close>

lemma untouched_resolveHarborConnection [triple_intros]: "untouched (resolveHarborConnection S opts ns ref)"
  unfolding resolveHarborConnection_def Let_def by (intro triple_intros)

lemma untouched_singletonPeers: "untouched (singletonPeers S opts cn url items)"
  by (induction items) (auto intro!: triple_intros)

lemma untouched_ensureSingletonOwner: "untouched (ensureSingletonOwner S opts K k)"
  unfolding ensureSingletonOwner_def kubeList_def by (intro triple_intros untouched_singletonPeers)

text \<open>The hash in the status is that of the spec.\<close>

definition appliedGC :: "gcScheduleResource \<Rightarrow> bool" where
  "appliedGC obj \<longleftrightarrow>
     (case scheduleParameters (gcParameters (objSpec obj)) ''gc'' of
        Inl err \<Rightarrow> True
      | Inr (params, text) \<Rightarrow>
          lastAppliedScheduleHash (objStatus obj) = gcHash (gcSchedule (objSpec obj)) text)"

definition appliedPurge :: "purgeAuditSchedule \<Rightarrow> bool" where
  "appliedPurge obj \<longleftrightarrow>
     lastAppliedScheduleHash (objStatus obj) = purgeHash (paSchedule (objSpec obj)) (paParameters (objSpec obj))"

abbreviation silentEvent :: "event \<Rightarrow> bool" where
  "silentEvent ev \<equiv> \<not> isHttp ev"

lemma silent_local [simp]: "admitsLocal silentEvent"
  by (simp add: admitsLocal_def)

lemma guards_owner:
  "triple (objTrace P silentEvent) (ensureSingletonOwner S opts K k) (\<lambda>_. objTrace P silentEvent)"
  by (rule guards_plain [OF untouched_ensureSingletonOwner quietly_noHttp [OF quietly_ensureSingletonOwner]])

lemma hashes_nonempty [simp]: "gcHash sch text \<noteq> []" "purgeHash sch p \<noteq> []"
  by (simp_all add: gcHash_def purgeHash_def hashParts_def)

text \<open>A property of the object holds of the one just read.\<close>

lemma triple_known:
  "(P cr \<Longrightarrow> triple (\<lambda>s. objTrace P C s \<and> cr = stObj s) m Q) \<Longrightarrow>
     triple (\<lambda>s. objTrace P C s \<and> cr = stObj s) m Q"
  by (cases "P cr") (auto intro: triple_pre [OF triple_False])

lemma fail_silent:
  "triple (\<lambda>s. objTrace P silentEvent s \<and> cr = stObj s) (failWith S K err) (\<lambda>_ s. list_all silentEvent (stTrace s))"
  "triple (objTrace P silentEvent) (failWith S K err) (\<lambda>_ s. list_all silentEvent (stTrace s))"
  by (rule triple_pre [OF triple_events [OF quietly_noHttp [OF quietly_lifecycle(4)]]], simp)+

lemma ready_silent:
  "triple (\<lambda>s. list_all silentEvent (stTrace s)) (readyIfChanged S opts K b reason msg)
     (\<lambda>_ s. list_all silentEvent (stTrace s))"
  by (rule triple_events [OF quietly_noHttp [OF quietly_readyIfChanged]])

lemma applied_run:
  "lastAppliedScheduleHash (objStatus (stObj s)) = h \<Longrightarrow> h \<noteq> [] \<Longrightarrow>
     run_state (applyGCSchedule S opts Kg hc sched h) s =
       run_state (readyIfChanged S opts Kg False ''Reconciled'' ''GC schedule reconciled'') s"
  "lastAppliedScheduleHash (objStatus (stObj t)) = h \<Longrightarrow> h \<noteq> [] \<Longrightarrow>
     run_state (applyPurgeSchedule S opts Kp hc sched h) t =
       run_state (readyIfChanged S opts Kp False ''Reconciled'' ''Purge audit schedule reconciled'') t"
  by (simp_all add: applyGCSchedule_def applyPurgeSchedule_def run_simps)

lemma applied_silent:
  "lastAppliedScheduleHash (objStatus gc) = h \<Longrightarrow> h \<noteq> [] \<Longrightarrow>
     triple (\<lambda>s. objTrace P silentEvent s \<and> gc = stObj s) (applyGCSchedule S opts Kg hc sched h)
       (\<lambda>_ s. list_all silentEvent (stTrace s))"
  "lastAppliedScheduleHash (objStatus pa) = h \<Longrightarrow> h \<noteq> [] \<Longrightarrow>
     triple (\<lambda>s. objTrace R silentEvent s \<and> pa = stObj s) (applyPurgeSchedule S opts Kp hc sched h)
       (\<lambda>_ s. list_all silentEvent (stTrace s))"
  using ready_silent [of S opts Kg False "''Reconciled''" "''GC schedule reconciled''"]
    ready_silent [of S opts Kp False "''Reconciled''" "''Purge audit schedule reconciled''"]
  by (auto simp: triple_def applied_run)

lemma gcBody_silent:
  "triple (objTrace appliedGC silentEvent) (gcBody S opts K hc) (\<lambda>_ s. list_all silentEvent (stTrace s))"
  unfolding gcBody_def ensureOwner_defs Let_def
  by (intro triple_bind [OF guards_owner] triple_bind [OF triple_getObj] triple_option triple_sum triple_prod
      triple_if fail_silent; rule triple_known)
    (rule applied_silent; auto simp: appliedGC_def)

lemma purgeBody_silent:
  "triple (objTrace appliedPurge silentEvent) (purgeBody S opts K hc) (\<lambda>_ s. list_all silentEvent (stTrace s))"
  unfolding purgeBody_def ensureOwner_defs Let_def
  by (intro triple_bind [OF guards_owner] triple_bind [OF triple_getObj] triple_option
      triple_if fail_silent; rule triple_known)
    (rule applied_silent; auto simp: appliedPurge_def)

text \<open>Both are read off the spec and the status of the kind.\<close>

lemma lastApplied_more:
  "harborStatusBase.more sb' = harborStatusBase.more sb \<Longrightarrow>
     lastAppliedScheduleHash sb' = lastAppliedScheduleHash sb" for sb sb' :: scheduleStatus
  by (cases sb, cases sb') simp

lemma schedule_more:
  fixes spec spec' :: gcScheduleSpec and psp psp' :: purgeAuditScheduleSpec
  shows
  "harborClaimSpecBase.more spec' = harborClaimSpecBase.more spec \<Longrightarrow>
     gcSchedule spec' = gcSchedule spec \<and> gcParameters spec' = gcParameters spec" 
  "harborClaimSpecBase.more psp' = harborClaimSpecBase.more psp \<Longrightarrow>
     paSchedule psp' = paSchedule psp \<and> paParameters psp' = paParameters psp"
  by (cases spec, cases spec', simp) (cases psp, cases psp', simp)

lemma stays_applied:
  "faithful (gcKind gc) \<Longrightarrow> stays (gcKind gc) appliedGC"
  "faithful (purgeKind pa) \<Longrightarrow> stays (purgeKind pa) appliedPurge"
  by (erule stays_faithful; simp add: gcKind_def purgeKind_def appliedGC_def appliedPurge_def;
      metis schedule_more lastApplied_more)+

lemma applied_meta [simp]:
  "appliedGC (obj\<lparr>objMeta := m\<rparr>) = appliedGC obj" "appliedPurge (pobj\<lparr>objMeta := m\<rparr>) = appliedPurge pobj"
  by (simp_all add: appliedGC_def appliedPurge_def split: sum.split prod.split)

interpretation gc_silent: guarded_body S opts "gcKind c" False None "gcBody S opts (gcKind c)"
    appliedGC silentEvent for S opts c
  by unfold_locales (auto intro: gcBody_silent)

interpretation purge_silent: guarded_body S opts "purgeKind c" False None "purgeBody S opts (purgeKind c)"
    appliedPurge silentEvent for S opts c
  by unfold_locales (auto intro: purgeBody_silent)


text \<open>
  C34. Drift of these schedules is never seen. Once the hash in the status is that of the spec, a
  reconcile of the object sends no request to Harbor, whatever Harbor's schedule has become and
  whatever the drift detection interval says. The world may do anything between two calls; the API
  server shows the object in this state and stores what it is sent.
\<close>

theorem applied_schedules_silent:
  assumes "faithful (gcKind gc)" and "shown (gcKind gc) key e appliedGC"
    and "faithful (purgeKind pa)" and "shown (purgeKind pa) key' e appliedPurge"
  shows "list_all (\<lambda>ev. \<not> isHttp ev) (traceOf (reconcileGCSchedule S opts gc key) (startState gcObj e)) \<and>
     list_all (\<lambda>ev. \<not> isHttp ev) (traceOf (reconcilePurgeAuditSchedule S opts pa key') (startState paObj e))"
  unfolding traceOf_def reconcileGCSchedule_def reconcilePurgeAuditSchedule_def
  by (intro conjI gc_silent.reconcile_guarded [OF stays_applied(1) [OF assms(1)]]
      purge_silent.reconcile_guarded [OF stays_applied(2) [OF assms(3)]]) (simp_all add: assms(2,4))

section \<open>Concrete inputs\<close>

definition exGC :: gcScheduleResource where
  "exGC =
     (let sch = \<lparr>schType = ''Daily'', schCron = ''0 0 2 * * *''\<rparr>
      in \<lparr>objMeta = (exMeta ''team'' ''gc'')\<lparr>metaFinalizers := [finalizerName]\<rparr>,
          objSpec = \<lparr>harborConnectionRef = exRef, driftDetectionInterval = Some 60000000000, reconcileNonce = [],
            deletionPolicy = [], gcSchedule = sch, gcParameters = None\<rparr>,
          objStatus = harborStatusBase.extend exStatusBase \<lparr>lastAppliedScheduleHash = gcHash sch []\<rparr>\<rparr>)"

definition exPurge :: purgeAuditSchedule where
  "exPurge =
     (let sch = \<lparr>schType = ''Daily'', schCron = ''0 0 2 * * *''\<rparr>;
          p = \<lparr>papAuditRetentionHour = 24, papIncludeEventTypes = ''push'', papDryRun = False\<rparr>
      in \<lparr>objMeta = (exMeta ''team'' ''purge'')\<lparr>metaFinalizers := [finalizerName]\<rparr>,
          objSpec = \<lparr>harborConnectionRef = exRef, driftDetectionInterval = Some 60000000000, reconcileNonce = [],
            deletionPolicy = [], paSchedule = sch, paParameters = p\<rparr>,
          objStatus = harborStatusBase.extend exStatusBase \<lparr>lastAppliedScheduleHash = purgeHash sch p\<rparr>\<rparr>)"

lemma ex_applied: "appliedGC exGC" "appliedPurge exPurge"
  by (simp_all add: appliedGC_def appliedPurge_def exGC_def exPurge_def Let_def scheduleParameters_def
      harborStatusBase.defs)

text \<open>The two objects as the only ones of the API server.\<close>

theorem applied_schedules_silent_witness:
  "let gc = exStore [exGC]; pa = exStore [exPurge]
   in appliedGC exGC \<and> appliedPurge exPurge \<and>
      list_all (\<lambda>ev. \<not> isHttp ev)
        (traceOf (reconcileGCSchedule exCluster exOptions gc (''team'', ''gc'')) (startState exGC ())) \<and>
      list_all (\<lambda>ev. \<not> isHttp ev)
        (traceOf (reconcilePurgeAuditSchedule exCluster exOptions pa (''team'', ''purge'')) (startState exPurge ()))"
proof -
  let ?gc = "exStore [exGC] :: (unit, _) kclient" and ?pa = "exStore [exPurge] :: (unit, _) kclient"
  have clients: "kdClient (gcKind ?gc) = ?gc" "kdClient (purgeKind ?pa) = ?pa"
    by (simp_all add: gcKind_def purgeKind_def)
  note shown = shown_only [OF clients(1)] shown_only [OF clients(2)]
  from applied_schedules_silent [OF faithful_store [OF clients(1)] shown(1) faithful_store [OF clients(2)] shown(2)]
  show ?thesis by (simp add: Let_def ex_applied)
qed

end
