(* ===== verification/RemoteStates.thy ===== *)
theory RemoteStates
  imports Guards OwnedRemote ReferenceRules
begin

text \<open>
  What a reconcile does to Harbor's state. The state is a function of the arbitrary outside world;
  the calls of the API server and the clock leave it alone, because they are other systems. A
  reconcile that reports success and does not ask to be queued again has settled its object:
  \<open>frame_settles\<close> reduces what then holds of Harbor's state to the kind's own work.
\<close>

section \<open>Programs that leave the state alone\<close>

definition steady :: "('e \<Rightarrow> 'r) \<Rightarrow> ('o, 'e, 'a) go \<Rightarrow> bool" where
  "steady store m \<longleftrightarrow> (\<forall>s. store (stEnv (snd (run_state m s))) = store (stEnv s))"

named_theorems steady_intros \<open>programs that leave Harbor's state alone\<close>

lemma steady_basic [steady_intros]:
  "steady store (State_Monad.return x)" "steady store getObj" "steady store (modObj f)" "steady store (emit ev)"
  by (simp_all add: steady_def run_simps)

lemma steady_bind [steady_intros]:
  "steady store m \<Longrightarrow> (\<And>x. steady store (f x)) \<Longrightarrow> steady store (State_Monad.bind m f)"
  by (auto simp: steady_def State_Monad.bind_def split: prod.split) (metis snd_conv)

lemma steady_cases [steady_intros]:
  "(b \<Longrightarrow> steady store m) \<Longrightarrow> (\<not> b \<Longrightarrow> steady store n) \<Longrightarrow> steady store (if b then m else n)"
  "steady store m \<Longrightarrow> (\<And>y. steady store (g y)) \<Longrightarrow> steady store (case x of None \<Rightarrow> m | Some y \<Rightarrow> g y)"
  "(\<And>y. steady store (p y)) \<Longrightarrow> (\<And>z. steady store (q z)) \<Longrightarrow>
     steady store (case w of Inl y \<Rightarrow> p y | Inr z \<Rightarrow> q z)"
  "(\<And>a b. steady store (h a b)) \<Longrightarrow> steady store (case u of (a, b) \<Rightarrow> h a b)"
  "steady store (k v) \<Longrightarrow> steady store (Let v k)"
  by (auto split: option.split sum.split prod.split)

lemma steady_triple: "steady store m \<Longrightarrow> triple (\<lambda>s. R (store (stEnv s))) m (\<lambda>_ s. R (store (stEnv s)))"
  by (simp add: triple_def steady_def)

text \<open>A call of another system.\<close>

definition leaves :: "('e \<Rightarrow> 'r) \<Rightarrow> ('e \<Rightarrow> 'a \<times> 'e) \<Rightarrow> bool" where
  "leaves store f \<longleftrightarrow> (\<forall>e. store (snd (f e)) = store e)"

definition apart :: "('e \<Rightarrow> 'r) \<Rightarrow> 'e services \<Rightarrow> 'e operatorOptions \<Rightarrow> ('e, 's, 't) kind \<Rightarrow> bool" where
  "apart store S opts K \<longleftrightarrow>
     leaves store (svcNow S) \<and>
     (\<forall>key. leaves store (svcGetConnection S key)) \<and> (\<forall>key. leaves store (svcGetClusterConnection S key)) \<and>
     (\<forall>key. leaves store (svcGetProject S key)) \<and> (\<forall>key. leaves store (svcGetSecret S key)) \<and>
     (\<forall>reader key. secretReader opts = Some reader \<longrightarrow> leaves store (reader key)) \<and>
     (\<forall>key. leaves store (kcGet (kdClient K) key)) \<and>
     (\<forall>obj. leaves store (kcUpdate (kdClient K) obj)) \<and> (\<forall>obj. leaves store (kcStatusUpdate (kdClient K) obj))"

lemma steady_envCall: "leaves store f \<Longrightarrow> steady store (envCall f)"
  by (auto simp: steady_def leaves_def run_simps split: prod.split) (metis snd_conv)

lemma steady_kubeGet: "leaves store (f key) \<Longrightarrow> steady store (kubeGet k f key)"
  unfolding kubeGet_def by (intro steady_intros steady_envCall)

lemma apartD:
  assumes "apart store S opts K"
  shows "leaves store (svcNow S)" "leaves store (svcGetConnection S key)" "leaves store (svcGetClusterConnection S key)"
    "leaves store (svcGetProject S key)" "leaves store (svcGetSecret S key)"
    "secretReader opts = Some reader \<Longrightarrow> leaves store (reader key)"
    "leaves store (kcGet (kdClient K) key)" "leaves store (kcUpdate (kdClient K) obj)"
    "leaves store (kcStatusUpdate (kdClient K) obj)"
  using assms unfolding apart_def by blast+

lemma steady_kube:
  assumes "apart store S opts K"
  shows "steady store (kubeLoad K key)" "steady store (kubeUpdate K)" "steady store (kubeStatusUpdate K)"
  unfolding kubeLoad_def kubeUpdate_def kubeStatusUpdate_def
  by (intro steady_intros steady_envCall apartD [OF assms])+

lemma steady_marks:
  assumes "apart store S opts K"
  shows "steady store (markStatus S f)" "steady store (setReadyStatus S K g r m)"
    "steady store (setReconcilingStatus S K g r m)" "steady store (setErrorStatus S K g err)"
  unfolding setReadyStatus_def setReconcilingStatus_def setErrorStatus_def markStatus_def threeNows_def
    metav1Now_def sanitizeOptionalHarborConnectionRef_def
  by (intro steady_intros steady_envCall apartD [OF assms] steady_kube [OF assms])+

lemma leaves_reader:
  assumes "apart store S opts K"
  shows "leaves store ((case secretReader opts of Some uncached \<Rightarrow> uncached | None \<Rightarrow> svcGetSecret S) key)"
  by (cases "secretReader opts") (simp_all add: apartD [OF assms])

lemma steady_reads:
  assumes "apart store S opts K"
  shows "steady store (readSecretValue S opts ref ns key)" "steady store (resolveHarborConnection S opts ns cref)"
    "steady store (resolveProject S opts ns pref)"
  unfolding readSecretValue_def resolveHarborConnection_def resolveProject_def Let_def
  by (intro steady_intros steady_kubeGet leaves_reader [OF assms] apartD(1-5) [OF assms])+

lemma steady_client:
  assumes "apart store S opts K"
  shows "steady store (buildHarborClient S opts conn b)" "steady store (bindConnection K binding)"
    "steady store (getHarborClientForObject S opts K ns cref)"
  unfolding getHarborClientForObject_def buildHarborClient_def getHarborAuth_def resolveConnectionCABundle_def
    bindConnection_def
  by (intro steady_intros steady_kube [OF assms] steady_reads [OF assms])+

lemma steady_lifecycle:
  assumes "apart store S opts K"
  shows "steady store (loadResource K key)" "steady store crGeneration" "steady store (markReconcilingIfNeeded S K g)"
    "steady store (ensureFinalizer S K)" "steady store (failWith S K err)"
    "steady store (readyWithDrift S opts K reason msg)" "steady store (requeueOnRemoteNotFound S K g reset msg)"
    "steady store (finish e)"
  unfolding loadResource_def crGeneration_def markReconcilingIfNeeded_def ensureFinalizer_def failWith_def
    readyWithDrift_def requeueOnRemoteNotFound_def finish_def sanitizeOptionalHarborConnectionRef_def crGeneration_def
  by (intro steady_intros steady_kube [OF assms] steady_marks [OF assms])+

section \<open>Reconciles that report success\<close>

definition settled :: "outcome \<Rightarrow> bool" where
  "settled r \<longleftrightarrow> snd r = None \<and> \<not> requeue (fst r)"

lemma failWith_unsettled: "triple P (failWith S K err) (\<lambda>r s. \<not> settled r)"
  unfolding failWith_def setErrorStatus_def finish_def settled_def
  by (auto simp: triple_def run_simps State_Monad.bind_def split: prod.split)

lemma requeue_unsettled: "triple P (requeueOnRemoteNotFound S K g reset msg) (\<lambda>r s. \<not> settled r)"
  unfolding requeueOnRemoteNotFound_def finish_def settled_def
  by (auto simp: triple_def run_simps State_Monad.bind_def split: prod.split)


lemma finish_unsettled: "e \<noteq> None \<Longrightarrow> triple P (finish e) (\<lambda>r s. \<not> settled r)"
  by (simp add: triple_def finish_def settled_def run_simps)

lemma unsettled: "triple P m (\<lambda>r s. \<not> settled r) \<Longrightarrow> triple P m (\<lambda>r s. settled r \<longrightarrow> Q s)"
  by (auto simp: triple_def)

lemma triple_True: "triple P m (\<lambda>_ _. True)"
  by (simp add: triple_def)

lemma untouched_steady:
  "untouched m \<Longrightarrow> steady store m \<Longrightarrow>
     triple (\<lambda>s. P (stObj s) \<and> store (stEnv s) = old) m (\<lambda>_ s. P (stObj s) \<and> store (stEnv s) = old)"
  by (simp add: triple_def steady_def untouched_def)

lemma settled_steady:
  "steady store m \<Longrightarrow> (\<And>s. P s \<Longrightarrow> R (store (stEnv s))) \<Longrightarrow>
     triple P m (\<lambda>r s. settled r \<longrightarrow> R (store (stEnv s)))"
  by (simp add: triple_def steady_def)

text \<open>
  An API server that holds an object with the property \<open>P\<close> under the key, and answers a write
  with an object that has the property if what it was sent has it. A read or a write may also fail, but
  not with the message that there is no such object.
\<close>

definition serves :: "('e, ('s, 't) resource) kclient \<Rightarrow> nsName \<Rightarrow> (('s, 't) resource \<Rightarrow> bool) \<Rightarrow> bool" where
  "serves c key P \<longleftrightarrow>
     (\<forall>e err e'. kcGet c key e = (Inl err, e') \<longrightarrow> \<not> kubeIsNotFound err) \<and>
     (\<forall>e obj e'. kcGet c key e = (Inr obj, e') \<longrightarrow> P obj) \<and>
     (\<forall>sent e obj e'. P sent \<and> kcUpdate c sent e = (Inr obj, e') \<longrightarrow> P obj) \<and>
     (\<forall>sent e obj e'. P sent \<and> kcStatusUpdate c sent e = (Inr obj, e') \<longrightarrow> P obj)"

lemma servesD:
  assumes "serves c key P"
  shows "kcGet c key e = (Inl err, e') \<Longrightarrow> \<not> kubeIsNotFound err"
    and "kcGet c key e = (Inr obj, e') \<Longrightarrow> P obj"
    and "P sent \<Longrightarrow> kcUpdate c sent e = (Inr obj, e') \<Longrightarrow> P obj"
    and "P sent \<Longrightarrow> kcStatusUpdate c sent e = (Inr obj, e') \<Longrightarrow> P obj"
  using assms unfolding serves_def by blast+

text \<open>A property that the local changes of the frame leave alone.\<close>

definition stable :: "('e, 's, 't harborStatusBase_scheme) kind \<Rightarrow>
    (('s, 't harborStatusBase_scheme) resource \<Rightarrow> bool) \<Rightarrow> bool" where
  "stable K P \<longleftrightarrow>
     (\<forall>obj. P obj \<longrightarrow> P (obj\<lparr>objSpec := kdSanitize K (objSpec obj)\<rparr>)) \<and>
     (\<forall>obj fs. P obj \<longrightarrow> P (obj\<lparr>objMeta := (objMeta obj)\<lparr>metaFinalizers := fs\<rparr>\<rparr>)) \<and>
     (\<forall>obj sb'. P obj \<longrightarrow> harborStatusBase.more sb' = harborStatusBase.more (objStatus obj) \<longrightarrow>
        P (obj\<lparr>objStatus := sb'\<rparr>))"

definition servingInv :: "('e, 's, 't harborStatusBase_scheme) kind \<Rightarrow> nsName \<Rightarrow>
    (('s, 't harborStatusBase_scheme) resource \<Rightarrow> bool) \<Rightarrow>
    ('s, 't harborStatusBase_scheme) resource \<Rightarrow> event list \<Rightarrow> bool" where
  "servingInv K key P obj tr \<longleftrightarrow> (serves (kdClient K) key P \<longrightarrow> stable K P \<longrightarrow> P obj)"

interpretation serving: rebinding_invariant K "servingInv K key P" for K key P
  by unfold_locales (auto simp: servingInv_def stable_def dest: servesD(4))

lemma serving_keeps:
  "serves (kdClient K) key P \<Longrightarrow> stable K P \<Longrightarrow> keeps (servingInv K key P) m \<Longrightarrow> keeps (\<lambda>obj tr. P obj) m"
  by (simp add: keeps_def servingInv_def)

lemma ensureFinalizer_keeps:
  assumes sv: "serves (kdClient K) key P" and sb: "stable K P" and am: "lawfulFinalizers (svcMachinery S)"
  shows "keeps (\<lambda>obj tr. P obj) (ensureFinalizer S K)"
proof -
  have "P (obj\<lparr>objMeta := amAddFinalizer (svcMachinery S) (objMeta obj) f\<rparr>)" if "P obj" for obj f
  proof -
    obtain fs where "amAddFinalizer (svcMachinery S) (objMeta obj) f = (objMeta obj)\<lparr>metaFinalizers := fs\<rparr>"
      using am unfolding lawfulFinalizers_def by meson
    with that sb show ?thesis by (simp add: stable_def)
  qed
  then show ?thesis
    unfolding ensureFinalizer_def
    by (intro triple_intros serving_keeps [OF sv sb serving.keeps_sanitize] keeps_modObj keeps_kubeUpdate)
      (auto dest: servesD(3) [OF sv])
qed

text \<open>
  The frame around the kind's own work, for an object with a property \<open>P\<close> that the API
  server respects and a class \<open>C\<close> of events with all but some requests to Harbor: the work
  starts with \<open>P\<close>, and until then, or if it is never reached, Harbor's state is the old one.
\<close>

abbreviation workingOn :: "('o \<Rightarrow> bool) \<Rightarrow> (event \<Rightarrow> bool) \<Rightarrow> ('e \<Rightarrow> 'r) \<Rightarrow> 'r \<Rightarrow> ('o, 'e) rstate \<Rightarrow> bool" where
  "workingOn P C store old s \<equiv> objTrace P C s \<and> store (stEnv s) = old"

lemma triple_workingOn:
  assumes "keeps (\<lambda>obj tr. P obj) m" and "steady store m" and "emits C m"
  shows "triple (workingOn P C store old) m (\<lambda>_. workingOn P C store old)"
  using triple_objTrace [OF assms(1,3)] assms(2) by (auto simp: triple_def steady_def)

lemma triple_ended:
  assumes "steady store m" and "emits C m" and "triple (\<lambda>_. True) m (\<lambda>r s. \<not> settled r)"
    and "\<And>r s. \<not> settled r \<Longrightarrow> list_all C (stTrace s) \<Longrightarrow> store (stEnv s) = old \<Longrightarrow> Q r s"
  shows "triple (\<lambda>s. list_all C (stTrace s) \<and> store (stEnv s) = old) m Q"
  using triple_events [OF assms(2)] assms(1,3,4) by (auto simp: triple_def steady_def)

lemma triple_load_serves:
  fixes K :: "('e, 's harborClaimSpecBase_scheme, 't harborStatusBase_scheme) kind"
  assumes apart: "apart store S opts K" and sv: "serves (kdClient K) key P" and C: "\<And>ev. \<not> isHttp ev \<Longrightarrow> C ev"
  shows "triple (\<lambda>s. list_all C (stTrace s) \<and> store (stEnv s) = old) (loadResource K key)
     (\<lambda>r s. list_all C (stTrace s) \<and> store (stEnv s) = old \<and> (snd r = None \<longrightarrow> fst r \<and> P (stObj s)))"
proof -
  have "emits C (loadResource K key)"
    by (rule emits_mono [OF quietly_lifecycle(1)]) (simp add: C quietEvent_imp(1))
  moreover have "triple (\<lambda>s. True) (loadResource K key) (\<lambda>r s. snd r = None \<longrightarrow> fst r \<and> P (stObj s))"
    using servesD(1,2) [OF sv]
    by (auto simp: triple_def loadResource_def kubeLoad_def run_simps split: prod.split sum.split)
  ultimately show ?thesis
    using triple_events [of C "loadResource K key"] steady_lifecycle(1) [OF apart, of key]
    by (auto simp: triple_def steady_def)
qed

lemma frame_serves:
  assumes apart: "apart store S opts K" and sv: "serves (kdClient K) key P" and sb: "stable K P"
    and am: "lawfulFinalizers (svcMachinery S)"
    and live: "\<And>obj. P obj \<Longrightarrow> metaDeletionTimestamp (objMeta obj) = None"
    and C: "\<And>ev. \<not> isHttp ev \<Longrightarrow> C ev"
    and body: "\<And>hc. triple (workingOn P C store old) (body hc) Q"
    and out: "\<And>r s. \<not> settled r \<Longrightarrow> list_all C (stTrace s) \<Longrightarrow> store (stEnv s) = old \<Longrightarrow> Q r s"
  shows "triple (\<lambda>s. list_all C (stTrace s) \<and> store (stEnv s) = old) (harborBacked S opts K cleanup del body key) Q"
proof -
  let ?I = "workingOn P C store old"
  note step = triple_workingOn [OF serving_keeps [OF sv sb]]
  have quiet: "quietEvent ev \<Longrightarrow> C ev" for ev
    using C quietEvent_imp(1) by blast
  have ends: "triple (\<lambda>s. list_all C (stTrace s) \<and> store (stEnv s) = old) (finish e) Q" if "e \<noteq> None" for e
    by (rule triple_ended [OF steady_lifecycle(8) [OF apart] emits_finish finish_unsettled [OF that] out])
  have fails: "triple (\<lambda>s. list_all C (stTrace s) \<and> store (stEnv s) = old) (failWith S K e) Q" for e
    by (rule triple_ended [OF steady_lifecycle(5) [OF apart] emits_mono [OF quietly_lifecycle(4) quiet] failWith_unsettled out])
  have ensure: "triple ?I (ensureFinalizer S K) (\<lambda>_. ?I)"
    by (rule triple_workingOn [OF ensureFinalizer_keeps [OF sv sb am] steady_lifecycle(4) [OF apart]
          emits_mono [OF noHttp_finalizer(1) C]])
  have alive: "triple ?I (finalizeIfDeleting S K policy d) (\<lambda>r s. r = (False, None) \<and> ?I s)" for policy d
    using live by (auto simp: triple_def finalizeIfDeleting_def run_simps)
  have rest: "triple ?I (withFinalizer S K d (body hc)) Q" for d hc
    unfolding withFinalizer_def
    apply (rule triple_bind [OF triple_pre [OF triple_getObj, of _ ?I]], assumption)
    apply (rule triple_bind [OF triple_pre [OF alive]], simp)
    apply (rule triple_prod, rule triple_if)
     apply (rule triple_pre [OF triple_False], simp)
    apply (rule triple_bind [OF triple_pre [OF ensure]], simp)
    apply (rule triple_if)
     apply (rule triple_pre [OF ends], assumption, simp)
    apply (rule body)
    done
  have lost: "triple ?I (do { cr \<leftarrow> getObj;
       (done, finalErr) \<leftarrow> finalizeWithoutHarborConnection S K (GetDeletionPolicy (objSpec cr)) cleanup e;
       if done then finish finalErr else failWith S K e }) Q" for e
    using live fails [of e]
    by (auto simp: triple_def finalizeWithoutHarborConnection_def run_simps)
  have mark: "triple ?I (markAndResolve S opts K cleanup (\<lambda>hc. withFinalizer S K (map_option (\<lambda>d. d hc) del) (body hc))) Q"
    unfolding markAndResolve_def
    apply (rule triple_bind [OF step [OF serving.keeps_crGeneration steady_lifecycle(2) [OF apart] emits_crGeneration]])
    apply (rule triple_bind [OF step [OF serving.keeps_markReconcilingIfNeeded steady_lifecycle(3) [OF apart]
            emits_mono [OF quietly_lifecycle(2) quiet]]], assumption)
    apply (rule triple_if)
     apply (rule triple_pre [OF ends], assumption, simp)
    apply (rule triple_bind [OF step [OF keeps_getObj steady_basic(2) emits_getObj]])
    apply (rule triple_bind [OF step [OF serving.keeps_getHarborClientForObject steady_client(3) [OF apart]
            emits_mono [OF quietly_getHarborClientForObject quiet]]], assumption)
    apply (rule triple_sum)
     apply (rule lost)
    apply (rule rest)
    done
  show ?thesis
    unfolding harborBacked_def withHarborClient_def
    apply (rule triple_bind [OF triple_load_serves [OF apart sv C]], assumption, rule triple_prod, rule triple_if)
     apply (rule triple_pre [OF ends], assumption, simp)
    apply (rule triple_if)
     apply (rule triple_pre [OF triple_False], simp)
    apply (rule triple_pre [OF mark], simp)
    done
qed

lemma frame_settles:
  assumes apart: "apart store S opts K" and sv: "serves (kdClient K) key P" and sb: "stable K P"
    and am: "lawfulFinalizers (svcMachinery S)"
    and live: "\<And>obj. P obj \<Longrightarrow> metaDeletionTimestamp (objMeta obj) = None"
    and body: "\<And>hc. triple (\<lambda>s. P (stObj s) \<and> store (stEnv s) = old) (body hc)
        (\<lambda>r s. settled r \<longrightarrow> G (store (stEnv s)))"
  shows "triple (\<lambda>s. store (stEnv s) = old) (harborBacked S opts K cleanup del body key)
     (\<lambda>r s. settled r \<longrightarrow> G (store (stEnv s)))"
  by (rule triple_pre [OF frame_serves [OF apart sv sb am live, where C = "\<lambda>_. True"]])
    (auto intro: triple_pre [OF body] simp: list_all_iff)

section \<open>What a call says of the server's answer\<close>

definition documentOf :: "'a decoder option \<Rightarrow> httpResponse \<Rightarrow> 'a option" where
  "documentOf out resp =
     (case out of
        None \<Rightarrow> None
      | Some dec \<Rightarrow>
          if respContentLength resp = 0 then None
          else case decoderRead (respBody resp) of JsonValue j \<Rightarrow> dec j | _ \<Rightarrow> None)"

lemma clientDo_answer:
  assumes "svcHTTP S (hcHTTPClient c) (requestFor c meth relURL body) (stEnv s) = (q, e')"
    and "run_state (clientDo S c meth relURL body out) s = (r, s')"
  shows "stEnv s' = e' \<and> (\<forall>resp v. r = Inr (resp, v) \<longrightarrow> q = Inr resp \<and> is2xx resp \<and> v = documentOf out resp)"
proof (cases q)
  case (Inl f)
  then show ?thesis
    using assms(2) run_httpDo_Inl [of S "hcHTTPClient c" "requestFor c meth relURL body" s f e'] assms(1)
    by (cases f) (auto simp: clientDo_def requestFor_def Let_def run_simps observeHarborRequest_def)
next
  case (Inr resp)
  then show ?thesis
    using assms(2) run_httpDo_Inr [of S "hcHTTPClient c" "requestFor c meth relURL body" s resp e'] assms(1)
    by (auto simp: clientDo_def run_simps Let_def requestFor_def observeHarborRequest_def documentOf_def
        is2xx_def closeBody_def split: option.splits jsonRead.splits if_splits)
qed

text \<open>What the server's state may become, and what is known of an answer that counts as a success.\<close>

lemma triple_clientDo:
  assumes "\<And>q e e'. store e = old \<Longrightarrow> svcHTTP S (hcHTTPClient c) (requestFor c meth relURL body) e = (q, e') \<Longrightarrow>
      R (store e') \<and> (\<forall>resp. q = Inr resp \<longrightarrow> is2xx resp \<longrightarrow> Q resp (store e'))"
  shows "triple (\<lambda>s. store (stEnv s) = old) (clientDo S c meth relURL body out)
     (\<lambda>r s. R (store (stEnv s)) \<and>
        (\<forall>resp v. r = Inr (resp, v) \<longrightarrow> is2xx resp \<and> v = documentOf out resp \<and> Q resp (store (stEnv s))))"
proof -
  have "R (store (stEnv s')) \<and>
      (\<forall>resp v. r = Inr (resp, v) \<longrightarrow> is2xx resp \<and> v = documentOf out resp \<and> Q resp (store (stEnv s')))"
    if "store (stEnv s) = old" "run_state (clientDo S c meth relURL body out) s = (r, s')" for s s' r
  proof -
    obtain q e' where h: "svcHTTP S (hcHTTPClient c) (requestFor c meth relURL body) (stEnv s) = (q, e')"
      by (cases "svcHTTP S (hcHTTPClient c) (requestFor c meth relURL body) (stEnv s)")
    show ?thesis
      using clientDo_answer [OF h that(2)] assms [OF that(1) h] by auto
  qed
  from this [OF _ surjective_pairing] show ?thesis
    unfolding triple_def by blast
qed

text \<open>Requests that leave the server's state alone, and the whole of a list.\<close>

lemma steady_clientDo:
  assumes "\<And>q e e'. svcHTTP S (hcHTTPClient c) (requestFor c meth relURL body) e = (q, e') \<Longrightarrow> store e' = store e"
  shows "steady store (clientDo S c meth relURL body out)"
proof -
  have "store (stEnv s') = store (stEnv s)"
    if "run_state (clientDo S c meth relURL body out) s = (r, s')" for s s' r
  proof -
    obtain q e' where h: "svcHTTP S (hcHTTPClient c) (requestFor c meth relURL body) (stEnv s) = (q, e')"
      by (cases "svcHTTP S (hcHTTPClient c) (requestFor c meth relURL body) (stEnv s)")
    show ?thesis using clientDo_answer [OF h that] assms [OF h] by simp
  qed
  then show ?thesis
    unfolding steady_def by (metis prod.collapse)
qed

lemma steady_getPaged:
  assumes "\<And>hc req q e e'. reqMethod req = ''GET'' \<Longrightarrow> svcHTTP S hc req e = (q, e') \<Longrightarrow> store e' = store e"
  shows "steady store (getPaged S c dec path vals)"
proof -
  have "steady store (getPagedLoop fuel S c dec path vs page items)" for fuel vs page items
  proof (induction fuel arbitrary: page items)
    case 0
    then show ?case by (simp add: steady_basic)
  next
    case (Suc fuel)
    show ?case
      unfolding getPagedLoop.simps(2) Let_def
      by (intro steady_intros steady_clientDo Suc.IH) (rule assms, simp_all add: requestFor_def)
  qed
  then show ?thesis by (simp add: getPaged_def)
qed

end
