(* ===== verification/LabelFacts.thy ===== *)
theory LabelFacts
  imports RemoteStates Labels ExampleCluster
begin

text \<open>
  A reconcile of a label that reports success has made Harbor's labels what the object asks for. Harbor
  is described by what its documentation promises of three requests; the labels it holds are a partial
  map of the outside world.
\<close>

section \<open>Harbor's labels\<close>

text \<open>A request that carries a label, and a response with one.\<close>

definition readLabel :: "string \<Rightarrow> hLabel option" where
  "readLabel text = (case decoderRead text of JsonValue v \<Rightarrow> decLabel v | _ \<Rightarrow> None)"

definition carries :: "httpRequest \<Rightarrow> hLabel \<Rightarrow> bool" where
  "carries req d \<longleftrightarrow> Option.bind (reqBody req) readLabel = Some d"

definition samePlace :: "hLabel \<Rightarrow> hLabel \<Rightarrow> bool" where
  "samePlace a b \<longleftrightarrow> hlScope a = hlScope b \<and> hlProjectID a = hlProjectID b"

text \<open>
  A GET changes nothing, and of a label answers with what is stored. An accepted PUT stores the label
  of the body under the id of the URL, if it leaves scope and project alone; an accepted POST stores it
  under a new id and answers with its location.
\<close>

definition harborLabels :: "('e \<Rightarrow> int \<Rightarrow> hLabel option) \<Rightarrow> 'e services \<Rightarrow> bool" where
  "harborLabels store S \<longleftrightarrow>
     (\<forall>hc req e q e'. svcHTTP S hc req e = (q, e') \<longrightarrow>
        (reqMethod req = ''GET'' \<longrightarrow> store e' = store e) \<and>
        (\<forall>base n resp. reqMethod req = ''GET'' \<and> reqURL req = base @ labelURL n \<and> q = Inr resp \<and> is2xx resp \<longrightarrow>
           (\<exists>l. store e n = Some l \<and> documentOf (Some decLabel) resp = Some l)) \<and>
        (\<forall>base n d resp l0. reqMethod req = ''PUT'' \<and> reqURL req = base @ labelURL n \<and> carries req d \<and>
             q = Inr resp \<and> is2xx resp \<and> store e n = Some l0 \<and> samePlace l0 d \<longrightarrow>
           (\<exists>l. normalizeLabel l = normalizeLabel d \<and> store e' = (store e)(n \<mapsto> l))) \<and>
        (\<forall>base m d resp. reqMethod req = ''POST'' \<and> reqURL req = base @ labelsURL \<and> carries req d \<and>
             q = Inr resp \<and> is2xx resp \<and> extractLocationID resp = Inr m \<longrightarrow>
           store e m = None \<and> (\<exists>l. normalizeLabel l = normalizeLabel d \<and> store e' = (store e)(m \<mapsto> l))))"

lemma harborLabelsD:
  assumes "harborLabels store S" and "svcHTTP S hc req e = (q, e')"
  shows "reqMethod req = ''GET'' \<Longrightarrow> store e' = store e"
    and "reqMethod req = ''GET'' \<Longrightarrow> reqURL req = base @ labelURL n \<Longrightarrow> q = Inr resp \<Longrightarrow> is2xx resp \<Longrightarrow>
      \<exists>l. store e n = Some l \<and> documentOf (Some decLabel) resp = Some l"
    and "reqMethod req = ''PUT'' \<Longrightarrow> reqURL req = base @ labelURL n \<Longrightarrow> carries req d \<Longrightarrow> q = Inr resp \<Longrightarrow>
      is2xx resp \<Longrightarrow> store e n = Some l0 \<Longrightarrow> samePlace l0 d \<Longrightarrow>
      \<exists>l. normalizeLabel l = normalizeLabel d \<and> store e' = (store e)(n \<mapsto> l)"
    and "reqMethod req = ''POST'' \<Longrightarrow> reqURL req = base @ labelsURL \<Longrightarrow> carries req d \<Longrightarrow> q = Inr resp \<Longrightarrow>
      is2xx resp \<Longrightarrow> extractLocationID resp = Inr m \<Longrightarrow>
      store e m = None \<and> (\<exists>l. normalizeLabel l = normalizeLabel d \<and> store e' = (store e)(m \<mapsto> l))"
  using assms unfolding harborLabels_def by blast+

section \<open>What the client's calls do\<close>

text \<open>The body that the operator sends is read back as the label it sends.\<close>

lemma labelWF: "jsonWF (JObj (labelFields l))"
  by (auto simp: labelFields_def)

lemma decLabel_fields:
  assumes "minInt64 \<le> hlID l" "hlID l \<le> maxInt64" "minInt64 \<le> hlProjectID l" "hlProjectID l \<le> maxInt64"
  shows "decLabel (JObj (labelFields l)) = Some l"
  using assms by (simp add: decLabel_def labelFields_def jfield_simps)

lemma readLabel_print: "readLabel (jsonPrint (JObj (labelFields l))) = decLabel (JObj (labelFields l))"
  by (simp add: readLabel_def decoderRead_print [OF labelWF] del: jsonPrint.simps)

lemma carries_label:
  assumes "hlID d = 0" "hlProjectID d = 0"
  shows "carries (requestFor c meth relURL (Some (JObj (labelFields d)))) d"
  using decLabel_fields [of d] assms
  by (simp add: carries_def requestFor_def readLabel_print minInt64_def maxInt64_def del: jsonPrint.simps)

lemma triple_GetLabel:
  assumes "harborLabels store S"
  shows "triple (\<lambda>s. store (stEnv s) = old) (GetLabel S c n)
     (\<lambda>r s. store (stEnv s) = old \<and> (\<forall>l. r = Inr l \<longrightarrow> old n = Some l))"
  unfolding GetLabel_def clientGet_def
proof (rule triple_bind)
  let ?Q = "\<lambda>resp st. \<exists>l. old n = Some l \<and> documentOf (Some decLabel) resp = Some l"
  show "triple (\<lambda>s. store (stEnv s) = old) (clientDo S c ''GET'' (labelURL n) None (Some decLabel))
     (\<lambda>r s. store (stEnv s) = old \<and>
        (\<forall>resp v. r = Inr (resp, v) \<longrightarrow> is2xx resp \<and> v = documentOf (Some decLabel) resp \<and> ?Q resp (store (stEnv s))))"
  proof (rule triple_clientDo)
    fix q e e'
    assume "store e = old" and h: "svcHTTP S (hcHTTPClient c) (requestFor c ''GET'' (labelURL n) None) e = (q, e')"
    then show "store e' = old \<and> (\<forall>resp. q = Inr resp \<longrightarrow> is2xx resp \<longrightarrow> ?Q resp (store e'))"
      using harborLabelsD(1,2) [OF assms h] by (simp add: requestFor_def)
  qed
qed (auto intro!: triple_return split: sum.split)

lemma triple_UpdateLabel:
  assumes "harborLabels store S" and "old n = Some l0" "samePlace l0 d" "hlID d = 0" "hlProjectID d = 0"
  shows "triple (\<lambda>s. store (stEnv s) = old) (UpdateLabel S c n d)
     (\<lambda>r s. r = None \<longrightarrow> (\<exists>l. normalizeLabel l = normalizeLabel d \<and> store (stEnv s) = old(n \<mapsto> l)))"
  unfolding UpdateLabel_def clientPut_def
proof (rule triple_bind)
  let ?Q = "\<lambda>resp st. \<exists>l. normalizeLabel l = normalizeLabel d \<and> st = old(n \<mapsto> l)"
  show "triple (\<lambda>s. store (stEnv s) = old) (clientDo S c ''PUT'' (labelURL n) (Some (JObj (labelFields d))) noOut)
     (\<lambda>r s. True \<and>
        (\<forall>resp v. r = Inr (resp, v) \<longrightarrow> is2xx resp \<and> v = documentOf noOut resp \<and> ?Q resp (store (stEnv s))))"
  proof (rule triple_clientDo)
    fix q e e'
    assume "store e = old"
      and h: "svcHTTP S (hcHTTPClient c) (requestFor c ''PUT'' (labelURL n) (Some (JObj (labelFields d)))) e = (q, e')"
    then show "True \<and> (\<forall>resp. q = Inr resp \<longrightarrow> is2xx resp \<longrightarrow> ?Q resp (store e'))"
      using harborLabelsD(3) [OF assms(1) h _ _ carries_label [OF assms(4,5)]] assms(2,3)
      by (simp add: requestFor_def)
  qed
qed (auto intro!: triple_return simp: errOf_def split: sum.split)

lemma triple_CreateLabel:
  assumes "harborLabels store S" and "hlID d = 0" "hlProjectID d = 0"
  shows "triple (\<lambda>s. store (stEnv s) = old) (CreateLabel S c d)
     (\<lambda>r s. \<forall>m. r = Inr m \<longrightarrow>
        old m = None \<and> (\<exists>l. normalizeLabel l = normalizeLabel d \<and> store (stEnv s) = old(m \<mapsto> l)))"
  unfolding CreateLabel_def createWithNumericLocationID_def
proof (rule triple_bind)
  let ?Q = "\<lambda>resp st. \<forall>m. extractLocationID resp = Inr m \<longrightarrow>
      old m = None \<and> (\<exists>l. normalizeLabel l = normalizeLabel d \<and> st = old(m \<mapsto> l))"
  show "triple (\<lambda>s. store (stEnv s) = old) (clientDo S c ''POST'' labelsURL (Some (JObj (labelFields d))) noOut)
     (\<lambda>r s. True \<and>
        (\<forall>resp v. r = Inr (resp, v) \<longrightarrow> is2xx resp \<and> v = documentOf noOut resp \<and> ?Q resp (store (stEnv s))))"
  proof (rule triple_clientDo)
    fix q e e'
    assume "store e = old"
      and h: "svcHTTP S (hcHTTPClient c) (requestFor c ''POST'' labelsURL (Some (JObj (labelFields d)))) e = (q, e')"
    then show "True \<and> (\<forall>resp. q = Inr resp \<longrightarrow> is2xx resp \<longrightarrow> ?Q resp (store e'))"
      using harborLabelsD(4) [OF assms(1) h _ _ carries_label [OF assms(2,3)]]
      by (simp add: requestFor_def)
  qed
qed (auto intro!: triple_return split: sum.split)


lemma steady_ListLabels: "harborLabels store S \<Longrightarrow> steady store (ListLabels S c nm sc p)"
  unfolding ListLabels_def Let_def
  by (rule steady_getPaged) (rule harborLabelsD(1), assumption+)

section \<open>The reconcile\<close>

text \<open>The label that an object without a project asks for, and the objects that ask for it.\<close>

definition instanceLabel :: "label \<Rightarrow> hLabel" where
  "instanceLabel cr = desiredLabel cr (if labScope (objSpec cr) = [] then ''g'' else labScope (objSpec cr)) 0"

definition asksFor :: "hLabel \<Rightarrow> int \<Rightarrow> label \<Rightarrow> bool" where
  "asksFor d n cr \<longleftrightarrow>
     metaDeletionTimestamp (objMeta cr) = None \<and> labProjectRef (objSpec cr) = None \<and>
     instanceLabel cr = d \<and> harborLabelID (objStatus cr) = n"

text \<open>
  The abstract step: the label with the recorded id, or a new one if none is recorded, is as desired,
  and nothing else has changed.
\<close>

definition labelEnsured :: "hLabel \<Rightarrow> int \<Rightarrow> (int \<Rightarrow> hLabel option) \<Rightarrow> (int \<Rightarrow> hLabel option) \<Rightarrow> bool" where
  "labelEnsured d n old new \<longleftrightarrow>
     (\<exists>m l. new = old(m \<mapsto> l) \<and> normalizeLabel l = normalizeLabel d \<and>
        (if n = 0 then old m = None else m = n \<and> old n \<noteq> None))"

lemma triple_createLabelPath:
  assumes "apart store S opts K" and "harborLabels store S" and "hlID d = 0" "hlProjectID d = 0"
  shows "triple (\<lambda>s. store (stEnv s) = old) (createLabelPath S opts K hc d)
     (\<lambda>r s. settled r \<longrightarrow> labelEnsured d 0 old (store (stEnv s)))"
  unfolding createLabelPath_def
  apply (rule triple_bind [OF triple_pre [OF triple_getObj, of _ "\<lambda>s. store (stEnv s) = old"]], assumption)
  apply (rule triple_option)
   prefer 2 apply (rule unsettled [OF failWith_unsettled])
  apply (rule triple_bind [OF triple_pre [OF triple_CreateLabel [OF assms(2-4)]]], simp)
  apply (rule triple_sum)
   apply (rule unsettled [OF failWith_unsettled])
  apply (rule settled_steady [where store = store])
   apply (intro steady_intros steady_lifecycle [OF assms(1)])
  apply (auto simp: labelEnsured_def)
  done

lemma update_known:
  assumes "harborLabels store S" and "hlID d = 0" "hlProjectID d = 0"
    and place: "\<And>l. old n = Some l \<Longrightarrow> samePlace l d" and "n \<noteq> 0"
  shows "triple (\<lambda>s. store (stEnv s) = old \<and> old n = Some l \<and> n' = n)
      (if labelNeedsUpdate d (Some l) then UpdateLabel S hc n' d else State_Monad.return None)
      (\<lambda>r s. r = None \<longrightarrow> labelEnsured d n old (store (stEnv s)))"
proof (cases "labelNeedsUpdate d (Some l)")
  case True
  then show ?thesis
    using triple_UpdateLabel [OF assms(1), of old n l d hc] place [of l] assms(2,3,5)
    by (auto simp: triple_def labelEnsured_def)
next
  case False
  then show ?thesis
    using assms(5) by (auto simp: triple_def labelEnsured_def labelNeedsUpdate_def run_simps intro!: exI [of _ l])
qed

lemma get_known:
  assumes "harborLabels store S"
  shows "triple (\<lambda>s. (harborLabelID (objStatus (stObj s)) = n \<and> store (stEnv s) = old) \<and> cr = stObj s)
      (GetLabel S hc (harborLabelID (objStatus cr)))
      (\<lambda>r s. store (stEnv s) = old \<and> (\<forall>l. r = Inr l \<longrightarrow> old n = Some l \<and> harborLabelID (objStatus cr) = n))"
  using triple_GetLabel [OF assms, of old hc n] by (auto simp: triple_def)

lemma triple_updateLabelPath:
  assumes "apart store S opts K" and "harborLabels store S" and "hlID d = 0" "hlProjectID d = 0"
    and "\<And>l. old n = Some l \<Longrightarrow> samePlace l d" and "n \<noteq> 0"
  shows "triple (\<lambda>s. harborLabelID (objStatus (stObj s)) = n \<and> store (stEnv s) = old)
      (updateLabelPath S opts K hc d)
     (\<lambda>r s. settled r \<longrightarrow> labelEnsured d n old (store (stEnv s)))"
  unfolding updateLabelPath_def
  apply (rule triple_bind [OF triple_getObj])
  apply (rule triple_bind [OF get_known [OF assms(2)]], rule triple_sum)
   apply (rule triple_if)
    apply (rule unsettled, rule triple_bind [OF triple_True], rule requeue_unsettled)
   apply (rule unsettled [OF failWith_unsettled])
  apply (rule triple_bind [OF triple_pre [OF update_known [OF assms(2-6)]]], assumption, simp)
  apply (rule triple_option)
   apply (rule settled_steady [where store = store, OF steady_lifecycle(6) [OF assms(1)]], simp)
  apply (rule unsettled [OF failWith_unsettled])
  done

lemma triple_adopt:
  assumes "apart store S opts K" and "harborLabels store S"
  shows "triple (\<lambda>s. asksFor d n (stObj s) \<and> store (stEnv s) = old) (adoptExistingLabel S K hc d')
     (\<lambda>r s. store (stEnv s) = old \<and> (r = (False, None) \<longrightarrow> asksFor d n (stObj s)))"
proof -
  let ?P = "\<lambda>s. asksFor d n (stObj s) \<and> store (stEnv s) = old"
  have list: "triple ?P (ListLabels S hc nm sc p) (\<lambda>_. ?P)" for nm sc p
    by (rule untouched_steady [OF untouched_label_calls(1) steady_ListLabels [OF assms(2)]])
  have adopt: "triple ?P (do { _ \<leftarrow> modObj f; err \<leftarrow> kubeStatusUpdate K; State_Monad.return (True, err) })
      (\<lambda>r s. store (stEnv s) = old \<and> (r = (False, None) \<longrightarrow> asksFor d n (stObj s)))" for f
  proof -
    have "steady store (do { _ \<leftarrow> modObj f; err \<leftarrow> kubeStatusUpdate K; State_Monad.return (True, err) })"
      by (intro steady_intros steady_kube(3) [OF assms(1)])
    then show ?thesis
      by (auto simp: triple_def steady_def State_Monad.bind_def State_Monad.return_def split: prod.split)
  qed
  show ?thesis
    unfolding adoptExistingLabel_def
    by (rule triple_bind [OF list], intro triple_sum triple_option adopt) (auto intro: triple_return)
qed

text \<open>What the body does for such an object, once scope and project are known.\<close>

definition ensureLabel :: "'e services \<Rightarrow> 'e operatorOptions \<Rightarrow> ('e, labelSpec, labelStatus) kind \<Rightarrow>
    harborClient \<Rightarrow> hLabel \<Rightarrow> label \<Rightarrow> (label, 'e, outcome) go" where
  "ensureLabel S opts K hc d cr =
     do { (adopted, aerr) \<leftarrow>
            (if harborLabelID (objStatus cr) = 0 \<and> allowsAdoption opts (creationPolicy (objSpec cr))
             then adoptExistingLabel S K hc d
             else State_Monad.return (False, None));
          case aerr of
            Some err \<Rightarrow> failWith S K err
          | None \<Rightarrow>
              if adopted then State_Monad.return (emptyResult\<lparr>requeue := True\<rparr>, None)
              else if harborLabelID (objStatus cr) = 0
              then createLabelPath S opts K hc d
              else updateLabelPath S opts K hc d }"

lemma labelBody_instance:
  assumes "asksFor d n (stObj s)"
  shows "run_state (labelBody S opts K hc) s =
     run_state (if labScope (objSpec (stObj s)) = ''p''
                then failWith S K (ErrMsg ''project-scoped labels require projectRef'')
                else ensureLabel S opts K hc d (stObj s)) s"
  using assms
  by (auto simp: asksFor_def labelBody_def ensureLabel_def labelScopeOf_def instanceLabel_def Let_def
      State_Monad.bind_def State_Monad.return_def getObj_def)

lemma triple_ensureLabel:
  assumes "apart store S opts K" and "harborLabels store S" and "hlID d = 0" "hlProjectID d = 0"
    and "\<And>l. old n = Some l \<Longrightarrow> samePlace l d" and cr: "harborLabelID (objStatus cr) = n"
  shows "triple (\<lambda>s. asksFor d n (stObj s) \<and> store (stEnv s) = old) (ensureLabel S opts K hc d cr)
     (\<lambda>r s. settled r \<longrightarrow> labelEnsured d n old (store (stEnv s)))"
proof -
  let ?P = "\<lambda>s. asksFor d n (stObj s) \<and> store (stEnv s) = old"
  have first: "triple ?P
      (if harborLabelID (objStatus cr) = 0 \<and> allowsAdoption opts (creationPolicy (objSpec cr))
       then adoptExistingLabel S K hc d else State_Monad.return (False, None))
      (\<lambda>r s. store (stEnv s) = old \<and> (r = (False, None) \<longrightarrow> asksFor d n (stObj s)))"
    by (intro triple_if triple_adopt [OF assms(1,2)]) (auto intro: triple_return)
  have requeued: "triple P (State_Monad.return (emptyResult\<lparr>requeue := True\<rparr>, None))
      (\<lambda>r s. settled r \<longrightarrow> labelEnsured d n old (store (stEnv s)))" for P
    by (simp add: triple_def settled_def run_simps)
  have create: "n = 0 \<Longrightarrow> triple (\<lambda>s. store (stEnv s) = old) (createLabelPath S opts K hc d)
      (\<lambda>r s. settled r \<longrightarrow> labelEnsured d n old (store (stEnv s)))"
    using triple_createLabelPath [OF assms(1-4)] by simp
  have update: "n \<noteq> 0 \<Longrightarrow> triple (\<lambda>s. asksFor d n (stObj s) \<and> store (stEnv s) = old)
      (updateLabelPath S opts K hc d) (\<lambda>r s. settled r \<longrightarrow> labelEnsured d n old (store (stEnv s)))"
    by (rule triple_pre [OF triple_updateLabelPath [OF assms(1-5)]]) (auto simp: asksFor_def)
  show ?thesis
    unfolding ensureLabel_def cr
    apply (rule triple_bind [OF first [unfolded cr]], rule triple_prod, rule triple_option)
     apply (rule triple_if, rule requeued)
     apply (rule triple_if)
      apply (rule triple_pre [OF create], assumption, simp)
     apply (rule triple_pre [OF update], assumption, simp)
    apply (rule unsettled [OF failWith_unsettled])
    done
qed

lemma labelBody_ensures:
  assumes "apart store S opts K" and "harborLabels store S" and "\<And>l. old n = Some l \<Longrightarrow> samePlace l d"
  shows "triple (\<lambda>s. asksFor d n (stObj s) \<and> store (stEnv s) = old) (labelBody S opts K hc)
     (\<lambda>r s. settled r \<longrightarrow> labelEnsured d n old (store (stEnv s)))"
proof -
  have "settled (fst (run_state (labelBody S opts K hc) s)) \<longrightarrow>
      labelEnsured d n old (store (stEnv (snd (run_state (labelBody S opts K hc) s))))"
    if s: "asksFor d n (stObj s)" "store (stEnv s) = old" for s
  proof -
    have d: "hlID d = 0" "hlProjectID d = 0" and cr: "harborLabelID (objStatus (stObj s)) = n"
      using s(1) by (auto simp: asksFor_def instanceLabel_def desiredLabel_def)
    show ?thesis
      using triple_ensureLabel [OF assms(1,2) d assms(3) cr, of _ hc] s
        failWith_unsettled [of "\<lambda>_. True" S K "ErrMsg ''project-scoped labels require projectRef''"]
      by (auto simp: labelBody_instance [OF s(1)] triple_def)
  qed
  then show ?thesis by (simp add: triple_def)
qed

lemma sameFields:
  "normalizeLabel l = normalizeLabel d \<Longrightarrow>
     hlName l = hlName d \<and> hlDescription l = hlDescription d \<and> hlColor l = hlColor d \<and> samePlace l d"
  by (cases l; cases d) (simp add: normalizeLabel_def samePlace_def)

lemma label_sanitized [simp]:
  "labDescription (sanitizeRef spec) = labDescription spec" "labColor (sanitizeRef spec) = labColor spec"
  "labScope (sanitizeRef spec) = labScope spec" "labProjectRef (sanitizeRef spec) = labProjectRef spec"
  by (simp_all add: sanitizeRef_def split: option.split)

lemma instanceLabel_stable:
  "instanceLabel (obj\<lparr>objStatus := sb'\<rparr>) = instanceLabel obj"
  "instanceLabel (obj\<lparr>objMeta := (objMeta obj)\<lparr>metaFinalizers := fs\<rparr>\<rparr>) = instanceLabel obj"
  "instanceLabel (obj\<lparr>objSpec := sanitizeRef (objSpec obj)\<rparr>) = instanceLabel obj"
  by (simp_all add: instanceLabel_def desiredLabel_def)

lemma stable_asksFor: "stable (labelKind c) (asksFor d n)"
proof -
  have "asksFor d n (obj\<lparr>objStatus := sb'\<rparr>)"
    if "harborStatusBase.more sb' = harborStatusBase.more (objStatus obj)" "asksFor d n obj" for obj sb'
    using that by (cases sb'; cases "objStatus obj") (simp add: asksFor_def instanceLabel_stable)
  then show ?thesis
    by (simp add: stable_def labelKind_def asksFor_def instanceLabel_stable)
qed

text \<open>
  C5. Success means that Harbor has the label. The object asks for a label of the whole instance, is
  held by the API server and not being deleted, and a write of it is answered with an object that asks for
  the same; Harbor keeps its documented promises, and its label with
  the recorded id, if there is one, has the scope that the object asks for. When a reconcile reports
  success and does not ask to be queued again, the label with the recorded id (or, without one, a label
  under a new id) has the name, description, colour and scope that the object asks for, no other label
  has changed, and the comparison of the next reconcile asks for no update. The world may answer each call
  as it likes within these promises, failures included.
\<close>

theorem label_success_means_stored:
  assumes "apart store S opts (labelKind c)" and "harborLabels store S"
    and "serves c key (asksFor d n)" and "lawfulFinalizers (svcMachinery S)"
    and "\<And>l. store e n = Some l \<Longrightarrow> samePlace l d"
    and "run_state (reconcileLabel S opts c key) (startState obj e) = (r, s')" and "settled r"
  shows "\<exists>m l. store (stEnv s') = (store e)(m \<mapsto> l) \<and>
     hlName l = hlName d \<and> hlDescription l = hlDescription d \<and> hlColor l = hlColor d \<and>
     samePlace l d \<and> \<not> labelNeedsUpdate d (Some l) \<and>
     (if n = 0 then store e m = None else m = n \<and> store e n \<noteq> None)"
proof -
  have served: "serves (kdClient (labelKind c)) key (asksFor d n)"
    using assms(3) by (simp add: labelKind_def)
  have "triple (\<lambda>s. store (stEnv s) = store e) (reconcileLabel S opts c key)
      (\<lambda>r s. settled r \<longrightarrow> labelEnsured d n (store e) (store (stEnv s)))"
    unfolding reconcileLabel_def
    by (rule frame_settles [OF assms(1) served stable_asksFor assms(4) _ labelBody_ensures [OF assms(1,2,5)]])
      (simp_all add: asksFor_def)
  from tripleD [OF this _ assms(6)] assms(7) have "labelEnsured d n (store e) (store (stEnv s'))"
    by (simp add: startState_def)
  then obtain m l where "store (stEnv s') = (store e)(m \<mapsto> l)" "normalizeLabel l = normalizeLabel d"
      "if n = 0 then store e m = None else m = n \<and> store e n \<noteq> None"
    unfolding labelEnsured_def by blast
  then show ?thesis
    using sameFields [of l d] by (intro exI [of _ m] exI [of _ l]) (simp add: labelNeedsUpdate_def)
qed


section \<open>A label that is in order\<close>

abbreviation readsOnly :: "event \<Rightarrow> bool" where
  "readsOnly \<equiv> methodsIn [''GET'']"

lemma readsOnly_local: "\<not> isHttp ev \<Longrightarrow> readsOnly ev"
  by (cases ev) (simp_all add: methodsIn_def)

definition inOrder :: "('e \<Rightarrow> int \<Rightarrow> hLabel option) \<Rightarrow> (int \<Rightarrow> hLabel option) \<Rightarrow> (label, 'e) rstate \<Rightarrow> bool" where
  "inOrder store old s \<longleftrightarrow> list_all readsOnly (stTrace s) \<and> store (stEnv s) = old"

lemma readsOnly_steady:
  "emits readsOnly m \<Longrightarrow> steady store m \<Longrightarrow> triple (inOrder store old) m (\<lambda>_. inOrder store old)"
  using triple_events [of readsOnly m] by (auto simp: triple_def steady_def inOrder_def)

lemma readsOnly_ends:
  assumes "apart store S opts K"
  shows "triple (inOrder store old) (failWith S K err) (\<lambda>_. inOrder store old)"
    and "triple (inOrder store old) (readyWithDrift S opts K reason msg) (\<lambda>_. inOrder store old)"
    and "triple (inOrder store old)
      (do { generation \<leftarrow> crGeneration; requeueOnRemoteNotFound S K generation reset message })
      (\<lambda>_. inOrder store old)"
  by (rule readsOnly_steady; intro emits_intros methodsIn_steps steady_intros steady_lifecycle [OF assms])+

lemma updateLabelPath_reads:
  assumes "apart store S opts K" and "harborLabels store S"
    and "old n = Some l0" "normalizeLabel l0 = normalizeLabel d"
  shows "triple (\<lambda>s. harborLabelID (objStatus (stObj s)) = n \<and> inOrder store old s)
      (updateLabelPath S opts K hc d) (\<lambda>_. inOrder store old)"
proof -
  have get: "triple (\<lambda>s. (harborLabelID (objStatus (stObj s)) = n \<and> inOrder store old s) \<and> cr = stObj s)
      (GetLabel S hc (harborLabelID (objStatus cr)))
      (\<lambda>r s. inOrder store old s \<and> (\<forall>l. r = Inr l \<longrightarrow> l = l0))" for cr
  proof -
    have "emits readsOnly (GetLabel S hc n)"
      by (rule emits_LabelCalls [OF clientCalls_methodsIn]) simp
    from triple_events [OF this] triple_GetLabel [OF assms(2), of old hc n] show ?thesis
      using assms(3) by (auto simp: triple_def inOrder_def)
  qed
  show ?thesis
    unfolding updateLabelPath_def
    apply (rule triple_bind [OF triple_getObj])
    apply (rule triple_bind [OF get], rule triple_sum)
     apply (rule triple_if)
      apply (rule triple_pre [OF readsOnly_ends(3) [OF assms(1)]], simp)
     apply (rule triple_pre [OF readsOnly_ends(1) [OF assms(1)]], simp)
    apply (rule triple_bind [where Q = "\<lambda>r s. r = None \<and> inOrder store old s"])
     apply (use assms(4) in \<open>auto simp: triple_def labelNeedsUpdate_def run_simps\<close>) []
    apply (rule triple_option)
     apply (rule triple_pre [OF readsOnly_ends(2) [OF assms(1)]], simp)
    apply (rule triple_pre [OF triple_False], simp)
    done
qed

lemma labelBody_reads:
  assumes "apart store S opts K" and "harborLabels store S"
    and "old n = Some l0" "normalizeLabel l0 = normalizeLabel d" "n \<noteq> 0"
  shows "triple (workingOn (asksFor d n) readsOnly store old) (labelBody S opts K hc) (\<lambda>_. inOrder store old)"
proof -
  have "inOrder store old (snd (run_state (labelBody S opts K hc) s))"
    if s: "workingOn (asksFor d n) readsOnly store old s" for s
  proof -
    have id: "harborLabelID (objStatus (stObj s)) = n" and "inOrder store old s"
      using s by (auto simp: asksFor_def inOrder_def)
    moreover have "run_state (ensureLabel S opts K hc d (stObj s)) s = run_state (updateLabelPath S opts K hc d) s"
      using assms(5) id by (simp add: ensureLabel_def State_Monad.bind_def State_Monad.return_def)
    ultimately show ?thesis
      using updateLabelPath_reads [where old = old and n = n, OF assms(1-4), of hc] readsOnly_ends(1) [OF assms(1), of old]
        labelBody_instance [of d n s S opts K hc] s
      by (auto simp: triple_def)
  qed
  then show ?thesis by (simp add: triple_def)
qed

text \<open>
  C6. A label that is in order is left alone. If Harbor's label with the recorded id is already as the
  object asks, a reconcile sends Harbor nothing but GET requests and changes none of its labels, whatever
  the world answers and whether or not it succeeds.
\<close>

theorem label_in_order_untouched:
  assumes "apart store S opts (labelKind c)" and "harborLabels store S"
    and "serves c key (asksFor d n)" and "lawfulFinalizers (svcMachinery S)"
    and "store e n = Some l" "normalizeLabel l = normalizeLabel d" "n \<noteq> 0"
  shows "let s' = snd (run_state (reconcileLabel S opts c key) (startState obj e))
     in store (stEnv s') = store e \<and> list_all (methodsIn [''GET'']) (stTrace s')"
proof -
  have served: "serves (kdClient (labelKind c)) key (asksFor d n)"
    using assms(3) by (simp add: labelKind_def)
  have "triple (\<lambda>s. list_all readsOnly (stTrace s) \<and> store (stEnv s) = store e)
      (reconcileLabel S opts c key) (\<lambda>_. inOrder store (store e))"
    unfolding reconcileLabel_def
    by (rule frame_serves [OF assms(1) served stable_asksFor assms(4) _ _ labelBody_reads [where old = "store e" and n = n, OF assms(1,2,5-7)]])
      (simp_all add: asksFor_def inOrder_def readsOnly_local)
  from tripleD [OF this _ surjective_pairing] show ?thesis
    by (simp add: startState_def inOrder_def Let_def)
qed

section \<open>Concrete inputs\<close>

text \<open>
  A server that holds labels, of which they can be read one by one, changed, and created under the id
  9 if that is free.
\<close>

definition labelIDOf :: "string \<Rightarrow> int option" where
  "labelIDOf url =
     (case goAtoi (goPathBase url) of
        None \<Rightarrow> None | Some n \<Rightarrow> if goItoa n = goPathBase url then Some n else None)"

definition answer :: "int \<Rightarrow> (string \<times> string) list \<Rightarrow> string \<Rightarrow> httpFailure + httpResponse" where
  "answer status headers body = Inr \<lparr>respStatus = status, respHeaders = headers, respContentLength = - 1, respBody = body,
     respCloseError = None\<rparr>"

definition exLabelServer :: "httpRequest \<Rightarrow> (int \<Rightarrow> hLabel option) \<Rightarrow>
    (httpFailure + httpResponse) \<times> (int \<Rightarrow> hLabel option)" where
  "exLabelServer req labels =
     (if reqMethod req = ''POST''
      then (case Option.bind (reqBody req) readLabel of
              None \<Rightarrow> (answer 400 [] [], labels)
            | Some d \<Rightarrow>
                if labels 9 \<noteq> None then (answer 409 [] [], labels)
                else (answer 201 [(''Location'', ''/api/v2.0/labels/9'')] [],
                      labels(9 \<mapsto> d\<lparr>hlID := 9, hlUpdateTime := ''now''\<rparr>)))
      else case Option.bind (labelIDOf (reqURL req)) (\<lambda>n. map_option (Pair n) (labels n)) of
        None \<Rightarrow> (answer 404 [] [], labels)
      | Some (n, l) \<Rightarrow>
          if reqMethod req = ''GET''
          then (if readLabel (jsonPrint (JObj (labelFields l))) = Some l
                then answer 200 [] (jsonPrint (JObj (labelFields l))) else answer 500 [] [], labels)
          else if reqMethod req = ''PUT''
          then (case Option.bind (reqBody req) readLabel of
                  None \<Rightarrow> (answer 400 [] [], labels)
                | Some d \<Rightarrow> (answer 200 [] [], labels(n \<mapsto> d\<lparr>hlID := n, hlUpdateTime := ''now''\<rparr>)))
          else (answer 405 [] [], labels))"

definition exLabelCluster :: "(int \<Rightarrow> hLabel option) services" where
  "exLabelCluster = exCluster\<lparr>svcHTTP := \<lambda>hc. exLabelServer\<rparr>"

definition exLabel :: label where
  "exLabel =
     \<lparr>objMeta = (exMeta ''team'' ''signed'')\<lparr>metaFinalizers := [finalizerName]\<rparr>,
      objSpec = \<lparr>harborConnectionRef = exRef, driftDetectionInterval = None, reconcileNonce = [],
        deletionPolicy = [], creationPolicy = [], labDescription = ''signed images'', labColor = ''#00ff00'',
        labScope = [], labProjectRef = None\<rparr>,
      objStatus = harborStatusBase.extend exStatusBase \<lparr>harborLabelID = 7\<rparr>\<rparr>"

text \<open>Somebody has changed the description; another label must stay as it is.\<close>

definition exLabels :: "int \<Rightarrow> hLabel option" where
  "exLabels = [7 \<mapsto> (instanceLabel exLabel)\<lparr>hlID := 7, hlDescription := ''old''\<rparr>,
     8 \<mapsto> (instanceLabel exLabel)\<lparr>hlID := 8, hlName := ''other''\<rparr>]"

text \<open>The same object before its label has been created.\<close>

definition exNewLabel :: label where
  "exNewLabel = exLabel\<lparr>objStatus := (objStatus exLabel)\<lparr>harborLabelID := 0\<rparr>\<rparr>"

definition exLabelRun :: "label \<Rightarrow> outcome \<times> (label, int \<Rightarrow> hLabel option) rstate" where
  "exLabelRun cr = run_state (reconcileLabel exLabelCluster exOptions (exClient [cr]) (''team'', ''signed''))
     (startState cr exLabels)"

lemma exLabelRun_settled: "settled (fst (exLabelRun exLabel))" "settled (fst (exLabelRun exNewLabel))"
  by code_simp+

lemma labelIDOf_labelURL:
  assumes "labelIDOf (base @ labelURL n) = Some m"
  shows "m = n"
proof -
  have "goPathBase ((base @ ''/api/v2.0/labels'') @ CHR ''/'' # goItoa n) = goItoa n"
    by (rule goPathBase_last) (simp_all add: goItoa_no_slash goItoa_nonempty)
  then have "goPathBase (base @ labelURL n) = goItoa n"
    by (simp add: labelURL_def)
  with assms show ?thesis
    by (auto simp: labelIDOf_def goItoa_inj split: option.splits if_splits)
qed

lemma exLabelServer_get:
  assumes "exLabelServer req labels = (q, labels')" and "reqMethod req = ''GET''"
  shows "labels' = labels"
    and "reqURL req = base @ labelURL n \<Longrightarrow> q = Inr resp \<Longrightarrow> is2xx resp \<Longrightarrow>
      \<exists>l. labels n = Some l \<and> documentOf (Some decLabel) resp = Some l"
  using assms
  by (auto simp: exLabelServer_def answer_def is2xx_def documentOf_def bind_eq_Some_conv readLabel_print
      decoderRead_print [OF labelWF] simp del: jsonPrint.simps dest!: labelIDOf_labelURL
      split: option.splits if_splits)

lemma exLabelServer_put:
  assumes "exLabelServer req labels = (q, labels')" and "reqMethod req = ''PUT''"
    and "reqURL req = base @ labelURL n" "carries req d" "q = Inr resp" "is2xx resp"
  shows "\<exists>l. normalizeLabel l = normalizeLabel d \<and> labels' = labels(n \<mapsto> l)"
  using assms
  by (auto simp: exLabelServer_def answer_def is2xx_def carries_def normalizeLabel_def bind_eq_Some_conv
      dest!: labelIDOf_labelURL split: option.splits if_splits
      intro!: exI [of _ "d\<lparr>hlID := n, hlUpdateTime := ''now''\<rparr>"])

lemma exLabelServer_post:
  assumes "exLabelServer req labels = (q, labels')" and "reqMethod req = ''POST''"
    and "carries req d" "q = Inr resp" "is2xx resp" "extractLocationID resp = Inr m"
  shows "labels m = None \<and> (\<exists>l. normalizeLabel l = normalizeLabel d \<and> labels' = labels(m \<mapsto> l))"
proof -
  have "extractLocationID \<lparr>respStatus = 201, respHeaders = [(''Location'', ''/api/v2.0/labels/9'')],
      respContentLength = - 1, respBody = [], respCloseError = None\<rparr> = Inr 9"
    by code_simp
  then show ?thesis
    using assms
    by (auto simp: exLabelServer_def answer_def is2xx_def carries_def normalizeLabel_def
        split: option.splits if_splits intro!: exI [of _ "d\<lparr>hlID := 9, hlUpdateTime := ''now''\<rparr>"])
qed

lemma exLabelServer_promises: "harborLabels (\<lambda>labels. labels) exLabelCluster"
  unfolding harborLabels_def
proof (intro allI impI)
  fix hc req e q e'
  assume "svcHTTP exLabelCluster hc req e = (q, e')"
  then have h: "exLabelServer req e = (q, e')" by (simp add: exLabelCluster_def)
  show "(reqMethod req = ''GET'' \<longrightarrow> e' = e) \<and>
        (\<forall>base n resp. reqMethod req = ''GET'' \<and> reqURL req = base @ labelURL n \<and> q = Inr resp \<and> is2xx resp \<longrightarrow>
           (\<exists>l. e n = Some l \<and> documentOf (Some decLabel) resp = Some l)) \<and>
        (\<forall>base n d resp l0. reqMethod req = ''PUT'' \<and> reqURL req = base @ labelURL n \<and> carries req d \<and>
             q = Inr resp \<and> is2xx resp \<and> e n = Some l0 \<and> samePlace l0 d \<longrightarrow>
           (\<exists>l. normalizeLabel l = normalizeLabel d \<and> e' = e(n \<mapsto> l))) \<and>
        (\<forall>base m d resp. reqMethod req = ''POST'' \<and> reqURL req = base @ labelsURL \<and> carries req d \<and>
             q = Inr resp \<and> is2xx resp \<and> extractLocationID resp = Inr m \<longrightarrow>
           e m = None \<and> (\<exists>l. normalizeLabel l = normalizeLabel d \<and> e' = e(m \<mapsto> l)))"
    using exLabelServer_get [OF h] exLabelServer_put [OF h] exLabelServer_post [OF h] by blast
qed

lemma apart_exLabelCluster: "apart store exLabelCluster exOptions (labelKind (exClient objs))"
  by (auto simp: apart_def leaves_def exLabelCluster_def exCluster_def emptyCluster_def exOptions_def labelKind_def
      exClient_def noObject_def split: option.split)

lemma serves_exClient: "P cr \<Longrightarrow> serves (exClient [cr]) (objectKey cr) P"
  by (simp add: serves_def exClient_def)

lemma exLabelRun_stores:
  assumes "cr \<in> {exLabel, exNewLabel}"
  shows "asksFor (instanceLabel exLabel) (harborLabelID (objStatus cr)) cr" and "objectKey cr = (''team'', ''signed'')"
    and "instanceLabel exLabel = instanceLabel cr" "hlDescription (instanceLabel cr) = ''signed images''"
  using assms
  by (auto simp: asksFor_def exLabel_def exNewLabel_def objectKey_def harborStatusBase.defs instanceLabel_def
      desiredLabel_def)

text \<open>
  With a recorded id the description of that label is set right; without one the label is created
  under the server's new id. The other labels are left alone.
\<close>

theorem label_success_means_stored_witness:
  "settled (fst (exLabelRun exLabel)) \<and> settled (fst (exLabelRun exNewLabel)) \<and>
   (\<exists>l. stEnv (snd (exLabelRun exLabel)) = exLabels(7 \<mapsto> l) \<and> hlDescription l = ''signed images'') \<and>
   (\<exists>m l. exLabels m = None \<and> stEnv (snd (exLabelRun exNewLabel)) = exLabels(m \<mapsto> l) \<and>
      hlDescription l = ''signed images'')"
proof -
  let ?n = "\<lambda>cr. harborLabelID (objStatus cr)" and ?d = "instanceLabel exLabel"
  have stored: "\<exists>m l. stEnv (snd (exLabelRun cr)) = exLabels(m \<mapsto> l) \<and> hlDescription l = ''signed images'' \<and>
      (if ?n cr = 0 then exLabels m = None else m = ?n cr)"
    if cr: "cr \<in> {exLabel, exNewLabel}" for cr
  proof -
    note facts = exLabelRun_stores [OF cr]
    have sv: "serves (exClient [cr]) (''team'', ''signed'') (asksFor ?d (?n cr))"
      using serves_exClient [where P = "asksFor ?d (?n cr)", OF facts(1)] by (simp add: facts(2))
    have am: "lawfulFinalizers (svcMachinery exLabelCluster)"
      by (simp add: exLabelCluster_def lawful_exMachinery)
    have place: "\<And>l. exLabels (?n cr) = Some l \<Longrightarrow> samePlace l ?d"
      by (auto simp: exLabels_def samePlace_def split: if_splits)
    have run: "run_state (reconcileLabel exLabelCluster exOptions (exClient [cr]) (''team'', ''signed''))
        (startState cr exLabels) = (fst (exLabelRun cr), snd (exLabelRun cr))"
      by (simp add: exLabelRun_def)
    have "settled (fst (exLabelRun cr))"
      using cr exLabelRun_settled by auto
    from label_success_means_stored [OF apart_exLabelCluster exLabelServer_promises sv am place run this] facts(3,4)
    show ?thesis by (auto split: if_splits)
  qed
  have "?n exLabel = 7" "?n exNewLabel = 0"
    by (simp_all add: exLabel_def exNewLabel_def harborStatusBase.defs)
  with stored [of exLabel] stored [of exNewLabel] exLabelRun_settled show ?thesis
    by auto
qed

text \<open>Once the label is right, the next reconcile only looks.\<close>

definition exLabelsInOrder :: "int \<Rightarrow> hLabel option" where
  "exLabelsInOrder = exLabels(7 \<mapsto> (instanceLabel exLabel)\<lparr>hlID := 7, hlUpdateTime := ''now''\<rparr>)"

definition exQuietRun :: "outcome \<times> (label, int \<Rightarrow> hLabel option) rstate" where
  "exQuietRun = run_state (reconcileLabel exLabelCluster exOptions (exClient [exLabel]) (''team'', ''signed''))
     (startState exLabel exLabelsInOrder)"

theorem label_in_order_untouched_witness:
  "settled (fst exQuietRun) \<and> list_ex isHttp (stTrace (snd exQuietRun)) \<and>
   stEnv (snd exQuietRun) = exLabelsInOrder \<and> list_all (methodsIn [''GET'']) (stTrace (snd exQuietRun))"
proof -
  let ?d = "instanceLabel exLabel"
  have "harborLabelID (objStatus exLabel) = 7"
    by (simp add: exLabel_def harborStatusBase.defs)
  then have sv: "serves (exClient [exLabel]) (''team'', ''signed'') (asksFor ?d 7)"
    using serves_exClient [where P = "asksFor ?d 7", of exLabel] exLabelRun_stores(1,2) [of exLabel] by simp
  have am: "lawfulFinalizers (svcMachinery exLabelCluster)"
    by (simp add: exLabelCluster_def lawful_exMachinery)
  have "exLabelsInOrder 7 = Some (?d\<lparr>hlID := 7, hlUpdateTime := ''now''\<rparr>)"
      "normalizeLabel (?d\<lparr>hlID := 7, hlUpdateTime := ''now''\<rparr>) = normalizeLabel ?d"
    by (simp_all add: exLabelsInOrder_def normalizeLabel_def)
  from label_in_order_untouched [where store = "\<lambda>labels. labels" and e = exLabelsInOrder and n = 7,
      OF apart_exLabelCluster exLabelServer_promises
      sv am this]
  have "stEnv (snd exQuietRun) = exLabelsInOrder \<and> list_all (methodsIn [''GET'']) (stTrace (snd exQuietRun))"
    by (simp add: exQuietRun_def Let_def)
  moreover have "settled (fst exQuietRun)" "list_ex isHttp (stTrace (snd exQuietRun))"
    by code_simp+
  ultimately show ?thesis by blast
qed

end
