(* ===== verification/Scheme.thy ===== *)
theory Scheme
  imports Operator
begin

text \<open>
  The types that the operator's client knows: every file of \<^verbatim>\<open>api/v1alpha1\<close>
  registers its types when the program starts (\<^verbatim>\<open>groupversion_info.go\<close> and the
  \<^verbatim>\<open>init\<close> functions), and \<^verbatim>\<open>cmd/main.go\<close> builds the scheme. The
  scheme and what adds to it belong to apimachinery and are a parameter.
\<close>

type_synonym groupVersion = "string \<times> string"
type_synonym knownTypes = "(groupVersion \<times> string) list"

record schemeLibrary =
  slAddKnownTypes :: "groupVersion \<Rightarrow> string list \<Rightarrow> knownTypes \<Rightarrow> knownTypes"
  slAddToGroupVersion :: "groupVersion \<Rightarrow> knownTypes \<Rightarrow> knownTypes"
  slClientGo :: "knownTypes \<Rightarrow> knownTypes"

text \<open>What apimachinery promises: the objects become known and no type is forgotten.\<close>

definition lawfulScheme :: "schemeLibrary \<Rightarrow> bool" where
  "lawfulScheme sl \<longleftrightarrow>
     (\<forall>gv objects sch. set sch \<union> Pair gv ` set objects \<subseteq> set (slAddKnownTypes sl gv objects sch)) \<and>
     (\<forall>gv sch. set sch \<subseteq> set (slAddToGroupVersion sl gv sch))"

section \<open>The builder (groupversion_info.go)\<close>

record harborSchemeBuilder =
  hsbGroupVersion :: groupVersion
  hsbFuncs :: "(knownTypes \<Rightarrow> knownTypes) list"

definition Register :: "schemeLibrary \<Rightarrow> string list \<Rightarrow> harborSchemeBuilder \<Rightarrow> harborSchemeBuilder" where
  "Register sl objects b =
     b\<lparr>hsbFuncs := hsbFuncs b @
         [\<lambda>scheme. slAddToGroupVersion sl (hsbGroupVersion b)
            (slAddKnownTypes sl (hsbGroupVersion b) objects scheme)]\<rparr>"

definition GroupVersion :: groupVersion where
  "GroupVersion = (''harbor.harbor-operator.io'', ''v1alpha1'')"

definition SchemeBuilder :: harborSchemeBuilder where
  "SchemeBuilder = \<lparr>hsbGroupVersion = GroupVersion, hsbFuncs = []\<rparr>"

definition AddToScheme :: "harborSchemeBuilder \<Rightarrow> knownTypes \<Rightarrow> knownTypes" where
  "AddToScheme b scheme = fold (\<lambda>f. f) (hsbFuncs b) scheme"

section \<open>The registrations of the files\<close>

definition initConfigurationTypes :: "schemeLibrary \<Rightarrow> harborSchemeBuilder \<Rightarrow> harborSchemeBuilder" where
  "initConfigurationTypes sl = Register sl [''Configuration'', ''ConfigurationList'']"

definition initGCScheduleTypes :: "schemeLibrary \<Rightarrow> harborSchemeBuilder \<Rightarrow> harborSchemeBuilder" where
  "initGCScheduleTypes sl = Register sl [''GCSchedule'', ''GCScheduleList'']"

definition initHarborConnectionTypes :: "schemeLibrary \<Rightarrow> harborSchemeBuilder \<Rightarrow> harborSchemeBuilder" where
  "initHarborConnectionTypes sl = Register sl 
     [''HarborConnection'', ''HarborConnectionList'', ''ClusterHarborConnection'', ''ClusterHarborConnectionList'']"

definition initImmutableTagRuleTypes :: "schemeLibrary \<Rightarrow> harborSchemeBuilder \<Rightarrow> harborSchemeBuilder" where
  "initImmutableTagRuleTypes sl = Register sl [''ImmutableTagRule'', ''ImmutableTagRuleList'']"

definition initLabelTypes :: "schemeLibrary \<Rightarrow> harborSchemeBuilder \<Rightarrow> harborSchemeBuilder" where
  "initLabelTypes sl = Register sl [''Label'', ''LabelList'']"

definition initMemberTypes :: "schemeLibrary \<Rightarrow> harborSchemeBuilder \<Rightarrow> harborSchemeBuilder" where
  "initMemberTypes sl = Register sl [''Member'', ''MemberList'']"

definition initProjectTypes :: "schemeLibrary \<Rightarrow> harborSchemeBuilder \<Rightarrow> harborSchemeBuilder" where
  "initProjectTypes sl = Register sl [''Project'', ''ProjectList'']"

definition initPurgeAuditScheduleTypes :: "schemeLibrary \<Rightarrow> harborSchemeBuilder \<Rightarrow> harborSchemeBuilder" where
  "initPurgeAuditScheduleTypes sl = Register sl [''PurgeAuditSchedule'', ''PurgeAuditScheduleList'']"

definition initQuotaTypes :: "schemeLibrary \<Rightarrow> harborSchemeBuilder \<Rightarrow> harborSchemeBuilder" where
  "initQuotaTypes sl = Register sl [''Quota'', ''QuotaList'']"

definition initRegistryTypes :: "schemeLibrary \<Rightarrow> harborSchemeBuilder \<Rightarrow> harborSchemeBuilder" where
  "initRegistryTypes sl = Register sl [''Registry'', ''RegistryList'']"

definition initReplicationPolicyTypes :: "schemeLibrary \<Rightarrow> harborSchemeBuilder \<Rightarrow> harborSchemeBuilder" where
  "initReplicationPolicyTypes sl = Register sl [''ReplicationPolicy'', ''ReplicationPolicyList'']"

definition initRetentionPolicyTypes :: "schemeLibrary \<Rightarrow> harborSchemeBuilder \<Rightarrow> harborSchemeBuilder" where
  "initRetentionPolicyTypes sl = Register sl [''RetentionPolicy'', ''RetentionPolicyList'']"

definition initRobotTypes :: "schemeLibrary \<Rightarrow> harborSchemeBuilder \<Rightarrow> harborSchemeBuilder" where
  "initRobotTypes sl = Register sl [''Robot'', ''RobotList'']"

definition initScanAllScheduleTypes :: "schemeLibrary \<Rightarrow> harborSchemeBuilder \<Rightarrow> harborSchemeBuilder" where
  "initScanAllScheduleTypes sl = Register sl [''ScanAllSchedule'', ''ScanAllScheduleList'']"

definition initScannerRegistrationTypes :: "schemeLibrary \<Rightarrow> harborSchemeBuilder \<Rightarrow> harborSchemeBuilder" where
  "initScannerRegistrationTypes sl = Register sl [''ScannerRegistration'', ''ScannerRegistrationList'']"

definition initUserTypes :: "schemeLibrary \<Rightarrow> harborSchemeBuilder \<Rightarrow> harborSchemeBuilder" where
  "initUserTypes sl = Register sl [''User'', ''UserList'']"

definition initUserGroupClaimTypes :: "schemeLibrary \<Rightarrow> harborSchemeBuilder \<Rightarrow> harborSchemeBuilder" where
  "initUserGroupClaimTypes sl = Register sl [''UserGroupClaim'', ''UserGroupClaimList'']"

definition initWebhookPolicyTypes :: "schemeLibrary \<Rightarrow> harborSchemeBuilder \<Rightarrow> harborSchemeBuilder" where
  "initWebhookPolicyTypes sl = Register sl [''WebhookPolicy'', ''WebhookPolicyList'']"
text \<open>Go runs the \<^verbatim>\<open>init\<close> functions of a package in the order of its files.\<close>

definition registeredTypes :: "schemeLibrary \<Rightarrow> harborSchemeBuilder" where
  "registeredTypes sl =
     fold (\<lambda>f. f sl)
       [initConfigurationTypes, initGCScheduleTypes, initHarborConnectionTypes, initImmutableTagRuleTypes,
        initLabelTypes, initMemberTypes, initProjectTypes, initPurgeAuditScheduleTypes, initQuotaTypes,
        initRegistryTypes, initReplicationPolicyTypes, initRetentionPolicyTypes, initRobotTypes,
        initScanAllScheduleTypes, initScannerRegistrationTypes, initUserTypes, initUserGroupClaimTypes,
        initWebhookPolicyTypes]
       SchemeBuilder"

text \<open>The \<^verbatim>\<open>init\<close> of \<^verbatim>\<open>cmd/main.go\<close>.\<close>

definition mainScheme :: "schemeLibrary \<Rightarrow> knownTypes" where
  "mainScheme sl = AddToScheme (registeredTypes sl) (slClientGo sl [])"

text \<open>The Go type of a kind.\<close>

fun kindType :: "objKind \<Rightarrow> string" where
  "kindType KHarborConnection = ''HarborConnection''"
| "kindType KClusterHarborConnection = ''ClusterHarborConnection''"
| "kindType KProject = ''Project''"
| "kindType KRegistry = ''Registry''"
| "kindType KUser = ''User''"
| "kindType KUserGroupClaim = ''UserGroupClaim''"
| "kindType KMember = ''Member''"
| "kindType KLabel = ''Label''"
| "kindType KQuota = ''Quota''"
| "kindType KRobot = ''Robot''"
| "kindType KWebhookPolicy = ''WebhookPolicy''"
| "kindType KImmutableTagRule = ''ImmutableTagRule''"
| "kindType KRetentionPolicy = ''RetentionPolicy''"
| "kindType KReplicationPolicy = ''ReplicationPolicy''"
| "kindType KScannerRegistration = ''ScannerRegistration''"
| "kindType KConfiguration = ''Configuration''"
| "kindType KGCSchedule = ''GCSchedule''"
| "kindType KPurgeAuditSchedule = ''PurgeAuditSchedule''"
| "kindType KScanAllSchedule = ''ScanAllSchedule''"
| "kindType KSecret = ''Secret''"

section \<open>Facts\<close>

lemma AddToScheme_grows:
  assumes "\<forall>f\<in>set fs. \<forall>sch. set sch \<subseteq> set (f sch)"
  shows "set sch \<subseteq> set (fold (\<lambda>f. f) fs sch)"
  using assms by (induction fs arbitrary: sch) fastforce+

text \<open>The types that a registration adds.\<close>

definition adds :: "schemeLibrary \<Rightarrow> groupVersion \<Rightarrow> string list list \<Rightarrow> harborSchemeBuilder \<Rightarrow> bool" where
  "adds sl gv names b \<longleftrightarrow>
     hsbGroupVersion b = gv \<and>
     hsbFuncs b = map (\<lambda>objects scheme. slAddToGroupVersion sl gv (slAddKnownTypes sl gv objects scheme)) names"

lemma adds_Register: "adds sl gv names b \<Longrightarrow> adds sl gv (names @ [objects]) (Register sl objects b)"
  by (simp add: adds_def Register_def)

lemma adds_known:
  assumes "lawfulScheme sl" and "adds sl gv names b" and "n \<in> set (concat names)"
  shows "(gv, n) \<in> set (AddToScheme b sch)"
proof -
  let ?f = "\<lambda>objects scheme. slAddToGroupVersion sl gv (slAddKnownTypes sl gv objects scheme)"
  have f: "set s \<union> Pair gv ` set objects \<subseteq> set (?f objects s)" for objects s
    using assms(1) unfolding lawfulScheme_def by (meson subset_trans)
  have grow: "set s \<subseteq> set (fold (\<lambda>f. f) (map ?f ns) s)" for ns s
    using f by (intro AddToScheme_grows) auto
  have "(gv, n) \<in> set (fold (\<lambda>f. f) (map ?f names) sch)"
    using assms(3)
  proof (induction names arbitrary: sch)
    case (Cons ns names)
    show ?case
    proof (cases "n \<in> set ns")
      case True
      then have "(gv, n) \<in> set (?f ns sch)" using f [of sch ns] by blast
      with grow [of "?f ns sch" names] show ?thesis by auto
    qed (use Cons in auto)
  qed simp
  with assms(2) show ?thesis by (simp add: AddToScheme_def adds_def)
qed

lemma registeredTypes_add:
  "adds sl GroupVersion
      [[''Configuration'', ''ConfigurationList''],
       [''GCSchedule'', ''GCScheduleList''],
       [''HarborConnection'', ''HarborConnectionList'', ''ClusterHarborConnection'', ''ClusterHarborConnectionList''],
       [''ImmutableTagRule'', ''ImmutableTagRuleList''],
       [''Label'', ''LabelList''],
       [''Member'', ''MemberList''],
       [''Project'', ''ProjectList''],
       [''PurgeAuditSchedule'', ''PurgeAuditScheduleList''],
       [''Quota'', ''QuotaList''],
       [''Registry'', ''RegistryList''],
       [''ReplicationPolicy'', ''ReplicationPolicyList''],
       [''RetentionPolicy'', ''RetentionPolicyList''],
       [''Robot'', ''RobotList''],
       [''ScanAllSchedule'', ''ScanAllScheduleList''],
       [''ScannerRegistration'', ''ScannerRegistrationList''],
       [''User'', ''UserList''],
       [''UserGroupClaim'', ''UserGroupClaimList''],
       [''WebhookPolicy'', ''WebhookPolicyList'']]
     (registeredTypes sl)"
  by (simp add: adds_def registeredTypes_def SchemeBuilder_def Register_def
      initConfigurationTypes_def initGCScheduleTypes_def initHarborConnectionTypes_def
      initImmutableTagRuleTypes_def initLabelTypes_def initMemberTypes_def initProjectTypes_def
      initPurgeAuditScheduleTypes_def initQuotaTypes_def initRegistryTypes_def
      initReplicationPolicyTypes_def initRetentionPolicyTypes_def initRobotTypes_def
      initScanAllScheduleTypes_def initScannerRegistrationTypes_def initUserTypes_def
      initUserGroupClaimTypes_def initWebhookPolicyTypes_def)

text \<open>The client knows every kind that has a controller, and its lists.\<close>

lemma mainScheme_serves:
  assumes "lawfulScheme sl" and "k \<in> set registeredControllers"
  shows "(GroupVersion, kindType k) \<in> set (mainScheme sl)"
    and "(GroupVersion, kindType k @ ''List'') \<in> set (mainScheme sl)"
  unfolding mainScheme_def
  by (rule adds_known [OF assms(1) registeredTypes_add],
      use assms(2) in \<open>auto simp: registeredControllers_def\<close>)+

end
