(* ===== verification/Process.thy ===== *)
theory Process
  imports Controllers Scheme
begin

text \<open>
  The process (\<^verbatim>\<open>cmd/main.go\<close>): from the flags to the running manager. What
  controller-runtime answers (certificate watchers, the manager and what is added to it) is a
  parameter; an error of any step ends the process with exit code 1. Logging is left out, and parsing the
  command line belongs to the library \<^verbatim>\<open>flag\<close>: the flags arrive as values.
\<close>

section \<open>Paths of files\<close>

text \<open>
  \<^verbatim>\<open>filepath.Clean\<close>: empty and \<^verbatim>\<open>"."\<close> elements go,
  \<^verbatim>\<open>".."\<close> takes back the element before it, at the root it goes. The list is the
  path so far, its last element first.
\<close>

definition cleanElement :: "bool \<Rightarrow> string \<Rightarrow> string list \<Rightarrow> string list" where
  "cleanElement rooted c path =
     (if c = [] \<or> c = ''.'' then path
      else if c = ''..''
      then (case path of
              [] \<Rightarrow> if rooted then [] else [''..'']
            | p # ps \<Rightarrow> if p = ''..'' then ''..'' # p # ps else ps)
      else c # path)"

definition goFilepathClean :: "string \<Rightarrow> string" where
  "goFilepathClean p =
     (let rooted = goHasPrefix p ''/'';
          cleaned = goJoin ''/'' (rev (fold (cleanElement rooted) (goSplit CHR ''/'' p) []))
      in if rooted then ''/'' @ cleaned else if cleaned = [] then ''.'' else cleaned)"

definition goFilepathJoin :: "string list \<Rightarrow> string" where
  "goFilepathJoin elems =
     (case dropWhile (\<lambda>e. e = []) elems of
        [] \<Rightarrow> []
      | e # es \<Rightarrow> goFilepathClean (goJoin ''/'' (e # es)))"

section \<open>Flags\<close>

record processFlags = operatorFlags +
  flMetricsAddr :: string
  flProbeAddr :: string
  flEnableLeaderElection :: bool
  flSecureMetrics :: bool
  flWebhookCertPath :: string
  flWebhookCertName :: string
  flWebhookCertKey :: string
  flMetricsCertPath :: string
  flMetricsCertName :: string
  flMetricsCertKey :: string
  flEnableHTTP2 :: bool

definition defaultProcessFlags :: processFlags where
  "defaultProcessFlags = operatorFlags.extend defaultFlags
     \<lparr>flMetricsAddr = ''0'', flProbeAddr = '':8081'', flEnableLeaderElection = False, flSecureMetrics = True,
      flWebhookCertPath = [], flWebhookCertName = ''tls.crt'', flWebhookCertKey = ''tls.key'',
      flMetricsCertPath = [], flMetricsCertName = ''tls.crt'', flMetricsCertKey = ''tls.key'',
      flEnableHTTP2 = False\<rparr>"

section \<open>TLS\<close>

text \<open>A watcher of a certificate and its key, and the fields of \<^verbatim>\<open>tls.Config\<close> in question.\<close>

record certWatcher =
  cwCert :: string
  cwKey :: string

record tlsConfig =
  tlsNextProtos :: "string list"
  tlsGetCertificate :: "certWatcher option"

type_synonym tlsOption = "tlsConfig \<Rightarrow> tlsConfig"

text \<open>A server applies its options in their order.\<close>

definition applyTLS :: "tlsOption list \<Rightarrow> tlsConfig \<Rightarrow> tlsConfig" where
  "applyTLS opts c = fold (\<lambda>f. f) opts c"

definition disableHTTP2 :: tlsOption where
  "disableHTTP2 c = c\<lparr>tlsNextProtos := [''http/1.1'']\<rparr>"

definition tlsOpts :: "'a processFlags_scheme \<Rightarrow> tlsOption list" where
  "tlsOpts fl = (if \<not> flEnableHTTP2 fl then [disableHTTP2] else [])"

definition useCertWatcher :: "certWatcher \<Rightarrow> tlsOption" where
  "useCertWatcher w c = c\<lparr>tlsGetCertificate := Some w\<rparr>"

section \<open>The manager's options\<close>

text \<open>
  The platform: new certificate watchers, the configuration of the API server's client, and the manager
  that controller-runtime makes from its options.
\<close>

record metricsServerOptions =
  msBindAddress :: string
  msSecureServing :: bool
  msTLSOpts :: "tlsOption list"
  msAuthentication :: bool

record managerOptions =
  moScheme :: knownTypes
  moCacheNamespaces :: "string set option"
  moMetrics :: metricsServerOptions
  moWebhookTLSOpts :: "tlsOption list"
  moHealthProbeBindAddress :: string
  moLeaderElection :: bool
  moLeaderElectionID :: string

record 'e runtimeManager = manager +
  mgrAPIReader :: "nsName \<Rightarrow> 'e \<Rightarrow> (gerror + secret) \<times> 'e"
  mgrAdd :: "certWatcher \<Rightarrow> gerror option"
  mgrAddHealthzCheck :: "string \<Rightarrow> gerror option"
  mgrAddReadyzCheck :: "string \<Rightarrow> gerror option"
  mgrStart :: "gerror option"

record 'e platform =
  pfScheme :: schemeLibrary
  pfNewCertWatcher :: "string \<Rightarrow> string \<Rightarrow> gerror option"
  pfConfigError :: "gerror option"
  pfNewManager :: "managerOptions \<Rightarrow> gerror + 'e runtimeManager"

text \<open>A step that ends the process has the message that it logs.\<close>

type_synonym 'a stepResult = "(string \<times> gerror) + 'a"

definition newCertWatcher :: "'e platform \<Rightarrow> string \<Rightarrow> string \<Rightarrow> gerror + certWatcher" where
  "newCertWatcher pf cert key =
     (case pfNewCertWatcher pf cert key of
        Some err \<Rightarrow> Inl err
      | None \<Rightarrow> Inr \<lparr>cwCert = cert, cwKey = key\<rparr>)"

definition webhookTLS :: "'e platform \<Rightarrow> 'a processFlags_scheme \<Rightarrow>
    (certWatcher option \<times> tlsOption list) stepResult" where
  "webhookTLS pf fl =
     (if flWebhookCertPath fl \<noteq> []
      then case newCertWatcher pf (goFilepathJoin [flWebhookCertPath fl, flWebhookCertName fl])
                  (goFilepathJoin [flWebhookCertPath fl, flWebhookCertKey fl]) of
             Inl err \<Rightarrow> Inl (''Failed to initialize webhook certificate watcher'', err)
           | Inr w \<Rightarrow> Inr (Some w, tlsOpts fl @ [useCertWatcher w])
      else Inr (None, tlsOpts fl))"

definition metricsOptions :: "'e platform \<Rightarrow> 'a processFlags_scheme \<Rightarrow>
    (certWatcher option \<times> metricsServerOptions) stepResult" where
  "metricsOptions pf fl =
     (let base = \<lparr>msBindAddress = flMetricsAddr fl, msSecureServing = flSecureMetrics fl, msTLSOpts = tlsOpts fl,
            msAuthentication = False\<rparr>;
          secured = (if flSecureMetrics fl then base\<lparr>msAuthentication := True\<rparr> else base)
      in if flMetricsCertPath fl \<noteq> []
         then case newCertWatcher pf (goFilepathJoin [flMetricsCertPath fl, flMetricsCertName fl])
                     (goFilepathJoin [flMetricsCertPath fl, flMetricsCertKey fl]) of
                Inl err \<Rightarrow> Inl (''to initialize metrics certificate watcher'', err)
              | Inr w \<Rightarrow> Inr (Some w, secured\<lparr>msTLSOpts := msTLSOpts secured @ [useCertWatcher w]\<rparr>)
         else Inr (None, secured))"

definition mainManagerOptions :: "'e platform \<Rightarrow> 'a processFlags_scheme \<Rightarrow> metricsServerOptions \<Rightarrow> tlsOption list \<Rightarrow>
    managerOptions" where
  "mainManagerOptions pf fl metrics webhook =
     \<lparr>moScheme = mainScheme (pfScheme pf), moCacheNamespaces = watchedNamespaces (flWatchNamespaces fl),
      moMetrics = metrics, moWebhookTLSOpts = webhook, moHealthProbeBindAddress = flProbeAddr fl,
      moLeaderElection = flEnableLeaderElection fl, moLeaderElectionID = ''1dd96f58.harbor-operator.io''\<rparr>"

definition newManager :: "'e platform \<Rightarrow> managerOptions \<Rightarrow> 'e runtimeManager stepResult" where
  "newManager pf mo =
     (case pfConfigError pf of
        Some err \<Rightarrow> Inl (''unable to get kubeconfig'', err)
      | None \<Rightarrow>
          (case pfNewManager pf mo of
             Inl err \<Rightarrow> Inl (''unable to start manager'', err)
           | Inr mgr \<Rightarrow> Inr mgr))"

section \<open>What the manager runs\<close>

text \<open>The process as it is set up: the options of the reconcilers and everything the manager has been given.\<close>

record 'e operatorProcess =
  opManagerOptions :: managerOptions
  opManager :: "'e runtimeManager"
  opOptions :: "'e operatorOptions"
  opControllers :: "controller list"
  opRunnables :: "certWatcher list"
  opHealthzChecks :: "string list"
  opReadyzChecks :: "string list"

definition addRunnable :: "string \<Rightarrow> certWatcher option \<Rightarrow> 'e operatorProcess \<Rightarrow> 'e operatorProcess stepResult" where
  "addRunnable message watcher p =
     (case watcher of
        None \<Rightarrow> Inr p
      | Some w \<Rightarrow>
          (case mgrAdd (opManager p) w of
             Some err \<Rightarrow> Inl (message, err)
           | None \<Rightarrow> Inr (p\<lparr>opRunnables := opRunnables p @ [w]\<rparr>)))"

definition addChecks :: "'e operatorProcess \<Rightarrow> 'e operatorProcess stepResult" where
  "addChecks p =
     (case mgrAddHealthzCheck (opManager p) ''healthz'' of
        Some err \<Rightarrow> Inl (''unable to set up health check'', err)
      | None \<Rightarrow>
          (case mgrAddReadyzCheck (opManager p) ''readyz'' of
             Some err \<Rightarrow> Inl (''unable to set up ready check'', err)
           | None \<Rightarrow> Inr (p\<lparr>opHealthzChecks := opHealthzChecks p @ [''healthz''],
                             opReadyzChecks := opReadyzChecks p @ [''readyz'']\<rparr>)))"

definition setupProcess :: "'e platform \<Rightarrow> processFlags \<Rightarrow> 'e operatorProcess stepResult" where
  "setupProcess pf fl =
     (case NewOperatorOptions (flagsConfig (operatorFlags.truncate fl)) of
        Inl err \<Rightarrow> Inl (''invalid operator configuration'', err)
      | Inr opts \<Rightarrow>
     (case webhookTLS pf fl of
        Inl stop \<Rightarrow> Inl stop
      | Inr (webhookWatcher, webhook) \<Rightarrow>
     (case metricsOptions pf fl of
        Inl stop \<Rightarrow> Inl stop
      | Inr (metricsWatcher, metrics) \<Rightarrow>
     (case newManager pf (mainManagerOptions pf fl metrics webhook) of
        Inl stop \<Rightarrow> Inl stop
      | Inr mgr \<Rightarrow>
          (let opts' = WithSecretReader opts (mgrAPIReader mgr)
           in case registerControllers (manager.truncate mgr) opts' of
                Inl err \<Rightarrow> Inl (''unable to create controller'', err)
              | Inr ctrls \<Rightarrow>
          (case addRunnable ''unable to add metrics certificate watcher to manager'' metricsWatcher
                  \<lparr>opManagerOptions = mainManagerOptions pf fl metrics webhook, opManager = mgr, opOptions = opts',
                   opControllers = ctrls, opRunnables = [], opHealthzChecks = [], opReadyzChecks = []\<rparr> of
             Inl stop \<Rightarrow> Inl stop
           | Inr p \<Rightarrow>
          (case addRunnable ''unable to add webhook certificate watcher to manager'' webhookWatcher p of
             Inl stop \<Rightarrow> Inl stop
           | Inr p' \<Rightarrow> addChecks p')))))))"

text \<open>The exit code, and the process that ran if it came so far.\<close>

definition mainProcess :: "'e platform \<Rightarrow> processFlags \<Rightarrow> int \<times> 'e operatorProcess option" where
  "mainProcess pf fl =
     (case setupProcess pf fl of
        Inl stop \<Rightarrow> (1, None)
      | Inr p \<Rightarrow> (case mgrStart (opManager p) of Some err \<Rightarrow> (1, Some p) | None \<Rightarrow> (0, Some p)))"

end
