(* ===== verification/ProcessFacts.thy ===== *)
theory ProcessFacts
  imports Process
begin

text \<open>
  What holds of the process once it runs: it has been given everything it needs, and its two servers
  have the TLS settings that the flags ask for.
\<close>

section \<open>The steps of the setup\<close>

lemma tlsOpts_applied:
  "applyTLS (tlsOpts fl @ map useCertWatcher ws) c =
     \<lparr>tlsNextProtos = (if flEnableHTTP2 fl then tlsNextProtos c else [''http/1.1'']),
      tlsGetCertificate = (if ws = [] then tlsGetCertificate c else Some (last ws))\<rparr>"
proof -
  have "fold (\<lambda>f. f) (map useCertWatcher ws) d =
      d\<lparr>tlsGetCertificate := (if ws = [] then tlsGetCertificate d else Some (last ws))\<rparr>" for d :: tlsConfig
    by (induction ws arbitrary: d) (auto simp: useCertWatcher_def)
  then show ?thesis
    by (cases c) (simp add: applyTLS_def tlsOpts_def disableHTTP2_def)
qed

text \<open>The watcher of the files that a server's flags name.\<close>

definition watcherOf :: "string \<Rightarrow> string \<Rightarrow> string \<Rightarrow> certWatcher list" where
  "watcherOf path cert key =
     (if path = [] then [] else [\<lparr>cwCert = goFilepathJoin [path, cert], cwKey = goFilepathJoin [path, key]\<rparr>])"

definition webhookWatchers :: "'a processFlags_scheme \<Rightarrow> certWatcher list" where
  "webhookWatchers fl = watcherOf (flWebhookCertPath fl) (flWebhookCertName fl) (flWebhookCertKey fl)"

definition metricsWatchers :: "'a processFlags_scheme \<Rightarrow> certWatcher list" where
  "metricsWatchers fl = watcherOf (flMetricsCertPath fl) (flMetricsCertName fl) (flMetricsCertKey fl)"

definition watcherList :: "'a option \<Rightarrow> 'a list" where
  "watcherList w = (case w of None \<Rightarrow> [] | Some x \<Rightarrow> [x])"

lemma webhookTLS_result:
  assumes "webhookTLS pf fl = Inr (w, tls)"
  shows "watcherList w = webhookWatchers fl" and "tls = tlsOpts fl @ map useCertWatcher (webhookWatchers fl)"
  using assms
  by (auto simp: webhookTLS_def newCertWatcher_def webhookWatchers_def watcherOf_def watcherList_def
      split: if_splits option.splits sum.splits)

lemma metricsOptions_result:
  assumes "metricsOptions pf fl = Inr (w, ms)"
  shows "watcherList w = metricsWatchers fl"
    and "ms = \<lparr>msBindAddress = flMetricsAddr fl, msSecureServing = flSecureMetrics fl,
      msTLSOpts = tlsOpts fl @ map useCertWatcher (metricsWatchers fl), msAuthentication = flSecureMetrics fl\<rparr>"
  using assms
  by (auto simp: metricsOptions_def newCertWatcher_def metricsWatchers_def watcherOf_def watcherList_def Let_def
      split: if_splits option.splits sum.splits)

lemma addRunnable_result:
  "addRunnable message w p = Inr p' \<Longrightarrow> p' = p\<lparr>opRunnables := opRunnables p @ watcherList w\<rparr>"
  by (auto simp: addRunnable_def watcherList_def split: option.splits)

lemma addChecks_result:
  "addChecks p = Inr p' \<Longrightarrow>
     p' = p\<lparr>opHealthzChecks := opHealthzChecks p @ [''healthz''], opReadyzChecks := opReadyzChecks p @ [''readyz'']\<rparr>"
  by (auto simp: addChecks_def split: option.splits)

lemma setupProcess_result:
  assumes "setupProcess pf fl = Inr p"
  obtains opts mgr ctrls mo where
    "NewOperatorOptions (flagsConfig (operatorFlags.truncate fl)) = Inr opts"
    "pfNewManager pf mo = Inr mgr"
    "registerControllers (manager.truncate mgr) (WithSecretReader opts (mgrAPIReader mgr)) = Inr ctrls"
    "mo = mainManagerOptions pf fl
       \<lparr>msBindAddress = flMetricsAddr fl, msSecureServing = flSecureMetrics fl,
        msTLSOpts = tlsOpts fl @ map useCertWatcher (metricsWatchers fl), msAuthentication = flSecureMetrics fl\<rparr>
       (tlsOpts fl @ map useCertWatcher (webhookWatchers fl))"
    "p = \<lparr>opManagerOptions = mo, opManager = mgr, opOptions = WithSecretReader opts (mgrAPIReader mgr),
          opControllers = ctrls, opRunnables = metricsWatchers fl @ webhookWatchers fl,
          opHealthzChecks = [''healthz''], opReadyzChecks = [''readyz'']\<rparr>"
proof -
  from assms obtain opts w tls w' ms mgr ctrls p1 p2 where run:
    "NewOperatorOptions (flagsConfig (operatorFlags.truncate fl)) = Inr opts"
    "webhookTLS pf fl = Inr (w, tls)" "metricsOptions pf fl = Inr (w', ms)"
    "newManager pf (mainManagerOptions pf fl ms tls) = Inr mgr"
    "registerControllers (manager.truncate mgr) (WithSecretReader opts (mgrAPIReader mgr)) = Inr ctrls"
    "addRunnable ''unable to add metrics certificate watcher to manager'' w'
       \<lparr>opManagerOptions = mainManagerOptions pf fl ms tls, opManager = mgr,
        opOptions = WithSecretReader opts (mgrAPIReader mgr),
        opControllers = ctrls, opRunnables = [], opHealthzChecks = [], opReadyzChecks = []\<rparr> = Inr p1"
    "addRunnable ''unable to add webhook certificate watcher to manager'' w p1 = Inr p2" "addChecks p2 = Inr p"
    by (auto simp: setupProcess_def Let_def split: sum.splits)
  note results = webhookTLS_result [OF run(2)] metricsOptions_result [OF run(3)] addRunnable_result [OF run(6)]
    addRunnable_result [OF run(7)] addChecks_result [OF run(8)]
  have "pfNewManager pf (mainManagerOptions pf fl ms tls) = Inr mgr"
    using run(4) by (auto simp: newManager_def split: option.splits sum.splits)
  from that [OF run(1) this run(5)] results show ?thesis by simp
qed

lemma mainProcess_setup: "mainProcess pf fl = (code, Some p) \<Longrightarrow> setupProcess pf fl = Inr p"
  by (auto simp: mainProcess_def split: sum.splits option.splits)

section \<open>The running process\<close>

text \<open>
  C7. The process runs only when it is complete. If it gets as far as the manager's start, its flags are
  a valid configuration and the reconcilers have the options that follow from it, reading Secrets from the
  API server itself; every kind has exactly one controller, under a name of its own; the client knows
  every kind with a controller and its lists; the cache holds the namespaces of the flag; and the two
  probes answer. The exit code is 0 exactly if the manager then ends without an error.
\<close>

theorem operator_starts:
  assumes "lawfulScheme (pfScheme pf)" and "mainProcess pf fl = (code, Some p)"
  shows "(\<exists>opts. NewOperatorOptions (flagsConfig (operatorFlags.truncate fl)) = Inr opts \<and>
        opOptions p = WithSecretReader opts (mgrAPIReader (opManager p))) \<and>
     map ctrlFor (opControllers p) = registeredControllers \<and> distinct (map ctrlName (opControllers p)) \<and>
     (\<forall>ctrl\<in>set (opControllers p).
        (GroupVersion, kindType (ctrlFor ctrl)) \<in> set (moScheme (opManagerOptions p)) \<and>
        (GroupVersion, kindType (ctrlFor ctrl) @ ''List'') \<in> set (moScheme (opManagerOptions p))) \<and>
     moCacheNamespaces (opManagerOptions p) = watchedNamespaces (flWatchNamespaces fl) \<and>
     opHealthzChecks p = [''healthz''] \<and> opReadyzChecks p = [''readyz''] \<and>
     (code = 0 \<longleftrightarrow> mgrStart (opManager p) = None)"
proof -
  have ready: "setupProcess pf fl = Inr p" by (rule mainProcess_setup [OF assms(2)])
  then have "code = 0 \<longleftrightarrow> mgrStart (opManager p) = None"
    using assms(2) by (auto simp: mainProcess_def split: option.splits)
  with ready show ?thesis
  proof (elim setupProcess_result, goal_cases)
    case (1 opts mgr ctrls mo)
    have "ctrl \<in> set ctrls \<Longrightarrow> ctrlFor ctrl \<in> set registeredControllers" for ctrl
      using controllers_registered [OF 1(4)] by (metis image_eqI list.set_map)
    with 1 show ?case
      using controllers_registered [OF 1(4)] mainScheme_serves [OF assms(1)]
      by (simp add: mainManagerOptions_def)
  qed
qed

text \<open>
  C8. The servers are set up as the flags say. Whatever configuration the webhook server and the metrics
  server start from, HTTP/2 is off unless it is asked for; each takes its certificate from the files that
  its own flags name, and from nowhere else if they name none; the metrics need authentication exactly if
  they are served securely; and the manager runs a watcher for every certificate in use.
\<close>

theorem servers_secured:
  assumes "mainProcess pf fl = (code, Some p)"
  shows "applyTLS (moWebhookTLSOpts (opManagerOptions p)) c =
       \<lparr>tlsNextProtos = (if flEnableHTTP2 fl then tlsNextProtos c else [''http/1.1'']),
        tlsGetCertificate =
          (if flWebhookCertPath fl = [] then tlsGetCertificate c
           else Some \<lparr>cwCert = goFilepathJoin [flWebhookCertPath fl, flWebhookCertName fl],
                      cwKey = goFilepathJoin [flWebhookCertPath fl, flWebhookCertKey fl]\<rparr>)\<rparr> \<and>
     applyTLS (msTLSOpts (moMetrics (opManagerOptions p))) c =
       \<lparr>tlsNextProtos = (if flEnableHTTP2 fl then tlsNextProtos c else [''http/1.1'']),
        tlsGetCertificate =
          (if flMetricsCertPath fl = [] then tlsGetCertificate c
           else Some \<lparr>cwCert = goFilepathJoin [flMetricsCertPath fl, flMetricsCertName fl],
                      cwKey = goFilepathJoin [flMetricsCertPath fl, flMetricsCertKey fl]\<rparr>)\<rparr> \<and>
     (msAuthentication (moMetrics (opManagerOptions p)) \<longleftrightarrow> msSecureServing (moMetrics (opManagerOptions p))) \<and>
     set (opRunnables p) =
       set_option (tlsGetCertificate (applyTLS (moWebhookTLSOpts (opManagerOptions p)) (c\<lparr>tlsGetCertificate := None\<rparr>))) \<union>
       set_option (tlsGetCertificate (applyTLS (msTLSOpts (moMetrics (opManagerOptions p))) (c\<lparr>tlsGetCertificate := None\<rparr>)))"
  using mainProcess_setup [OF assms]
  by (rule setupProcess_result)
    (auto simp: mainManagerOptions_def tlsOpts_applied webhookWatchers_def metricsWatchers_def watcherOf_def)

section \<open>Concrete inputs\<close>

text \<open>Cleaning a path, as the documentation of \<^verbatim>\<open>path/filepath\<close> has it.\<close>

lemma goFilepathJoin_examples:
  "goFilepathJoin [''/certs/'', ''tls.crt''] = ''/certs/tls.crt''" "goFilepathJoin [''a/b'', ''../c''] = ''a/c''"
  "goFilepathJoin [''.'', ''tls.key''] = ''tls.key''" "goFilepathJoin [''/'', ''../x//y''] = ''/x/y''"
  "goFilepathJoin ['''', ''..'', ''..''] = ''../..''" "goFilepathJoin [[], []] = []"
  by code_simp+

definition exRuntimeManager :: "unit runtimeManager" where
  "exRuntimeManager = manager.extend (exManager [])
     \<lparr>mgrAPIReader = (\<lambda>key e. noObject key e), mgrAdd = (\<lambda>w. None), mgrAddHealthzCheck = (\<lambda>n. None),
      mgrAddReadyzCheck = (\<lambda>n. None), mgrStart = None\<rparr>"

definition exPlatform :: "unit platform" where
  "exPlatform =
     \<lparr>pfScheme = \<lparr>slAddKnownTypes = (\<lambda>gv objects sch. sch @ map (Pair gv) objects),
        slAddToGroupVersion = (\<lambda>gv sch. sch @ [(gv, ''WatchEvent'')]), slClientGo = (\<lambda>sch. sch)\<rparr>,
      pfNewCertWatcher = (\<lambda>cert key. None), pfConfigError = None, pfNewManager = (\<lambda>mo. Inr exRuntimeManager)\<rparr>"

definition exFlags :: processFlags where
  "exFlags = defaultProcessFlags
     \<lparr>flWatchNamespaces := ''team, web,'', flMetricsAddr := '':8443'', flMetricsCertPath := ''/certs/''\<rparr>"

lemma exPlatform_runs: "\<exists>p. mainProcess exPlatform exFlags = (0, Some p)"
proof -
  have mgr: "manager.truncate exRuntimeManager = exManager []"
    by (simp add: exRuntimeManager_def manager.defs exManager_def)
  obtain opts :: "unit operatorOptions" where
    opts: "NewOperatorOptions (flagsConfig (operatorFlags.truncate exFlags)) = Inr opts"
    by (simp add: NewOperatorOptions_def validateDefaultCreationPolicy_def flagsConfig_def operatorFlags.defs
        exFlags_def defaultProcessFlags_def defaultFlags_def)
  obtain ctrls where "registerControllers (exManager []) (WithSecretReader opts (mgrAPIReader exRuntimeManager)) = Inr ctrls"
    using exManager_registers by blast
  moreover have "mgrAdd exRuntimeManager w = None" "mgrAddHealthzCheck exRuntimeManager n = None"
      "mgrAddReadyzCheck exRuntimeManager n = None" "mgrStart exRuntimeManager = None" for w n
    by (simp_all add: exRuntimeManager_def manager.defs)
  moreover have "flWebhookCertPath exFlags = []" "flMetricsCertPath exFlags = ''/certs/''"
    by (simp_all add: exFlags_def defaultProcessFlags_def operatorFlags.defs)
  ultimately show ?thesis
    by (simp add: mainProcess_def setupProcess_def opts webhookTLS_def metricsOptions_def newCertWatcher_def Let_def
        newManager_def addRunnable_def addChecks_def mgr exPlatform_def split: option.split)
qed

lemma lawful_exPlatform: "lawfulScheme (pfScheme exPlatform)"
  by (auto simp: lawfulScheme_def exPlatform_def)

text \<open>
  The process starts with nineteen controllers, a cache of two namespaces and a certificate for the
  metrics.
\<close>

theorem operator_starts_witness:
  "\<exists>p. mainProcess exPlatform exFlags = (0, Some p) \<and> length (opControllers p) = 19 \<and>
     moCacheNamespaces (opManagerOptions p) = Some {''team'', ''web''} \<and> opReadyzChecks p = [''readyz'']"
proof -
  obtain p where p: "mainProcess exPlatform exFlags = (0, Some p)"
    using exPlatform_runs by blast
  note starts = operator_starts [OF lawful_exPlatform p]
  have "length (map ctrlFor (opControllers p)) = length registeredControllers"
    using starts by simp
  then have "length (opControllers p) = 19"
    by (simp add: registeredControllers_def)
  moreover have "watchedNamespaces (flWatchNamespaces exFlags) = Some {''team'', ''web''}"
    by code_simp
  ultimately show ?thesis
    using p starts by auto
qed

theorem servers_secured_witness:
  "\<exists>p. mainProcess exPlatform exFlags = (0, Some p) \<and>
     applyTLS (msTLSOpts (moMetrics (opManagerOptions p))) \<lparr>tlsNextProtos = [''h2''], tlsGetCertificate = None\<rparr> =
       \<lparr>tlsNextProtos = [''http/1.1''],
        tlsGetCertificate = Some \<lparr>cwCert = ''/certs/tls.crt'', cwKey = ''/certs/tls.key''\<rparr>\<rparr>"
proof -
  obtain p where p: "mainProcess exPlatform exFlags = (0, Some p)"
    using exPlatform_runs by blast
  have "goFilepathJoin [''/certs/'', ''tls.crt''] = ''/certs/tls.crt''"
    "goFilepathJoin [''/certs/'', ''tls.key''] = ''/certs/tls.key''"
    by code_simp+
  then have "applyTLS (msTLSOpts (moMetrics (opManagerOptions p))) \<lparr>tlsNextProtos = [''h2''], tlsGetCertificate = None\<rparr> =
       \<lparr>tlsNextProtos = [''http/1.1''],
        tlsGetCertificate = Some \<lparr>cwCert = ''/certs/tls.crt'', cwKey = ''/certs/tls.key''\<rparr>\<rparr>"
    using servers_secured [OF p]
    by (simp add: exFlags_def defaultProcessFlags_def defaultFlags_def operatorFlags.defs)
  with p show ?thesis by blast
qed

end
