(* ===== verification/GoHeap.thy ===== *)
theory GoHeap
  imports Main "HOL-Library.State_Monad" "HOL-Library.Monad_Syntax"
begin

text \<open>
  Go values with their pointers, slices and maps on an explicit heap, for the code whose purpose is not
  to share memory: the deep copies of the API types. A heap is the list of its cells, an address the
  position of a cell, and an allocation adds a cell at the end. The steps that the copying functions
  consist of are programs on this heap, and \<open>copies T f\<close> says that \<open>f\<close> is a deep copy
  of values of the type \<open>T\<close>.
\<close>

section \<open>Values and types\<close>

datatype goLiteral = GoString string | GoInt int | GoBool bool

text \<open>
  A struct has named fields; an embedded struct is a field with the name of its type. A slice is a
  part of an array: its address, an offset and a length. \<open>None\<close> is nil.
\<close>

datatype goValue =
    Plain goLiteral
  | StructV "(string \<times> goValue) list"
  | PtrV "nat option"
  | SliceV "(nat \<times> nat \<times> nat) option"
  | MapV "nat option"

datatype goType =
    TString | TInt | TBool
  | TStruct "(string \<times> goType) list"
  | TPtr goType | TSlice goType | TMap goType

text \<open>A variable behind a pointer, the array of slices, the entries of a map with string keys.\<close>

datatype goCell = Variable goValue | Backing "goValue list" | Table "(string \<times> goValue) list"

type_synonym goHeap = "goCell list"

definition cellAt :: "goHeap \<Rightarrow> nat \<Rightarrow> goCell option" where
  "cellAt h a = (if a < length h then Some (h ! a) else None)"

definition zeroValue :: goValue where
  "zeroValue = StructV []"

fun field :: "string \<Rightarrow> goValue \<Rightarrow> goValue" where
  "field n (StructV fs) = (case map_of fs n of Some v \<Rightarrow> v | None \<Rightarrow> zeroValue)"
| "field n v = zeroValue"

fun setField :: "string \<Rightarrow> goValue \<Rightarrow> goValue \<Rightarrow> goValue" where
  "setField n x (StructV fs) = StructV (map (\<lambda>(m, v). (m, if m = n then x else v)) fs)"
| "setField n x v = v"

fun fieldNames :: "goValue \<Rightarrow> string list" where
  "fieldNames (StructV fs) = map fst fs"
| "fieldNames v = []"

definition variable :: "goHeap \<Rightarrow> nat \<Rightarrow> goValue" where
  "variable h a = (case cellAt h a of Some (Variable v) \<Rightarrow> v | _ \<Rightarrow> zeroValue)"

definition elements :: "goHeap \<Rightarrow> nat \<times> nat \<times> nat \<Rightarrow> goValue list" where
  "elements h s =
     (case s of (a, off, n) \<Rightarrow>
        (case cellAt h a of Some (Backing vs) \<Rightarrow> take n (drop off vs) | _ \<Rightarrow> []))"

definition entries :: "goHeap \<Rightarrow> nat \<Rightarrow> (string \<times> goValue) list" where
  "entries h a = (case cellAt h a of Some (Table kvs) \<Rightarrow> kvs | _ \<Rightarrow> [])"

text \<open>The values of a type, with everything that they point to.\<close>

fun wellTyped :: "goHeap \<Rightarrow> goType \<Rightarrow> goValue \<Rightarrow> bool" where
  "wellTyped h TString v = (case v of Plain (GoString s) \<Rightarrow> True | _ \<Rightarrow> False)"
| "wellTyped h TInt v = (case v of Plain (GoInt n) \<Rightarrow> True | _ \<Rightarrow> False)"
| "wellTyped h TBool v = (case v of Plain (GoBool b) \<Rightarrow> True | _ \<Rightarrow> False)"
| "wellTyped h (TStruct fts) v =
     ((case v of StructV fs \<Rightarrow> True | _ \<Rightarrow> False) \<and> fieldNames v = map fst fts \<and>
      list_all (\<lambda>ft. wellTyped h (snd ft) (field (fst ft) v)) fts)"
| "wellTyped h (TPtr T) v =
     (case v of
        PtrV None \<Rightarrow> True
      | PtrV (Some a) \<Rightarrow> (case cellAt h a of Some (Variable x) \<Rightarrow> wellTyped h T x | _ \<Rightarrow> False)
      | _ \<Rightarrow> False)"
| "wellTyped h (TSlice T) v =
     (case v of
        SliceV None \<Rightarrow> True
      | SliceV (Some (a, off, n)) \<Rightarrow>
          (case cellAt h a of
             Some (Backing vs) \<Rightarrow> off + n \<le> length vs \<and> list_all (wellTyped h T) (take n (drop off vs))
           | _ \<Rightarrow> False)
      | _ \<Rightarrow> False)"
| "wellTyped h (TMap T) v =
     (case v of
        MapV None \<Rightarrow> True
      | MapV (Some a) \<Rightarrow>
          (case cellAt h a of
             Some (Table kvs) \<Rightarrow> distinct (map fst kvs) \<and> list_all (\<lambda>kv. wellTyped h T (snd kv)) kvs
           | _ \<Rightarrow> False)
      | _ \<Rightarrow> False)"

text \<open>What a value of a type means, without the addresses: nil and empty are told apart.\<close>

datatype goView =
    VPlain goLiteral | VStruct "(string \<times> goView) list" | VNil | VPtr goView
  | VSlice "goView list" | VMap "(string \<times> goView) list"

fun view :: "goHeap \<Rightarrow> goType \<Rightarrow> goValue \<Rightarrow> goView" where
  "view h (TStruct fts) v = VStruct (map (\<lambda>ft. (fst ft, view h (snd ft) (field (fst ft) v))) fts)"
| "view h (TPtr T) v = (case v of PtrV (Some a) \<Rightarrow> VPtr (view h T (variable h a)) | _ \<Rightarrow> VNil)"
| "view h (TSlice T) v = (case v of SliceV (Some s) \<Rightarrow> VSlice (map (view h T) (elements h s)) | _ \<Rightarrow> VNil)"
| "view h (TMap T) v =
     (case v of MapV (Some a) \<Rightarrow> VMap (map (\<lambda>kv. (fst kv, view h T (snd kv))) (entries h a)) | _ \<Rightarrow> VNil)"
| "view h T v = (case v of Plain l \<Rightarrow> VPlain l | _ \<Rightarrow> VNil)"

text \<open>The cells that a value of a type leads to.\<close>

fun reach :: "goHeap \<Rightarrow> goType \<Rightarrow> goValue \<Rightarrow> nat list" where
  "reach h (TStruct fts) v = concat (map (\<lambda>ft. reach h (snd ft) (field (fst ft) v)) fts)"
| "reach h (TPtr T) v = (case v of PtrV (Some a) \<Rightarrow> a # reach h T (variable h a) | _ \<Rightarrow> [])"
| "reach h (TSlice T) v =
     (case v of SliceV (Some s) \<Rightarrow> fst s # concat (map (reach h T) (elements h s)) | _ \<Rightarrow> [])"
| "reach h (TMap T) v =
     (case v of MapV (Some a) \<Rightarrow> a # concat (map (\<lambda>kv. reach h T (snd kv)) (entries h a)) | _ \<Rightarrow> [])"
| "reach h T v = []"

end
