(* ===== verification/DeepCopySteps.thy ===== *)
theory DeepCopySteps
  imports GoHeap
begin

text \<open>
  The steps of the deep-copy functions and what it means that a function is a deep copy: the copy has
  the same contents as the original and leads only to cells that were allocated for it, and no other
  cell has changed. Each step has a rule that reduces this to the parts.
\<close>

section \<open>The steps\<close>

type_synonym copier = "goValue \<Rightarrow> (goHeap, goValue) state"

definition alloc :: "goCell \<Rightarrow> (goHeap, nat) state" where
  "alloc c = State (\<lambda>h. (length h, h @ [c]))"

definition readHeap :: "(goHeap \<Rightarrow> 'a) \<Rightarrow> (goHeap, 'a) state" where
  "readHeap f = State (\<lambda>h. (f h, h))"

text \<open>\<^verbatim>\<open>*out = *in\<close>: pointers, slices and maps stay shared.\<close>

definition assign :: copier where
  "assign v = State_Monad.return v"

text \<open>
  A new variable, array or map, filled by \<open>f\<close>; nil stays nil. Go allocates first and then
  fills, which differs only in the addresses.
\<close>

definition newPtr :: "copier \<Rightarrow> copier" where
  "newPtr f v =
     (case v of
        PtrV (Some a) \<Rightarrow>
          do { x \<leftarrow> readHeap (\<lambda>h. variable h a);
               y \<leftarrow> f x;
               b \<leftarrow> alloc (Variable y);
               State_Monad.return (PtrV (Some b)) }
      | _ \<Rightarrow> State_Monad.return v)"

fun copyAll :: "copier \<Rightarrow> goValue list \<Rightarrow> (goHeap, goValue list) state" where
  "copyAll f [] = State_Monad.return []"
| "copyAll f (x # xs) =
     do { y \<leftarrow> f x;
          ys \<leftarrow> copyAll f xs;
          State_Monad.return (y # ys) }"

definition newSlice :: "copier \<Rightarrow> copier" where
  "newSlice f v =
     (case v of
        SliceV (Some s) \<Rightarrow>
          do { xs \<leftarrow> readHeap (\<lambda>h. elements h s);
               ys \<leftarrow> copyAll f xs;
               b \<leftarrow> alloc (Backing ys);
               State_Monad.return (SliceV (Some (b, 0, length ys))) }
      | _ \<Rightarrow> State_Monad.return v)"

definition newMap :: "copier \<Rightarrow> copier" where
  "newMap f v =
     (case v of
        MapV (Some a) \<Rightarrow>
          do { kvs \<leftarrow> readHeap (\<lambda>h. entries h a);
               ys \<leftarrow> copyAll f (map snd kvs);
               b \<leftarrow> alloc (Table (zip (map fst kvs) ys));
               State_Monad.return (MapV (Some b)) }
      | _ \<Rightarrow> State_Monad.return v)"

text \<open>\<^verbatim>\<open>*val.DeepCopy()\<close>: the copy goes through a variable of its own.\<close>

definition viaPointer :: "copier \<Rightarrow> copier" where
  "viaPointer f v =
     do { y \<leftarrow> f v;
          b \<leftarrow> alloc (Variable y);
          readHeap (\<lambda>h. variable h b) }"

text \<open>The body of a \<^verbatim>\<open>DeepCopyInto\<close>: an assignment, and then the fields that need more.\<close>

fun copyFields :: "(string \<times> copier) list \<Rightarrow> goValue \<Rightarrow> goValue \<Rightarrow> (goHeap, goValue) state" where
  "copyFields [] inn out = State_Monad.return out"
| "copyFields (p # ps) inn out =
     do { v \<leftarrow> snd p (field (fst p) inn);
          copyFields ps inn (setField (fst p) v out) }"

definition copyStruct :: "(string \<times> copier) list \<Rightarrow> copier" where
  "copyStruct ps inn =
     do { out \<leftarrow> assign inn;
          copyFields ps inn out }"

text \<open>\<^verbatim>\<open>DeepCopyObject\<close> returns a nil interface for a nil pointer.\<close>

definition asObject :: "copier \<Rightarrow> goValue \<Rightarrow> (goHeap, goValue option) state" where
  "asObject f v =
     do { c \<leftarrow> f v;
          State_Monad.return (if c = PtrV None then None else Some c) }"

section \<open>Deep copies\<close>

lemma typed_ptr:
  assumes "wellTyped h (TPtr T) v"
  obtains "v = PtrV None" | a x where "v = PtrV (Some a)" "cellAt h a = Some (Variable x)" "wellTyped h T x"
  using assms by (auto split: goValue.splits option.splits goCell.splits)

lemma typed_slice:
  assumes "wellTyped h (TSlice T) v"
  obtains "v = SliceV None"
    | a off n vs where "v = SliceV (Some (a, off, n))" "cellAt h a = Some (Backing vs)" "off + n \<le> length vs"
        "elements h (a, off, n) = take n (drop off vs)" "\<And>x. x \<in> set (take n (drop off vs)) \<Longrightarrow> wellTyped h T x"
proof (cases v)
  case (SliceV s)
  show ?thesis
  proof (cases s)
    case (Some t)
    obtain a off n where t: "t = (a, off, n)" by (cases t)
    obtain c where "cellAt h a = Some c"
      using assms SliceV Some t by (cases "cellAt h a") auto
    with assms SliceV Some t that show ?thesis
      by (cases c) (auto simp: list_all_iff elements_def)
  qed (use SliceV that in auto)
qed (use assms in auto)

lemma typed_map:
  assumes "wellTyped h (TMap T) v"
  obtains "v = MapV None"
    | a kvs where "v = MapV (Some a)" "cellAt h a = Some (Table kvs)" "distinct (map fst kvs)"
        "entries h a = kvs" "\<And>kv. kv \<in> set kvs \<Longrightarrow> wellTyped h T (snd kv)"
proof (cases v)
  case (MapV s)
  with assms that show ?thesis
    by (auto simp: list_all_iff entries_def split: option.split_asm goCell.split_asm)
qed (use assms in auto)

text \<open>What a value means depends only on the cells that it leads to.\<close>

lemma frame:
  assumes "wellTyped h T v" and "\<And>a. a \<in> set (reach h T v) \<Longrightarrow> cellAt h' a = cellAt h a"
  shows "wellTyped h' T v \<and> view h' T v = view h T v \<and> reach h' T v = reach h T v"
  using assms
proof (induction T arbitrary: v)
  case (TStruct fts)
  have "wellTyped h' (snd ft) (field (fst ft) v) \<and> view h' (snd ft) (field (fst ft) v) = view h (snd ft) (field (fst ft) v) \<and>
      reach h' (snd ft) (field (fst ft) v) = reach h (snd ft) (field (fst ft) v)" if "ft \<in> set fts" for ft
    by (rule TStruct.IH [OF that]) (use TStruct.prems that in \<open>auto simp: list_all_iff snds.simps\<close>)
  then show ?case
    using TStruct(2) by (auto simp: list_all_iff intro!: arg_cong [where f = concat])
next
  case (TPtr T)
  from TPtr(2) show ?case
  proof (cases rule: typed_ptr)
    case (2 a x)
    with TPtr.IH [of x] TPtr.prems(2) show ?thesis by (auto simp: variable_def)
  qed simp
next
  case (TSlice T)
  from TSlice(2) show ?case
  proof (cases rule: typed_slice)
    case (2 a off n vs)
    have "wellTyped h' T x \<and> view h' T x = view h T x \<and> reach h' T x = reach h T x"
      if "x \<in> set (take n (drop off vs))" for x
      using TSlice.IH [of x] TSlice.prems(2) 2 that by auto
    with 2 TSlice.prems(2) show ?thesis
      by (auto simp: elements_def list_all_iff intro!: arg_cong [where f = concat])
  qed simp
next
  case (TMap T)
  from TMap(2) show ?case
  proof (cases rule: typed_map)
    case (2 a kvs)
    have "wellTyped h' T (snd kv) \<and> view h' T (snd kv) = view h T (snd kv) \<and> reach h' T (snd kv) = reach h T (snd kv)"
      if "kv \<in> set kvs" for kv
      using TMap.IH [of "snd kv"] TMap.prems(2) 2 that by auto
    with 2 TMap.prems(2) show ?thesis
      by (auto simp: entries_def list_all_iff intro!: arg_cong [where f = concat])
  qed simp
qed (auto split: goValue.splits goLiteral.splits)

lemma reach_bound: "wellTyped h T v \<Longrightarrow> a \<in> set (reach h T v) \<Longrightarrow> a < length h"
proof (induction T arbitrary: v)
  case (TStruct fts)
  then obtain ft where ft: "ft \<in> set fts" "a \<in> set (reach h (snd ft) (field (fst ft) v))"
    by auto
  show ?case
    by (rule TStruct.IH [OF ft(1) _ _ ft(2)]) (use TStruct.prems ft in \<open>auto simp: list_all_iff snds.simps\<close>)
next
  case (TPtr T)
  from TPtr(2) show ?case
    by (cases rule: typed_ptr) (use TPtr in \<open>auto simp: variable_def cellAt_def split: if_splits\<close>)
next
  case (TSlice T)
  from TSlice(2) show ?case
    by (cases rule: typed_slice) (use TSlice in \<open>auto simp: cellAt_def split: if_splits\<close>)
next
  case (TMap T)
  from TMap(2) show ?case
    by (cases rule: typed_map) (use TMap in \<open>auto simp: cellAt_def split: if_splits\<close>)
qed auto

lemma cellAt_append: "a < length h \<Longrightarrow> cellAt (h @ e) a = cellAt h a"
  by (simp add: cellAt_def nth_append)

lemma extended:
  assumes "wellTyped h T v"
  shows "wellTyped (h @ e) T v" "view (h @ e) T v = view h T v" "reach (h @ e) T v = reach h T v"
  using frame [OF assms, of "h @ e"] reach_bound [OF assms] by (simp_all add: cellAt_append)

text \<open>What a deep copy delivers, and the functions that deliver it.\<close>

definition copied :: "goType \<Rightarrow> goHeap \<Rightarrow> goValue \<Rightarrow> goValue \<Rightarrow> goHeap \<Rightarrow> bool" where
  "copied T h v v' h' \<longleftrightarrow>
     (\<exists>e. h' = h @ e) \<and> wellTyped h' T v' \<and> view h' T v' = view h T v \<and>
     (\<forall>a\<in>set (reach h' T v'). length h \<le> a)"

definition copies :: "goType \<Rightarrow> copier \<Rightarrow> bool" where
  "copies T f \<longleftrightarrow>
     (\<forall>h v. wellTyped h T v \<longrightarrow> (case run_state (f v) h of (v', h') \<Rightarrow> copied T h v v' h'))"

lemma copiesD: "copies T f \<Longrightarrow> wellTyped h T v \<Longrightarrow> run_state (f v) h = (v', h') \<Longrightarrow> copied T h v v' h'"
  by (fastforce simp: copies_def)

lemma copiesI: "(\<And>h v v' h'. wellTyped h T v \<Longrightarrow> run_state (f v) h = (v', h') \<Longrightarrow> copied T h v v' h') \<Longrightarrow> copies T f"
  by (auto simp: copies_def)

text \<open>Types without pointers, slices and maps: there an assignment is a deep copy.\<close>

fun flat :: "goType \<Rightarrow> bool" where
  "flat (TStruct fts) = list_all (\<lambda>ft. flat (snd ft)) fts"
| "flat (TPtr T) = False"
| "flat (TSlice T) = False"
| "flat (TMap T) = False"
| "flat T = True"

lemma reach_flat: "flat T \<Longrightarrow> reach h T v = []"
  by (induction T arbitrary: v) (force simp: list_all_iff snds.simps)+

lemma list_memberE:
  assumes "x \<in> set (y # ys)"
  obtains "x = y" | "x \<in> set ys"
  using assms by auto

named_theorems copy_intros \<open>which functions are deep copies\<close>

lemma copies_assign [copy_intros]: "flat T \<Longrightarrow> copies T assign"
  by (auto intro!: copiesI simp: assign_def copied_def reach_flat State_Monad.return_def)

lemma run_bindD:
  assumes "run_state (State_Monad.bind m f) h = (y, h'')"
  obtains x h' where "run_state m h = (x, h')" "run_state (f x) h' = (y, h'')"
  using assms by (auto simp: State_Monad.bind_def split: prod.splits)

lemmas copy_simps = alloc_def readHeap_def State_Monad.return_def State_Monad.bind_def

lemma copied_pointer:
  assumes "wellTyped h T x" and "copied T h x y h'" and "v = PtrV (Some a)" "variable h a = x"
  shows "copied (TPtr T) h v (PtrV (Some (length h'))) (h' @ [Variable y])"
  using assms extended [of h' T y "[Variable y]"]
  by (auto simp: copied_def variable_def cellAt_def nth_append)

lemma copies_newPtr [copy_intros]:
  assumes "copies T f"
  shows "copies (TPtr T) (newPtr f)"
proof (rule copiesI)
  fix h v v' h'
  assume v: "wellTyped h (TPtr T) v" and run: "run_state (newPtr f v) h = (v', h')"
  from v show "copied (TPtr T) h v v' h'"
  proof (cases rule: typed_ptr)
    case 1
    with run show ?thesis by (auto simp: newPtr_def copied_def State_Monad.return_def)
  next
    case (2 a x)
    then have x: "variable h a = x" by (simp add: variable_def)
    obtain y h1 where y: "run_state (f x) h = (y, h1)" by (cases "run_state (f x) h")
    have "copied (TPtr T) h v (PtrV (Some (length h1))) (h1 @ [Variable y])"
      by (rule copied_pointer [OF 2(3) copiesD [OF assms 2(3) y] 2(1) x])
    with run 2 x y show ?thesis by (auto simp: newPtr_def copy_simps)
  qed
qed

lemma copyAll_copied:
  assumes "copies T f" and "\<And>x. x \<in> set xs \<Longrightarrow> wellTyped h T x" and "run_state (copyAll f xs) h = (ys, h')"
  shows "(\<exists>e. h' = h @ e) \<and> map (view h' T) ys = map (view h T) xs \<and>
     (\<forall>y\<in>set ys. wellTyped h' T y \<and> (\<forall>a\<in>set (reach h' T y). length h \<le> a))"
  using assms(2,3)
proof (induction xs arbitrary: h ys h')
  case Nil
  then show ?case by (simp add: State_Monad.return_def)
next
  case (Cons x xs)
  obtain y h1 where y: "run_state (f x) h = (y, h1)" by (cases "run_state (f x) h")
  obtain zs h2 where zs: "run_state (copyAll f xs) h1 = (zs, h2)" by (cases "run_state (copyAll f xs) h1")
  have run: "ys = y # zs" "h' = h2"
    using Cons.prems(2) y zs by (auto simp: State_Monad.bind_def State_Monad.return_def)
  have cy: "copied T h x y h1"
    using copiesD [OF assms(1) _ y] Cons.prems(1) by simp
  then obtain e where e: "h1 = h @ e" by (auto simp: copied_def)
  have typed: "x' \<in> set xs \<Longrightarrow> wellTyped h1 T x'" "x' \<in> set xs \<Longrightarrow> view h1 T x' = view h T x'" for x'
    using extended [OF Cons.prems(1), of x' e] e by simp_all
  from Cons.IH [OF typed(1) zs] obtain e' where
    rest: "h2 = h1 @ e'" "map (view h2 T) zs = map (view h1 T) xs"
      "\<And>y. y \<in> set zs \<Longrightarrow> wellTyped h2 T y \<and> (\<forall>a\<in>set (reach h2 T y). length h1 \<le> a)"
    by blast
  have "wellTyped h1 T y" using cy by (simp add: copied_def)
  from extended [OF this, of e'] rest(1)
  have "wellTyped h2 T y" "view h2 T y = view h1 T y" "reach h2 T y = reach h1 T y" by simp_all
  moreover have "map (view h2 T) zs = map (view h T) xs"
    unfolding rest(2) by (simp add: typed(2))
  ultimately show ?case
    using cy rest(1,3) e run by (fastforce simp: copied_def)
qed

lemma copies_newSlice [copy_intros]:
  assumes "copies T f"
  shows "copies (TSlice T) (newSlice f)"
proof (rule copiesI)
  fix h v v' h'
  assume v: "wellTyped h (TSlice T) v" and run: "run_state (newSlice f v) h = (v', h')"
  from v show "copied (TSlice T) h v v' h'"
  proof (cases rule: typed_slice)
    case 1
    with run show ?thesis by (auto simp: newSlice_def copied_def State_Monad.return_def)
  next
    case (2 a off n vs)
    let ?xs = "take n (drop off vs)"
    obtain ys h1 where ys: "run_state (copyAll f ?xs) h = (ys, h1)" by (cases "run_state (copyAll f ?xs) h")
    note all = copyAll_copied [OF assms 2(5) ys]
    have out: "v' = SliceV (Some (length h1, 0, length ys))" "h' = h1 @ [Backing ys]"
      using run 2 ys by (auto simp: newSlice_def copy_simps)
    have ext: "wellTyped h' T y \<and> view h' T y = view h1 T y \<and> reach h' T y = reach h1 T y" if "y \<in> set ys" for y
      using all that extended [of h1 T y "[Backing ys]"] out(2) by blast
    have cell: "cellAt h' (length h1) = Some (Backing ys)" by (simp add: out(2) cellAt_def nth_append)
    have "map (view h' T) ys = map (view h1 T) ys"
      using ext by (intro map_cong) auto
    also have "\<dots> = map (view h T) ?xs"
      using all by blast
    finally have "view h' (TSlice T) v' = view h (TSlice T) v"
      using 2 out(1) cell by (simp add: elements_def)
    then show ?thesis
      using all 2 out ext cell by (auto simp: copied_def elements_def list_all_iff)
  qed
qed

lemma copies_newMap [copy_intros]:
  assumes "copies T f"
  shows "copies (TMap T) (newMap f)"
proof (rule copiesI)
  fix h v v' h'
  assume v: "wellTyped h (TMap T) v" and run: "run_state (newMap f v) h = (v', h')"
  from v show "copied (TMap T) h v v' h'"
  proof (cases rule: typed_map)
    case 1
    with run show ?thesis by (auto simp: newMap_def copied_def State_Monad.return_def)
  next
    case (2 a kvs)
    obtain ys h1 where ys: "run_state (copyAll f (map snd kvs)) h = (ys, h1)"
      by (cases "run_state (copyAll f (map snd kvs)) h")
    have typed: "x \<in> set (map snd kvs) \<Longrightarrow> wellTyped h T x" for x
      using 2(5) by auto
    have all: "(\<exists>e. h1 = h @ e)" "map (view h1 T) ys = map (view h T) (map snd kvs)"
        "\<And>y. y \<in> set ys \<Longrightarrow> wellTyped h1 T y \<and> (\<forall>a\<in>set (reach h1 T y). length h \<le> a)"
      using copyAll_copied [OF assms typed ys] by auto
    let ?kvs = "zip (map fst kvs) ys"
    have len: "length ys = length kvs" using all(2) by (metis length_map)
    have out: "v' = MapV (Some (length h1))" "h' = h1 @ [Table ?kvs]"
      using run 2 ys by (auto simp: newMap_def copy_simps)
    have ext: "wellTyped h' T y \<and> view h' T y = view h1 T y \<and> reach h' T y = reach h1 T y" if "y \<in> set ys" for y
      using all(3) [OF that] extended [of h1 T y "[Table ?kvs]"] out(2) by blast
    have cell: "cellAt h' (length h1) = Some (Table ?kvs)" by (simp add: out(2) cellAt_def nth_append)
    have "map (\<lambda>kv. (fst kv, view h' T (snd kv))) ?kvs = zip (map fst kvs) (map (view h' T) ys)"
      by (simp add: zip_map2 case_prod_beta')
    also have "map (view h' T) ys = map (view h T) (map snd kvs)"
      unfolding all(2) [symmetric] using ext by (intro map_cong) auto
    also have "zip (map fst kvs) \<dots> = map (\<lambda>kv. (fst kv, view h T (snd kv))) kvs"
      by (simp add: zip_map_map zip_same_conv_map)
    finally have "view h' (TMap T) v' = view h (TMap T) v"
      using 2 out(1) cell by (simp add: entries_def)
    then show ?thesis
      using all 2 out ext cell len
      by (auto simp: copied_def entries_def list_all_iff dest!: set_zip_rightD)
  qed
qed

lemma copies_viaPointer [copy_intros]:
  assumes "copies T f"
  shows "copies T (viaPointer f)"
proof (rule copiesI)
  fix h v v' h'
  assume v: "wellTyped h T v" and run: "run_state (viaPointer f v) h = (v', h')"
  obtain y h1 where y: "run_state (f v) h = (y, h1)" by (cases "run_state (f v) h")
  note cy = copiesD [OF assms v y]
  have "v' = y" "h' = h1 @ [Variable y]"
    using run y by (auto simp: viaPointer_def copy_simps variable_def cellAt_def)
  with cy extended [of h1 T y "[Variable y]"] show "copied T h v v' h'"
    by (auto simp: copied_def)
qed

text \<open>The fields of a struct, one after the other.\<close>

lemma fieldNames_setField [simp]: "fieldNames (setField n x v) = fieldNames v"
  by (cases v) (simp_all add: comp_def case_prod_beta')

lemma map_of_replaced:
  "m \<noteq> n \<Longrightarrow> map_of (map (\<lambda>(k, v). (k, if k = n then x else v)) fs) m = map_of fs m"
  "n \<in> fst ` set fs \<Longrightarrow> map_of (map (\<lambda>(k, v). (k, if k = n then x else v)) fs) n = Some x"
  by (induction fs) auto

lemma field_setField:
  "n \<in> set (fieldNames v) \<Longrightarrow> field m (setField n x v) = (if m = n then x else field m v)"
  by (cases v) (simp_all add: map_of_replaced)

lemma isStruct_setField:
  "(case setField n x v of StructV fs \<Rightarrow> True | _ \<Rightarrow> False) = (case v of StructV fs \<Rightarrow> True | _ \<Rightarrow> False)"
  by (cases v) simp_all

definition structCopied :: "(string \<times> goType) list \<Rightarrow> (string \<times> copier) list \<Rightarrow> bool" where
  "structCopied fts ps \<longleftrightarrow>
     distinct (map fst fts) \<and> distinct (map fst ps) \<and> set (map fst ps) \<subseteq> set (map fst fts) \<and>
     (\<forall>(n, T)\<in>set fts. case map_of ps n of Some f \<Rightarrow> copies T f | None \<Rightarrow> flat T)"

text \<open>
  While the fields \<open>ps\<close> are still to be copied, every field of the new struct has the contents
  of the old one, and those not in \<open>ps\<close> lead only to new cells.
\<close>

definition partlyCopied :: "(string \<times> goType) list \<Rightarrow> string set \<Rightarrow> goHeap \<Rightarrow> goValue \<Rightarrow> goHeap \<Rightarrow> goValue \<Rightarrow> bool" where
  "partlyCopied fts todo h0 inn h out \<longleftrightarrow>
     (\<exists>e. h = h0 @ e) \<and> (case out of StructV fs \<Rightarrow> True | _ \<Rightarrow> False) \<and> fieldNames out = map fst fts \<and>
     (\<forall>(n, T)\<in>set fts. wellTyped h T (field n out) \<and> view h T (field n out) = view h0 T (field n inn) \<and>
        (n \<notin> todo \<longrightarrow> (\<forall>a\<in>set (reach h T (field n out)). length h0 \<le> a)))"

lemma partlyCopied_step:
  assumes part: "partlyCopied fts (insert m todo) h0 inn h out" and "(m, U) \<in> set fts" "distinct (map fst fts)"
    and v: "copied U h (field m inn) v h'" and inn: "wellTyped h0 U (field m inn)"
  shows "partlyCopied fts todo h0 inn h' (setField m v out)"
proof -
  obtain e where e: "h = h0 @ e" using part by (auto simp: partlyCopied_def)
  obtain e' where e': "h' = h @ e'" using v by (auto simp: copied_def)
  have "view h U (field m inn) = view h0 U (field m inn)" "length h0 \<le> length h"
    using extended [OF inn, of e] e by simp_all
  then have new: "wellTyped h' U v" "view h' U v = view h0 U (field m inn)" "\<forall>a\<in>set (reach h' U v). length h0 \<le> a"
    using v by (auto simp: copied_def)
  have m: "m \<in> set (fieldNames out)" and names: "fieldNames out = map fst fts"
    using part assms(2) by (force simp: partlyCopied_def)+
  have "wellTyped h' T (field n (setField m v out)) \<and> view h' T (field n (setField m v out)) = view h0 T (field n inn) \<and>
      (n \<notin> todo \<longrightarrow> (\<forall>a\<in>set (reach h' T (field n (setField m v out))). length h0 \<le> a))"
    if nT: "(n, T) \<in> set fts" for n T
  proof (cases "n = m")
    case True
    with assms(2,3) nT have "T = U" by (metis eq_key_imp_eq_value)
    with True new m show ?thesis by (simp add: field_setField)
  next
    case False
    have "wellTyped h T (field n out)" using part nT by (auto simp: partlyCopied_def)
    from extended [OF this, of e'] False m part nT e' show ?thesis
      by (auto simp: field_setField partlyCopied_def)
  qed
  then show ?thesis
    using part e e' names by (auto simp: partlyCopied_def isStruct_setField)
qed

lemma copyFields_copied:
  assumes inn: "wellTyped h0 (TStruct fts) inn" and "distinct (map fst fts)"
    and "distinct (map fst ps)" "\<And>n f. (n, f) \<in> set ps \<Longrightarrow> \<exists>T. (n, T) \<in> set fts \<and> copies T f"
    and "partlyCopied fts (set (map fst ps)) h0 inn h out" and "run_state (copyFields ps inn out) h = (v', h')"
  shows "partlyCopied fts {} h0 inn h' v'"
  using assms(3-)
proof (induction ps arbitrary: h out)
  case Nil
  then show ?case by (simp add: State_Monad.return_def)
next
  case (Cons p ps)
  obtain m f where p: "p = (m, f)" by (cases p)
  then obtain U where U: "(m, U) \<in> set fts" "copies U f" using Cons.prems(2) by auto
  have typed: "wellTyped h0 U (field m inn)" using inn U(1) by (auto simp: list_all_iff)
  obtain e where e: "h = h0 @ e" using Cons.prems(3) by (auto simp: partlyCopied_def)
  obtain v h1 where v: "run_state (f (field m inn)) h = (v, h1)" by (cases "run_state (f (field m inn)) h")
  have "copied U h (field m inn) v h1"
    using copiesD [OF U(2) _ v] extended(1) [OF typed, of e] e by simp
  with Cons.prems(3) p U(1) assms(2) typed have "partlyCopied fts (set (map fst ps)) h0 inn h1 (setField m v out)"
    by (intro partlyCopied_step) simp_all
  moreover have "run_state (copyFields ps inn (setField m v out)) h1 = (v', h')"
    using Cons.prems(4) p v by (auto simp: State_Monad.bind_def)
  ultimately show ?case
    using Cons.prems(1,2) by (intro Cons.IH) auto
qed

lemma copies_copyStruct:
  assumes "structCopied fts ps"
  shows "copies (TStruct fts) (copyStruct ps)"
proof (rule copiesI)
  fix h v v' h'
  assume v: "wellTyped h (TStruct fts) v" and run: "run_state (copyStruct ps v) h = (v', h')"
  have "partlyCopied fts (set (map fst ps)) h v h v"
    using assms v by (force simp: partlyCopied_def structCopied_def list_all_iff reach_flat map_of_eq_None_iff
        split: option.splits)
  moreover have "\<exists>T. (n, T) \<in> set fts \<and> copies T f" if "(n, f) \<in> set ps" for n f
  proof -
    from assms that obtain T where T: "(n, T) \<in> set fts" by (force simp: structCopied_def)
    from assms that have "map_of ps n = Some f" by (simp add: structCopied_def)
    with assms T show ?thesis by (force simp: structCopied_def)
  qed
  moreover have "run_state (copyFields ps v v) h = (v', h')"
    using run by (simp add: copyStruct_def assign_def State_Monad.bind_def State_Monad.return_def)
  ultimately have "partlyCopied fts {} h v h' v'"
    using assms by (intro copyFields_copied [OF v, of ps]) (simp_all add: structCopied_def)
  then show "copied (TStruct fts) h v v' h'"
    by (force simp: partlyCopied_def copied_def list_all_iff)
qed

end
