(* ===== verification/DeepCopyTypes.thy ===== *)
theory DeepCopyTypes
  imports DeepCopySteps
begin

text \<open>
  The memory layout of the structs of \<^verbatim>\<open>api/v1alpha1\<close>, in an order in which
  a struct comes after those it contains: which fields hold their value and which lead to memory of
  their own. Types of the Kubernetes libraries are a parameter.
\<close>

record externals =
  xTypeMeta :: goType
  xObjectMeta :: goType
  xListMeta :: goType
  xCondition :: goType
  xTime :: goType
  xDuration :: goType
  xJSON :: goType
  xSecretKeySelector :: goType
  copyObjectMeta :: copier
  copyListMeta :: copier
  copyCondition :: copier
  copyTime :: copier
  copyJSON :: copier
  copySecretKeySelector :: copier

text \<open>
  What the generated code relies on: \<^verbatim>\<open>TypeMeta\<close> and \<^verbatim>\<open>Duration\<close>
  hold their value, and the \<^verbatim>\<open>DeepCopyInto\<close> of the other types is a deep copy.
\<close>

definition lawfulExternals :: "externals \<Rightarrow> bool" where
  "lawfulExternals X \<longleftrightarrow>
     flat (xTypeMeta X) \<and> flat (xDuration X) \<and>
     copies (xObjectMeta X) (copyObjectMeta X) \<and> copies (xListMeta X) (copyListMeta X) \<and>
     copies (xCondition X) (copyCondition X) \<and> copies (xTime X) (copyTime X) \<and>
     copies (xJSON X) (copyJSON X) \<and> copies (xSecretKeySelector X) (copySecretKeySelector X)"

section \<open>The structs\<close>

definition HarborConnectionBinding_type :: "goType" where
  "HarborConnectionBinding_type = TStruct
     [(''Kind'', TString), (''Name'', TString), (''Namespace'', TString), (''UID'', TString)]"

definition HarborConnectionReference_type :: "goType" where
  "HarborConnectionReference_type = TStruct
     [(''Name'', TString), (''Kind'', TString)]"

definition HarborSpecBase_type :: "externals \<Rightarrow> goType" where
  "HarborSpecBase_type X = TStruct
     [(''HarborConnectionRef'', TPtr HarborConnectionReference_type), (''DeletionPolicy'', TString),
      (''DriftDetectionInterval'', TPtr (xDuration X)), (''ReconcileNonce'', TString)]"

definition HarborClaimSpecBase_type :: "externals \<Rightarrow> goType" where
  "HarborClaimSpecBase_type X = TStruct
     [(''HarborConnectionRef'', TPtr HarborConnectionReference_type),
      (''DriftDetectionInterval'', TPtr (xDuration X)), (''ReconcileNonce'', TString)]"

definition SecretReference_type :: "goType" where
  "SecretReference_type = TStruct
     [(''Name'', TString), (''Key'', TString), (''Namespace'', TString)]"

definition ProjectReference_type :: "goType" where
  "ProjectReference_type = TStruct
     [(''Name'', TString), (''Namespace'', TString)]"

definition RegistryReference_type :: "goType" where
  "RegistryReference_type = TStruct
     [(''Name'', TString), (''Namespace'', TString)]"

definition UserReference_type :: "goType" where
  "UserReference_type = TStruct
     [(''Name'', TString), (''Namespace'', TString)]"

definition UserGroupClaimReference_type :: "goType" where
  "UserGroupClaimReference_type = TStruct
     [(''Name'', TString), (''Namespace'', TString)]"

definition HarborStatusBase_type :: "externals \<Rightarrow> goType" where
  "HarborStatusBase_type X = TStruct
     [(''ObservedGeneration'', TInt), (''Conditions'', TSlice (xCondition X)),
      (''ResolvedHarborConnection'', TPtr HarborConnectionBinding_type)]"

definition ConfigurationValueSource_type :: "goType" where
  "ConfigurationValueSource_type = TStruct
     [(''SecretKeyRef'', SecretReference_type)]"

definition ConfigurationValue_type :: "externals \<Rightarrow> goType" where
  "ConfigurationValue_type X = TStruct
     [(''Value'', TPtr (xJSON X)), (''ValueFrom'', TPtr ConfigurationValueSource_type)]"

definition ConfigurationSpec_type :: "externals \<Rightarrow> goType" where
  "ConfigurationSpec_type X = TStruct
     [(''HarborSpecBase'', HarborSpecBase_type X), (''Settings'', TMap (ConfigurationValue_type X))]"

definition ConfigurationStatus_type :: "externals \<Rightarrow> goType" where
  "ConfigurationStatus_type X = TStruct
     [(''HarborStatusBase'', HarborStatusBase_type X)]"

definition Configuration_type :: "externals \<Rightarrow> goType" where
  "Configuration_type X = TStruct
     [(''TypeMeta'', xTypeMeta X), (''ObjectMeta'', xObjectMeta X), (''Spec'', ConfigurationSpec_type X),
      (''Status'', ConfigurationStatus_type X)]"

definition ConfigurationList_type :: "externals \<Rightarrow> goType" where
  "ConfigurationList_type X = TStruct
     [(''TypeMeta'', xTypeMeta X), (''ListMeta'', xListMeta X), (''Items'', TSlice (Configuration_type X))]"

definition ScheduleSpec_type :: "goType" where
  "ScheduleSpec_type = TStruct
     [(''Type'', TString), (''Cron'', TString)]"

definition GCScheduleSpec_type :: "externals \<Rightarrow> goType" where
  "GCScheduleSpec_type X = TStruct
     [(''HarborSpecBase'', HarborSpecBase_type X), (''Schedule'', ScheduleSpec_type),
      (''Parameters'', TMap (xJSON X))]"

definition GCScheduleStatus_type :: "externals \<Rightarrow> goType" where
  "GCScheduleStatus_type X = TStruct
     [(''HarborStatusBase'', HarborStatusBase_type X), (''LastAppliedScheduleHash'', TString)]"

definition GCSchedule_type :: "externals \<Rightarrow> goType" where
  "GCSchedule_type X = TStruct
     [(''TypeMeta'', xTypeMeta X), (''ObjectMeta'', xObjectMeta X), (''Spec'', GCScheduleSpec_type X),
      (''Status'', GCScheduleStatus_type X)]"

definition GCScheduleList_type :: "externals \<Rightarrow> goType" where
  "GCScheduleList_type X = TStruct
     [(''TypeMeta'', xTypeMeta X), (''ListMeta'', xListMeta X), (''Items'', TSlice (GCSchedule_type X))]"

definition Credentials_type :: "goType" where
  "Credentials_type = TStruct
     [(''Type'', TString), (''Username'', TString), (''UsernameSecretRef'', TPtr SecretReference_type),
      (''PasswordSecretRef'', SecretReference_type)]"

definition HarborConnectionSpec_type :: "goType" where
  "HarborConnectionSpec_type = TStruct
     [(''BaseURL'', TString), (''Credentials'', TPtr Credentials_type), (''CABundle'', TString),
      (''CABundleSecretRef'', TPtr SecretReference_type)]"

definition HarborConnectionStatus_type :: "externals \<Rightarrow> goType" where
  "HarborConnectionStatus_type X = TStruct
     [(''HarborStatusBase'', HarborStatusBase_type X), (''Authenticated'', TBool)]"

definition HarborConnection_type :: "externals \<Rightarrow> goType" where
  "HarborConnection_type X = TStruct
     [(''TypeMeta'', xTypeMeta X), (''ObjectMeta'', xObjectMeta X), (''Spec'', HarborConnectionSpec_type),
      (''Status'', HarborConnectionStatus_type X)]"

definition HarborConnectionList_type :: "externals \<Rightarrow> goType" where
  "HarborConnectionList_type X = TStruct
     [(''TypeMeta'', xTypeMeta X), (''ListMeta'', xListMeta X), (''Items'', TSlice (HarborConnection_type X))]"

definition ClusterHarborConnection_type :: "externals \<Rightarrow> goType" where
  "ClusterHarborConnection_type X = TStruct
     [(''TypeMeta'', xTypeMeta X), (''ObjectMeta'', xObjectMeta X), (''Spec'', HarborConnectionSpec_type),
      (''Status'', HarborConnectionStatus_type X)]"

definition ClusterHarborConnectionList_type :: "externals \<Rightarrow> goType" where
  "ClusterHarborConnectionList_type X = TStruct
     [(''TypeMeta'', xTypeMeta X), (''ListMeta'', xListMeta X),
      (''Items'', TSlice (ClusterHarborConnection_type X))]"

definition ImmutableSelector_type :: "goType" where
  "ImmutableSelector_type = TStruct
     [(''Kind'', TString), (''Decoration'', TString), (''Pattern'', TString), (''Extras'', TString)]"

definition ImmutableTagRuleSpec_type :: "externals \<Rightarrow> goType" where
  "ImmutableTagRuleSpec_type X = TStruct
     [(''HarborSpecBase'', HarborSpecBase_type X), (''CreationPolicy'', TString),
      (''ProjectRef'', TPtr ProjectReference_type), (''Disabled'', TBool), (''Action'', TString),
      (''Template'', TString), (''Params'', TMap (xJSON X)),
      (''TagSelectors'', TSlice ImmutableSelector_type),
      (''ScopeSelectors'', TMap (TSlice ImmutableSelector_type)), (''Priority'', TInt)]"

definition ImmutableTagRuleStatus_type :: "externals \<Rightarrow> goType" where
  "ImmutableTagRuleStatus_type X = TStruct
     [(''HarborStatusBase'', HarborStatusBase_type X), (''HarborImmutableRuleID'', TInt)]"

definition ImmutableTagRule_type :: "externals \<Rightarrow> goType" where
  "ImmutableTagRule_type X = TStruct
     [(''TypeMeta'', xTypeMeta X), (''ObjectMeta'', xObjectMeta X), (''Spec'', ImmutableTagRuleSpec_type X),
      (''Status'', ImmutableTagRuleStatus_type X)]"

definition ImmutableTagRuleList_type :: "externals \<Rightarrow> goType" where
  "ImmutableTagRuleList_type X = TStruct
     [(''TypeMeta'', xTypeMeta X), (''ListMeta'', xListMeta X), (''Items'', TSlice (ImmutableTagRule_type X))]"

definition LabelSpec_type :: "externals \<Rightarrow> goType" where
  "LabelSpec_type X = TStruct
     [(''HarborSpecBase'', HarborSpecBase_type X), (''CreationPolicy'', TString), (''Description'', TString),
      (''Color'', TString), (''Scope'', TString), (''ProjectRef'', TPtr ProjectReference_type)]"

definition LabelStatus_type :: "externals \<Rightarrow> goType" where
  "LabelStatus_type X = TStruct
     [(''HarborStatusBase'', HarborStatusBase_type X), (''HarborLabelID'', TInt)]"

definition Label_type :: "externals \<Rightarrow> goType" where
  "Label_type X = TStruct
     [(''TypeMeta'', xTypeMeta X), (''ObjectMeta'', xObjectMeta X), (''Spec'', LabelSpec_type X),
      (''Status'', LabelStatus_type X)]"

definition LabelList_type :: "externals \<Rightarrow> goType" where
  "LabelList_type X = TStruct
     [(''TypeMeta'', xTypeMeta X), (''ListMeta'', xListMeta X), (''Items'', TSlice (Label_type X))]"

definition MemberUser_type :: "goType" where
  "MemberUser_type = TStruct
     [(''UserRef'', UserReference_type)]"

definition MemberGroup_type :: "goType" where
  "MemberGroup_type = TStruct
     [(''GroupClaimRef'', UserGroupClaimReference_type)]"

definition MemberSpec_type :: "externals \<Rightarrow> goType" where
  "MemberSpec_type X = TStruct
     [(''HarborSpecBase'', HarborSpecBase_type X), (''CreationPolicy'', TString),
      (''ProjectRef'', ProjectReference_type), (''Role'', TString), (''MemberUser'', TPtr MemberUser_type),
      (''MemberGroup'', TPtr MemberGroup_type)]"

definition MemberStatus_type :: "externals \<Rightarrow> goType" where
  "MemberStatus_type X = TStruct
     [(''HarborStatusBase'', HarborStatusBase_type X), (''HarborProjectID'', TInt), (''HarborMemberID'', TInt)]"

definition Member_type :: "externals \<Rightarrow> goType" where
  "Member_type X = TStruct
     [(''TypeMeta'', xTypeMeta X), (''ObjectMeta'', xObjectMeta X), (''Spec'', MemberSpec_type X),
      (''Status'', MemberStatus_type X)]"

definition MemberList_type :: "externals \<Rightarrow> goType" where
  "MemberList_type X = TStruct
     [(''TypeMeta'', xTypeMeta X), (''ListMeta'', xListMeta X), (''Items'', TSlice (Member_type X))]"

definition ProjectMetadata_type :: "goType" where
  "ProjectMetadata_type = TStruct
     [(''Public'', TString), (''EnableContentTrust'', TString), (''EnableContentTrustCosign'', TString),
      (''PreventVul'', TString), (''Severity'', TString), (''AutoScan'', TString),
      (''AutoSBOMGeneration'', TString), (''ReuseSysCVEAllowlist'', TString), (''RetentionID'', TString),
      (''ProxySpeedKB'', TString)]"

definition CVEAllowlistItem_type :: "goType" where
  "CVEAllowlistItem_type = TStruct
     [(''CveID'', TString)]"

definition CVEAllowlist_type :: "externals \<Rightarrow> goType" where
  "CVEAllowlist_type X = TStruct
     [(''ID'', TInt), (''ProjectID'', TInt), (''ExpiresAt'', TInt), (''Items'', TSlice CVEAllowlistItem_type),
      (''CreationTime'', xTime X), (''UpdateTime'', xTime X)]"

definition ProjectSpec_type :: "externals \<Rightarrow> goType" where
  "ProjectSpec_type X = TStruct
     [(''HarborSpecBase'', HarborSpecBase_type X), (''CreationPolicy'', TString), (''Public'', TBool),
      (''Owner'', TString), (''Metadata'', TPtr ProjectMetadata_type),
      (''CVEAllowlist'', TPtr (CVEAllowlist_type X)), (''StorageLimit'', TInt),
      (''RegistryRef'', TPtr RegistryReference_type)]"

definition ProjectStatus_type :: "externals \<Rightarrow> goType" where
  "ProjectStatus_type X = TStruct
     [(''HarborStatusBase'', HarborStatusBase_type X), (''HarborProjectID'', TInt)]"

definition Project_type :: "externals \<Rightarrow> goType" where
  "Project_type X = TStruct
     [(''TypeMeta'', xTypeMeta X), (''ObjectMeta'', xObjectMeta X), (''Spec'', ProjectSpec_type X),
      (''Status'', ProjectStatus_type X)]"

definition ProjectList_type :: "externals \<Rightarrow> goType" where
  "ProjectList_type X = TStruct
     [(''TypeMeta'', xTypeMeta X), (''ListMeta'', xListMeta X), (''Items'', TSlice (Project_type X))]"

definition PurgeAuditParameters_type :: "goType" where
  "PurgeAuditParameters_type = TStruct
     [(''AuditRetentionHour'', TInt), (''IncludeEventTypes'', TString), (''DryRun'', TBool)]"

definition PurgeAuditScheduleSpec_type :: "externals \<Rightarrow> goType" where
  "PurgeAuditScheduleSpec_type X = TStruct
     [(''HarborSpecBase'', HarborSpecBase_type X), (''Schedule'', ScheduleSpec_type),
      (''Parameters'', PurgeAuditParameters_type)]"

definition PurgeAuditScheduleStatus_type :: "externals \<Rightarrow> goType" where
  "PurgeAuditScheduleStatus_type X = TStruct
     [(''HarborStatusBase'', HarborStatusBase_type X), (''LastAppliedScheduleHash'', TString)]"

definition PurgeAuditSchedule_type :: "externals \<Rightarrow> goType" where
  "PurgeAuditSchedule_type X = TStruct
     [(''TypeMeta'', xTypeMeta X), (''ObjectMeta'', xObjectMeta X), (''Spec'', PurgeAuditScheduleSpec_type X),
      (''Status'', PurgeAuditScheduleStatus_type X)]"

definition PurgeAuditScheduleList_type :: "externals \<Rightarrow> goType" where
  "PurgeAuditScheduleList_type X = TStruct
     [(''TypeMeta'', xTypeMeta X), (''ListMeta'', xListMeta X),
      (''Items'', TSlice (PurgeAuditSchedule_type X))]"

definition QuotaSpec_type :: "externals \<Rightarrow> goType" where
  "QuotaSpec_type X = TStruct
     [(''HarborSpecBase'', HarborSpecBase_type X), (''ProjectRef'', TPtr ProjectReference_type),
      (''Hard'', TMap TInt)]"

definition QuotaStatus_type :: "externals \<Rightarrow> goType" where
  "QuotaStatus_type X = TStruct
     [(''HarborStatusBase'', HarborStatusBase_type X), (''HarborQuotaID'', TInt)]"

definition Quota_type :: "externals \<Rightarrow> goType" where
  "Quota_type X = TStruct
     [(''TypeMeta'', xTypeMeta X), (''ObjectMeta'', xObjectMeta X), (''Spec'', QuotaSpec_type X),
      (''Status'', QuotaStatus_type X)]"

definition QuotaList_type :: "externals \<Rightarrow> goType" where
  "QuotaList_type X = TStruct
     [(''TypeMeta'', xTypeMeta X), (''ListMeta'', xListMeta X), (''Items'', TSlice (Quota_type X))]"

definition RegistryCredentialSpec_type :: "goType" where
  "RegistryCredentialSpec_type = TStruct
     [(''Type'', TString), (''AccessKeySecretRef'', SecretReference_type),
      (''AccessSecretSecretRef'', SecretReference_type)]"

definition RegistrySpec_type :: "externals \<Rightarrow> goType" where
  "RegistrySpec_type X = TStruct
     [(''HarborSpecBase'', HarborSpecBase_type X), (''CreationPolicy'', TString), (''Type'', TString),
      (''Description'', TString), (''URL'', TString), (''Credential'', TPtr RegistryCredentialSpec_type),
      (''CACertificate'', TString), (''CACertificateRef'', TPtr SecretReference_type), (''Insecure'', TBool)]"

definition RegistryStatus_type :: "externals \<Rightarrow> goType" where
  "RegistryStatus_type X = TStruct
     [(''HarborStatusBase'', HarborStatusBase_type X), (''HarborRegistryID'', TInt),
      (''CredentialHash'', TString)]"

definition Registry_type :: "externals \<Rightarrow> goType" where
  "Registry_type X = TStruct
     [(''TypeMeta'', xTypeMeta X), (''ObjectMeta'', xObjectMeta X), (''Spec'', RegistrySpec_type X),
      (''Status'', RegistryStatus_type X)]"

definition RegistryList_type :: "externals \<Rightarrow> goType" where
  "RegistryList_type X = TStruct
     [(''TypeMeta'', xTypeMeta X), (''ListMeta'', xListMeta X), (''Items'', TSlice (Registry_type X))]"

definition ReplicationTriggerSettings_type :: "goType" where
  "ReplicationTriggerSettings_type = TStruct
     [(''Cron'', TString)]"

definition ReplicationTriggerSpec_type :: "goType" where
  "ReplicationTriggerSpec_type = TStruct
     [(''Type'', TString), (''Settings'', TPtr ReplicationTriggerSettings_type)]"

definition ReplicationFilterSpec_type :: "externals \<Rightarrow> goType" where
  "ReplicationFilterSpec_type X = TStruct
     [(''Type'', TString), (''Value'', xJSON X), (''Decoration'', TString)]"

definition ReplicationPolicySpec_type :: "externals \<Rightarrow> goType" where
  "ReplicationPolicySpec_type X = TStruct
     [(''HarborSpecBase'', HarborSpecBase_type X), (''CreationPolicy'', TString), (''Description'', TString),
      (''SourceRegistryRef'', TPtr RegistryReference_type),
      (''DestinationRegistryRef'', TPtr RegistryReference_type), (''DestNamespace'', TString),
      (''DestNamespaceReplaceCount'', TPtr TInt), (''Trigger'', TPtr ReplicationTriggerSpec_type),
      (''Filters'', TSlice (ReplicationFilterSpec_type X)), (''ReplicateDeletion'', TPtr TBool),
      (''Override'', TPtr TBool), (''Enabled'', TPtr TBool), (''Speed'', TPtr TInt),
      (''CopyByChunk'', TPtr TBool), (''SingleActiveReplication'', TPtr TBool)]"

definition ReplicationPolicyStatus_type :: "externals \<Rightarrow> goType" where
  "ReplicationPolicyStatus_type X = TStruct
     [(''HarborStatusBase'', HarborStatusBase_type X), (''HarborReplicationPolicyID'', TInt)]"

definition ReplicationPolicy_type :: "externals \<Rightarrow> goType" where
  "ReplicationPolicy_type X = TStruct
     [(''TypeMeta'', xTypeMeta X), (''ObjectMeta'', xObjectMeta X), (''Spec'', ReplicationPolicySpec_type X),
      (''Status'', ReplicationPolicyStatus_type X)]"

definition ReplicationPolicyList_type :: "externals \<Rightarrow> goType" where
  "ReplicationPolicyList_type X = TStruct
     [(''TypeMeta'', xTypeMeta X), (''ListMeta'', xListMeta X), (''Items'', TSlice (ReplicationPolicy_type X))]"

definition RetentionSelector_type :: "goType" where
  "RetentionSelector_type = TStruct
     [(''Kind'', TString), (''Decoration'', TString), (''Pattern'', TString), (''Extras'', TString)]"

definition RetentionRule_type :: "externals \<Rightarrow> goType" where
  "RetentionRule_type X = TStruct
     [(''Disabled'', TBool), (''Action'', TString), (''Template'', TString), (''Params'', TMap (xJSON X)),
      (''TagSelectors'', TSlice RetentionSelector_type),
      (''ScopeSelectors'', TMap (TSlice RetentionSelector_type))]"

definition RetentionTrigger_type :: "externals \<Rightarrow> goType" where
  "RetentionTrigger_type X = TStruct
     [(''Kind'', TString), (''Settings'', TMap (xJSON X)), (''References'', TMap (xJSON X))]"

definition RetentionScope_type :: "goType" where
  "RetentionScope_type = TStruct
     [(''Level'', TString), (''Ref'', TInt)]"

definition RetentionPolicySpec_type :: "externals \<Rightarrow> goType" where
  "RetentionPolicySpec_type X = TStruct
     [(''HarborSpecBase'', HarborSpecBase_type X), (''ProjectRef'', TPtr ProjectReference_type),
      (''Rules'', TSlice (RetentionRule_type X)), (''Trigger'', TPtr (RetentionTrigger_type X)),
      (''Scope'', TPtr RetentionScope_type)]"

definition RetentionPolicyStatus_type :: "externals \<Rightarrow> goType" where
  "RetentionPolicyStatus_type X = TStruct
     [(''HarborStatusBase'', HarborStatusBase_type X), (''HarborRetentionID'', TInt)]"

definition RetentionPolicy_type :: "externals \<Rightarrow> goType" where
  "RetentionPolicy_type X = TStruct
     [(''TypeMeta'', xTypeMeta X), (''ObjectMeta'', xObjectMeta X), (''Spec'', RetentionPolicySpec_type X),
      (''Status'', RetentionPolicyStatus_type X)]"

definition RetentionPolicyList_type :: "externals \<Rightarrow> goType" where
  "RetentionPolicyList_type X = TStruct
     [(''TypeMeta'', xTypeMeta X), (''ListMeta'', xListMeta X), (''Items'', TSlice (RetentionPolicy_type X))]"

definition RobotAccess_type :: "goType" where
  "RobotAccess_type = TStruct
     [(''Resource'', TString), (''Action'', TString), (''Effect'', TString)]"

definition RobotPermission_type :: "goType" where
  "RobotPermission_type = TStruct
     [(''Kind'', TString), (''ProjectRef'', TPtr ProjectReference_type), (''Access'', TSlice RobotAccess_type)]"

definition RobotSpec_type :: "externals \<Rightarrow> goType" where
  "RobotSpec_type X = TStruct
     [(''HarborSpecBase'', HarborSpecBase_type X), (''CreationPolicy'', TString), (''Description'', TString),
      (''Level'', TString), (''Permissions'', TSlice RobotPermission_type), (''Disable'', TPtr TBool),
      (''Duration'', TInt), (''SecretRef'', TPtr SecretReference_type)]"

definition RobotStatus_type :: "externals \<Rightarrow> goType" where
  "RobotStatus_type X = TStruct
     [(''HarborStatusBase'', HarborStatusBase_type X), (''HarborRobotID'', TInt), (''Username'', TString),
      (''LastRotatedAt'', TPtr (xTime X)), (''ExpiresAt'', TPtr (xTime X))]"

definition Robot_type :: "externals \<Rightarrow> goType" where
  "Robot_type X = TStruct
     [(''TypeMeta'', xTypeMeta X), (''ObjectMeta'', xObjectMeta X), (''Spec'', RobotSpec_type X),
      (''Status'', RobotStatus_type X)]"

definition RobotList_type :: "externals \<Rightarrow> goType" where
  "RobotList_type X = TStruct
     [(''TypeMeta'', xTypeMeta X), (''ListMeta'', xListMeta X), (''Items'', TSlice (Robot_type X))]"

definition ScanAllScheduleSpec_type :: "externals \<Rightarrow> goType" where
  "ScanAllScheduleSpec_type X = TStruct
     [(''HarborSpecBase'', HarborSpecBase_type X), (''Schedule'', ScheduleSpec_type),
      (''Parameters'', TMap (xJSON X))]"

definition ScanAllScheduleStatus_type :: "externals \<Rightarrow> goType" where
  "ScanAllScheduleStatus_type X = TStruct
     [(''HarborStatusBase'', HarborStatusBase_type X), (''LastAppliedScheduleHash'', TString)]"

definition ScanAllSchedule_type :: "externals \<Rightarrow> goType" where
  "ScanAllSchedule_type X = TStruct
     [(''TypeMeta'', xTypeMeta X), (''ObjectMeta'', xObjectMeta X), (''Spec'', ScanAllScheduleSpec_type X),
      (''Status'', ScanAllScheduleStatus_type X)]"

definition ScanAllScheduleList_type :: "externals \<Rightarrow> goType" where
  "ScanAllScheduleList_type X = TStruct
     [(''TypeMeta'', xTypeMeta X), (''ListMeta'', xListMeta X), (''Items'', TSlice (ScanAllSchedule_type X))]"

definition ScannerRegistrationSpec_type :: "externals \<Rightarrow> goType" where
  "ScannerRegistrationSpec_type X = TStruct
     [(''HarborSpecBase'', HarborSpecBase_type X), (''CreationPolicy'', TString), (''Description'', TString),
      (''URL'', TString), (''Auth'', TString), (''AccessCredential'', TString),
      (''AccessCredentialSecretRef'', TPtr SecretReference_type), (''SkipCertVerify'', TBool),
      (''UseInternalAddr'', TBool), (''Disabled'', TBool), (''Default'', TBool)]"

definition ScannerRegistrationStatus_type :: "externals \<Rightarrow> goType" where
  "ScannerRegistrationStatus_type X = TStruct
     [(''HarborStatusBase'', HarborStatusBase_type X), (''HarborScannerID'', TString),
      (''CredentialHash'', TString)]"

definition ScannerRegistration_type :: "externals \<Rightarrow> goType" where
  "ScannerRegistration_type X = TStruct
     [(''TypeMeta'', xTypeMeta X), (''ObjectMeta'', xObjectMeta X),
      (''Spec'', ScannerRegistrationSpec_type X), (''Status'', ScannerRegistrationStatus_type X)]"

definition ScannerRegistrationList_type :: "externals \<Rightarrow> goType" where
  "ScannerRegistrationList_type X = TStruct
     [(''TypeMeta'', xTypeMeta X), (''ListMeta'', xListMeta X),
      (''Items'', TSlice (ScannerRegistration_type X))]"

definition UserSpec_type :: "externals \<Rightarrow> goType" where
  "UserSpec_type X = TStruct
     [(''HarborSpecBase'', HarborSpecBase_type X), (''CreationPolicy'', TString), (''Email'', TString),
      (''Realname'', TString), (''Comment'', TString), (''PasswordSecretRef'', xSecretKeySelector X)]"

definition UserStatus_type :: "externals \<Rightarrow> goType" where
  "UserStatus_type X = TStruct
     [(''HarborStatusBase'', HarborStatusBase_type X), (''HarborUserID'', TInt)]"

definition User_type :: "externals \<Rightarrow> goType" where
  "User_type X = TStruct
     [(''TypeMeta'', xTypeMeta X), (''ObjectMeta'', xObjectMeta X), (''Spec'', UserSpec_type X),
      (''Status'', UserStatus_type X)]"

definition UserList_type :: "externals \<Rightarrow> goType" where
  "UserList_type X = TStruct
     [(''TypeMeta'', xTypeMeta X), (''ListMeta'', xListMeta X), (''Items'', TSlice (User_type X))]"

definition UserGroupClaimSpec_type :: "externals \<Rightarrow> goType" where
  "UserGroupClaimSpec_type X = TStruct
     [(''HarborClaimSpecBase'', HarborClaimSpecBase_type X), (''GroupName'', TString), (''GroupType'', TInt),
      (''LDAPGroupDN'', TString)]"

definition UserGroupClaimStatus_type :: "externals \<Rightarrow> goType" where
  "UserGroupClaimStatus_type X = TStruct
     [(''HarborStatusBase'', HarborStatusBase_type X), (''HarborGroupID'', TInt)]"

definition UserGroupClaim_type :: "externals \<Rightarrow> goType" where
  "UserGroupClaim_type X = TStruct
     [(''TypeMeta'', xTypeMeta X), (''ObjectMeta'', xObjectMeta X), (''Spec'', UserGroupClaimSpec_type X),
      (''Status'', UserGroupClaimStatus_type X)]"

definition UserGroupClaimList_type :: "externals \<Rightarrow> goType" where
  "UserGroupClaimList_type X = TStruct
     [(''TypeMeta'', xTypeMeta X), (''ListMeta'', xListMeta X), (''Items'', TSlice (UserGroupClaim_type X))]"

definition WebhookTargetSpec_type :: "goType" where
  "WebhookTargetSpec_type = TStruct
     [(''Type'', TString), (''Address'', TString), (''AuthHeader'', TString),
      (''AuthHeaderSecretRef'', TPtr SecretReference_type), (''PayloadFormat'', TString),
      (''SkipCertVerify'', TBool)]"

definition WebhookPolicySpec_type :: "externals \<Rightarrow> goType" where
  "WebhookPolicySpec_type X = TStruct
     [(''HarborSpecBase'', HarborSpecBase_type X), (''CreationPolicy'', TString),
      (''ProjectRef'', TPtr ProjectReference_type), (''Description'', TString), (''Enabled'', TPtr TBool),
      (''EventTypes'', TSlice TString), (''Targets'', TSlice WebhookTargetSpec_type)]"

definition WebhookPolicyStatus_type :: "externals \<Rightarrow> goType" where
  "WebhookPolicyStatus_type X = TStruct
     [(''HarborStatusBase'', HarborStatusBase_type X), (''HarborWebhookPolicyID'', TInt),
      (''TargetsHash'', TString)]"

definition WebhookPolicy_type :: "externals \<Rightarrow> goType" where
  "WebhookPolicy_type X = TStruct
     [(''TypeMeta'', xTypeMeta X), (''ObjectMeta'', xObjectMeta X), (''Spec'', WebhookPolicySpec_type X),
      (''Status'', WebhookPolicyStatus_type X)]"

definition WebhookPolicyList_type :: "externals \<Rightarrow> goType" where
  "WebhookPolicyList_type X = TStruct
     [(''TypeMeta'', xTypeMeta X), (''ListMeta'', xListMeta X), (''Items'', TSlice (WebhookPolicy_type X))]"

section \<open>Structs without memory of their own\<close>

lemma flat_types:
  "flat HarborConnectionBinding_type"
  "flat HarborConnectionReference_type"
  "flat SecretReference_type"
  "flat ProjectReference_type"
  "flat RegistryReference_type"
  "flat UserReference_type"
  "flat UserGroupClaimReference_type"
  "flat ConfigurationValueSource_type"
  "flat ScheduleSpec_type"
  "flat ImmutableSelector_type"
  "flat MemberUser_type"
  "flat MemberGroup_type"
  "flat ProjectMetadata_type"
  "flat CVEAllowlistItem_type"
  "flat PurgeAuditParameters_type"
  "flat RegistryCredentialSpec_type"
  "flat ReplicationTriggerSettings_type"
  "flat RetentionSelector_type"
  "flat RetentionScope_type"
  "flat RobotAccess_type"
  by (simp_all add:
      HarborConnectionBinding_type_def HarborConnectionReference_type_def SecretReference_type_def
      ProjectReference_type_def RegistryReference_type_def UserReference_type_def
      UserGroupClaimReference_type_def ConfigurationValueSource_type_def ScheduleSpec_type_def
      ImmutableSelector_type_def MemberUser_type_def MemberGroup_type_def ProjectMetadata_type_def
      CVEAllowlistItem_type_def PurgeAuditParameters_type_def RegistryCredentialSpec_type_def
      ReplicationTriggerSettings_type_def RetentionSelector_type_def RetentionScope_type_def
      RobotAccess_type_def)

end
