(* ===== verification/DeepCopies.thy ===== *)
theory DeepCopies
  imports DeepCopyTypes
begin

text \<open>
  The generated functions of \<^verbatim>\<open>zz_generated.deepcopy.go\<close>. Every
  \<^verbatim>\<open>DeepCopyInto\<close> assigns the whole struct and then replaces the fields that need
  more than an assignment, in the order of the code.
\<close>

definition HarborConnectionBinding_DeepCopyInto :: "copier" where
  "HarborConnectionBinding_DeepCopyInto = copyStruct []"

definition HarborConnectionBinding_DeepCopy :: "copier" where
  "HarborConnectionBinding_DeepCopy = newPtr HarborConnectionBinding_DeepCopyInto"

definition HarborConnectionReference_DeepCopyInto :: "copier" where
  "HarborConnectionReference_DeepCopyInto = copyStruct []"

definition HarborConnectionReference_DeepCopy :: "copier" where
  "HarborConnectionReference_DeepCopy = newPtr HarborConnectionReference_DeepCopyInto"

definition HarborSpecBase_DeepCopyInto :: "copier" where
  "HarborSpecBase_DeepCopyInto = copyStruct
     [(''HarborConnectionRef'', newPtr assign), (''DriftDetectionInterval'', newPtr assign)]"

definition HarborSpecBase_DeepCopy :: "copier" where
  "HarborSpecBase_DeepCopy = newPtr HarborSpecBase_DeepCopyInto"

definition HarborClaimSpecBase_DeepCopyInto :: "copier" where
  "HarborClaimSpecBase_DeepCopyInto = copyStruct
     [(''HarborConnectionRef'', newPtr assign), (''DriftDetectionInterval'', newPtr assign)]"

definition HarborClaimSpecBase_DeepCopy :: "copier" where
  "HarborClaimSpecBase_DeepCopy = newPtr HarborClaimSpecBase_DeepCopyInto"

definition SecretReference_DeepCopyInto :: "copier" where
  "SecretReference_DeepCopyInto = copyStruct []"

definition SecretReference_DeepCopy :: "copier" where
  "SecretReference_DeepCopy = newPtr SecretReference_DeepCopyInto"

definition ProjectReference_DeepCopyInto :: "copier" where
  "ProjectReference_DeepCopyInto = copyStruct []"

definition ProjectReference_DeepCopy :: "copier" where
  "ProjectReference_DeepCopy = newPtr ProjectReference_DeepCopyInto"

definition RegistryReference_DeepCopyInto :: "copier" where
  "RegistryReference_DeepCopyInto = copyStruct []"

definition RegistryReference_DeepCopy :: "copier" where
  "RegistryReference_DeepCopy = newPtr RegistryReference_DeepCopyInto"

definition UserReference_DeepCopyInto :: "copier" where
  "UserReference_DeepCopyInto = copyStruct []"

definition UserReference_DeepCopy :: "copier" where
  "UserReference_DeepCopy = newPtr UserReference_DeepCopyInto"

definition UserGroupClaimReference_DeepCopyInto :: "copier" where
  "UserGroupClaimReference_DeepCopyInto = copyStruct []"

definition UserGroupClaimReference_DeepCopy :: "copier" where
  "UserGroupClaimReference_DeepCopy = newPtr UserGroupClaimReference_DeepCopyInto"

definition HarborStatusBase_DeepCopyInto :: "externals \<Rightarrow> copier" where
  "HarborStatusBase_DeepCopyInto X = copyStruct
     [(''Conditions'', newSlice (copyCondition X)), (''ResolvedHarborConnection'', newPtr assign)]"

definition HarborStatusBase_DeepCopy :: "externals \<Rightarrow> copier" where
  "HarborStatusBase_DeepCopy X = newPtr (HarborStatusBase_DeepCopyInto X)"

definition ConfigurationValueSource_DeepCopyInto :: "copier" where
  "ConfigurationValueSource_DeepCopyInto = copyStruct
     [(''SecretKeyRef'', assign)]"

definition ConfigurationValueSource_DeepCopy :: "copier" where
  "ConfigurationValueSource_DeepCopy = newPtr ConfigurationValueSource_DeepCopyInto"

definition ConfigurationValue_DeepCopyInto :: "externals \<Rightarrow> copier" where
  "ConfigurationValue_DeepCopyInto X = copyStruct
     [(''Value'', newPtr (copyJSON X)), (''ValueFrom'', newPtr assign)]"

definition ConfigurationValue_DeepCopy :: "externals \<Rightarrow> copier" where
  "ConfigurationValue_DeepCopy X = newPtr (ConfigurationValue_DeepCopyInto X)"

definition ConfigurationSpec_DeepCopyInto :: "externals \<Rightarrow> copier" where
  "ConfigurationSpec_DeepCopyInto X = copyStruct
     [(''HarborSpecBase'', HarborSpecBase_DeepCopyInto),
      (''Settings'', newMap (viaPointer (ConfigurationValue_DeepCopyInto X)))]"

definition ConfigurationSpec_DeepCopy :: "externals \<Rightarrow> copier" where
  "ConfigurationSpec_DeepCopy X = newPtr (ConfigurationSpec_DeepCopyInto X)"

definition ConfigurationStatus_DeepCopyInto :: "externals \<Rightarrow> copier" where
  "ConfigurationStatus_DeepCopyInto X = copyStruct
     [(''HarborStatusBase'', HarborStatusBase_DeepCopyInto X)]"

definition ConfigurationStatus_DeepCopy :: "externals \<Rightarrow> copier" where
  "ConfigurationStatus_DeepCopy X = newPtr (ConfigurationStatus_DeepCopyInto X)"

definition Configuration_DeepCopyInto :: "externals \<Rightarrow> copier" where
  "Configuration_DeepCopyInto X = copyStruct
     [(''TypeMeta'', assign), (''ObjectMeta'', copyObjectMeta X),
      (''Spec'', ConfigurationSpec_DeepCopyInto X), (''Status'', ConfigurationStatus_DeepCopyInto X)]"

definition Configuration_DeepCopy :: "externals \<Rightarrow> copier" where
  "Configuration_DeepCopy X = newPtr (Configuration_DeepCopyInto X)"

definition Configuration_DeepCopyObject :: "externals \<Rightarrow> goValue \<Rightarrow> (goHeap, goValue option) state" where
  "Configuration_DeepCopyObject X = asObject (Configuration_DeepCopy X)"

definition ConfigurationList_DeepCopyInto :: "externals \<Rightarrow> copier" where
  "ConfigurationList_DeepCopyInto X = copyStruct
     [(''TypeMeta'', assign), (''ListMeta'', copyListMeta X),
      (''Items'', newSlice (Configuration_DeepCopyInto X))]"

definition ConfigurationList_DeepCopy :: "externals \<Rightarrow> copier" where
  "ConfigurationList_DeepCopy X = newPtr (ConfigurationList_DeepCopyInto X)"

definition ConfigurationList_DeepCopyObject :: "externals \<Rightarrow> goValue \<Rightarrow> (goHeap, goValue option) state" where
  "ConfigurationList_DeepCopyObject X = asObject (ConfigurationList_DeepCopy X)"

definition ScheduleSpec_DeepCopyInto :: "copier" where
  "ScheduleSpec_DeepCopyInto = copyStruct []"

definition ScheduleSpec_DeepCopy :: "copier" where
  "ScheduleSpec_DeepCopy = newPtr ScheduleSpec_DeepCopyInto"

definition GCScheduleSpec_DeepCopyInto :: "externals \<Rightarrow> copier" where
  "GCScheduleSpec_DeepCopyInto X = copyStruct
     [(''HarborSpecBase'', HarborSpecBase_DeepCopyInto), (''Schedule'', assign),
      (''Parameters'', newMap (viaPointer (copyJSON X)))]"

definition GCScheduleSpec_DeepCopy :: "externals \<Rightarrow> copier" where
  "GCScheduleSpec_DeepCopy X = newPtr (GCScheduleSpec_DeepCopyInto X)"

definition GCScheduleStatus_DeepCopyInto :: "externals \<Rightarrow> copier" where
  "GCScheduleStatus_DeepCopyInto X = copyStruct
     [(''HarborStatusBase'', HarborStatusBase_DeepCopyInto X)]"

definition GCScheduleStatus_DeepCopy :: "externals \<Rightarrow> copier" where
  "GCScheduleStatus_DeepCopy X = newPtr (GCScheduleStatus_DeepCopyInto X)"

definition GCSchedule_DeepCopyInto :: "externals \<Rightarrow> copier" where
  "GCSchedule_DeepCopyInto X = copyStruct
     [(''TypeMeta'', assign), (''ObjectMeta'', copyObjectMeta X), (''Spec'', GCScheduleSpec_DeepCopyInto X),
      (''Status'', GCScheduleStatus_DeepCopyInto X)]"

definition GCSchedule_DeepCopy :: "externals \<Rightarrow> copier" where
  "GCSchedule_DeepCopy X = newPtr (GCSchedule_DeepCopyInto X)"

definition GCSchedule_DeepCopyObject :: "externals \<Rightarrow> goValue \<Rightarrow> (goHeap, goValue option) state" where
  "GCSchedule_DeepCopyObject X = asObject (GCSchedule_DeepCopy X)"

definition GCScheduleList_DeepCopyInto :: "externals \<Rightarrow> copier" where
  "GCScheduleList_DeepCopyInto X = copyStruct
     [(''TypeMeta'', assign), (''ListMeta'', copyListMeta X),
      (''Items'', newSlice (GCSchedule_DeepCopyInto X))]"

definition GCScheduleList_DeepCopy :: "externals \<Rightarrow> copier" where
  "GCScheduleList_DeepCopy X = newPtr (GCScheduleList_DeepCopyInto X)"

definition GCScheduleList_DeepCopyObject :: "externals \<Rightarrow> goValue \<Rightarrow> (goHeap, goValue option) state" where
  "GCScheduleList_DeepCopyObject X = asObject (GCScheduleList_DeepCopy X)"

definition Credentials_DeepCopyInto :: "copier" where
  "Credentials_DeepCopyInto = copyStruct
     [(''UsernameSecretRef'', newPtr assign), (''PasswordSecretRef'', assign)]"

definition Credentials_DeepCopy :: "copier" where
  "Credentials_DeepCopy = newPtr Credentials_DeepCopyInto"

definition HarborConnectionSpec_DeepCopyInto :: "copier" where
  "HarborConnectionSpec_DeepCopyInto = copyStruct
     [(''Credentials'', newPtr Credentials_DeepCopyInto), (''CABundleSecretRef'', newPtr assign)]"

definition HarborConnectionSpec_DeepCopy :: "copier" where
  "HarborConnectionSpec_DeepCopy = newPtr HarborConnectionSpec_DeepCopyInto"

definition HarborConnectionStatus_DeepCopyInto :: "externals \<Rightarrow> copier" where
  "HarborConnectionStatus_DeepCopyInto X = copyStruct
     [(''HarborStatusBase'', HarborStatusBase_DeepCopyInto X)]"

definition HarborConnectionStatus_DeepCopy :: "externals \<Rightarrow> copier" where
  "HarborConnectionStatus_DeepCopy X = newPtr (HarborConnectionStatus_DeepCopyInto X)"

definition HarborConnection_DeepCopyInto :: "externals \<Rightarrow> copier" where
  "HarborConnection_DeepCopyInto X = copyStruct
     [(''TypeMeta'', assign), (''ObjectMeta'', copyObjectMeta X),
      (''Spec'', HarborConnectionSpec_DeepCopyInto), (''Status'', HarborConnectionStatus_DeepCopyInto X)]"

definition HarborConnection_DeepCopy :: "externals \<Rightarrow> copier" where
  "HarborConnection_DeepCopy X = newPtr (HarborConnection_DeepCopyInto X)"

definition HarborConnection_DeepCopyObject :: "externals \<Rightarrow> goValue \<Rightarrow> (goHeap, goValue option) state" where
  "HarborConnection_DeepCopyObject X = asObject (HarborConnection_DeepCopy X)"

definition HarborConnectionList_DeepCopyInto :: "externals \<Rightarrow> copier" where
  "HarborConnectionList_DeepCopyInto X = copyStruct
     [(''TypeMeta'', assign), (''ListMeta'', copyListMeta X),
      (''Items'', newSlice (HarborConnection_DeepCopyInto X))]"

definition HarborConnectionList_DeepCopy :: "externals \<Rightarrow> copier" where
  "HarborConnectionList_DeepCopy X = newPtr (HarborConnectionList_DeepCopyInto X)"

definition HarborConnectionList_DeepCopyObject :: "externals \<Rightarrow> goValue \<Rightarrow> (goHeap, goValue option) state" where
  "HarborConnectionList_DeepCopyObject X = asObject (HarborConnectionList_DeepCopy X)"

definition ClusterHarborConnection_DeepCopyInto :: "externals \<Rightarrow> copier" where
  "ClusterHarborConnection_DeepCopyInto X = copyStruct
     [(''TypeMeta'', assign), (''ObjectMeta'', copyObjectMeta X),
      (''Spec'', HarborConnectionSpec_DeepCopyInto), (''Status'', HarborConnectionStatus_DeepCopyInto X)]"

definition ClusterHarborConnection_DeepCopy :: "externals \<Rightarrow> copier" where
  "ClusterHarborConnection_DeepCopy X = newPtr (ClusterHarborConnection_DeepCopyInto X)"

definition ClusterHarborConnection_DeepCopyObject :: "externals \<Rightarrow> goValue \<Rightarrow> (goHeap, goValue option) state" where
  "ClusterHarborConnection_DeepCopyObject X = asObject (ClusterHarborConnection_DeepCopy X)"

definition ClusterHarborConnectionList_DeepCopyInto :: "externals \<Rightarrow> copier" where
  "ClusterHarborConnectionList_DeepCopyInto X = copyStruct
     [(''TypeMeta'', assign), (''ListMeta'', copyListMeta X),
      (''Items'', newSlice (ClusterHarborConnection_DeepCopyInto X))]"

definition ClusterHarborConnectionList_DeepCopy :: "externals \<Rightarrow> copier" where
  "ClusterHarborConnectionList_DeepCopy X = newPtr (ClusterHarborConnectionList_DeepCopyInto X)"

definition ClusterHarborConnectionList_DeepCopyObject :: "externals \<Rightarrow> goValue \<Rightarrow> (goHeap, goValue option) state" where
  "ClusterHarborConnectionList_DeepCopyObject X = asObject (ClusterHarborConnectionList_DeepCopy X)"

definition ImmutableSelector_DeepCopyInto :: "copier" where
  "ImmutableSelector_DeepCopyInto = copyStruct []"

definition ImmutableSelector_DeepCopy :: "copier" where
  "ImmutableSelector_DeepCopy = newPtr ImmutableSelector_DeepCopyInto"

definition ImmutableTagRuleSpec_DeepCopyInto :: "externals \<Rightarrow> copier" where
  "ImmutableTagRuleSpec_DeepCopyInto X = copyStruct
     [(''HarborSpecBase'', HarborSpecBase_DeepCopyInto), (''ProjectRef'', newPtr assign),
      (''Params'', newMap (viaPointer (copyJSON X))), (''TagSelectors'', newSlice assign),
      (''ScopeSelectors'', newMap (newSlice assign))]"

definition ImmutableTagRuleSpec_DeepCopy :: "externals \<Rightarrow> copier" where
  "ImmutableTagRuleSpec_DeepCopy X = newPtr (ImmutableTagRuleSpec_DeepCopyInto X)"

definition ImmutableTagRuleStatus_DeepCopyInto :: "externals \<Rightarrow> copier" where
  "ImmutableTagRuleStatus_DeepCopyInto X = copyStruct
     [(''HarborStatusBase'', HarborStatusBase_DeepCopyInto X)]"

definition ImmutableTagRuleStatus_DeepCopy :: "externals \<Rightarrow> copier" where
  "ImmutableTagRuleStatus_DeepCopy X = newPtr (ImmutableTagRuleStatus_DeepCopyInto X)"

definition ImmutableTagRule_DeepCopyInto :: "externals \<Rightarrow> copier" where
  "ImmutableTagRule_DeepCopyInto X = copyStruct
     [(''TypeMeta'', assign), (''ObjectMeta'', copyObjectMeta X),
      (''Spec'', ImmutableTagRuleSpec_DeepCopyInto X), (''Status'', ImmutableTagRuleStatus_DeepCopyInto X)]"

definition ImmutableTagRule_DeepCopy :: "externals \<Rightarrow> copier" where
  "ImmutableTagRule_DeepCopy X = newPtr (ImmutableTagRule_DeepCopyInto X)"

definition ImmutableTagRule_DeepCopyObject :: "externals \<Rightarrow> goValue \<Rightarrow> (goHeap, goValue option) state" where
  "ImmutableTagRule_DeepCopyObject X = asObject (ImmutableTagRule_DeepCopy X)"

definition ImmutableTagRuleList_DeepCopyInto :: "externals \<Rightarrow> copier" where
  "ImmutableTagRuleList_DeepCopyInto X = copyStruct
     [(''TypeMeta'', assign), (''ListMeta'', copyListMeta X),
      (''Items'', newSlice (ImmutableTagRule_DeepCopyInto X))]"

definition ImmutableTagRuleList_DeepCopy :: "externals \<Rightarrow> copier" where
  "ImmutableTagRuleList_DeepCopy X = newPtr (ImmutableTagRuleList_DeepCopyInto X)"

definition ImmutableTagRuleList_DeepCopyObject :: "externals \<Rightarrow> goValue \<Rightarrow> (goHeap, goValue option) state" where
  "ImmutableTagRuleList_DeepCopyObject X = asObject (ImmutableTagRuleList_DeepCopy X)"

definition LabelSpec_DeepCopyInto :: "copier" where
  "LabelSpec_DeepCopyInto = copyStruct
     [(''HarborSpecBase'', HarborSpecBase_DeepCopyInto), (''ProjectRef'', newPtr assign)]"

definition LabelSpec_DeepCopy :: "copier" where
  "LabelSpec_DeepCopy = newPtr LabelSpec_DeepCopyInto"

definition LabelStatus_DeepCopyInto :: "externals \<Rightarrow> copier" where
  "LabelStatus_DeepCopyInto X = copyStruct
     [(''HarborStatusBase'', HarborStatusBase_DeepCopyInto X)]"

definition LabelStatus_DeepCopy :: "externals \<Rightarrow> copier" where
  "LabelStatus_DeepCopy X = newPtr (LabelStatus_DeepCopyInto X)"

definition Label_DeepCopyInto :: "externals \<Rightarrow> copier" where
  "Label_DeepCopyInto X = copyStruct
     [(''TypeMeta'', assign), (''ObjectMeta'', copyObjectMeta X), (''Spec'', LabelSpec_DeepCopyInto),
      (''Status'', LabelStatus_DeepCopyInto X)]"

definition Label_DeepCopy :: "externals \<Rightarrow> copier" where
  "Label_DeepCopy X = newPtr (Label_DeepCopyInto X)"

definition Label_DeepCopyObject :: "externals \<Rightarrow> goValue \<Rightarrow> (goHeap, goValue option) state" where
  "Label_DeepCopyObject X = asObject (Label_DeepCopy X)"

definition LabelList_DeepCopyInto :: "externals \<Rightarrow> copier" where
  "LabelList_DeepCopyInto X = copyStruct
     [(''TypeMeta'', assign), (''ListMeta'', copyListMeta X), (''Items'', newSlice (Label_DeepCopyInto X))]"

definition LabelList_DeepCopy :: "externals \<Rightarrow> copier" where
  "LabelList_DeepCopy X = newPtr (LabelList_DeepCopyInto X)"

definition LabelList_DeepCopyObject :: "externals \<Rightarrow> goValue \<Rightarrow> (goHeap, goValue option) state" where
  "LabelList_DeepCopyObject X = asObject (LabelList_DeepCopy X)"

definition MemberUser_DeepCopyInto :: "copier" where
  "MemberUser_DeepCopyInto = copyStruct
     [(''UserRef'', assign)]"

definition MemberUser_DeepCopy :: "copier" where
  "MemberUser_DeepCopy = newPtr MemberUser_DeepCopyInto"

definition MemberGroup_DeepCopyInto :: "copier" where
  "MemberGroup_DeepCopyInto = copyStruct
     [(''GroupClaimRef'', assign)]"

definition MemberGroup_DeepCopy :: "copier" where
  "MemberGroup_DeepCopy = newPtr MemberGroup_DeepCopyInto"

definition MemberSpec_DeepCopyInto :: "copier" where
  "MemberSpec_DeepCopyInto = copyStruct
     [(''HarborSpecBase'', HarborSpecBase_DeepCopyInto), (''ProjectRef'', assign),
      (''MemberUser'', newPtr assign), (''MemberGroup'', newPtr assign)]"

definition MemberSpec_DeepCopy :: "copier" where
  "MemberSpec_DeepCopy = newPtr MemberSpec_DeepCopyInto"

definition MemberStatus_DeepCopyInto :: "externals \<Rightarrow> copier" where
  "MemberStatus_DeepCopyInto X = copyStruct
     [(''HarborStatusBase'', HarborStatusBase_DeepCopyInto X)]"

definition MemberStatus_DeepCopy :: "externals \<Rightarrow> copier" where
  "MemberStatus_DeepCopy X = newPtr (MemberStatus_DeepCopyInto X)"

definition Member_DeepCopyInto :: "externals \<Rightarrow> copier" where
  "Member_DeepCopyInto X = copyStruct
     [(''TypeMeta'', assign), (''ObjectMeta'', copyObjectMeta X), (''Spec'', MemberSpec_DeepCopyInto),
      (''Status'', MemberStatus_DeepCopyInto X)]"

definition Member_DeepCopy :: "externals \<Rightarrow> copier" where
  "Member_DeepCopy X = newPtr (Member_DeepCopyInto X)"

definition Member_DeepCopyObject :: "externals \<Rightarrow> goValue \<Rightarrow> (goHeap, goValue option) state" where
  "Member_DeepCopyObject X = asObject (Member_DeepCopy X)"

definition MemberList_DeepCopyInto :: "externals \<Rightarrow> copier" where
  "MemberList_DeepCopyInto X = copyStruct
     [(''TypeMeta'', assign), (''ListMeta'', copyListMeta X), (''Items'', newSlice (Member_DeepCopyInto X))]"

definition MemberList_DeepCopy :: "externals \<Rightarrow> copier" where
  "MemberList_DeepCopy X = newPtr (MemberList_DeepCopyInto X)"

definition MemberList_DeepCopyObject :: "externals \<Rightarrow> goValue \<Rightarrow> (goHeap, goValue option) state" where
  "MemberList_DeepCopyObject X = asObject (MemberList_DeepCopy X)"

definition ProjectMetadata_DeepCopyInto :: "copier" where
  "ProjectMetadata_DeepCopyInto = copyStruct []"

definition ProjectMetadata_DeepCopy :: "copier" where
  "ProjectMetadata_DeepCopy = newPtr ProjectMetadata_DeepCopyInto"

definition CVEAllowlistItem_DeepCopyInto :: "copier" where
  "CVEAllowlistItem_DeepCopyInto = copyStruct []"

definition CVEAllowlistItem_DeepCopy :: "copier" where
  "CVEAllowlistItem_DeepCopy = newPtr CVEAllowlistItem_DeepCopyInto"

definition CVEAllowlist_DeepCopyInto :: "externals \<Rightarrow> copier" where
  "CVEAllowlist_DeepCopyInto X = copyStruct
     [(''Items'', newSlice assign), (''CreationTime'', copyTime X), (''UpdateTime'', copyTime X)]"

definition CVEAllowlist_DeepCopy :: "externals \<Rightarrow> copier" where
  "CVEAllowlist_DeepCopy X = newPtr (CVEAllowlist_DeepCopyInto X)"

definition ProjectSpec_DeepCopyInto :: "externals \<Rightarrow> copier" where
  "ProjectSpec_DeepCopyInto X = copyStruct
     [(''HarborSpecBase'', HarborSpecBase_DeepCopyInto), (''Metadata'', newPtr assign),
      (''CVEAllowlist'', newPtr (CVEAllowlist_DeepCopyInto X)), (''RegistryRef'', newPtr assign)]"

definition ProjectSpec_DeepCopy :: "externals \<Rightarrow> copier" where
  "ProjectSpec_DeepCopy X = newPtr (ProjectSpec_DeepCopyInto X)"

definition ProjectStatus_DeepCopyInto :: "externals \<Rightarrow> copier" where
  "ProjectStatus_DeepCopyInto X = copyStruct
     [(''HarborStatusBase'', HarborStatusBase_DeepCopyInto X)]"

definition ProjectStatus_DeepCopy :: "externals \<Rightarrow> copier" where
  "ProjectStatus_DeepCopy X = newPtr (ProjectStatus_DeepCopyInto X)"

definition Project_DeepCopyInto :: "externals \<Rightarrow> copier" where
  "Project_DeepCopyInto X = copyStruct
     [(''TypeMeta'', assign), (''ObjectMeta'', copyObjectMeta X), (''Spec'', ProjectSpec_DeepCopyInto X),
      (''Status'', ProjectStatus_DeepCopyInto X)]"

definition Project_DeepCopy :: "externals \<Rightarrow> copier" where
  "Project_DeepCopy X = newPtr (Project_DeepCopyInto X)"

definition Project_DeepCopyObject :: "externals \<Rightarrow> goValue \<Rightarrow> (goHeap, goValue option) state" where
  "Project_DeepCopyObject X = asObject (Project_DeepCopy X)"

definition ProjectList_DeepCopyInto :: "externals \<Rightarrow> copier" where
  "ProjectList_DeepCopyInto X = copyStruct
     [(''TypeMeta'', assign), (''ListMeta'', copyListMeta X), (''Items'', newSlice (Project_DeepCopyInto X))]"

definition ProjectList_DeepCopy :: "externals \<Rightarrow> copier" where
  "ProjectList_DeepCopy X = newPtr (ProjectList_DeepCopyInto X)"

definition ProjectList_DeepCopyObject :: "externals \<Rightarrow> goValue \<Rightarrow> (goHeap, goValue option) state" where
  "ProjectList_DeepCopyObject X = asObject (ProjectList_DeepCopy X)"

definition PurgeAuditParameters_DeepCopyInto :: "copier" where
  "PurgeAuditParameters_DeepCopyInto = copyStruct []"

definition PurgeAuditParameters_DeepCopy :: "copier" where
  "PurgeAuditParameters_DeepCopy = newPtr PurgeAuditParameters_DeepCopyInto"

definition PurgeAuditScheduleSpec_DeepCopyInto :: "copier" where
  "PurgeAuditScheduleSpec_DeepCopyInto = copyStruct
     [(''HarborSpecBase'', HarborSpecBase_DeepCopyInto), (''Schedule'', assign), (''Parameters'', assign)]"

definition PurgeAuditScheduleSpec_DeepCopy :: "copier" where
  "PurgeAuditScheduleSpec_DeepCopy = newPtr PurgeAuditScheduleSpec_DeepCopyInto"

definition PurgeAuditScheduleStatus_DeepCopyInto :: "externals \<Rightarrow> copier" where
  "PurgeAuditScheduleStatus_DeepCopyInto X = copyStruct
     [(''HarborStatusBase'', HarborStatusBase_DeepCopyInto X)]"

definition PurgeAuditScheduleStatus_DeepCopy :: "externals \<Rightarrow> copier" where
  "PurgeAuditScheduleStatus_DeepCopy X = newPtr (PurgeAuditScheduleStatus_DeepCopyInto X)"

definition PurgeAuditSchedule_DeepCopyInto :: "externals \<Rightarrow> copier" where
  "PurgeAuditSchedule_DeepCopyInto X = copyStruct
     [(''TypeMeta'', assign), (''ObjectMeta'', copyObjectMeta X),
      (''Spec'', PurgeAuditScheduleSpec_DeepCopyInto), (''Status'', PurgeAuditScheduleStatus_DeepCopyInto X)]"

definition PurgeAuditSchedule_DeepCopy :: "externals \<Rightarrow> copier" where
  "PurgeAuditSchedule_DeepCopy X = newPtr (PurgeAuditSchedule_DeepCopyInto X)"

definition PurgeAuditSchedule_DeepCopyObject :: "externals \<Rightarrow> goValue \<Rightarrow> (goHeap, goValue option) state" where
  "PurgeAuditSchedule_DeepCopyObject X = asObject (PurgeAuditSchedule_DeepCopy X)"

definition PurgeAuditScheduleList_DeepCopyInto :: "externals \<Rightarrow> copier" where
  "PurgeAuditScheduleList_DeepCopyInto X = copyStruct
     [(''TypeMeta'', assign), (''ListMeta'', copyListMeta X),
      (''Items'', newSlice (PurgeAuditSchedule_DeepCopyInto X))]"

definition PurgeAuditScheduleList_DeepCopy :: "externals \<Rightarrow> copier" where
  "PurgeAuditScheduleList_DeepCopy X = newPtr (PurgeAuditScheduleList_DeepCopyInto X)"

definition PurgeAuditScheduleList_DeepCopyObject :: "externals \<Rightarrow> goValue \<Rightarrow> (goHeap, goValue option) state" where
  "PurgeAuditScheduleList_DeepCopyObject X = asObject (PurgeAuditScheduleList_DeepCopy X)"

definition QuotaSpec_DeepCopyInto :: "copier" where
  "QuotaSpec_DeepCopyInto = copyStruct
     [(''HarborSpecBase'', HarborSpecBase_DeepCopyInto), (''ProjectRef'', newPtr assign),
      (''Hard'', newMap assign)]"

definition QuotaSpec_DeepCopy :: "copier" where
  "QuotaSpec_DeepCopy = newPtr QuotaSpec_DeepCopyInto"

definition QuotaStatus_DeepCopyInto :: "externals \<Rightarrow> copier" where
  "QuotaStatus_DeepCopyInto X = copyStruct
     [(''HarborStatusBase'', HarborStatusBase_DeepCopyInto X)]"

definition QuotaStatus_DeepCopy :: "externals \<Rightarrow> copier" where
  "QuotaStatus_DeepCopy X = newPtr (QuotaStatus_DeepCopyInto X)"

definition Quota_DeepCopyInto :: "externals \<Rightarrow> copier" where
  "Quota_DeepCopyInto X = copyStruct
     [(''TypeMeta'', assign), (''ObjectMeta'', copyObjectMeta X), (''Spec'', QuotaSpec_DeepCopyInto),
      (''Status'', QuotaStatus_DeepCopyInto X)]"

definition Quota_DeepCopy :: "externals \<Rightarrow> copier" where
  "Quota_DeepCopy X = newPtr (Quota_DeepCopyInto X)"

definition Quota_DeepCopyObject :: "externals \<Rightarrow> goValue \<Rightarrow> (goHeap, goValue option) state" where
  "Quota_DeepCopyObject X = asObject (Quota_DeepCopy X)"

definition QuotaList_DeepCopyInto :: "externals \<Rightarrow> copier" where
  "QuotaList_DeepCopyInto X = copyStruct
     [(''TypeMeta'', assign), (''ListMeta'', copyListMeta X), (''Items'', newSlice (Quota_DeepCopyInto X))]"

definition QuotaList_DeepCopy :: "externals \<Rightarrow> copier" where
  "QuotaList_DeepCopy X = newPtr (QuotaList_DeepCopyInto X)"

definition QuotaList_DeepCopyObject :: "externals \<Rightarrow> goValue \<Rightarrow> (goHeap, goValue option) state" where
  "QuotaList_DeepCopyObject X = asObject (QuotaList_DeepCopy X)"

definition RegistryCredentialSpec_DeepCopyInto :: "copier" where
  "RegistryCredentialSpec_DeepCopyInto = copyStruct
     [(''AccessKeySecretRef'', assign), (''AccessSecretSecretRef'', assign)]"

definition RegistryCredentialSpec_DeepCopy :: "copier" where
  "RegistryCredentialSpec_DeepCopy = newPtr RegistryCredentialSpec_DeepCopyInto"

definition RegistrySpec_DeepCopyInto :: "copier" where
  "RegistrySpec_DeepCopyInto = copyStruct
     [(''HarborSpecBase'', HarborSpecBase_DeepCopyInto), (''Credential'', newPtr assign),
      (''CACertificateRef'', newPtr assign)]"

definition RegistrySpec_DeepCopy :: "copier" where
  "RegistrySpec_DeepCopy = newPtr RegistrySpec_DeepCopyInto"

definition RegistryStatus_DeepCopyInto :: "externals \<Rightarrow> copier" where
  "RegistryStatus_DeepCopyInto X = copyStruct
     [(''HarborStatusBase'', HarborStatusBase_DeepCopyInto X)]"

definition RegistryStatus_DeepCopy :: "externals \<Rightarrow> copier" where
  "RegistryStatus_DeepCopy X = newPtr (RegistryStatus_DeepCopyInto X)"

definition Registry_DeepCopyInto :: "externals \<Rightarrow> copier" where
  "Registry_DeepCopyInto X = copyStruct
     [(''TypeMeta'', assign), (''ObjectMeta'', copyObjectMeta X), (''Spec'', RegistrySpec_DeepCopyInto),
      (''Status'', RegistryStatus_DeepCopyInto X)]"

definition Registry_DeepCopy :: "externals \<Rightarrow> copier" where
  "Registry_DeepCopy X = newPtr (Registry_DeepCopyInto X)"

definition Registry_DeepCopyObject :: "externals \<Rightarrow> goValue \<Rightarrow> (goHeap, goValue option) state" where
  "Registry_DeepCopyObject X = asObject (Registry_DeepCopy X)"

definition RegistryList_DeepCopyInto :: "externals \<Rightarrow> copier" where
  "RegistryList_DeepCopyInto X = copyStruct
     [(''TypeMeta'', assign), (''ListMeta'', copyListMeta X), (''Items'', newSlice (Registry_DeepCopyInto X))]"

definition RegistryList_DeepCopy :: "externals \<Rightarrow> copier" where
  "RegistryList_DeepCopy X = newPtr (RegistryList_DeepCopyInto X)"

definition RegistryList_DeepCopyObject :: "externals \<Rightarrow> goValue \<Rightarrow> (goHeap, goValue option) state" where
  "RegistryList_DeepCopyObject X = asObject (RegistryList_DeepCopy X)"

definition ReplicationTriggerSettings_DeepCopyInto :: "copier" where
  "ReplicationTriggerSettings_DeepCopyInto = copyStruct []"

definition ReplicationTriggerSettings_DeepCopy :: "copier" where
  "ReplicationTriggerSettings_DeepCopy = newPtr ReplicationTriggerSettings_DeepCopyInto"

definition ReplicationTriggerSpec_DeepCopyInto :: "copier" where
  "ReplicationTriggerSpec_DeepCopyInto = copyStruct
     [(''Settings'', newPtr assign)]"

definition ReplicationTriggerSpec_DeepCopy :: "copier" where
  "ReplicationTriggerSpec_DeepCopy = newPtr ReplicationTriggerSpec_DeepCopyInto"

definition ReplicationFilterSpec_DeepCopyInto :: "externals \<Rightarrow> copier" where
  "ReplicationFilterSpec_DeepCopyInto X = copyStruct
     [(''Value'', copyJSON X)]"

definition ReplicationFilterSpec_DeepCopy :: "externals \<Rightarrow> copier" where
  "ReplicationFilterSpec_DeepCopy X = newPtr (ReplicationFilterSpec_DeepCopyInto X)"

definition ReplicationPolicySpec_DeepCopyInto :: "externals \<Rightarrow> copier" where
  "ReplicationPolicySpec_DeepCopyInto X = copyStruct
     [(''HarborSpecBase'', HarborSpecBase_DeepCopyInto), (''SourceRegistryRef'', newPtr assign),
      (''DestinationRegistryRef'', newPtr assign), (''DestNamespaceReplaceCount'', newPtr assign),
      (''Trigger'', newPtr ReplicationTriggerSpec_DeepCopyInto),
      (''Filters'', newSlice (ReplicationFilterSpec_DeepCopyInto X)), (''ReplicateDeletion'', newPtr assign),
      (''Override'', newPtr assign), (''Enabled'', newPtr assign), (''Speed'', newPtr assign),
      (''CopyByChunk'', newPtr assign), (''SingleActiveReplication'', newPtr assign)]"

definition ReplicationPolicySpec_DeepCopy :: "externals \<Rightarrow> copier" where
  "ReplicationPolicySpec_DeepCopy X = newPtr (ReplicationPolicySpec_DeepCopyInto X)"

definition ReplicationPolicyStatus_DeepCopyInto :: "externals \<Rightarrow> copier" where
  "ReplicationPolicyStatus_DeepCopyInto X = copyStruct
     [(''HarborStatusBase'', HarborStatusBase_DeepCopyInto X)]"

definition ReplicationPolicyStatus_DeepCopy :: "externals \<Rightarrow> copier" where
  "ReplicationPolicyStatus_DeepCopy X = newPtr (ReplicationPolicyStatus_DeepCopyInto X)"

definition ReplicationPolicy_DeepCopyInto :: "externals \<Rightarrow> copier" where
  "ReplicationPolicy_DeepCopyInto X = copyStruct
     [(''TypeMeta'', assign), (''ObjectMeta'', copyObjectMeta X),
      (''Spec'', ReplicationPolicySpec_DeepCopyInto X), (''Status'', ReplicationPolicyStatus_DeepCopyInto X)]"

definition ReplicationPolicy_DeepCopy :: "externals \<Rightarrow> copier" where
  "ReplicationPolicy_DeepCopy X = newPtr (ReplicationPolicy_DeepCopyInto X)"

definition ReplicationPolicy_DeepCopyObject :: "externals \<Rightarrow> goValue \<Rightarrow> (goHeap, goValue option) state" where
  "ReplicationPolicy_DeepCopyObject X = asObject (ReplicationPolicy_DeepCopy X)"

definition ReplicationPolicyList_DeepCopyInto :: "externals \<Rightarrow> copier" where
  "ReplicationPolicyList_DeepCopyInto X = copyStruct
     [(''TypeMeta'', assign), (''ListMeta'', copyListMeta X),
      (''Items'', newSlice (ReplicationPolicy_DeepCopyInto X))]"

definition ReplicationPolicyList_DeepCopy :: "externals \<Rightarrow> copier" where
  "ReplicationPolicyList_DeepCopy X = newPtr (ReplicationPolicyList_DeepCopyInto X)"

definition ReplicationPolicyList_DeepCopyObject :: "externals \<Rightarrow> goValue \<Rightarrow> (goHeap, goValue option) state" where
  "ReplicationPolicyList_DeepCopyObject X = asObject (ReplicationPolicyList_DeepCopy X)"

definition RetentionSelector_DeepCopyInto :: "copier" where
  "RetentionSelector_DeepCopyInto = copyStruct []"

definition RetentionSelector_DeepCopy :: "copier" where
  "RetentionSelector_DeepCopy = newPtr RetentionSelector_DeepCopyInto"

definition RetentionRule_DeepCopyInto :: "externals \<Rightarrow> copier" where
  "RetentionRule_DeepCopyInto X = copyStruct
     [(''Params'', newMap (viaPointer (copyJSON X))), (''TagSelectors'', newSlice assign),
      (''ScopeSelectors'', newMap (newSlice assign))]"

definition RetentionRule_DeepCopy :: "externals \<Rightarrow> copier" where
  "RetentionRule_DeepCopy X = newPtr (RetentionRule_DeepCopyInto X)"

definition RetentionTrigger_DeepCopyInto :: "externals \<Rightarrow> copier" where
  "RetentionTrigger_DeepCopyInto X = copyStruct
     [(''Settings'', newMap (viaPointer (copyJSON X))), (''References'', newMap (viaPointer (copyJSON X)))]"

definition RetentionTrigger_DeepCopy :: "externals \<Rightarrow> copier" where
  "RetentionTrigger_DeepCopy X = newPtr (RetentionTrigger_DeepCopyInto X)"

definition RetentionScope_DeepCopyInto :: "copier" where
  "RetentionScope_DeepCopyInto = copyStruct []"

definition RetentionScope_DeepCopy :: "copier" where
  "RetentionScope_DeepCopy = newPtr RetentionScope_DeepCopyInto"

definition RetentionPolicySpec_DeepCopyInto :: "externals \<Rightarrow> copier" where
  "RetentionPolicySpec_DeepCopyInto X = copyStruct
     [(''HarborSpecBase'', HarborSpecBase_DeepCopyInto), (''ProjectRef'', newPtr assign),
      (''Rules'', newSlice (RetentionRule_DeepCopyInto X)),
      (''Trigger'', newPtr (RetentionTrigger_DeepCopyInto X)), (''Scope'', newPtr assign)]"

definition RetentionPolicySpec_DeepCopy :: "externals \<Rightarrow> copier" where
  "RetentionPolicySpec_DeepCopy X = newPtr (RetentionPolicySpec_DeepCopyInto X)"

definition RetentionPolicyStatus_DeepCopyInto :: "externals \<Rightarrow> copier" where
  "RetentionPolicyStatus_DeepCopyInto X = copyStruct
     [(''HarborStatusBase'', HarborStatusBase_DeepCopyInto X)]"

definition RetentionPolicyStatus_DeepCopy :: "externals \<Rightarrow> copier" where
  "RetentionPolicyStatus_DeepCopy X = newPtr (RetentionPolicyStatus_DeepCopyInto X)"

definition RetentionPolicy_DeepCopyInto :: "externals \<Rightarrow> copier" where
  "RetentionPolicy_DeepCopyInto X = copyStruct
     [(''TypeMeta'', assign), (''ObjectMeta'', copyObjectMeta X),
      (''Spec'', RetentionPolicySpec_DeepCopyInto X), (''Status'', RetentionPolicyStatus_DeepCopyInto X)]"

definition RetentionPolicy_DeepCopy :: "externals \<Rightarrow> copier" where
  "RetentionPolicy_DeepCopy X = newPtr (RetentionPolicy_DeepCopyInto X)"

definition RetentionPolicy_DeepCopyObject :: "externals \<Rightarrow> goValue \<Rightarrow> (goHeap, goValue option) state" where
  "RetentionPolicy_DeepCopyObject X = asObject (RetentionPolicy_DeepCopy X)"

definition RetentionPolicyList_DeepCopyInto :: "externals \<Rightarrow> copier" where
  "RetentionPolicyList_DeepCopyInto X = copyStruct
     [(''TypeMeta'', assign), (''ListMeta'', copyListMeta X),
      (''Items'', newSlice (RetentionPolicy_DeepCopyInto X))]"

definition RetentionPolicyList_DeepCopy :: "externals \<Rightarrow> copier" where
  "RetentionPolicyList_DeepCopy X = newPtr (RetentionPolicyList_DeepCopyInto X)"

definition RetentionPolicyList_DeepCopyObject :: "externals \<Rightarrow> goValue \<Rightarrow> (goHeap, goValue option) state" where
  "RetentionPolicyList_DeepCopyObject X = asObject (RetentionPolicyList_DeepCopy X)"

definition RobotAccess_DeepCopyInto :: "copier" where
  "RobotAccess_DeepCopyInto = copyStruct []"

definition RobotAccess_DeepCopy :: "copier" where
  "RobotAccess_DeepCopy = newPtr RobotAccess_DeepCopyInto"

definition RobotPermission_DeepCopyInto :: "copier" where
  "RobotPermission_DeepCopyInto = copyStruct
     [(''ProjectRef'', newPtr assign), (''Access'', newSlice assign)]"

definition RobotPermission_DeepCopy :: "copier" where
  "RobotPermission_DeepCopy = newPtr RobotPermission_DeepCopyInto"

definition RobotSpec_DeepCopyInto :: "copier" where
  "RobotSpec_DeepCopyInto = copyStruct
     [(''HarborSpecBase'', HarborSpecBase_DeepCopyInto),
      (''Permissions'', newSlice RobotPermission_DeepCopyInto), (''Disable'', newPtr assign),
      (''SecretRef'', newPtr assign)]"

definition RobotSpec_DeepCopy :: "copier" where
  "RobotSpec_DeepCopy = newPtr RobotSpec_DeepCopyInto"

definition RobotStatus_DeepCopyInto :: "externals \<Rightarrow> copier" where
  "RobotStatus_DeepCopyInto X = copyStruct
     [(''HarborStatusBase'', HarborStatusBase_DeepCopyInto X), (''LastRotatedAt'', newPtr (copyTime X)),
      (''ExpiresAt'', newPtr (copyTime X))]"

definition RobotStatus_DeepCopy :: "externals \<Rightarrow> copier" where
  "RobotStatus_DeepCopy X = newPtr (RobotStatus_DeepCopyInto X)"

definition Robot_DeepCopyInto :: "externals \<Rightarrow> copier" where
  "Robot_DeepCopyInto X = copyStruct
     [(''TypeMeta'', assign), (''ObjectMeta'', copyObjectMeta X), (''Spec'', RobotSpec_DeepCopyInto),
      (''Status'', RobotStatus_DeepCopyInto X)]"

definition Robot_DeepCopy :: "externals \<Rightarrow> copier" where
  "Robot_DeepCopy X = newPtr (Robot_DeepCopyInto X)"

definition Robot_DeepCopyObject :: "externals \<Rightarrow> goValue \<Rightarrow> (goHeap, goValue option) state" where
  "Robot_DeepCopyObject X = asObject (Robot_DeepCopy X)"

definition RobotList_DeepCopyInto :: "externals \<Rightarrow> copier" where
  "RobotList_DeepCopyInto X = copyStruct
     [(''TypeMeta'', assign), (''ListMeta'', copyListMeta X), (''Items'', newSlice (Robot_DeepCopyInto X))]"

definition RobotList_DeepCopy :: "externals \<Rightarrow> copier" where
  "RobotList_DeepCopy X = newPtr (RobotList_DeepCopyInto X)"

definition RobotList_DeepCopyObject :: "externals \<Rightarrow> goValue \<Rightarrow> (goHeap, goValue option) state" where
  "RobotList_DeepCopyObject X = asObject (RobotList_DeepCopy X)"

definition ScanAllScheduleSpec_DeepCopyInto :: "externals \<Rightarrow> copier" where
  "ScanAllScheduleSpec_DeepCopyInto X = copyStruct
     [(''HarborSpecBase'', HarborSpecBase_DeepCopyInto), (''Schedule'', assign),
      (''Parameters'', newMap (viaPointer (copyJSON X)))]"

definition ScanAllScheduleSpec_DeepCopy :: "externals \<Rightarrow> copier" where
  "ScanAllScheduleSpec_DeepCopy X = newPtr (ScanAllScheduleSpec_DeepCopyInto X)"

definition ScanAllScheduleStatus_DeepCopyInto :: "externals \<Rightarrow> copier" where
  "ScanAllScheduleStatus_DeepCopyInto X = copyStruct
     [(''HarborStatusBase'', HarborStatusBase_DeepCopyInto X)]"

definition ScanAllScheduleStatus_DeepCopy :: "externals \<Rightarrow> copier" where
  "ScanAllScheduleStatus_DeepCopy X = newPtr (ScanAllScheduleStatus_DeepCopyInto X)"

definition ScanAllSchedule_DeepCopyInto :: "externals \<Rightarrow> copier" where
  "ScanAllSchedule_DeepCopyInto X = copyStruct
     [(''TypeMeta'', assign), (''ObjectMeta'', copyObjectMeta X),
      (''Spec'', ScanAllScheduleSpec_DeepCopyInto X), (''Status'', ScanAllScheduleStatus_DeepCopyInto X)]"

definition ScanAllSchedule_DeepCopy :: "externals \<Rightarrow> copier" where
  "ScanAllSchedule_DeepCopy X = newPtr (ScanAllSchedule_DeepCopyInto X)"

definition ScanAllSchedule_DeepCopyObject :: "externals \<Rightarrow> goValue \<Rightarrow> (goHeap, goValue option) state" where
  "ScanAllSchedule_DeepCopyObject X = asObject (ScanAllSchedule_DeepCopy X)"

definition ScanAllScheduleList_DeepCopyInto :: "externals \<Rightarrow> copier" where
  "ScanAllScheduleList_DeepCopyInto X = copyStruct
     [(''TypeMeta'', assign), (''ListMeta'', copyListMeta X),
      (''Items'', newSlice (ScanAllSchedule_DeepCopyInto X))]"

definition ScanAllScheduleList_DeepCopy :: "externals \<Rightarrow> copier" where
  "ScanAllScheduleList_DeepCopy X = newPtr (ScanAllScheduleList_DeepCopyInto X)"

definition ScanAllScheduleList_DeepCopyObject :: "externals \<Rightarrow> goValue \<Rightarrow> (goHeap, goValue option) state" where
  "ScanAllScheduleList_DeepCopyObject X = asObject (ScanAllScheduleList_DeepCopy X)"

definition ScannerRegistrationSpec_DeepCopyInto :: "copier" where
  "ScannerRegistrationSpec_DeepCopyInto = copyStruct
     [(''HarborSpecBase'', HarborSpecBase_DeepCopyInto), (''AccessCredentialSecretRef'', newPtr assign)]"

definition ScannerRegistrationSpec_DeepCopy :: "copier" where
  "ScannerRegistrationSpec_DeepCopy = newPtr ScannerRegistrationSpec_DeepCopyInto"

definition ScannerRegistrationStatus_DeepCopyInto :: "externals \<Rightarrow> copier" where
  "ScannerRegistrationStatus_DeepCopyInto X = copyStruct
     [(''HarborStatusBase'', HarborStatusBase_DeepCopyInto X)]"

definition ScannerRegistrationStatus_DeepCopy :: "externals \<Rightarrow> copier" where
  "ScannerRegistrationStatus_DeepCopy X = newPtr (ScannerRegistrationStatus_DeepCopyInto X)"

definition ScannerRegistration_DeepCopyInto :: "externals \<Rightarrow> copier" where
  "ScannerRegistration_DeepCopyInto X = copyStruct
     [(''TypeMeta'', assign), (''ObjectMeta'', copyObjectMeta X),
      (''Spec'', ScannerRegistrationSpec_DeepCopyInto), (''Status'', ScannerRegistrationStatus_DeepCopyInto X)]"

definition ScannerRegistration_DeepCopy :: "externals \<Rightarrow> copier" where
  "ScannerRegistration_DeepCopy X = newPtr (ScannerRegistration_DeepCopyInto X)"

definition ScannerRegistration_DeepCopyObject :: "externals \<Rightarrow> goValue \<Rightarrow> (goHeap, goValue option) state" where
  "ScannerRegistration_DeepCopyObject X = asObject (ScannerRegistration_DeepCopy X)"

definition ScannerRegistrationList_DeepCopyInto :: "externals \<Rightarrow> copier" where
  "ScannerRegistrationList_DeepCopyInto X = copyStruct
     [(''TypeMeta'', assign), (''ListMeta'', copyListMeta X),
      (''Items'', newSlice (ScannerRegistration_DeepCopyInto X))]"

definition ScannerRegistrationList_DeepCopy :: "externals \<Rightarrow> copier" where
  "ScannerRegistrationList_DeepCopy X = newPtr (ScannerRegistrationList_DeepCopyInto X)"

definition ScannerRegistrationList_DeepCopyObject :: "externals \<Rightarrow> goValue \<Rightarrow> (goHeap, goValue option) state" where
  "ScannerRegistrationList_DeepCopyObject X = asObject (ScannerRegistrationList_DeepCopy X)"

definition UserSpec_DeepCopyInto :: "externals \<Rightarrow> copier" where
  "UserSpec_DeepCopyInto X = copyStruct
     [(''HarborSpecBase'', HarborSpecBase_DeepCopyInto), (''PasswordSecretRef'', copySecretKeySelector X)]"

definition UserSpec_DeepCopy :: "externals \<Rightarrow> copier" where
  "UserSpec_DeepCopy X = newPtr (UserSpec_DeepCopyInto X)"

definition UserStatus_DeepCopyInto :: "externals \<Rightarrow> copier" where
  "UserStatus_DeepCopyInto X = copyStruct
     [(''HarborStatusBase'', HarborStatusBase_DeepCopyInto X)]"

definition UserStatus_DeepCopy :: "externals \<Rightarrow> copier" where
  "UserStatus_DeepCopy X = newPtr (UserStatus_DeepCopyInto X)"

definition User_DeepCopyInto :: "externals \<Rightarrow> copier" where
  "User_DeepCopyInto X = copyStruct
     [(''TypeMeta'', assign), (''ObjectMeta'', copyObjectMeta X), (''Spec'', UserSpec_DeepCopyInto X),
      (''Status'', UserStatus_DeepCopyInto X)]"

definition User_DeepCopy :: "externals \<Rightarrow> copier" where
  "User_DeepCopy X = newPtr (User_DeepCopyInto X)"

definition User_DeepCopyObject :: "externals \<Rightarrow> goValue \<Rightarrow> (goHeap, goValue option) state" where
  "User_DeepCopyObject X = asObject (User_DeepCopy X)"

definition UserList_DeepCopyInto :: "externals \<Rightarrow> copier" where
  "UserList_DeepCopyInto X = copyStruct
     [(''TypeMeta'', assign), (''ListMeta'', copyListMeta X), (''Items'', newSlice (User_DeepCopyInto X))]"

definition UserList_DeepCopy :: "externals \<Rightarrow> copier" where
  "UserList_DeepCopy X = newPtr (UserList_DeepCopyInto X)"

definition UserList_DeepCopyObject :: "externals \<Rightarrow> goValue \<Rightarrow> (goHeap, goValue option) state" where
  "UserList_DeepCopyObject X = asObject (UserList_DeepCopy X)"

definition UserGroupClaimSpec_DeepCopyInto :: "copier" where
  "UserGroupClaimSpec_DeepCopyInto = copyStruct
     [(''HarborClaimSpecBase'', HarborClaimSpecBase_DeepCopyInto)]"

definition UserGroupClaimSpec_DeepCopy :: "copier" where
  "UserGroupClaimSpec_DeepCopy = newPtr UserGroupClaimSpec_DeepCopyInto"

definition UserGroupClaimStatus_DeepCopyInto :: "externals \<Rightarrow> copier" where
  "UserGroupClaimStatus_DeepCopyInto X = copyStruct
     [(''HarborStatusBase'', HarborStatusBase_DeepCopyInto X)]"

definition UserGroupClaimStatus_DeepCopy :: "externals \<Rightarrow> copier" where
  "UserGroupClaimStatus_DeepCopy X = newPtr (UserGroupClaimStatus_DeepCopyInto X)"

definition UserGroupClaim_DeepCopyInto :: "externals \<Rightarrow> copier" where
  "UserGroupClaim_DeepCopyInto X = copyStruct
     [(''TypeMeta'', assign), (''ObjectMeta'', copyObjectMeta X), (''Spec'', UserGroupClaimSpec_DeepCopyInto),
      (''Status'', UserGroupClaimStatus_DeepCopyInto X)]"

definition UserGroupClaim_DeepCopy :: "externals \<Rightarrow> copier" where
  "UserGroupClaim_DeepCopy X = newPtr (UserGroupClaim_DeepCopyInto X)"

definition UserGroupClaim_DeepCopyObject :: "externals \<Rightarrow> goValue \<Rightarrow> (goHeap, goValue option) state" where
  "UserGroupClaim_DeepCopyObject X = asObject (UserGroupClaim_DeepCopy X)"

definition UserGroupClaimList_DeepCopyInto :: "externals \<Rightarrow> copier" where
  "UserGroupClaimList_DeepCopyInto X = copyStruct
     [(''TypeMeta'', assign), (''ListMeta'', copyListMeta X),
      (''Items'', newSlice (UserGroupClaim_DeepCopyInto X))]"

definition UserGroupClaimList_DeepCopy :: "externals \<Rightarrow> copier" where
  "UserGroupClaimList_DeepCopy X = newPtr (UserGroupClaimList_DeepCopyInto X)"

definition UserGroupClaimList_DeepCopyObject :: "externals \<Rightarrow> goValue \<Rightarrow> (goHeap, goValue option) state" where
  "UserGroupClaimList_DeepCopyObject X = asObject (UserGroupClaimList_DeepCopy X)"

definition WebhookTargetSpec_DeepCopyInto :: "copier" where
  "WebhookTargetSpec_DeepCopyInto = copyStruct
     [(''AuthHeaderSecretRef'', newPtr assign)]"

definition WebhookTargetSpec_DeepCopy :: "copier" where
  "WebhookTargetSpec_DeepCopy = newPtr WebhookTargetSpec_DeepCopyInto"

definition WebhookPolicySpec_DeepCopyInto :: "copier" where
  "WebhookPolicySpec_DeepCopyInto = copyStruct
     [(''HarborSpecBase'', HarborSpecBase_DeepCopyInto), (''ProjectRef'', newPtr assign),
      (''Enabled'', newPtr assign), (''EventTypes'', newSlice assign),
      (''Targets'', newSlice WebhookTargetSpec_DeepCopyInto)]"

definition WebhookPolicySpec_DeepCopy :: "copier" where
  "WebhookPolicySpec_DeepCopy = newPtr WebhookPolicySpec_DeepCopyInto"

definition WebhookPolicyStatus_DeepCopyInto :: "externals \<Rightarrow> copier" where
  "WebhookPolicyStatus_DeepCopyInto X = copyStruct
     [(''HarborStatusBase'', HarborStatusBase_DeepCopyInto X)]"

definition WebhookPolicyStatus_DeepCopy :: "externals \<Rightarrow> copier" where
  "WebhookPolicyStatus_DeepCopy X = newPtr (WebhookPolicyStatus_DeepCopyInto X)"

definition WebhookPolicy_DeepCopyInto :: "externals \<Rightarrow> copier" where
  "WebhookPolicy_DeepCopyInto X = copyStruct
     [(''TypeMeta'', assign), (''ObjectMeta'', copyObjectMeta X), (''Spec'', WebhookPolicySpec_DeepCopyInto),
      (''Status'', WebhookPolicyStatus_DeepCopyInto X)]"

definition WebhookPolicy_DeepCopy :: "externals \<Rightarrow> copier" where
  "WebhookPolicy_DeepCopy X = newPtr (WebhookPolicy_DeepCopyInto X)"

definition WebhookPolicy_DeepCopyObject :: "externals \<Rightarrow> goValue \<Rightarrow> (goHeap, goValue option) state" where
  "WebhookPolicy_DeepCopyObject X = asObject (WebhookPolicy_DeepCopy X)"

definition WebhookPolicyList_DeepCopyInto :: "externals \<Rightarrow> copier" where
  "WebhookPolicyList_DeepCopyInto X = copyStruct
     [(''TypeMeta'', assign), (''ListMeta'', copyListMeta X),
      (''Items'', newSlice (WebhookPolicy_DeepCopyInto X))]"

definition WebhookPolicyList_DeepCopy :: "externals \<Rightarrow> copier" where
  "WebhookPolicyList_DeepCopy X = newPtr (WebhookPolicyList_DeepCopyInto X)"

definition WebhookPolicyList_DeepCopyObject :: "externals \<Rightarrow> goValue \<Rightarrow> (goHeap, goValue option) state" where
  "WebhookPolicyList_DeepCopyObject X = asObject (WebhookPolicyList_DeepCopy X)"

end
