(* ===== verification/DeepCopyFacts.thy ===== *)
theory DeepCopyFacts
  imports DeepCopies
begin

text \<open>
  The generated deep copies are deep copies: for every struct of the API, the function copies
  everything that the layout of the struct leads to. An object of the informers' cache and a
  reconciler's copy of it never share memory.
\<close>

section \<open>Every struct\<close>

text \<open>The structs with their layout and their \<^verbatim>\<open>DeepCopy\<close>.\<close>

definition apiCopies :: "externals \<Rightarrow> (string \<times> goType \<times> copier) list" where
  "apiCopies X =
     [(''HarborConnectionBinding'', HarborConnectionBinding_type, HarborConnectionBinding_DeepCopy),
      (''HarborConnectionReference'', HarborConnectionReference_type, HarborConnectionReference_DeepCopy),
      (''HarborSpecBase'', HarborSpecBase_type X, HarborSpecBase_DeepCopy),
      (''HarborClaimSpecBase'', HarborClaimSpecBase_type X, HarborClaimSpecBase_DeepCopy),
      (''SecretReference'', SecretReference_type, SecretReference_DeepCopy),
      (''ProjectReference'', ProjectReference_type, ProjectReference_DeepCopy),
      (''RegistryReference'', RegistryReference_type, RegistryReference_DeepCopy),
      (''UserReference'', UserReference_type, UserReference_DeepCopy),
      (''UserGroupClaimReference'', UserGroupClaimReference_type, UserGroupClaimReference_DeepCopy),
      (''HarborStatusBase'', HarborStatusBase_type X, HarborStatusBase_DeepCopy X),
      (''ConfigurationValueSource'', ConfigurationValueSource_type, ConfigurationValueSource_DeepCopy),
      (''ConfigurationValue'', ConfigurationValue_type X, ConfigurationValue_DeepCopy X),
      (''ConfigurationSpec'', ConfigurationSpec_type X, ConfigurationSpec_DeepCopy X),
      (''ConfigurationStatus'', ConfigurationStatus_type X, ConfigurationStatus_DeepCopy X),
      (''Configuration'', Configuration_type X, Configuration_DeepCopy X),
      (''ConfigurationList'', ConfigurationList_type X, ConfigurationList_DeepCopy X),
      (''ScheduleSpec'', ScheduleSpec_type, ScheduleSpec_DeepCopy),
      (''GCScheduleSpec'', GCScheduleSpec_type X, GCScheduleSpec_DeepCopy X),
      (''GCScheduleStatus'', GCScheduleStatus_type X, GCScheduleStatus_DeepCopy X),
      (''GCSchedule'', GCSchedule_type X, GCSchedule_DeepCopy X),
      (''GCScheduleList'', GCScheduleList_type X, GCScheduleList_DeepCopy X),
      (''Credentials'', Credentials_type, Credentials_DeepCopy),
      (''HarborConnectionSpec'', HarborConnectionSpec_type, HarborConnectionSpec_DeepCopy),
      (''HarborConnectionStatus'', HarborConnectionStatus_type X, HarborConnectionStatus_DeepCopy X),
      (''HarborConnection'', HarborConnection_type X, HarborConnection_DeepCopy X),
      (''HarborConnectionList'', HarborConnectionList_type X, HarborConnectionList_DeepCopy X),
      (''ClusterHarborConnection'', ClusterHarborConnection_type X, ClusterHarborConnection_DeepCopy X),
      (''ClusterHarborConnectionList'', ClusterHarborConnectionList_type X, ClusterHarborConnectionList_DeepCopy X),
      (''ImmutableSelector'', ImmutableSelector_type, ImmutableSelector_DeepCopy),
      (''ImmutableTagRuleSpec'', ImmutableTagRuleSpec_type X, ImmutableTagRuleSpec_DeepCopy X),
      (''ImmutableTagRuleStatus'', ImmutableTagRuleStatus_type X, ImmutableTagRuleStatus_DeepCopy X),
      (''ImmutableTagRule'', ImmutableTagRule_type X, ImmutableTagRule_DeepCopy X),
      (''ImmutableTagRuleList'', ImmutableTagRuleList_type X, ImmutableTagRuleList_DeepCopy X),
      (''LabelSpec'', LabelSpec_type X, LabelSpec_DeepCopy),
      (''LabelStatus'', LabelStatus_type X, LabelStatus_DeepCopy X),
      (''Label'', Label_type X, Label_DeepCopy X), (''LabelList'', LabelList_type X, LabelList_DeepCopy X),
      (''MemberUser'', MemberUser_type, MemberUser_DeepCopy),
      (''MemberGroup'', MemberGroup_type, MemberGroup_DeepCopy),
      (''MemberSpec'', MemberSpec_type X, MemberSpec_DeepCopy),
      (''MemberStatus'', MemberStatus_type X, MemberStatus_DeepCopy X),
      (''Member'', Member_type X, Member_DeepCopy X),
      (''MemberList'', MemberList_type X, MemberList_DeepCopy X),
      (''ProjectMetadata'', ProjectMetadata_type, ProjectMetadata_DeepCopy),
      (''CVEAllowlistItem'', CVEAllowlistItem_type, CVEAllowlistItem_DeepCopy),
      (''CVEAllowlist'', CVEAllowlist_type X, CVEAllowlist_DeepCopy X),
      (''ProjectSpec'', ProjectSpec_type X, ProjectSpec_DeepCopy X),
      (''ProjectStatus'', ProjectStatus_type X, ProjectStatus_DeepCopy X),
      (''Project'', Project_type X, Project_DeepCopy X),
      (''ProjectList'', ProjectList_type X, ProjectList_DeepCopy X),
      (''PurgeAuditParameters'', PurgeAuditParameters_type, PurgeAuditParameters_DeepCopy),
      (''PurgeAuditScheduleSpec'', PurgeAuditScheduleSpec_type X, PurgeAuditScheduleSpec_DeepCopy),
      (''PurgeAuditScheduleStatus'', PurgeAuditScheduleStatus_type X, PurgeAuditScheduleStatus_DeepCopy X),
      (''PurgeAuditSchedule'', PurgeAuditSchedule_type X, PurgeAuditSchedule_DeepCopy X),
      (''PurgeAuditScheduleList'', PurgeAuditScheduleList_type X, PurgeAuditScheduleList_DeepCopy X),
      (''QuotaSpec'', QuotaSpec_type X, QuotaSpec_DeepCopy),
      (''QuotaStatus'', QuotaStatus_type X, QuotaStatus_DeepCopy X),
      (''Quota'', Quota_type X, Quota_DeepCopy X), (''QuotaList'', QuotaList_type X, QuotaList_DeepCopy X),
      (''RegistryCredentialSpec'', RegistryCredentialSpec_type, RegistryCredentialSpec_DeepCopy),
      (''RegistrySpec'', RegistrySpec_type X, RegistrySpec_DeepCopy),
      (''RegistryStatus'', RegistryStatus_type X, RegistryStatus_DeepCopy X),
      (''Registry'', Registry_type X, Registry_DeepCopy X),
      (''RegistryList'', RegistryList_type X, RegistryList_DeepCopy X),
      (''ReplicationTriggerSettings'', ReplicationTriggerSettings_type, ReplicationTriggerSettings_DeepCopy),
      (''ReplicationTriggerSpec'', ReplicationTriggerSpec_type, ReplicationTriggerSpec_DeepCopy),
      (''ReplicationFilterSpec'', ReplicationFilterSpec_type X, ReplicationFilterSpec_DeepCopy X),
      (''ReplicationPolicySpec'', ReplicationPolicySpec_type X, ReplicationPolicySpec_DeepCopy X),
      (''ReplicationPolicyStatus'', ReplicationPolicyStatus_type X, ReplicationPolicyStatus_DeepCopy X),
      (''ReplicationPolicy'', ReplicationPolicy_type X, ReplicationPolicy_DeepCopy X),
      (''ReplicationPolicyList'', ReplicationPolicyList_type X, ReplicationPolicyList_DeepCopy X),
      (''RetentionSelector'', RetentionSelector_type, RetentionSelector_DeepCopy),
      (''RetentionRule'', RetentionRule_type X, RetentionRule_DeepCopy X),
      (''RetentionTrigger'', RetentionTrigger_type X, RetentionTrigger_DeepCopy X),
      (''RetentionScope'', RetentionScope_type, RetentionScope_DeepCopy),
      (''RetentionPolicySpec'', RetentionPolicySpec_type X, RetentionPolicySpec_DeepCopy X),
      (''RetentionPolicyStatus'', RetentionPolicyStatus_type X, RetentionPolicyStatus_DeepCopy X),
      (''RetentionPolicy'', RetentionPolicy_type X, RetentionPolicy_DeepCopy X),
      (''RetentionPolicyList'', RetentionPolicyList_type X, RetentionPolicyList_DeepCopy X),
      (''RobotAccess'', RobotAccess_type, RobotAccess_DeepCopy),
      (''RobotPermission'', RobotPermission_type, RobotPermission_DeepCopy),
      (''RobotSpec'', RobotSpec_type X, RobotSpec_DeepCopy),
      (''RobotStatus'', RobotStatus_type X, RobotStatus_DeepCopy X),
      (''Robot'', Robot_type X, Robot_DeepCopy X), (''RobotList'', RobotList_type X, RobotList_DeepCopy X),
      (''ScanAllScheduleSpec'', ScanAllScheduleSpec_type X, ScanAllScheduleSpec_DeepCopy X),
      (''ScanAllScheduleStatus'', ScanAllScheduleStatus_type X, ScanAllScheduleStatus_DeepCopy X),
      (''ScanAllSchedule'', ScanAllSchedule_type X, ScanAllSchedule_DeepCopy X),
      (''ScanAllScheduleList'', ScanAllScheduleList_type X, ScanAllScheduleList_DeepCopy X),
      (''ScannerRegistrationSpec'', ScannerRegistrationSpec_type X, ScannerRegistrationSpec_DeepCopy),
      (''ScannerRegistrationStatus'', ScannerRegistrationStatus_type X, ScannerRegistrationStatus_DeepCopy X),
      (''ScannerRegistration'', ScannerRegistration_type X, ScannerRegistration_DeepCopy X),
      (''ScannerRegistrationList'', ScannerRegistrationList_type X, ScannerRegistrationList_DeepCopy X),
      (''UserSpec'', UserSpec_type X, UserSpec_DeepCopy X),
      (''UserStatus'', UserStatus_type X, UserStatus_DeepCopy X), (''User'', User_type X, User_DeepCopy X),
      (''UserList'', UserList_type X, UserList_DeepCopy X),
      (''UserGroupClaimSpec'', UserGroupClaimSpec_type X, UserGroupClaimSpec_DeepCopy),
      (''UserGroupClaimStatus'', UserGroupClaimStatus_type X, UserGroupClaimStatus_DeepCopy X),
      (''UserGroupClaim'', UserGroupClaim_type X, UserGroupClaim_DeepCopy X),
      (''UserGroupClaimList'', UserGroupClaimList_type X, UserGroupClaimList_DeepCopy X),
      (''WebhookTargetSpec'', WebhookTargetSpec_type, WebhookTargetSpec_DeepCopy),
      (''WebhookPolicySpec'', WebhookPolicySpec_type X, WebhookPolicySpec_DeepCopy),
      (''WebhookPolicyStatus'', WebhookPolicyStatus_type X, WebhookPolicyStatus_DeepCopy X),
      (''WebhookPolicy'', WebhookPolicy_type X, WebhookPolicy_DeepCopy X),
      (''WebhookPolicyList'', WebhookPolicyList_type X, WebhookPolicyList_DeepCopy X)]"

locale external_types =
  fixes X :: externals
  assumes lawful: "lawfulExternals X"
begin

lemma externals_copy [copy_intros]:
  "flat (xTypeMeta X)" "flat (xDuration X)" "copies (xObjectMeta X) (copyObjectMeta X)"
  "copies (xListMeta X) (copyListMeta X)" "copies (xCondition X) (copyCondition X)"
  "copies (xTime X) (copyTime X)" "copies (xJSON X) (copyJSON X)"
  "copies (xSecretKeySelector X) (copySecretKeySelector X)"
  using lawful by (simp_all add: lawfulExternals_def)

lemma HarborConnectionBinding_copies [copy_intros]: "copies HarborConnectionBinding_type HarborConnectionBinding_DeepCopyInto"
  unfolding HarborConnectionBinding_type_def HarborConnectionBinding_DeepCopyInto_def
  by (rule copies_copyStruct) (simp add: structCopied_def flat_types copy_intros)

lemma HarborConnectionReference_copies [copy_intros]: "copies HarborConnectionReference_type HarborConnectionReference_DeepCopyInto"
  unfolding HarborConnectionReference_type_def HarborConnectionReference_DeepCopyInto_def
  by (rule copies_copyStruct) (simp add: structCopied_def flat_types copy_intros)

lemma HarborSpecBase_copies [copy_intros]: "copies (HarborSpecBase_type X) HarborSpecBase_DeepCopyInto"
  unfolding HarborSpecBase_type_def HarborSpecBase_DeepCopyInto_def
  by (rule copies_copyStruct) (simp add: structCopied_def flat_types copy_intros)

lemma HarborClaimSpecBase_copies [copy_intros]: "copies (HarborClaimSpecBase_type X) HarborClaimSpecBase_DeepCopyInto"
  unfolding HarborClaimSpecBase_type_def HarborClaimSpecBase_DeepCopyInto_def
  by (rule copies_copyStruct) (simp add: structCopied_def flat_types copy_intros)

lemma SecretReference_copies [copy_intros]: "copies SecretReference_type SecretReference_DeepCopyInto"
  unfolding SecretReference_type_def SecretReference_DeepCopyInto_def
  by (rule copies_copyStruct) (simp add: structCopied_def flat_types copy_intros)

lemma ProjectReference_copies [copy_intros]: "copies ProjectReference_type ProjectReference_DeepCopyInto"
  unfolding ProjectReference_type_def ProjectReference_DeepCopyInto_def
  by (rule copies_copyStruct) (simp add: structCopied_def flat_types copy_intros)

lemma RegistryReference_copies [copy_intros]: "copies RegistryReference_type RegistryReference_DeepCopyInto"
  unfolding RegistryReference_type_def RegistryReference_DeepCopyInto_def
  by (rule copies_copyStruct) (simp add: structCopied_def flat_types copy_intros)

lemma UserReference_copies [copy_intros]: "copies UserReference_type UserReference_DeepCopyInto"
  unfolding UserReference_type_def UserReference_DeepCopyInto_def
  by (rule copies_copyStruct) (simp add: structCopied_def flat_types copy_intros)

lemma UserGroupClaimReference_copies [copy_intros]: "copies UserGroupClaimReference_type UserGroupClaimReference_DeepCopyInto"
  unfolding UserGroupClaimReference_type_def UserGroupClaimReference_DeepCopyInto_def
  by (rule copies_copyStruct) (simp add: structCopied_def flat_types copy_intros)

lemma HarborStatusBase_copies [copy_intros]: "copies (HarborStatusBase_type X) (HarborStatusBase_DeepCopyInto X)"
  unfolding HarborStatusBase_type_def HarborStatusBase_DeepCopyInto_def
  by (rule copies_copyStruct) (simp add: structCopied_def flat_types copy_intros)

lemma ConfigurationValueSource_copies [copy_intros]: "copies ConfigurationValueSource_type ConfigurationValueSource_DeepCopyInto"
  unfolding ConfigurationValueSource_type_def ConfigurationValueSource_DeepCopyInto_def
  by (rule copies_copyStruct) (simp add: structCopied_def flat_types copy_intros)

lemma ConfigurationValue_copies [copy_intros]: "copies (ConfigurationValue_type X) (ConfigurationValue_DeepCopyInto X)"
  unfolding ConfigurationValue_type_def ConfigurationValue_DeepCopyInto_def
  by (rule copies_copyStruct) (simp add: structCopied_def flat_types copy_intros)

lemma ConfigurationSpec_copies [copy_intros]: "copies (ConfigurationSpec_type X) (ConfigurationSpec_DeepCopyInto X)"
  unfolding ConfigurationSpec_type_def ConfigurationSpec_DeepCopyInto_def
  by (rule copies_copyStruct) (simp add: structCopied_def flat_types copy_intros)

lemma ConfigurationStatus_copies [copy_intros]: "copies (ConfigurationStatus_type X) (ConfigurationStatus_DeepCopyInto X)"
  unfolding ConfigurationStatus_type_def ConfigurationStatus_DeepCopyInto_def
  by (rule copies_copyStruct) (simp add: structCopied_def flat_types copy_intros)

lemma Configuration_copies [copy_intros]: "copies (Configuration_type X) (Configuration_DeepCopyInto X)"
  unfolding Configuration_type_def Configuration_DeepCopyInto_def
  by (rule copies_copyStruct) (simp add: structCopied_def flat_types copy_intros)

lemma ConfigurationList_copies [copy_intros]: "copies (ConfigurationList_type X) (ConfigurationList_DeepCopyInto X)"
  unfolding ConfigurationList_type_def ConfigurationList_DeepCopyInto_def
  by (rule copies_copyStruct) (simp add: structCopied_def flat_types copy_intros)

lemma ScheduleSpec_copies [copy_intros]: "copies ScheduleSpec_type ScheduleSpec_DeepCopyInto"
  unfolding ScheduleSpec_type_def ScheduleSpec_DeepCopyInto_def
  by (rule copies_copyStruct) (simp add: structCopied_def flat_types copy_intros)

lemma GCScheduleSpec_copies [copy_intros]: "copies (GCScheduleSpec_type X) (GCScheduleSpec_DeepCopyInto X)"
  unfolding GCScheduleSpec_type_def GCScheduleSpec_DeepCopyInto_def
  by (rule copies_copyStruct) (simp add: structCopied_def flat_types copy_intros)

lemma GCScheduleStatus_copies [copy_intros]: "copies (GCScheduleStatus_type X) (GCScheduleStatus_DeepCopyInto X)"
  unfolding GCScheduleStatus_type_def GCScheduleStatus_DeepCopyInto_def
  by (rule copies_copyStruct) (simp add: structCopied_def flat_types copy_intros)

lemma GCSchedule_copies [copy_intros]: "copies (GCSchedule_type X) (GCSchedule_DeepCopyInto X)"
  unfolding GCSchedule_type_def GCSchedule_DeepCopyInto_def
  by (rule copies_copyStruct) (simp add: structCopied_def flat_types copy_intros)

lemma GCScheduleList_copies [copy_intros]: "copies (GCScheduleList_type X) (GCScheduleList_DeepCopyInto X)"
  unfolding GCScheduleList_type_def GCScheduleList_DeepCopyInto_def
  by (rule copies_copyStruct) (simp add: structCopied_def flat_types copy_intros)

lemma Credentials_copies [copy_intros]: "copies Credentials_type Credentials_DeepCopyInto"
  unfolding Credentials_type_def Credentials_DeepCopyInto_def
  by (rule copies_copyStruct) (simp add: structCopied_def flat_types copy_intros)

lemma HarborConnectionSpec_copies [copy_intros]: "copies HarborConnectionSpec_type HarborConnectionSpec_DeepCopyInto"
  unfolding HarborConnectionSpec_type_def HarborConnectionSpec_DeepCopyInto_def
  by (rule copies_copyStruct) (simp add: structCopied_def flat_types copy_intros)

lemma HarborConnectionStatus_copies [copy_intros]: "copies (HarborConnectionStatus_type X) (HarborConnectionStatus_DeepCopyInto X)"
  unfolding HarborConnectionStatus_type_def HarborConnectionStatus_DeepCopyInto_def
  by (rule copies_copyStruct) (simp add: structCopied_def flat_types copy_intros)

lemma HarborConnection_copies [copy_intros]: "copies (HarborConnection_type X) (HarborConnection_DeepCopyInto X)"
  unfolding HarborConnection_type_def HarborConnection_DeepCopyInto_def
  by (rule copies_copyStruct) (simp add: structCopied_def flat_types copy_intros)

lemma HarborConnectionList_copies [copy_intros]: "copies (HarborConnectionList_type X) (HarborConnectionList_DeepCopyInto X)"
  unfolding HarborConnectionList_type_def HarborConnectionList_DeepCopyInto_def
  by (rule copies_copyStruct) (simp add: structCopied_def flat_types copy_intros)

lemma ClusterHarborConnection_copies [copy_intros]: "copies (ClusterHarborConnection_type X) (ClusterHarborConnection_DeepCopyInto X)"
  unfolding ClusterHarborConnection_type_def ClusterHarborConnection_DeepCopyInto_def
  by (rule copies_copyStruct) (simp add: structCopied_def flat_types copy_intros)

lemma ClusterHarborConnectionList_copies [copy_intros]: "copies (ClusterHarborConnectionList_type X) (ClusterHarborConnectionList_DeepCopyInto X)"
  unfolding ClusterHarborConnectionList_type_def ClusterHarborConnectionList_DeepCopyInto_def
  by (rule copies_copyStruct) (simp add: structCopied_def flat_types copy_intros)

lemma ImmutableSelector_copies [copy_intros]: "copies ImmutableSelector_type ImmutableSelector_DeepCopyInto"
  unfolding ImmutableSelector_type_def ImmutableSelector_DeepCopyInto_def
  by (rule copies_copyStruct) (simp add: structCopied_def flat_types copy_intros)

lemma ImmutableTagRuleSpec_copies [copy_intros]: "copies (ImmutableTagRuleSpec_type X) (ImmutableTagRuleSpec_DeepCopyInto X)"
  unfolding ImmutableTagRuleSpec_type_def ImmutableTagRuleSpec_DeepCopyInto_def
  by (rule copies_copyStruct) (simp add: structCopied_def flat_types copy_intros)

lemma ImmutableTagRuleStatus_copies [copy_intros]: "copies (ImmutableTagRuleStatus_type X) (ImmutableTagRuleStatus_DeepCopyInto X)"
  unfolding ImmutableTagRuleStatus_type_def ImmutableTagRuleStatus_DeepCopyInto_def
  by (rule copies_copyStruct) (simp add: structCopied_def flat_types copy_intros)

lemma ImmutableTagRule_copies [copy_intros]: "copies (ImmutableTagRule_type X) (ImmutableTagRule_DeepCopyInto X)"
  unfolding ImmutableTagRule_type_def ImmutableTagRule_DeepCopyInto_def
  by (rule copies_copyStruct) (simp add: structCopied_def flat_types copy_intros)

lemma ImmutableTagRuleList_copies [copy_intros]: "copies (ImmutableTagRuleList_type X) (ImmutableTagRuleList_DeepCopyInto X)"
  unfolding ImmutableTagRuleList_type_def ImmutableTagRuleList_DeepCopyInto_def
  by (rule copies_copyStruct) (simp add: structCopied_def flat_types copy_intros)

lemma LabelSpec_copies [copy_intros]: "copies (LabelSpec_type X) LabelSpec_DeepCopyInto"
  unfolding LabelSpec_type_def LabelSpec_DeepCopyInto_def
  by (rule copies_copyStruct) (simp add: structCopied_def flat_types copy_intros)

lemma LabelStatus_copies [copy_intros]: "copies (LabelStatus_type X) (LabelStatus_DeepCopyInto X)"
  unfolding LabelStatus_type_def LabelStatus_DeepCopyInto_def
  by (rule copies_copyStruct) (simp add: structCopied_def flat_types copy_intros)

lemma Label_copies [copy_intros]: "copies (Label_type X) (Label_DeepCopyInto X)"
  unfolding Label_type_def Label_DeepCopyInto_def
  by (rule copies_copyStruct) (simp add: structCopied_def flat_types copy_intros)

lemma LabelList_copies [copy_intros]: "copies (LabelList_type X) (LabelList_DeepCopyInto X)"
  unfolding LabelList_type_def LabelList_DeepCopyInto_def
  by (rule copies_copyStruct) (simp add: structCopied_def flat_types copy_intros)

lemma MemberUser_copies [copy_intros]: "copies MemberUser_type MemberUser_DeepCopyInto"
  unfolding MemberUser_type_def MemberUser_DeepCopyInto_def
  by (rule copies_copyStruct) (simp add: structCopied_def flat_types copy_intros)

lemma MemberGroup_copies [copy_intros]: "copies MemberGroup_type MemberGroup_DeepCopyInto"
  unfolding MemberGroup_type_def MemberGroup_DeepCopyInto_def
  by (rule copies_copyStruct) (simp add: structCopied_def flat_types copy_intros)

lemma MemberSpec_copies [copy_intros]: "copies (MemberSpec_type X) MemberSpec_DeepCopyInto"
  unfolding MemberSpec_type_def MemberSpec_DeepCopyInto_def
  by (rule copies_copyStruct) (simp add: structCopied_def flat_types copy_intros)

lemma MemberStatus_copies [copy_intros]: "copies (MemberStatus_type X) (MemberStatus_DeepCopyInto X)"
  unfolding MemberStatus_type_def MemberStatus_DeepCopyInto_def
  by (rule copies_copyStruct) (simp add: structCopied_def flat_types copy_intros)

lemma Member_copies [copy_intros]: "copies (Member_type X) (Member_DeepCopyInto X)"
  unfolding Member_type_def Member_DeepCopyInto_def
  by (rule copies_copyStruct) (simp add: structCopied_def flat_types copy_intros)

lemma MemberList_copies [copy_intros]: "copies (MemberList_type X) (MemberList_DeepCopyInto X)"
  unfolding MemberList_type_def MemberList_DeepCopyInto_def
  by (rule copies_copyStruct) (simp add: structCopied_def flat_types copy_intros)

lemma ProjectMetadata_copies [copy_intros]: "copies ProjectMetadata_type ProjectMetadata_DeepCopyInto"
  unfolding ProjectMetadata_type_def ProjectMetadata_DeepCopyInto_def
  by (rule copies_copyStruct) (simp add: structCopied_def flat_types copy_intros)

lemma CVEAllowlistItem_copies [copy_intros]: "copies CVEAllowlistItem_type CVEAllowlistItem_DeepCopyInto"
  unfolding CVEAllowlistItem_type_def CVEAllowlistItem_DeepCopyInto_def
  by (rule copies_copyStruct) (simp add: structCopied_def flat_types copy_intros)

lemma CVEAllowlist_copies [copy_intros]: "copies (CVEAllowlist_type X) (CVEAllowlist_DeepCopyInto X)"
  unfolding CVEAllowlist_type_def CVEAllowlist_DeepCopyInto_def
  by (rule copies_copyStruct) (simp add: structCopied_def flat_types copy_intros)

lemma ProjectSpec_copies [copy_intros]: "copies (ProjectSpec_type X) (ProjectSpec_DeepCopyInto X)"
  unfolding ProjectSpec_type_def ProjectSpec_DeepCopyInto_def
  by (rule copies_copyStruct) (simp add: structCopied_def flat_types copy_intros)

lemma ProjectStatus_copies [copy_intros]: "copies (ProjectStatus_type X) (ProjectStatus_DeepCopyInto X)"
  unfolding ProjectStatus_type_def ProjectStatus_DeepCopyInto_def
  by (rule copies_copyStruct) (simp add: structCopied_def flat_types copy_intros)

lemma Project_copies [copy_intros]: "copies (Project_type X) (Project_DeepCopyInto X)"
  unfolding Project_type_def Project_DeepCopyInto_def
  by (rule copies_copyStruct) (simp add: structCopied_def flat_types copy_intros)

lemma ProjectList_copies [copy_intros]: "copies (ProjectList_type X) (ProjectList_DeepCopyInto X)"
  unfolding ProjectList_type_def ProjectList_DeepCopyInto_def
  by (rule copies_copyStruct) (simp add: structCopied_def flat_types copy_intros)

lemma PurgeAuditParameters_copies [copy_intros]: "copies PurgeAuditParameters_type PurgeAuditParameters_DeepCopyInto"
  unfolding PurgeAuditParameters_type_def PurgeAuditParameters_DeepCopyInto_def
  by (rule copies_copyStruct) (simp add: structCopied_def flat_types copy_intros)

lemma PurgeAuditScheduleSpec_copies [copy_intros]: "copies (PurgeAuditScheduleSpec_type X) PurgeAuditScheduleSpec_DeepCopyInto"
  unfolding PurgeAuditScheduleSpec_type_def PurgeAuditScheduleSpec_DeepCopyInto_def
  by (rule copies_copyStruct) (simp add: structCopied_def flat_types copy_intros)

lemma PurgeAuditScheduleStatus_copies [copy_intros]: "copies (PurgeAuditScheduleStatus_type X) (PurgeAuditScheduleStatus_DeepCopyInto X)"
  unfolding PurgeAuditScheduleStatus_type_def PurgeAuditScheduleStatus_DeepCopyInto_def
  by (rule copies_copyStruct) (simp add: structCopied_def flat_types copy_intros)

lemma PurgeAuditSchedule_copies [copy_intros]: "copies (PurgeAuditSchedule_type X) (PurgeAuditSchedule_DeepCopyInto X)"
  unfolding PurgeAuditSchedule_type_def PurgeAuditSchedule_DeepCopyInto_def
  by (rule copies_copyStruct) (simp add: structCopied_def flat_types copy_intros)

lemma PurgeAuditScheduleList_copies [copy_intros]: "copies (PurgeAuditScheduleList_type X) (PurgeAuditScheduleList_DeepCopyInto X)"
  unfolding PurgeAuditScheduleList_type_def PurgeAuditScheduleList_DeepCopyInto_def
  by (rule copies_copyStruct) (simp add: structCopied_def flat_types copy_intros)

lemma QuotaSpec_copies [copy_intros]: "copies (QuotaSpec_type X) QuotaSpec_DeepCopyInto"
  unfolding QuotaSpec_type_def QuotaSpec_DeepCopyInto_def
  by (rule copies_copyStruct) (simp add: structCopied_def flat_types copy_intros)

lemma QuotaStatus_copies [copy_intros]: "copies (QuotaStatus_type X) (QuotaStatus_DeepCopyInto X)"
  unfolding QuotaStatus_type_def QuotaStatus_DeepCopyInto_def
  by (rule copies_copyStruct) (simp add: structCopied_def flat_types copy_intros)

lemma Quota_copies [copy_intros]: "copies (Quota_type X) (Quota_DeepCopyInto X)"
  unfolding Quota_type_def Quota_DeepCopyInto_def
  by (rule copies_copyStruct) (simp add: structCopied_def flat_types copy_intros)

lemma QuotaList_copies [copy_intros]: "copies (QuotaList_type X) (QuotaList_DeepCopyInto X)"
  unfolding QuotaList_type_def QuotaList_DeepCopyInto_def
  by (rule copies_copyStruct) (simp add: structCopied_def flat_types copy_intros)

lemma RegistryCredentialSpec_copies [copy_intros]: "copies RegistryCredentialSpec_type RegistryCredentialSpec_DeepCopyInto"
  unfolding RegistryCredentialSpec_type_def RegistryCredentialSpec_DeepCopyInto_def
  by (rule copies_copyStruct) (simp add: structCopied_def flat_types copy_intros)

lemma RegistrySpec_copies [copy_intros]: "copies (RegistrySpec_type X) RegistrySpec_DeepCopyInto"
  unfolding RegistrySpec_type_def RegistrySpec_DeepCopyInto_def
  by (rule copies_copyStruct) (simp add: structCopied_def flat_types copy_intros)

lemma RegistryStatus_copies [copy_intros]: "copies (RegistryStatus_type X) (RegistryStatus_DeepCopyInto X)"
  unfolding RegistryStatus_type_def RegistryStatus_DeepCopyInto_def
  by (rule copies_copyStruct) (simp add: structCopied_def flat_types copy_intros)

lemma Registry_copies [copy_intros]: "copies (Registry_type X) (Registry_DeepCopyInto X)"
  unfolding Registry_type_def Registry_DeepCopyInto_def
  by (rule copies_copyStruct) (simp add: structCopied_def flat_types copy_intros)

lemma RegistryList_copies [copy_intros]: "copies (RegistryList_type X) (RegistryList_DeepCopyInto X)"
  unfolding RegistryList_type_def RegistryList_DeepCopyInto_def
  by (rule copies_copyStruct) (simp add: structCopied_def flat_types copy_intros)

lemma ReplicationTriggerSettings_copies [copy_intros]: "copies ReplicationTriggerSettings_type ReplicationTriggerSettings_DeepCopyInto"
  unfolding ReplicationTriggerSettings_type_def ReplicationTriggerSettings_DeepCopyInto_def
  by (rule copies_copyStruct) (simp add: structCopied_def flat_types copy_intros)

lemma ReplicationTriggerSpec_copies [copy_intros]: "copies ReplicationTriggerSpec_type ReplicationTriggerSpec_DeepCopyInto"
  unfolding ReplicationTriggerSpec_type_def ReplicationTriggerSpec_DeepCopyInto_def
  by (rule copies_copyStruct) (simp add: structCopied_def flat_types copy_intros)

lemma ReplicationFilterSpec_copies [copy_intros]: "copies (ReplicationFilterSpec_type X) (ReplicationFilterSpec_DeepCopyInto X)"
  unfolding ReplicationFilterSpec_type_def ReplicationFilterSpec_DeepCopyInto_def
  by (rule copies_copyStruct) (simp add: structCopied_def flat_types copy_intros)

lemma ReplicationPolicySpec_copies [copy_intros]: "copies (ReplicationPolicySpec_type X) (ReplicationPolicySpec_DeepCopyInto X)"
  unfolding ReplicationPolicySpec_type_def ReplicationPolicySpec_DeepCopyInto_def
  by (rule copies_copyStruct) (simp add: structCopied_def flat_types copy_intros)

lemma ReplicationPolicyStatus_copies [copy_intros]: "copies (ReplicationPolicyStatus_type X) (ReplicationPolicyStatus_DeepCopyInto X)"
  unfolding ReplicationPolicyStatus_type_def ReplicationPolicyStatus_DeepCopyInto_def
  by (rule copies_copyStruct) (simp add: structCopied_def flat_types copy_intros)

lemma ReplicationPolicy_copies [copy_intros]: "copies (ReplicationPolicy_type X) (ReplicationPolicy_DeepCopyInto X)"
  unfolding ReplicationPolicy_type_def ReplicationPolicy_DeepCopyInto_def
  by (rule copies_copyStruct) (simp add: structCopied_def flat_types copy_intros)

lemma ReplicationPolicyList_copies [copy_intros]: "copies (ReplicationPolicyList_type X) (ReplicationPolicyList_DeepCopyInto X)"
  unfolding ReplicationPolicyList_type_def ReplicationPolicyList_DeepCopyInto_def
  by (rule copies_copyStruct) (simp add: structCopied_def flat_types copy_intros)

lemma RetentionSelector_copies [copy_intros]: "copies RetentionSelector_type RetentionSelector_DeepCopyInto"
  unfolding RetentionSelector_type_def RetentionSelector_DeepCopyInto_def
  by (rule copies_copyStruct) (simp add: structCopied_def flat_types copy_intros)

lemma RetentionRule_copies [copy_intros]: "copies (RetentionRule_type X) (RetentionRule_DeepCopyInto X)"
  unfolding RetentionRule_type_def RetentionRule_DeepCopyInto_def
  by (rule copies_copyStruct) (simp add: structCopied_def flat_types copy_intros)

lemma RetentionTrigger_copies [copy_intros]: "copies (RetentionTrigger_type X) (RetentionTrigger_DeepCopyInto X)"
  unfolding RetentionTrigger_type_def RetentionTrigger_DeepCopyInto_def
  by (rule copies_copyStruct) (simp add: structCopied_def flat_types copy_intros)

lemma RetentionScope_copies [copy_intros]: "copies RetentionScope_type RetentionScope_DeepCopyInto"
  unfolding RetentionScope_type_def RetentionScope_DeepCopyInto_def
  by (rule copies_copyStruct) (simp add: structCopied_def flat_types copy_intros)

lemma RetentionPolicySpec_copies [copy_intros]: "copies (RetentionPolicySpec_type X) (RetentionPolicySpec_DeepCopyInto X)"
  unfolding RetentionPolicySpec_type_def RetentionPolicySpec_DeepCopyInto_def
  by (rule copies_copyStruct) (simp add: structCopied_def flat_types copy_intros)

lemma RetentionPolicyStatus_copies [copy_intros]: "copies (RetentionPolicyStatus_type X) (RetentionPolicyStatus_DeepCopyInto X)"
  unfolding RetentionPolicyStatus_type_def RetentionPolicyStatus_DeepCopyInto_def
  by (rule copies_copyStruct) (simp add: structCopied_def flat_types copy_intros)

lemma RetentionPolicy_copies [copy_intros]: "copies (RetentionPolicy_type X) (RetentionPolicy_DeepCopyInto X)"
  unfolding RetentionPolicy_type_def RetentionPolicy_DeepCopyInto_def
  by (rule copies_copyStruct) (simp add: structCopied_def flat_types copy_intros)

lemma RetentionPolicyList_copies [copy_intros]: "copies (RetentionPolicyList_type X) (RetentionPolicyList_DeepCopyInto X)"
  unfolding RetentionPolicyList_type_def RetentionPolicyList_DeepCopyInto_def
  by (rule copies_copyStruct) (simp add: structCopied_def flat_types copy_intros)

lemma RobotAccess_copies [copy_intros]: "copies RobotAccess_type RobotAccess_DeepCopyInto"
  unfolding RobotAccess_type_def RobotAccess_DeepCopyInto_def
  by (rule copies_copyStruct) (simp add: structCopied_def flat_types copy_intros)

lemma RobotPermission_copies [copy_intros]: "copies RobotPermission_type RobotPermission_DeepCopyInto"
  unfolding RobotPermission_type_def RobotPermission_DeepCopyInto_def
  by (rule copies_copyStruct) (simp add: structCopied_def flat_types copy_intros)

lemma RobotSpec_copies [copy_intros]: "copies (RobotSpec_type X) RobotSpec_DeepCopyInto"
  unfolding RobotSpec_type_def RobotSpec_DeepCopyInto_def
  by (rule copies_copyStruct) (simp add: structCopied_def flat_types copy_intros)

lemma RobotStatus_copies [copy_intros]: "copies (RobotStatus_type X) (RobotStatus_DeepCopyInto X)"
  unfolding RobotStatus_type_def RobotStatus_DeepCopyInto_def
  by (rule copies_copyStruct) (simp add: structCopied_def flat_types copy_intros)

lemma Robot_copies [copy_intros]: "copies (Robot_type X) (Robot_DeepCopyInto X)"
  unfolding Robot_type_def Robot_DeepCopyInto_def
  by (rule copies_copyStruct) (simp add: structCopied_def flat_types copy_intros)

lemma RobotList_copies [copy_intros]: "copies (RobotList_type X) (RobotList_DeepCopyInto X)"
  unfolding RobotList_type_def RobotList_DeepCopyInto_def
  by (rule copies_copyStruct) (simp add: structCopied_def flat_types copy_intros)

lemma ScanAllScheduleSpec_copies [copy_intros]: "copies (ScanAllScheduleSpec_type X) (ScanAllScheduleSpec_DeepCopyInto X)"
  unfolding ScanAllScheduleSpec_type_def ScanAllScheduleSpec_DeepCopyInto_def
  by (rule copies_copyStruct) (simp add: structCopied_def flat_types copy_intros)

lemma ScanAllScheduleStatus_copies [copy_intros]: "copies (ScanAllScheduleStatus_type X) (ScanAllScheduleStatus_DeepCopyInto X)"
  unfolding ScanAllScheduleStatus_type_def ScanAllScheduleStatus_DeepCopyInto_def
  by (rule copies_copyStruct) (simp add: structCopied_def flat_types copy_intros)

lemma ScanAllSchedule_copies [copy_intros]: "copies (ScanAllSchedule_type X) (ScanAllSchedule_DeepCopyInto X)"
  unfolding ScanAllSchedule_type_def ScanAllSchedule_DeepCopyInto_def
  by (rule copies_copyStruct) (simp add: structCopied_def flat_types copy_intros)

lemma ScanAllScheduleList_copies [copy_intros]: "copies (ScanAllScheduleList_type X) (ScanAllScheduleList_DeepCopyInto X)"
  unfolding ScanAllScheduleList_type_def ScanAllScheduleList_DeepCopyInto_def
  by (rule copies_copyStruct) (simp add: structCopied_def flat_types copy_intros)

lemma ScannerRegistrationSpec_copies [copy_intros]: "copies (ScannerRegistrationSpec_type X) ScannerRegistrationSpec_DeepCopyInto"
  unfolding ScannerRegistrationSpec_type_def ScannerRegistrationSpec_DeepCopyInto_def
  by (rule copies_copyStruct) (simp add: structCopied_def flat_types copy_intros)

lemma ScannerRegistrationStatus_copies [copy_intros]: "copies (ScannerRegistrationStatus_type X) (ScannerRegistrationStatus_DeepCopyInto X)"
  unfolding ScannerRegistrationStatus_type_def ScannerRegistrationStatus_DeepCopyInto_def
  by (rule copies_copyStruct) (simp add: structCopied_def flat_types copy_intros)

lemma ScannerRegistration_copies [copy_intros]: "copies (ScannerRegistration_type X) (ScannerRegistration_DeepCopyInto X)"
  unfolding ScannerRegistration_type_def ScannerRegistration_DeepCopyInto_def
  by (rule copies_copyStruct) (simp add: structCopied_def flat_types copy_intros)

lemma ScannerRegistrationList_copies [copy_intros]: "copies (ScannerRegistrationList_type X) (ScannerRegistrationList_DeepCopyInto X)"
  unfolding ScannerRegistrationList_type_def ScannerRegistrationList_DeepCopyInto_def
  by (rule copies_copyStruct) (simp add: structCopied_def flat_types copy_intros)

lemma UserSpec_copies [copy_intros]: "copies (UserSpec_type X) (UserSpec_DeepCopyInto X)"
  unfolding UserSpec_type_def UserSpec_DeepCopyInto_def
  by (rule copies_copyStruct) (simp add: structCopied_def flat_types copy_intros)

lemma UserStatus_copies [copy_intros]: "copies (UserStatus_type X) (UserStatus_DeepCopyInto X)"
  unfolding UserStatus_type_def UserStatus_DeepCopyInto_def
  by (rule copies_copyStruct) (simp add: structCopied_def flat_types copy_intros)

lemma User_copies [copy_intros]: "copies (User_type X) (User_DeepCopyInto X)"
  unfolding User_type_def User_DeepCopyInto_def
  by (rule copies_copyStruct) (simp add: structCopied_def flat_types copy_intros)

lemma UserList_copies [copy_intros]: "copies (UserList_type X) (UserList_DeepCopyInto X)"
  unfolding UserList_type_def UserList_DeepCopyInto_def
  by (rule copies_copyStruct) (simp add: structCopied_def flat_types copy_intros)

lemma UserGroupClaimSpec_copies [copy_intros]: "copies (UserGroupClaimSpec_type X) UserGroupClaimSpec_DeepCopyInto"
  unfolding UserGroupClaimSpec_type_def UserGroupClaimSpec_DeepCopyInto_def
  by (rule copies_copyStruct) (simp add: structCopied_def flat_types copy_intros)

lemma UserGroupClaimStatus_copies [copy_intros]: "copies (UserGroupClaimStatus_type X) (UserGroupClaimStatus_DeepCopyInto X)"
  unfolding UserGroupClaimStatus_type_def UserGroupClaimStatus_DeepCopyInto_def
  by (rule copies_copyStruct) (simp add: structCopied_def flat_types copy_intros)

lemma UserGroupClaim_copies [copy_intros]: "copies (UserGroupClaim_type X) (UserGroupClaim_DeepCopyInto X)"
  unfolding UserGroupClaim_type_def UserGroupClaim_DeepCopyInto_def
  by (rule copies_copyStruct) (simp add: structCopied_def flat_types copy_intros)

lemma UserGroupClaimList_copies [copy_intros]: "copies (UserGroupClaimList_type X) (UserGroupClaimList_DeepCopyInto X)"
  unfolding UserGroupClaimList_type_def UserGroupClaimList_DeepCopyInto_def
  by (rule copies_copyStruct) (simp add: structCopied_def flat_types copy_intros)

lemma WebhookTargetSpec_copies [copy_intros]: "copies WebhookTargetSpec_type WebhookTargetSpec_DeepCopyInto"
  unfolding WebhookTargetSpec_type_def WebhookTargetSpec_DeepCopyInto_def
  by (rule copies_copyStruct) (simp add: structCopied_def flat_types copy_intros)

lemma WebhookPolicySpec_copies [copy_intros]: "copies (WebhookPolicySpec_type X) WebhookPolicySpec_DeepCopyInto"
  unfolding WebhookPolicySpec_type_def WebhookPolicySpec_DeepCopyInto_def
  by (rule copies_copyStruct) (simp add: structCopied_def flat_types copy_intros)

lemma WebhookPolicyStatus_copies [copy_intros]: "copies (WebhookPolicyStatus_type X) (WebhookPolicyStatus_DeepCopyInto X)"
  unfolding WebhookPolicyStatus_type_def WebhookPolicyStatus_DeepCopyInto_def
  by (rule copies_copyStruct) (simp add: structCopied_def flat_types copy_intros)

lemma WebhookPolicy_copies [copy_intros]: "copies (WebhookPolicy_type X) (WebhookPolicy_DeepCopyInto X)"
  unfolding WebhookPolicy_type_def WebhookPolicy_DeepCopyInto_def
  by (rule copies_copyStruct) (simp add: structCopied_def flat_types copy_intros)

lemma WebhookPolicyList_copies [copy_intros]: "copies (WebhookPolicyList_type X) (WebhookPolicyList_DeepCopyInto X)"
  unfolding WebhookPolicyList_type_def WebhookPolicyList_DeepCopyInto_def
  by (rule copies_copyStruct) (simp add: structCopied_def flat_types copy_intros)

text \<open>The list has them all, with the functions on pointers.\<close>

lemma apiCopies_copy: "(n, T, copy) \<in> set (apiCopies X) \<Longrightarrow> copies (TPtr T) copy"
  unfolding apiCopies_def
  by (elim list_memberE) (simp_all add: copy_intros
      HarborConnectionBinding_DeepCopy_def HarborConnectionReference_DeepCopy_def HarborSpecBase_DeepCopy_def
      HarborClaimSpecBase_DeepCopy_def SecretReference_DeepCopy_def ProjectReference_DeepCopy_def
      RegistryReference_DeepCopy_def UserReference_DeepCopy_def UserGroupClaimReference_DeepCopy_def
      HarborStatusBase_DeepCopy_def ConfigurationValueSource_DeepCopy_def ConfigurationValue_DeepCopy_def
      ConfigurationSpec_DeepCopy_def ConfigurationStatus_DeepCopy_def Configuration_DeepCopy_def
      ConfigurationList_DeepCopy_def ScheduleSpec_DeepCopy_def GCScheduleSpec_DeepCopy_def
      GCScheduleStatus_DeepCopy_def GCSchedule_DeepCopy_def GCScheduleList_DeepCopy_def
      Credentials_DeepCopy_def HarborConnectionSpec_DeepCopy_def HarborConnectionStatus_DeepCopy_def
      HarborConnection_DeepCopy_def HarborConnectionList_DeepCopy_def ClusterHarborConnection_DeepCopy_def
      ClusterHarborConnectionList_DeepCopy_def ImmutableSelector_DeepCopy_def
      ImmutableTagRuleSpec_DeepCopy_def ImmutableTagRuleStatus_DeepCopy_def ImmutableTagRule_DeepCopy_def
      ImmutableTagRuleList_DeepCopy_def LabelSpec_DeepCopy_def LabelStatus_DeepCopy_def Label_DeepCopy_def
      LabelList_DeepCopy_def MemberUser_DeepCopy_def MemberGroup_DeepCopy_def MemberSpec_DeepCopy_def
      MemberStatus_DeepCopy_def Member_DeepCopy_def MemberList_DeepCopy_def ProjectMetadata_DeepCopy_def
      CVEAllowlistItem_DeepCopy_def CVEAllowlist_DeepCopy_def ProjectSpec_DeepCopy_def
      ProjectStatus_DeepCopy_def Project_DeepCopy_def ProjectList_DeepCopy_def
      PurgeAuditParameters_DeepCopy_def PurgeAuditScheduleSpec_DeepCopy_def
      PurgeAuditScheduleStatus_DeepCopy_def PurgeAuditSchedule_DeepCopy_def
      PurgeAuditScheduleList_DeepCopy_def QuotaSpec_DeepCopy_def QuotaStatus_DeepCopy_def Quota_DeepCopy_def
      QuotaList_DeepCopy_def RegistryCredentialSpec_DeepCopy_def RegistrySpec_DeepCopy_def
      RegistryStatus_DeepCopy_def Registry_DeepCopy_def RegistryList_DeepCopy_def
      ReplicationTriggerSettings_DeepCopy_def ReplicationTriggerSpec_DeepCopy_def
      ReplicationFilterSpec_DeepCopy_def ReplicationPolicySpec_DeepCopy_def
      ReplicationPolicyStatus_DeepCopy_def ReplicationPolicy_DeepCopy_def ReplicationPolicyList_DeepCopy_def
      RetentionSelector_DeepCopy_def RetentionRule_DeepCopy_def RetentionTrigger_DeepCopy_def
      RetentionScope_DeepCopy_def RetentionPolicySpec_DeepCopy_def RetentionPolicyStatus_DeepCopy_def
      RetentionPolicy_DeepCopy_def RetentionPolicyList_DeepCopy_def RobotAccess_DeepCopy_def
      RobotPermission_DeepCopy_def RobotSpec_DeepCopy_def RobotStatus_DeepCopy_def Robot_DeepCopy_def
      RobotList_DeepCopy_def ScanAllScheduleSpec_DeepCopy_def ScanAllScheduleStatus_DeepCopy_def
      ScanAllSchedule_DeepCopy_def ScanAllScheduleList_DeepCopy_def ScannerRegistrationSpec_DeepCopy_def
      ScannerRegistrationStatus_DeepCopy_def ScannerRegistration_DeepCopy_def
      ScannerRegistrationList_DeepCopy_def UserSpec_DeepCopy_def UserStatus_DeepCopy_def User_DeepCopy_def
      UserList_DeepCopy_def UserGroupClaimSpec_DeepCopy_def UserGroupClaimStatus_DeepCopy_def
      UserGroupClaim_DeepCopy_def UserGroupClaimList_DeepCopy_def WebhookTargetSpec_DeepCopy_def
      WebhookPolicySpec_DeepCopy_def WebhookPolicyStatus_DeepCopy_def WebhookPolicy_DeepCopy_def
      WebhookPolicyList_DeepCopy_def)

end

section \<open>Isolation\<close>

lemma cellAt_update: "a \<noteq> b \<Longrightarrow> cellAt (h[a := c]) b = cellAt h b"
  by (simp add: cellAt_def)

text \<open>Writing where the one value does not lead leaves it alone.\<close>

lemma isolated:
  assumes "copied T h v v' h'" and "wellTyped h T v"
  shows "a < length h \<Longrightarrow> view (h'[a := c]) T v' = view h T v"
    and "length h \<le> a \<Longrightarrow> view (h'[a := c]) T v = view h T v"
proof -
  obtain e where e: "h' = h @ e" using assms(1) by (auto simp: copied_def)
  have new: "wellTyped h' T v'" "view h' T v' = view h T v" "b \<in> set (reach h' T v') \<Longrightarrow> length h \<le> b" for b
    using assms(1) by (auto simp: copied_def)
  have "b \<in> set (reach h' T v') \<Longrightarrow> a < length h \<Longrightarrow> cellAt (h'[a := c]) b = cellAt h' b" for b
    using new(3) [of b] by (intro cellAt_update) auto
  with frame [OF new(1), of "h'[a := c]"] new(2)
  show "a < length h \<Longrightarrow> view (h'[a := c]) T v' = view h T v" by simp
  note old = extended [OF assms(2), of e, folded e]
  have "b \<in> set (reach h' T v) \<Longrightarrow> length h \<le> a \<Longrightarrow> cellAt (h'[a := c]) b = cellAt h' b" for b
    using reach_bound [OF assms(2), of b] old(3) by (intro cellAt_update) auto
  with frame [OF old(1), of "h'[a := c]"] old(2)
  show "length h \<le> a \<Longrightarrow> view (h'[a := c]) T v = view h T v" by simp
qed

text \<open>
  C9. A copy is a copy. For every struct of the API, \<^verbatim>\<open>DeepCopy\<close> of a well-typed
  value returns one with the same contents, nil and empty slices and maps told apart, and leaves every
  cell of the old memory as it was. Afterwards no write to a cell that existed before shows in the copy,
  and no write to a cell allocated since shows in the original: an object of the cache and a
  reconciler's copy of it share no memory.
\<close>

theorem deep_copies_isolated:
  assumes "lawfulExternals X" and "(n, T, copy) \<in> set (apiCopies X)"
    and "wellTyped h (TPtr T) p" and "run_state (copy p) h = (q, h')"
  shows "view h' (TPtr T) q = view h (TPtr T) p \<and> take (length h) h' = h \<and>
     (\<forall>a c. a < length h \<longrightarrow> view (h'[a := c]) (TPtr T) q = view h (TPtr T) p) \<and>
     (\<forall>a c. length h \<le> a \<longrightarrow> view (h'[a := c]) (TPtr T) p = view h (TPtr T) p)"
proof -
  have "copies (TPtr T) copy"
    by (rule external_types.apiCopies_copy [OF external_types.intro [OF assms(1)] assms(2)])
  from copiesD [OF this assms(3,4)] have cp: "copied (TPtr T) h p q h'" .
  then show ?thesis
    using isolated [OF cp assms(3)] by (auto simp: copied_def)
qed

text \<open>\<^verbatim>\<open>DeepCopyObject\<close> hands out that copy, and nil for nil.\<close>

lemma asObject_newPtr:
  assumes "wellTyped h (TPtr T) p" and "run_state (asObject (newPtr f) p) h = (r, h')"
  obtains q where "run_state (newPtr f p) h = (q, h')" "r = (if p = PtrV None then None else Some q)"
proof -
  obtain q h1 where q: "run_state (newPtr f p) h = (q, h1)" by (cases "run_state (newPtr f p) h")
  have "q = PtrV None \<longleftrightarrow> p = PtrV None"
    using assms(1) q
    by (cases rule: typed_ptr) (auto simp: newPtr_def copy_simps split: prod.splits)
  then show ?thesis
    using assms(2) q that by (auto simp: asObject_def State_Monad.bind_def State_Monad.return_def)
qed

section \<open>Concrete inputs\<close>

text \<open>
  The types of the libraries with the fields that matter here, copied as their own generated functions
  do it.
\<close>

definition exExternals :: externals where
  "exExternals =
     \<lparr>xTypeMeta = TStruct [(''Kind'', TString), (''APIVersion'', TString)],
      xObjectMeta = TStruct [(''Name'', TString), (''Finalizers'', TSlice TString), (''Labels'', TMap TString)],
      xListMeta = TStruct [(''ResourceVersion'', TString), (''RemainingItemCount'', TPtr TInt)],
      xCondition = TStruct [(''Type'', TString), (''Status'', TString)],
      xTime = TInt, xDuration = TInt, xJSON = TStruct [(''Raw'', TSlice TInt)],
      xSecretKeySelector = TStruct [(''Key'', TString), (''Optional'', TPtr TBool)],
      copyObjectMeta = copyStruct [(''Finalizers'', newSlice assign), (''Labels'', newMap assign)],
      copyListMeta = copyStruct [(''RemainingItemCount'', newPtr assign)],
      copyCondition = copyStruct [], copyTime = assign,
      copyJSON = copyStruct [(''Raw'', newSlice assign)],
      copySecretKeySelector = copyStruct [(''Optional'', newPtr assign)]\<rparr>"

lemma lawful_exExternals: "lawfulExternals exExternals"
  by (simp add: lawfulExternals_def exExternals_def copies_copyStruct structCopied_def copy_intros)

interpretation ex: external_types exExternals
  by unfold_locales (rule lawful_exExternals)

text \<open>
  A member of a group at address 2, the group's reference at 0, the array of its finalizers at 1: the
  object has the first of the two elements.
\<close>

definition exText :: "string \<Rightarrow> goValue" where
  "exText s = Plain (GoString s)"

definition exRefTo :: "string \<Rightarrow> goValue" where
  "exRefTo name = StructV [(''Name'', exText name), (''Namespace'', exText [])]"

definition exGroupCell :: "string \<Rightarrow> goCell" where
  "exGroupCell name = Variable (StructV [(''GroupClaimRef'', exRefTo name)])"

definition exMemberValue :: goValue where
  "exMemberValue = StructV
     [(''TypeMeta'', StructV [(''Kind'', exText ''Member''), (''APIVersion'', exText [])]),
      (''ObjectMeta'', StructV
         [(''Name'', exText ''devs-in-web''), (''Finalizers'', SliceV (Some (1, 0, 1))), (''Labels'', MapV None)]),
      (''Spec'', StructV
         [(''HarborSpecBase'', StructV [(''HarborConnectionRef'', PtrV None), (''DeletionPolicy'', exText ''Delete''),
             (''DriftDetectionInterval'', PtrV None), (''ReconcileNonce'', exText [])]),
          (''CreationPolicy'', exText []), (''ProjectRef'', exRefTo ''web''), (''Role'', exText ''developer''),
          (''MemberUser'', PtrV None), (''MemberGroup'', PtrV (Some 0))]),
      (''Status'', StructV
         [(''HarborStatusBase'', StructV [(''ObservedGeneration'', Plain (GoInt 1)), (''Conditions'', SliceV None),
             (''ResolvedHarborConnection'', PtrV None)]),
          (''HarborProjectID'', Plain (GoInt 0)), (''HarborMemberID'', Plain (GoInt 0))])]"

definition exMemory :: goHeap where
  "exMemory = [exGroupCell ''devs'', Backing [exText ''finalizer'', exText ''spare''], Variable exMemberValue]"

definition exMemberRun :: "goValue \<times> goHeap" where
  "exMemberRun = run_state (Member_DeepCopy exExternals (PtrV (Some 2))) exMemory"

lemma exMember_typed: "wellTyped exMemory (TPtr (Member_type exExternals)) (PtrV (Some 2))"
  by code_simp

lemma exMember_object:
  "\<exists>q. fst (run_state (Member_DeepCopyObject exExternals (PtrV (Some 2))) exMemory) = Some q \<and> q = fst exMemberRun"
proof -
  obtain r h' where r: "run_state (Member_DeepCopyObject exExternals (PtrV (Some 2))) exMemory = (r, h')"
    by (cases "run_state (Member_DeepCopyObject exExternals (PtrV (Some 2))) exMemory")
  show ?thesis
    by (rule asObject_newPtr [OF exMember_typed r [unfolded Member_DeepCopyObject_def Member_DeepCopy_def]])
      (simp add: r exMemberRun_def Member_DeepCopy_def)
qed

text \<open>
  Naming another group in the original's memory changes the original and not the copy, and cutting the
  copy's cells changes the copy alone.
\<close>

theorem deep_copies_isolated_witness:
  "(let T = TPtr (Member_type exExternals); p = PtrV (Some 2); q = fst exMemberRun; h' = snd exMemberRun;
        orig = view exMemory T p
    in view h' T q = orig \<and>
       view (h'[0 := exGroupCell ''ops'']) T q = orig \<and> view (h'[0 := exGroupCell ''ops'']) T p \<noteq> orig \<and>
       view (h'[3 := Backing []]) T p = orig \<and> view (h'[3 := Backing []]) T q \<noteq> orig)"
proof -
  let ?T = "TPtr (Member_type exExternals)" and ?p = "PtrV (Some 2)"
  have "(''Member'', Member_type exExternals, Member_DeepCopy exExternals) \<in> set (apiCopies exExternals)"
    by (simp add: apiCopies_def)
  moreover have "run_state (Member_DeepCopy exExternals ?p) exMemory = (fst exMemberRun, snd exMemberRun)"
    by (simp add: exMemberRun_def)
  ultimately have isolated: "view (snd exMemberRun) ?T (fst exMemberRun) = view exMemory ?T ?p"
      "\<And>a c. a < length exMemory \<Longrightarrow>
         view ((snd exMemberRun)[a := c]) ?T (fst exMemberRun) = view exMemory ?T ?p"
      "\<And>a c. length exMemory \<le> a \<Longrightarrow> view ((snd exMemberRun)[a := c]) ?T ?p = view exMemory ?T ?p"
    using deep_copies_isolated [OF lawful_exExternals _ exMember_typed] by blast+
  moreover have "length exMemory = 3" by (simp add: exMemory_def)
  moreover have "view ((snd exMemberRun)[0 := exGroupCell ''ops'']) ?T ?p \<noteq> view exMemory ?T ?p"
      "view ((snd exMemberRun)[3 := Backing []]) ?T (fst exMemberRun) \<noteq> view exMemory ?T ?p"
    by code_simp+
  ultimately show ?thesis by (simp add: Let_def)
qed

end
