(* ===== verification/Spec2Isabelle.thy ===== *)
theory Spec2Isabelle
  imports ClientProperties Examples Singletons Watches ConnectionControllers ProjectFacts RegistryFacts
    Users Labels Scanners Quotas Configurations UserGroupFacts MemberFacts ImmutableTagRules WebhookPolicies
    RetentionFacts ReplicationPolicies RobotFacts OperatorExamples Controllers ScheduleFacts
    LabelFacts ProcessFacts DeepCopyFacts
begin

text \<open>
  The Harbor operator is a Kubernetes operator: for every kind of custom resource (project,
  registry, user, robot and so on) it has a reconciler that is called with the name of an object and
  brings a Harbor registry, which it reaches over HTTP, to the state the object asks for. This is a
  model of its code, from the Go source under \<^verbatim>\<open>src/\<close>, with the properties
  that make it correct.

  \<^bold>\<open>The parts and how they interact.\<close> The manager of controller-runtime calls a
  reconciler (\<^verbatim>\<open>internal/controller/*_controller.go\<close>). Sixteen of the nineteen
  share one frame, in \<^verbatim>\<open>internal/controller/common.go\<close>: load the object, mark a
  new generation in its conditions (\<^verbatim>\<open>conditions.go\<close>), resolve the reference to
  a connection object and bind the object to it, read the credentials from a Secret
  (\<^verbatim>\<open>secrets.go\<close>), build a Harbor client
  (\<^verbatim>\<open>internal/harborclient/client.go\<close>), finish a deletion, ensure the
  finalizer, and do the kind's own work: adopt, create, compare and update, with the requests of
  \<^verbatim>\<open>internal/harborclient/*.go\<close>. The operator's options
  (\<^verbatim>\<open>options.go\<close>) come from the flags of \<^verbatim>\<open>cmd/main.go\<close>.

  \<^bold>\<open>State and effects.\<close> A reconcile is a program of the state monad
  (\<open>('o, 'e, 'a) go\<close>, theory \<open>World\<close>) over the object in memory (Go's
  variable \<^verbatim>\<open>cr\<close>), an outside world \<open>'e\<close> and a trace of events. The
  outside world is arbitrary: the API server, Harbor's HTTP server and the clock are functions on it
  (the record \<open>services\<close>, and \<open>kclient\<close> for the reconciled kind), so that
  each of their answers may differ from the last. Every call leaves an event, with what was sent and
  what was seen. Errors are values of \<open>gerror\<close>; a function that returns a value and an
  error returns a sum, and every early return of the source is a branch. Pointers to scalars and nil
  slices are options where the difference matters. Where the source changes a slice that a caller
  shares, the definition says what the caller's value has become (\<open>clearWebhookPolicy\<close>,
  \<open>sortImmutableRule\<close>, \<open>touchRetentionPolicy\<close>).

  \<^bold>\<open>Theories.\<close>
  \<^item> Go and its library: \<open>Prelude\<close> (strings, numbers, sorting), \<open>Json\<close>
    (\<^verbatim>\<open>encoding/json\<close> both ways, with the round trip), \<open>GoFloat\<close>
    (numbers that go through \<^verbatim>\<open>any\<close>), \<open>GoTime\<close>,
    \<open>Sha256\<close>, \<open>AnyValues\<close>.
  \<^item> The public API, \<^verbatim>\<open>api/v1alpha1\<close>: \<open>ApiTypes\<close>,
    \<open>ApiPolicyTypes\<close>, and \<open>Scheme\<close>, what the files register.
  \<^item> The generated deep copies, \<^verbatim>\<open>zz_generated.deepcopy.go\<close>:
    \<open>GoHeap\<close> has values with pointers, slices and maps on an explicit heap,
    \<open>DeepCopySteps\<close> the steps of such functions with a rule for each,
    \<open>DeepCopyTypes\<close> the memory layout of the structs, \<open>DeepCopies\<close> the
    functions, \<open>DeepCopyFacts\<close> their correctness. Everywhere else a value is a HOL value:
    that an object of the cache and a reconciler's variable share nothing is what these functions
    are for.
  \<^item> The shared steps: \<open>Options\<close>, \<open>Conditions\<close>, \<open>Secrets\<close>,
    \<open>Lifecycle\<close> (loading, finalizers, requeueing), \<open>Connection\<close>,
    \<open>References\<close>, \<open>Singletons\<close>, \<open>Watches\<close>, and the frame in
    \<open>Reconciler\<close>.
  \<^item> The Harbor client: \<open>HarborClient\<close>, \<open>HarborProjects\<close>,
    \<open>HarborRegistries\<close>; the requests of the other kinds are with their reconcilers.
  \<^item> The reconcilers: \<open>ConnectionControllers\<close>, \<open>ProjectController\<close>,
    \<open>RegistryController\<close>, \<open>Users\<close>, \<open>UserGroups\<close>,
    \<open>Members\<close>, \<open>Labels\<close>, \<open>Quotas\<close>, \<open>Scanners\<close>,
    \<open>Configurations\<close>, \<open>Schedules\<close> (three kinds), \<open>Robots\<close>,
    \<open>ImmutableTagRules\<close>, \<open>WebhookPolicies\<close>,
    \<open>RetentionPolicies\<close>, \<open>ReplicationPolicies\<close>, with \<open>Selectors\<close>
    and \<open>ProjectOwned\<close> for what some of them share.
  \<^item> The process: \<open>Operator\<close>, the flags of the reconcilers, the registered
    controllers and the runs of the manager, a step relation whose steps are reconciles and changes of
    the world; \<open>Controllers\<close>, \<^verbatim>\<open>SetupWithManager\<close> of every reconciler
    and which objects a change wakes up; \<open>Process\<close>, \<^verbatim>\<open>main\<close> from the
    flags to the exit code, with the settings of the webhook and the metrics server
    (\<open>ProcessFacts\<close>).

  \<^bold>\<open>How the proofs are built.\<close> \<open>Effects\<close> has two judgements on
  programs with a rule per construct: \<open>emits C m\<close>, \<open>m\<close> only adds events of
  the class \<open>C\<close>, and \<open>triple P m Q\<close>. \<open>ObjectInvariant\<close> adds
  invariants of the object (locales \<open>object_invariant\<close>,
  \<open>rebinding_invariant\<close>), \<open>Guards\<close> programs that run under a property of the
  object. The contract between the frame and a kind are three locales: \<open>harbor_backed\<close>
  (the kind's own work sends no deletion and leaves the finalizer alone), \<open>owned_remote\<close>
  (its delete function reports success only after Harbor has confirmed) and
  \<open>guarded_body\<close> (a class of events its functions stay in while the object has a
  property). What a reconcile then guarantees is proved once inside them, and every kind interprets
  them on its own definitions. The guarantees speak of the object as the API server shows it when the
  reconcile starts (\<open>shown\<close>), and of an API server that stores what it is sent
  (\<open>faithful\<close>); each object has its own policies and ids. Retention policies have a frame of their own that differs in one
  place, and \<open>RetentionFacts\<close> carries the guarantees over; user group claims put the
  finalizer before the connection (\<open>UserGroupFacts\<close>). \<open>OperatorFacts\<close>
  lifts all of it to every reconcile of every run of the operator. \<open>RemoteStates\<close> follows Harbor's own
  state through the frame: \<open>steady\<close> programs leave it alone, and
  \<open>frame_serves\<close> reduces what a reconcile does to it to the kind's own work, with
  \<open>frame_settles\<close> for those that succeed; \<open>LabelFacts\<close> does this for labels against what Harbor's documentation promises of
  the three requests (\<open>harborLabels\<close>) and an API server that answers a write with what
  it was sent (\<open>serves\<close>), which a concrete server and a concrete client satisfy.

  \<^bold>\<open>What the lemmas show.\<close> Ordering and safety: binding before any request,
  deletion confirmed before the finalizer goes, no deletion of orphans or of resources not recorded,
  no creation without leave, no reads across namespaces when they are forbidden, one owner for an
  instance-wide resource, Secrets of others left alone. Refinement: a successful reconcile of a label is
  one abstract step on Harbor's labels, and one of a label that is in order is none. The process runs only
  if everything it needs is there, and its servers are set up as the flags say. Deep copies share no
  memory with what they copy. Function: which comparisons of desired and
  actual state settle and which ask for the same update for ever (projects, registries, retention,
  replication), what conditions and requeue intervals are, what the endpoint labels of the metrics
  are. Round trips: JSON. Termination: paging against servers that serve what
  they count, and the loop that does not end against those that do not. The theorems that name a
  flaw are listed with the findings of the development.

  \<^bold>\<open>Bounds and fuel.\<close> The paging loop of the client is a recursion on the number of
  pages \<open>svcPageFuel\<close>; \<open>getPaged_complete\<close> gives the fuel that suffices and
  \<open>getPaged_overcount_diverges\<close> the servers for which none does. The JSON parser recurses
  on the length of its text, which \<open>jsonUnmarshal_print\<close> shows to be enough. Integers are
  Go's 64-bit \<^verbatim>\<open>int\<close> read and written as decimal text: decoding refuses what
  does not fit, and the code does no arithmetic on them that could wrap except the page number and
  the conversion of seconds, which stay far inside. Times and durations are nanoseconds.

  \<^bold>\<open>Choices.\<close> A Go map is a list of entries: sorted by key where the code prints or
  compares it, in the order of the visit where the code iterates, and a definition over the list
  holds for every order. \<^verbatim>\<open>sort.Slice\<close> is insertion sort, which is what Go uses
  up to twelve elements. Strings are byte strings. Functions of apimachinery on conditions and
  finalizers, the API server's promise to store what it is sent or to refuse (\<open>faithful\<close>),
  the PEM check and \<^verbatim>\<open>url.Parse\<close> are parameters with their
  documented behaviour as named hypotheses (\<open>lawfulConditions\<close>,
  \<open>lawfulFinalizers\<close>), which \<open>ExampleWorld\<close> satisfies; so are its scheme
  (\<open>lawfulScheme\<close>) and the deep copies of its types (\<open>lawfulExternals\<close>). Logging
  is left out.

  \<^bold>\<open>Not modelled.\<close> The validation rules in the comments of the API types, which the
  API server enforces; what controller-runtime does with the settings it is given (TLS, certificate
  watching, leader election, probes, the metrics server), and the parsing of the command line; the
  duration metric, whose value is not observable by the
  program; the work queue with its retries and back-off, which is controller-runtime's: a run of the
  operator is any sequence of reconciles instead. Reconciles of different kinds may overlap in time:
  the other's actions are changes of the arbitrary outside world between two calls.
\<close>

end
